(* ===== verification/Prelude.thy ===== *)
theory Prelude
  imports Complex_Main "HOL-Library.Char_ord" "HOL-Library.List_Lexorder"
begin

text \<open>
  Shared vocabulary of the development: rows of a table as lists, the operations a SQL statement
  needs on them, and the theorem collections the component theories fill.
  A table is a list of rows (SQL leaves the order open; no statement of the program depends on the
  order of a list unless its ORDER BY fixes one). \<open>update_where\<close> is \<open>UPDATE ... SET ... WHERE\<close>,
  \<open>lookup_row\<close> is a SELECT that reads at most one row, \<open>unique_by\<close> is a PRIMARY KEY or UNIQUE
  constraint.
\<close>

named_theorems tx_local_intros
named_theorems row_simps

definition update_where :: "('a \<Rightarrow> bool) \<Rightarrow> ('a \<Rightarrow> 'a) \<Rightarrow> 'a list \<Rightarrow> 'a list" where
  "update_where P f rows = map (\<lambda>r. if P r then f r else r) rows"

definition lookup_row :: "('a \<Rightarrow> bool) \<Rightarrow> 'a list \<Rightarrow> 'a option" where
  "lookup_row P rows = find P rows"

definition exists_row :: "('a \<Rightarrow> bool) \<Rightarrow> 'a list \<Rightarrow> bool" where
  "exists_row P rows = list_ex P rows"

definition unique_by :: "('a \<Rightarrow> 'k) \<Rightarrow> 'a list \<Rightarrow> bool" where
  "unique_by k rows = distinct (map k rows)"

lemma exists_row_iff [simp]: "exists_row P rows \<longleftrightarrow> (\<exists>r\<in>set rows. P r)"
  by (simp add: exists_row_def list_ex_iff)

lemma lookup_row_SomeD: "lookup_row P rows = Some r \<Longrightarrow> r \<in> set rows \<and> P r"
  by (auto simp: lookup_row_def find_Some_iff)

lemma lookup_row_None_iff: "lookup_row P rows = None \<longleftrightarrow> (\<forall>r\<in>set rows. \<not> P r)"
  by (auto simp: lookup_row_def find_None_iff)

lemma lookup_row_append:
  "lookup_row P (xs @ ys) = (case lookup_row P xs of Some r \<Rightarrow> Some r | None \<Rightarrow> lookup_row P ys)"
  by (induction xs) (auto simp: lookup_row_def)

lemma lookup_row_Nil [simp]: "lookup_row P [] = None"
  by (simp add: lookup_row_def)

lemma lookup_row_Cons:
  "lookup_row P (x # xs) = (if P x then Some x else lookup_row P xs)"
  by (simp add: lookup_row_def)

lemma unique_by_Nil [simp]: "unique_by k []"
  by (simp add: unique_by_def)

lemma unique_by_Cons [simp]:
  "unique_by k (x # xs) \<longleftrightarrow> (\<forall>y\<in>set xs. k y \<noteq> k x) \<and> unique_by k xs"
  by (auto simp: unique_by_def image_iff)

lemma unique_by_snoc [simp]:
  "unique_by k (xs @ [x]) \<longleftrightarrow> (\<forall>y\<in>set xs. k y \<noteq> k x) \<and> unique_by k xs"
  by (auto simp: unique_by_def image_iff)

lemma unique_byD: "unique_by k xs \<Longrightarrow> x \<in> set xs \<Longrightarrow> y \<in> set xs \<Longrightarrow> k x = k y \<Longrightarrow> x = y"
  by (auto simp: unique_by_def distinct_map inj_on_def)

lemma lookup_row_unique:
  assumes "unique_by k rows" and "r \<in> set rows" and "P r"
    and "\<And>x. x \<in> set rows \<Longrightarrow> P x \<Longrightarrow> k x = k r"
  shows "lookup_row P rows = Some r"
proof (cases "lookup_row P rows")
  case None
  with assms(2,3) show ?thesis by (auto simp: lookup_row_None_iff)
next
  case (Some s)
  then have "s \<in> set rows" and "P s" by (auto dest: lookup_row_SomeD)
  with assms have "s = r" by (metis unique_byD)
  with Some show ?thesis by simp
qed

subsection \<open>UPDATE\<close>

lemma set_update_where: "set (update_where P f rows) = (\<lambda>r. if P r then f r else r) ` set rows"
  by (simp add: update_where_def)

lemma in_update_where:
  "x \<in> set (update_where P f rows) \<longleftrightarrow>
     (\<exists>r\<in>set rows. P r \<and> x = f r) \<or> (x \<in> set rows \<and> \<not> P x)"
  by (auto simp: update_where_def)

lemma length_update_where [simp]: "length (update_where P f rows) = length rows"
  by (simp add: update_where_def)

lemma map_update_where:
  assumes "\<And>r. P r \<Longrightarrow> k (f r) = k r"
  shows "map k (update_where P f rows) = map k rows"
  using assms by (auto simp: update_where_def)

lemma unique_by_update_where:
  assumes "\<And>r. P r \<Longrightarrow> k (f r) = k r"
  shows "unique_by k (update_where P f rows) = unique_by k rows"
  using assms by (simp add: unique_by_def map_update_where)

lemma update_where_none: "(\<And>r. r \<in> set rows \<Longrightarrow> \<not> P r) \<Longrightarrow> update_where P f rows = rows"
  by (simp add: update_where_def map_idI)

lemma update_where_append [simp]:
  "update_where P f (xs @ ys) = update_where P f xs @ update_where P f ys"
  by (simp add: update_where_def)

lemma lookup_update_where:
  assumes "\<And>r. P r \<Longrightarrow> Q (f r) = Q r"
  shows "lookup_row Q (update_where P f rows) =
    map_option (\<lambda>r. if P r then f r else r) (lookup_row Q rows)"
  using assms by (induction rows) (auto simp: lookup_row_def update_where_def)

lemma bex_update_where:
  assumes "\<And>v. P v \<Longrightarrow> Q (f v) = Q v"
  shows "(\<exists>v\<in>set (update_where P f rows). Q v) \<longleftrightarrow> (\<exists>v\<in>set rows. Q v)"
  using assms by (auto simp: set_update_where image_iff)

lemma filter_update_where:
  assumes "\<And>y. y \<in> set xs \<Longrightarrow> P y \<Longrightarrow> Q y" and "\<And>y. P y \<Longrightarrow> Q (f y)"
  shows "filter Q (update_where P f xs) = update_where P f (filter Q xs)"
  using assms by (induction xs) (auto simp: update_where_def)

text \<open>The sum of a column over the rows that satisfy a condition.\<close>

definition sum_where :: "('a \<Rightarrow> bool) \<Rightarrow> ('a \<Rightarrow> int) \<Rightarrow> 'a list \<Rightarrow> int" where
  "sum_where P v rows = sum_list (map v (filter P rows))"

lemma sum_where_Nil [simp]: "sum_where P v [] = 0"
  by (simp add: sum_where_def)

lemma sum_where_append [simp]: "sum_where P v (xs @ ys) = sum_where P v xs + sum_where P v ys"
  by (simp add: sum_where_def)

lemma sum_where_single [simp]: "sum_where P v [x] = (if P x then v x else 0)"
  by (simp add: sum_where_def)

lemma sum_where_cong_rows:
  "(\<And>r. r \<in> set rows \<Longrightarrow> P r = Q r) \<Longrightarrow> sum_where P v rows = sum_where Q v rows"
  unfolding sum_where_def by (metis filter_cong)

end
