(* ===== verification/Errors.thy ===== *)
theory Errors
  imports Prelude
begin

text \<open>
  The error values of the program. Go's sentinel errors (\<open>var ErrX = errors.New(...)\<close>) are
  constructors of one datatype per package, so that errors of different packages with the same
  text stay different values; \<open>Api\<close> holds the errors the generated
  \<open>api/proto/spacetime_node/v1/errors_errors.pb.go\<close> builds (HTTP code, reason, message);
  \<open>Wrapped\<close> is \<open>fmt.Errorf("...%w", ...)\<close> and \<open>errors_is\<close> is \<open>errors.Is\<close>. The remaining
  constructors are what \<open>database/sql\<close> and \<open>encoding/json\<close> hand to the program: no rows, a failed
  call to the database, a violated constraint, a column that does not fit its destination, a
  document that does not decode.
\<close>

datatype redemption_error =
    RedemptionInvalidRequest
  | RedemptionUserNotFound
  | RedemptionJourneyNotFound
  | OfferUnavailable
  | OfferAlreadyRedeemed
  | InsufficientPoints
  | IdempotencyKeyConflict
  | RedemptionNotFound
  | VerificationFailed
  | RedemptionNotVerifiable

datatype recommendation_error =
    InvalidRecommendationRequest
  | RecommendationUserNotFound
  | RecommendationJourneyNotFound
  | JourneyStationMismatch
  | NoEligibleOffer
  | InvalidFeedbackEvent
  | InvalidUserIDHash
  | InvalidOfferChangedEvent
  | EmbeddingUnavailable
  | CandidateRecall
  | QdrantWrite
  | InvalidCopyFacts
  | InvalidCopyOutput
  | CopyGeneration

datatype notification_error =
    InvalidSubscription
  | SubscriptionNotFound
  | NotificationUserNotFound
  | InvalidPushProvider

datatype user_error = UserInvalidRequest | UserNotFound

datatype mobility_error =
    InvalidObservation
  | BeaconUnavailable
  | UnmappedBeacon
  | ProviderUnavailable

datatype analytics_error = InvalidEvent | InvalidClickHouseURL

record api_error =
  api_code :: nat
  api_reason :: string
  api_message :: string

datatype gerr =
    NoRows
  | Driver
  | Constraint string
  | ScanMismatch
  | JsonMismatch
  | Text string
  | Redemption_err redemption_error
  | Recommendation_err recommendation_error
  | Notification_err notification_error
  | User_err user_error
  | Mobility_err mobility_error
  | Analytics_err analytics_error
  | OutboxInvalidInput
  | PushDelivery int
  | HttpStatus int
  | Api api_error
  | Wrapped string gerr

fun errors_is :: "gerr \<Rightarrow> gerr \<Rightarrow> bool" where
  "errors_is (Wrapped t e) target = (Wrapped t e = target \<or> errors_is e target)"
| "errors_is e target = (e = target)"

lemma errors_is_refl [simp]: "errors_is e e"
  by (cases e) simp_all

subsection \<open>The API errors of \<open>errors_errors.pb.go\<close>\<close>

definition ErrorInvalidRequest :: "string \<Rightarrow> gerr" where
  "ErrorInvalidRequest msg =
     Api \<lparr>api_code = 400, api_reason = ''INVALID_REQUEST'', api_message = msg\<rparr>"

definition ErrorJourneyNotFound :: "string \<Rightarrow> gerr" where
  "ErrorJourneyNotFound msg =
     Api \<lparr>api_code = 404, api_reason = ''JOURNEY_NOT_FOUND'', api_message = msg\<rparr>"

definition ErrorRecommendationNotFound :: "string \<Rightarrow> gerr" where
  "ErrorRecommendationNotFound msg =
     Api \<lparr>api_code = 404, api_reason = ''RECOMMENDATION_NOT_FOUND'', api_message = msg\<rparr>"

definition ErrorRedemptionNotFound :: "string \<Rightarrow> gerr" where
  "ErrorRedemptionNotFound msg =
     Api \<lparr>api_code = 404, api_reason = ''REDEMPTION_NOT_FOUND'', api_message = msg\<rparr>"

definition ErrorIdempotencyKeyConflict :: "string \<Rightarrow> gerr" where
  "ErrorIdempotencyKeyConflict msg =
     Api \<lparr>api_code = 409, api_reason = ''IDEMPOTENCY_KEY_CONFLICT'', api_message = msg\<rparr>"

definition ErrorInsufficientPoints :: "string \<Rightarrow> gerr" where
  "ErrorInsufficientPoints msg =
     Api \<lparr>api_code = 409, api_reason = ''INSUFFICIENT_POINTS'', api_message = msg\<rparr>"

definition ErrorOfferUnavailable :: "string \<Rightarrow> gerr" where
  "ErrorOfferUnavailable msg =
     Api \<lparr>api_code = 409, api_reason = ''OFFER_UNAVAILABLE'', api_message = msg\<rparr>"

definition ErrorMerchantVerificationFailed :: "string \<Rightarrow> gerr" where
  "ErrorMerchantVerificationFailed msg =
     Api \<lparr>api_code = 409, api_reason = ''MERCHANT_VERIFICATION_FAILED'', api_message = msg\<rparr>"

definition ErrorUserNotFound :: "string \<Rightarrow> gerr" where
  "ErrorUserNotFound msg =
     Api \<lparr>api_code = 404, api_reason = ''USER_NOT_FOUND'', api_message = msg\<rparr>"

lemmas api_error_defs =
  ErrorInvalidRequest_def ErrorJourneyNotFound_def ErrorRecommendationNotFound_def
  ErrorRedemptionNotFound_def ErrorIdempotencyKeyConflict_def ErrorInsufficientPoints_def
  ErrorOfferUnavailable_def ErrorMerchantVerificationFailed_def ErrorUserNotFound_def

end
