(* ===== verification/Json.thy ===== *)
theory Json
  imports Errors
begin

text \<open>
  JSON documents and what \<open>encoding/json\<close> does with them, as far as the program relies on it.
  A byte slice is represented by what the decoder sees in it (\<open>raw\<close>): nothing, something that is
  not JSON, or a document. Numbers keep the distinction Go's decoder makes: a literal with neither
  fraction nor exponent (\<open>JInt\<close>) fits an integer field, any other literal (\<open>JFrac\<close>) does not.
  Objects keep their members in order, with duplicates, because the decoder assigns them one after
  the other.
\<close>

datatype json =
    JNull
  | JBool bool
  | JInt int
  | JFrac int int
  | JStr string
  | JArr "json list"
  | JObj "(string \<times> json) list"

datatype raw = RawEmpty | RawInvalid | Raw json

fun json_valid :: "raw \<Rightarrow> bool" where
  "json_valid (Raw j) = True"
| "json_valid RawEmpty = False"
| "json_valid RawInvalid = False"

subsection \<open>Which member fills which field\<close>

text \<open>
  A member fills the field whose name it equals after case folding. The names of the program are
  ASCII, so folding maps ASCII letters to upper case and the two other characters whose fold is an
  ASCII letter, the long s (bytes C5 BF) and the Kelvin sign (bytes E2 84 AA).
\<close>

definition upper_byte :: "char \<Rightarrow> char" where
  "upper_byte c =
     (if CHR ''a'' \<le> c \<and> c \<le> CHR ''z'' then char_of (of_char c - (32::nat)) else c)"

fun fold_name :: "string \<Rightarrow> string" where
  "fold_name (c # d # e # s) =
     (if c = CHR 0xC5 \<and> d = CHR 0xBF then CHR ''S'' # fold_name (e # s)
      else if c = CHR 0xE2 \<and> d = CHR 0x84 \<and> e = CHR 0xAA then CHR ''K'' # fold_name s
      else upper_byte c # fold_name (d # e # s))"
| "fold_name [c, d] =
     (if c = CHR 0xC5 \<and> d = CHR 0xBF then [CHR ''S''] else [upper_byte c, upper_byte d])"
| "fold_name [c] = [upper_byte c]"
| "fold_name [] = []"

text \<open>The folds of the names the program gives its fields.\<close>

lemma field_folds:
  "fold_name ''event_id'' = ''EVENT_ID''"
  "fold_name ''event_type'' = ''EVENT_TYPE''"
  "fold_name ''schema_version'' = ''SCHEMA_VERSION''"
  "fold_name ''occurred_at'' = ''OCCURRED_AT''"
  "fold_name ''producer'' = ''PRODUCER''"
  "fold_name ''trace_id'' = ''TRACE_ID''"
  "fold_name ''journey_id'' = ''JOURNEY_ID''"
  "fold_name ''recommendation_id'' = ''RECOMMENDATION_ID''"
  "fold_name ''user_id_hash'' = ''USER_ID_HASH''"
  "fold_name ''payload'' = ''PAYLOAD''"
  "fold_name ''offer_id'' = ''OFFER_ID''"
  "fold_name ''title'' = ''TITLE''"
  "fold_name ''description'' = ''DESCRIPTION''"
  "fold_name ''station_id'' = ''STATION_ID''"
  "fold_name ''line_id'' = ''LINE_ID''"
  "fold_name ''position_id'' = ''POSITION_ID''"
  "fold_name ''points_cost'' = ''POINTS_COST''"
  "fold_name ''vector_score'' = ''VECTOR_SCORE''"
  "fold_name ''rule_score'' = ''RULE_SCORE''"
  "fold_name ''eligible'' = ''ELIGIBLE''"
  "fold_name ''reasons'' = ''REASONS''"
  "fold_name ''copy_source'' = ''COPY_SOURCE''"
  "fold_name ''merchant_id'' = ''MERCHANT_ID''"
  by code_simp+

fun decode_field ::
  "(json \<Rightarrow> 'a \<Rightarrow> gerr + 'a) \<Rightarrow> string \<Rightarrow> (string \<times> json) list \<Rightarrow> 'a \<Rightarrow> gerr + 'a" where
  "decode_field assign name [] acc = Inr acc"
| "decode_field assign name ((k, v) # kvs) acc =
     (if k = name \<or> fold_name k = fold_name name then
        (case assign v acc of
           Inl e \<Rightarrow> Inl e
         | Inr a \<Rightarrow> decode_field assign name kvs a)
      else decode_field assign name kvs acc)"

subsection \<open>Values by the type of the field\<close>

fun assign_string :: "json \<Rightarrow> string \<Rightarrow> gerr + string" where
  "assign_string JNull old = Inr old"
| "assign_string (JStr s) old = Inr s"
| "assign_string j old = Inl JsonMismatch"

definition int64_range :: "int \<Rightarrow> bool" where
  "int64_range n \<longleftrightarrow> - (2 ^ 63) \<le> n \<and> n < 2 ^ 63"

fun assign_int :: "json \<Rightarrow> int \<Rightarrow> gerr + int" where
  "assign_int JNull old = Inr old"
| "assign_int (JInt n) old = (if int64_range n then Inr n else Inl JsonMismatch)"
| "assign_int j old = Inl JsonMismatch"

text \<open>A \<open>float64\<close>; the rounding of a literal to it is left to the reader of the number.\<close>

fun assign_float :: "json \<Rightarrow> rat \<Rightarrow> gerr + rat" where
  "assign_float JNull old = Inr old"
| "assign_float (JInt n) old = Inr (of_int n)"
| "assign_float (JFrac a b) old = Inr (Fract a b)"
| "assign_float j old = Inl JsonMismatch"

definition json_number :: "rat \<Rightarrow> json" where
  "json_number q = (case quotient_of q of (a, b) \<Rightarrow> if b = 1 then JInt a else JFrac a b)"

lemma assign_json_number [simp]: "assign_float (json_number q) old = Inr q"
proof -
  obtain a b where ab: "quotient_of q = (a, b)" by fastforce
  then have "q = Fract a b" by (metis Fract_of_int_quotient quotient_of_div)
  with ab show ?thesis by (auto simp: json_number_def Fract_of_int_eq)
qed

fun assign_bool :: "json \<Rightarrow> bool \<Rightarrow> gerr + bool" where
  "assign_bool JNull old = Inr old"
| "assign_bool (JBool b) old = Inr b"
| "assign_bool j old = Inl JsonMismatch"

fun decode_strings :: "json list \<Rightarrow> gerr + string list" where
  "decode_strings [] = Inr []"
| "decode_strings (j # js) =
     (case assign_string j [] of
        Inl e \<Rightarrow> Inl e
      | Inr s \<Rightarrow> (case decode_strings js of Inl e \<Rightarrow> Inl e | Inr ss \<Rightarrow> Inr (s # ss)))"

fun assign_strings :: "json \<Rightarrow> string list \<Rightarrow> gerr + string list" where
  "assign_strings JNull old = Inr []"
| "assign_strings (JArr js) old = decode_strings js"
| "assign_strings j old = Inl JsonMismatch"

fun assign_raw :: "json \<Rightarrow> raw \<Rightarrow> gerr + raw" where
  "assign_raw j old = Inr (Raw j)"

text \<open>A struct: the members of an object; \<open>null\<close> leaves it as it was.\<close>

fun assign_struct ::
  "((string \<times> json) list \<Rightarrow> 'a \<Rightarrow> gerr + 'a) \<Rightarrow> json \<Rightarrow> 'a \<Rightarrow> gerr + 'a" where
  "assign_struct f JNull old = Inr old"
| "assign_struct f (JObj kvs) old = f kvs old"
| "assign_struct f j old = Inl JsonMismatch"

fun unmarshal :: "(json \<Rightarrow> 'a \<Rightarrow> gerr + 'a) \<Rightarrow> raw \<Rightarrow> 'a \<Rightarrow> gerr + 'a" where
  "unmarshal f (Raw j) old = f j old"
| "unmarshal f RawEmpty old = Inl JsonMismatch"
| "unmarshal f RawInvalid old = Inl JsonMismatch"

text \<open>\<open>map[string]any\<close>: the last member of a key wins, keys are compared exactly.\<close>

definition map_member :: "(string \<times> json) list \<Rightarrow> string \<Rightarrow> json option" where
  "map_member kvs k = map_of (rev kvs) k"

subsection \<open>Sequencing of decoders\<close>

definition bind_result :: "gerr + 'a \<Rightarrow> ('a \<Rightarrow> gerr + 'b) \<Rightarrow> gerr + 'b" where
  "bind_result r f = (case r of Inl e \<Rightarrow> Inl e | Inr a \<Rightarrow> f a)"

lemma bind_result_simps [simp]:
  "bind_result (Inl e) f = Inl e"
  "bind_result (Inr a) f = f a"
  by (simp_all add: bind_result_def)

lemma bind_result_Inr_iff:
  "bind_result r f = Inr b \<longleftrightarrow> (\<exists>a. r = Inr a \<and> f a = Inr b)"
  by (cases r) auto

definition json_strings :: "string list \<Rightarrow> json" where
  "json_strings ss = JArr (map JStr ss)"

text \<open>\<open>json.Marshal\<close> of a slice: the nil slice is \<open>null\<close>. Only an empty list can be nil here; a decoded
  \<open>[]\<close> is not, and the two are read back alike.\<close>

definition marshal_strings :: "string list \<Rightarrow> json" where
  "marshal_strings ss = (if ss = [] then JNull else json_strings ss)"

lemma decode_strings_json [simp]: "decode_strings (map JStr ss) = Inr ss"
  by (induction ss) auto

lemma assign_strings_json [simp]: "assign_strings (json_strings ss) old = Inr ss"
  by (simp add: json_strings_def)

end
