(* ===== verification/Effects.thy ===== *)
theory Effects
  imports Json
begin

text \<open>
  How a handler runs. A handler is a function from its environment (\<open>env\<close>: the UUIDs
  \<open>uuid.NewString\<close> will hand out, the readings of the clock, the outages of the database
  connection) and the world (\<open>world\<close>: the committed database, the working copy of the open
  transaction, the trace of calls to other systems, and how many readings and database calls
  have been made) to a Go result \<open>(value, error)\<close>, \<open>Inl\<close> an error and \<open>Inr\<close> a value, and the
  world afterwards.

  \<open>beginTx\<close>, \<open>execTx\<close>, \<open>commitTx\<close> are \<open>BeginTx\<close>, a statement on the transaction and \<open>Commit\<close>;
  \<open>execDB\<close> is a statement on the pool, a transaction of its own. The deferred \<open>Rollback\<close> needs no
  step: a working copy that is not committed is never read again. An outage of kind \<open>Refused\<close>
  makes the call fail without effect; \<open>Lost\<close> is the case every client of a database has to live
  with, a commit (or an autocommitted statement) that took effect while its answer got lost, so
  that the program sees an error all the same.
\<close>

datatype outage = Refused | Lost

text \<open>A pointer the code compares with nil: \<open>*sql.DB\<close>, \<open>*sql.Tx\<close>, \<open>*log.Logger\<close>.\<close>

datatype handle = NilHandle | Handle

record kafka_message =
  km_topic :: string
  km_key :: string
  km_value :: json

datatype external_call =
    KafkaAck kafka_message
  | KafkaNack kafka_message
  | PushSent string json
  | PushFailed string json
  | HttpRequest string string json

record env =
  uuid_at :: "nat \<Rightarrow> string"
  clock_at :: "nat \<Rightarrow> int"
  outage_at :: "nat \<Rightarrow> outage option"

record 'd world =
  committed :: 'd
  working :: 'd
  tx_now :: int
  draws :: nat
  calls :: nat
  trace :: "external_call list"

type_synonym ('d, 'a) act = "env \<Rightarrow> 'd world \<Rightarrow> (gerr + 'a) \<times> 'd world"

type_synonym ('d, 'a) stmt = "int \<Rightarrow> 'd \<Rightarrow> gerr + ('a \<times> 'd)"

subsection \<open>Sequencing\<close>

definition ok :: "'a \<Rightarrow> ('d, 'a) act" where
  "ok a = (\<lambda>e w. (Inr a, w))"

definition fail :: "gerr \<Rightarrow> ('d, 'a) act" where
  "fail x = (\<lambda>e w. (Inl x, w))"

definition andThen :: "('d, 'a) act \<Rightarrow> ('a \<Rightarrow> ('d, 'b) act) \<Rightarrow> ('d, 'b) act" where
  "andThen m f = (\<lambda>e w. case m e w of (Inl x, w') \<Rightarrow> (Inl x, w') | (Inr a, w') \<Rightarrow> f a e w')"

definition lift_result :: "gerr + 'a \<Rightarrow> ('d, 'a) act" where
  "lift_result r = (\<lambda>e w. (r, w))"

text \<open>\<open>if err != nil \<and> errors.Is(err, from) { return to }; if err != nil { return err }\<close>\<close>

definition onError :: "gerr \<Rightarrow> gerr \<Rightarrow> ('d, 'a) act \<Rightarrow> ('d, 'a) act" where
  "onError from_err to_err m = (\<lambda>e w. case m e w of
     (Inl x, w') \<Rightarrow> (Inl (if errors_is x from_err then to_err else x), w')
   | (Inr a, w') \<Rightarrow> (Inr a, w'))"

text \<open>A query whose \<open>sql.ErrNoRows\<close> is an answer, not an error.\<close>

definition orNoRows :: "('d, 'a) act \<Rightarrow> ('d, 'a option) act" where
  "orNoRows m = (\<lambda>e w. case m e w of
     (Inl x, w') \<Rightarrow> (if errors_is x NoRows then (Inr None, w') else (Inl x, w'))
   | (Inr a, w') \<Rightarrow> (Inr (Some a), w'))"

text \<open>\<open>if err := m; err != nil { return f(err) }\<close>\<close>

definition mapErr :: "(gerr \<Rightarrow> gerr) \<Rightarrow> ('d, 'a) act \<Rightarrow> ('d, 'a) act" where
  "mapErr f m = (\<lambda>e w. case m e w of (Inl x, w') \<Rightarrow> (Inl (f x), w') | (Inr a, w') \<Rightarrow> (Inr a, w'))"

text \<open>A call whose error the code looks at itself.\<close>

definition attempt :: "('d, 'a) act \<Rightarrow> ('d, gerr + 'a) act" where
  "attempt m = (\<lambda>e w. case m e w of (r, w') \<Rightarrow> (Inr r, w'))"

subsection \<open>Readings of the environment\<close>

definition newUUID :: "('d, string) act" where
  "newUUID = (\<lambda>e w. (Inr (uuid_at e (draws w)), w\<lparr>draws := Suc (draws w)\<rparr>))"

definition timeNow :: "('d, int) act" where
  "timeNow = (\<lambda>e w. (Inr (clock_at e (draws w)), w\<lparr>draws := Suc (draws w)\<rparr>))"

definition record_external :: "external_call \<Rightarrow> ('d, unit) act" where
  "record_external x = (\<lambda>e w. (Inr (), w\<lparr>trace := trace w @ [x]\<rparr>))"

subsection \<open>The database\<close>

definition beginTx :: "('d, unit) act" where
  "beginTx = (\<lambda>e w. case outage_at e (calls w) of
     Some _ \<Rightarrow> (Inl Driver, w\<lparr>calls := Suc (calls w)\<rparr>)
   | None \<Rightarrow> (Inr (), w\<lparr>working := committed w, tx_now := clock_at e (draws w),
                       draws := Suc (draws w), calls := Suc (calls w)\<rparr>))"

definition execTx :: "('d, 'a) stmt \<Rightarrow> ('d, 'a) act" where
  "execTx s = (\<lambda>e w. case outage_at e (calls w) of
     Some _ \<Rightarrow> (Inl Driver, w\<lparr>calls := Suc (calls w)\<rparr>)
   | None \<Rightarrow> (case s (tx_now w) (working w) of
       Inl x \<Rightarrow> (Inl x, w\<lparr>calls := Suc (calls w)\<rparr>)
     | Inr (a, d) \<Rightarrow> (Inr a, w\<lparr>working := d, calls := Suc (calls w)\<rparr>)))"

definition commitTx :: "('d, unit) act" where
  "commitTx = (\<lambda>e w. case outage_at e (calls w) of
     Some Refused \<Rightarrow> (Inl Driver, w\<lparr>calls := Suc (calls w)\<rparr>)
   | Some Lost \<Rightarrow> (Inl Driver, w\<lparr>committed := working w, calls := Suc (calls w)\<rparr>)
   | None \<Rightarrow> (Inr (), w\<lparr>committed := working w, calls := Suc (calls w)\<rparr>))"

definition execDB :: "('d, 'a) stmt \<Rightarrow> ('d, 'a) act" where
  "execDB s = (\<lambda>e w.
     let w1 = w\<lparr>draws := Suc (draws w), calls := Suc (calls w)\<rparr> in
     case outage_at e (calls w) of
       Some Refused \<Rightarrow> (Inl Driver, w1)
     | Some Lost \<Rightarrow> (case s (clock_at e (draws w)) (committed w) of
         Inl x \<Rightarrow> (Inl Driver, w1)
       | Inr (a, d) \<Rightarrow> (Inl Driver, w1\<lparr>committed := d\<rparr>))
     | None \<Rightarrow> (case s (clock_at e (draws w)) (committed w) of
         Inl x \<Rightarrow> (Inl x, w1)
       | Inr (a, d) \<Rightarrow> (Inr a, w1\<lparr>committed := d\<rparr>)))"

text \<open>A statement that only reads, and one that only writes.\<close>

definition reads :: "(int \<Rightarrow> 'd \<Rightarrow> gerr + 'a) \<Rightarrow> ('d, 'a) stmt" where
  "reads q = (\<lambda>t d. case q t d of Inl x \<Rightarrow> Inl x | Inr a \<Rightarrow> Inr (a, d))"

definition writes :: "(int \<Rightarrow> 'd \<Rightarrow> gerr + 'd) \<Rightarrow> ('d, unit) stmt" where
  "writes u = (\<lambda>t d. case u t d of Inl x \<Rightarrow> Inl x | Inr d' \<Rightarrow> Inr ((), d'))"

text \<open>\<open>QueryRow(...).Scan\<close>: the first row, or \<open>sql.ErrNoRows\<close>.\<close>

definition row_or_none :: "'a option \<Rightarrow> gerr + 'a" where
  "row_or_none r = (case r of None \<Rightarrow> Inl NoRows | Some a \<Rightarrow> Inr a)"

lemma row_or_none_simps [simp]:
  "row_or_none None = Inl NoRows" "row_or_none (Some a) = Inr a"
  by (simp_all add: row_or_none_def)

lemma row_or_none_iff [simp]:
  "row_or_none r = Inr a \<longleftrightarrow> r = Some a"
  "row_or_none r = Inl x \<longleftrightarrow> r = None \<and> x = NoRows"
  by (auto simp: row_or_none_def split: option.splits)

end
