(* ===== verification/Transactions.thy ===== *)
theory Transactions
  imports Effects
begin

text \<open>
  Reasoning about handlers. \<open>wp m e Q w\<close> says that running \<open>m\<close> ends in a result and a world that
  satisfy \<open>Q\<close>; its rules walk through a handler statement by statement. \<open>calm e\<close> is an
  environment without outages; there a handler computes its result by plain rewriting
  (\<open>calm_simps\<close>). The locale \<open>tx_handler\<close> is the contract every transactional handler of the
  program keeps: whatever fails, the committed database is the old one or one that a complete
  run relates to it, and it is the new one when the handler reports success.
\<close>

text \<open>No commit or autocommitted statement takes effect behind an error.\<close>

definition lossless :: "env \<Rightarrow> bool" where
  "lossless e \<longleftrightarrow> (\<forall>i. outage_at e i \<noteq> Some Lost)"

definition wp :: "('d, 'a) act \<Rightarrow> env \<Rightarrow> (gerr + 'a \<Rightarrow> 'd world \<Rightarrow> bool) \<Rightarrow> 'd world \<Rightarrow> bool" where
  "wp m e Q w = (case m e w of (r, w') \<Rightarrow> Q r w')"

lemma wpD: "wp m e Q w \<Longrightarrow> m e w = (r, w') \<Longrightarrow> Q r w'"
  by (simp add: wp_def)

lemma wpI: "(\<And>r w'. m e w = (r, w') \<Longrightarrow> Q r w') \<Longrightarrow> wp m e Q w"
  by (simp add: wp_def split: prod.splits)

lemma wp_mono: "wp m e P w \<Longrightarrow> (\<And>r w'. P r w' \<Longrightarrow> Q r w') \<Longrightarrow> wp m e Q w"
  by (auto simp: wp_def split: prod.splits)

lemma wp_ok [simp]: "wp (ok a) e Q w = Q (Inr a) w"
  by (simp add: wp_def ok_def)

lemma wp_fail [simp]: "wp (fail x) e Q w = Q (Inl x) w"
  by (simp add: wp_def fail_def)

lemma wp_lift_result [simp]: "wp (lift_result r) e Q w = Q r w"
  by (simp add: wp_def lift_result_def)

lemma wp_andThen [simp]:
  "wp (andThen m f) e Q w =
     wp m e (\<lambda>r w'. case r of Inl x \<Rightarrow> Q (Inl x) w' | Inr a \<Rightarrow> wp (f a) e Q w') w"
  by (auto simp: wp_def andThen_def split: prod.splits sum.splits)

lemma wp_onError [simp]:
  "wp (onError x y m) e Q w =
     wp m e (\<lambda>r w'. case r of Inl z \<Rightarrow> Q (Inl (if errors_is z x then y else z)) w'
                             | Inr a \<Rightarrow> Q (Inr a) w') w"
  by (auto simp: wp_def onError_def split: prod.splits sum.splits)

lemma wp_orNoRows [simp]:
  "wp (orNoRows m) e Q w =
     wp m e (\<lambda>r w'. case r of Inl z \<Rightarrow> (if errors_is z NoRows then Q (Inr None) w' else Q (Inl z) w')
                             | Inr a \<Rightarrow> Q (Inr (Some a)) w') w"
  by (auto simp: wp_def orNoRows_def split: prod.splits sum.splits)

lemma wp_mapErr [simp]:
  "wp (mapErr f m) e Q w =
     wp m e (\<lambda>r w'. case r of Inl z \<Rightarrow> Q (Inl (f z)) w' | Inr a \<Rightarrow> Q (Inr a) w') w"
  by (auto simp: wp_def mapErr_def split: prod.splits sum.splits)

lemma wp_attempt [simp]: "wp (attempt m) e Q w = wp m e (\<lambda>r w'. Q (Inr r) w') w"
  by (auto simp: wp_def attempt_def split: prod.splits)

lemma wp_if [simp]: "wp (if b then m else n) e Q w = (if b then wp m e Q w else wp n e Q w)"
  by simp

lemma wp_case_prod [simp]:
  "wp (case p of (a, b) \<Rightarrow> f a b) e Q w = (case p of (a, b) \<Rightarrow> wp (f a b) e Q w)"
  by (cases p) simp

lemma wp_case_option [simp]:
  "wp (case x of None \<Rightarrow> m | Some a \<Rightarrow> f a) e Q w =
     (case x of None \<Rightarrow> wp m e Q w | Some a \<Rightarrow> wp (f a) e Q w)"
  by (cases x) simp_all

lemma wp_case_sum [simp]:
  "wp (case x of Inl y \<Rightarrow> m y | Inr a \<Rightarrow> f a) e Q w =
     (case x of Inl y \<Rightarrow> wp (m y) e Q w | Inr a \<Rightarrow> wp (f a) e Q w)"
  by (cases x) simp_all

lemma wp_newUUID [simp]:
  "wp newUUID e Q w = Q (Inr (uuid_at e (draws w))) (w\<lparr>draws := Suc (draws w)\<rparr>)"
  by (simp add: wp_def newUUID_def)

lemma wp_timeNow [simp]:
  "wp timeNow e Q w = Q (Inr (clock_at e (draws w))) (w\<lparr>draws := Suc (draws w)\<rparr>)"
  by (simp add: wp_def timeNow_def)

lemma wp_record_external [simp]:
  "wp (record_external x) e Q w = Q (Inr ()) (w\<lparr>trace := trace w @ [x]\<rparr>)"
  by (simp add: wp_def record_external_def)

lemma lost_not_lossless: "outage_at e i = Some Lost \<Longrightarrow> \<not> lossless e"
  by (auto simp: lossless_def)

lemma wp_beginTx:
  assumes "Q (Inl Driver) (w\<lparr>calls := Suc (calls w)\<rparr>)"
    and "Q (Inr ()) (w\<lparr>working := committed w, tx_now := clock_at e (draws w),
                       draws := Suc (draws w), calls := Suc (calls w)\<rparr>)"
  shows "wp beginTx e Q w"
  using assms by (auto simp: wp_def beginTx_def split: option.splits)

lemma wp_execTx:
  assumes "\<And>x. x = Driver \<or> s (tx_now w) (working w) = Inl x \<Longrightarrow> Q (Inl x) (w\<lparr>calls := Suc (calls w)\<rparr>)"
    and "\<And>a d. s (tx_now w) (working w) = Inr (a, d) \<Longrightarrow>
           Q (Inr a) (w\<lparr>working := d, calls := Suc (calls w)\<rparr>)"
  shows "wp (execTx s) e Q w"
  using assms by (auto simp: wp_def execTx_def split: option.splits sum.splits)

lemma wp_commitTx:
  assumes "Q (Inl Driver) (w\<lparr>calls := Suc (calls w)\<rparr>)"
    and "\<not> lossless e \<Longrightarrow> Q (Inl Driver) (w\<lparr>committed := working w, calls := Suc (calls w)\<rparr>)"
    and "Q (Inr ()) (w\<lparr>committed := working w, calls := Suc (calls w)\<rparr>)"
  shows "wp commitTx e Q w"
  using assms by (auto simp: wp_def commitTx_def lossless_def split: option.splits outage.splits)

lemma wp_execDB:
  assumes "\<And>x. x = Driver \<or> s (clock_at e (draws w)) (committed w) = Inl x \<Longrightarrow> Q (Inl x) (w\<lparr>draws := Suc (draws w), calls := Suc (calls w)\<rparr>)"
    and "\<And>a d. s (clock_at e (draws w)) (committed w) = Inr (a, d) \<Longrightarrow>
           Q (Inr a) (w\<lparr>draws := Suc (draws w), calls := Suc (calls w), committed := d\<rparr>)"
    and "\<And>a d. \<not> lossless e \<Longrightarrow> s (clock_at e (draws w)) (committed w) = Inr (a, d) \<Longrightarrow>
           Q (Inl Driver) (w\<lparr>draws := Suc (draws w), calls := Suc (calls w), committed := d\<rparr>)"
  shows "wp (execDB s) e Q w"
  using assms
  by (auto simp: wp_def execDB_def Let_def lost_not_lossless
      split: option.splits sum.splits outage.splits)

lemmas wp_steps = wp_beginTx wp_execTx wp_commitTx wp_execDB

lemma reads_Inr [simp]: "reads q t d = Inr (a, d') \<longleftrightarrow> q t d = Inr a \<and> d' = d"
  by (auto simp: reads_def split: sum.splits)

lemma reads_Inl [simp]: "reads q t d = Inl x \<longleftrightarrow> q t d = Inl x"
  by (auto simp: reads_def split: sum.splits)

lemma writes_Inr [simp]: "writes u t d = Inr (a, d') \<longleftrightarrow> u t d = Inr d'"
  by (auto simp: writes_def split: sum.splits)

lemma writes_Inl [simp]: "writes u t d = Inl x \<longleftrightarrow> u t d = Inl x"
  by (auto simp: writes_def split: sum.splits)

lemma wp_liftI:
  assumes "\<And>x. r = Inl x \<Longrightarrow> Q (Inl x) w" and "\<And>a. r = Inr a \<Longrightarrow> Q (Inr a) w"
  shows "wp (lift_result r) e Q w"
  using assms by (cases r) auto

lemma wp_reads:
  assumes "\<And>x. x = Driver \<or> q (tx_now w) (working w) = Inl x \<Longrightarrow> Q (Inl x) (w\<lparr>calls := Suc (calls w)\<rparr>)"
    and "\<And>a. q (tx_now w) (working w) = Inr a \<Longrightarrow> Q (Inr a) (w\<lparr>calls := Suc (calls w)\<rparr>)"
  shows "wp (execTx (reads q)) e Q w"
  using assms by (auto intro!: wp_execTx)

subsection \<open>Statements inside a transaction leave the committed database alone\<close>

definition tx_local :: "('d, 'a) act \<Rightarrow> bool" where
  "tx_local m \<longleftrightarrow> (\<forall>e w. committed (snd (m e w)) = committed w)"

lemma tx_localD: "tx_local m \<Longrightarrow> m e w = (r, w') \<Longrightarrow> committed w' = committed w"
  by (metis tx_local_def snd_conv)

lemma tx_local_ok [tx_local_intros]: "tx_local (ok a)"
  by (simp add: tx_local_def ok_def)

lemma tx_local_fail [tx_local_intros]: "tx_local (fail x)"
  by (simp add: tx_local_def fail_def)

lemma tx_local_lift [tx_local_intros]: "tx_local (lift_result r)"
  by (simp add: tx_local_def lift_result_def)

lemma tx_local_andThen [tx_local_intros]:
  "tx_local m \<Longrightarrow> (\<And>a. tx_local (f a)) \<Longrightarrow> tx_local (andThen m f)"
  by (auto simp: tx_local_def andThen_def split: prod.splits sum.splits) (metis snd_conv)+

lemma tx_local_onError [tx_local_intros]: "tx_local m \<Longrightarrow> tx_local (onError x y m)"
  by (auto simp: tx_local_def onError_def split: prod.splits sum.splits) (metis snd_conv)+

lemma tx_local_orNoRows [tx_local_intros]: "tx_local m \<Longrightarrow> tx_local (orNoRows m)"
  by (auto simp: tx_local_def orNoRows_def split: prod.splits sum.splits) (metis snd_conv)+

lemma tx_local_mapErr [tx_local_intros]: "tx_local m \<Longrightarrow> tx_local (mapErr f m)"
  by (auto simp: tx_local_def mapErr_def split: prod.splits sum.splits) (metis snd_conv)+

lemma tx_local_attempt [tx_local_intros]: "tx_local m \<Longrightarrow> tx_local (attempt m)"
  by (auto simp: tx_local_def attempt_def split: prod.splits) (metis snd_conv)+

lemma tx_local_newUUID [tx_local_intros]: "tx_local newUUID"
  by (simp add: tx_local_def newUUID_def)

lemma tx_local_timeNow [tx_local_intros]: "tx_local timeNow"
  by (simp add: tx_local_def timeNow_def)

lemma tx_local_external [tx_local_intros]: "tx_local (record_external x)"
  by (simp add: tx_local_def record_external_def)

lemma tx_local_beginTx [tx_local_intros]: "tx_local beginTx"
  by (simp add: tx_local_def beginTx_def split: option.splits)

lemma tx_local_execTx [tx_local_intros]: "tx_local (execTx s)"
  by (simp add: tx_local_def execTx_def split: option.splits sum.splits)

lemma tx_local_if [tx_local_intros]:
  "tx_local m \<Longrightarrow> tx_local n \<Longrightarrow> tx_local (if b then m else n)"
  by simp

lemma tx_local_reads [tx_local_intros]: "tx_local (execDB (reads q))"
  by (auto simp: tx_local_def execDB_def Let_def split: option.splits outage.splits sum.splits)

lemma tx_local_cases [tx_local_intros]:
  "tx_local m \<Longrightarrow> (\<And>a. tx_local (f a)) \<Longrightarrow> tx_local (case y of None \<Rightarrow> m | Some a \<Rightarrow> f a)"
  "(\<And>a. tx_local (g a)) \<Longrightarrow> (\<And>b. tx_local (h b)) \<Longrightarrow> tx_local (case z of Inl a \<Rightarrow> g a | Inr b \<Rightarrow> h b)"
  "(\<And>a b. tx_local (k a b)) \<Longrightarrow> tx_local (case v of (a, b) \<Rightarrow> k a b)"
  by (simp_all split: option.split sum.split prod.split)

lemma wp_tx_local:
  assumes "tx_local m" and "\<And>r w'. committed w' = committed w \<Longrightarrow> Q r w'"
  shows "wp m e Q w"
  using assms by (auto intro!: wpI dest: tx_localD)

subsection \<open>Environments without outages\<close>

definition calm :: "env \<Rightarrow> bool" where
  "calm e \<longleftrightarrow> (\<forall>i. outage_at e i = None)"

lemma calm_lossless: "calm e \<Longrightarrow> lossless e"
  by (simp add: calm_def lossless_def)

lemma calm_beginTx:
  "calm e \<Longrightarrow> beginTx e w =
     (Inr (), w\<lparr>working := committed w, tx_now := clock_at e (draws w),
                draws := Suc (draws w), calls := Suc (calls w)\<rparr>)"
  by (simp add: calm_def beginTx_def)

lemma calm_execTx:
  "calm e \<Longrightarrow> execTx s e w = (case s (tx_now w) (working w) of
     Inl x \<Rightarrow> (Inl x, w\<lparr>calls := Suc (calls w)\<rparr>)
   | Inr (a, d) \<Rightarrow> (Inr a, w\<lparr>working := d, calls := Suc (calls w)\<rparr>))"
  by (simp add: calm_def execTx_def)

lemma calm_commitTx:
  "calm e \<Longrightarrow> commitTx e w = (Inr (), w\<lparr>committed := working w, calls := Suc (calls w)\<rparr>)"
  by (simp add: calm_def commitTx_def)

lemma calm_execDB:
  "calm e \<Longrightarrow> execDB s e w = (case s (clock_at e (draws w)) (committed w) of
     Inl x \<Rightarrow> (Inl x, w\<lparr>draws := Suc (draws w), calls := Suc (calls w)\<rparr>)
   | Inr (a, d) \<Rightarrow> (Inr a, w\<lparr>draws := Suc (draws w), calls := Suc (calls w), committed := d\<rparr>))"
  by (simp add: calm_def execDB_def Let_def)

lemmas act_defs = ok_def fail_def andThen_def lift_result_def onError_def orNoRows_def mapErr_def
  attempt_def
  newUUID_def timeNow_def record_external_def

lemmas calm_simps = act_defs calm_beginTx calm_execTx calm_commitTx calm_execDB

text \<open>Rules that run a handler one call at a time.\<close>

lemma andThen_assoc: "andThen (andThen m f) g = andThen m (\<lambda>a. andThen (f a) g)"
  by (auto simp: andThen_def fun_eq_iff split: prod.splits sum.splits)

lemma run_ok: "ok a e w = (Inr a, w)" "andThen (ok a) g e w = g a e w"
  by (simp_all add: ok_def andThen_def)

lemma run_fail: "fail x e w = (Inl x, w)" "andThen (fail x) g e w = (Inl x, w)"
  by (simp_all add: fail_def andThen_def)

lemma run_draws:
  "andThen newUUID f e w = f (uuid_at e (draws w)) e (w\<lparr>draws := Suc (draws w)\<rparr>)"
  "andThen timeNow h e w = h (clock_at e (draws w)) e (w\<lparr>draws := Suc (draws w)\<rparr>)"
  by (simp_all add: newUUID_def timeNow_def andThen_def)

lemma run_beginTx:
  "calm e \<Longrightarrow> andThen beginTx f e w =
     f () e (w\<lparr>working := committed w, tx_now := clock_at e (draws w),
               draws := Suc (draws w), calls := Suc (calls w)\<rparr>)"
  by (simp add: calm_beginTx andThen_def)

lemma run_commitTx:
  "calm e \<Longrightarrow> andThen commitTx f e w = f () e (w\<lparr>committed := working w, calls := Suc (calls w)\<rparr>)"
  by (simp add: calm_commitTx andThen_def)

lemma run_execTx:
  "calm e \<Longrightarrow> andThen (execTx s) f e w = (case s (tx_now w) (working w) of
     Inl x \<Rightarrow> (Inl x, w\<lparr>calls := Suc (calls w)\<rparr>)
   | Inr (a, d) \<Rightarrow> f a e (w\<lparr>working := d, calls := Suc (calls w)\<rparr>))"
  by (simp add: calm_execTx andThen_def split: sum.split prod.split)

lemma run_execTx_onError:
  "calm e \<Longrightarrow> andThen (onError from_err to_err (execTx s)) f e w =
     (case s (tx_now w) (working w) of
       Inl x \<Rightarrow> (Inl (if errors_is x from_err then to_err else x), w\<lparr>calls := Suc (calls w)\<rparr>)
     | Inr (a, d) \<Rightarrow> f a e (w\<lparr>working := d, calls := Suc (calls w)\<rparr>))"
  by (simp add: calm_execTx andThen_def onError_def split: sum.split prod.split)

lemma run_execTx_orNoRows:
  "calm e \<Longrightarrow> andThen (orNoRows (execTx s)) f e w = (case s (tx_now w) (working w) of
       Inl x \<Rightarrow> (if errors_is x NoRows then f None e (w\<lparr>calls := Suc (calls w)\<rparr>)
                else (Inl x, w\<lparr>calls := Suc (calls w)\<rparr>))
     | Inr (a, d) \<Rightarrow> f (Some a) e (w\<lparr>working := d, calls := Suc (calls w)\<rparr>))"
  by (simp add: calm_execTx andThen_def orNoRows_def split: sum.split prod.split)

lemma run_execDB:
  "calm e \<Longrightarrow> andThen (execDB s) f e w = (case s (clock_at e (draws w)) (committed w) of
     Inl x \<Rightarrow> (Inl x, w\<lparr>draws := Suc (draws w), calls := Suc (calls w)\<rparr>)
   | Inr (a, d) \<Rightarrow> f a e (w\<lparr>draws := Suc (draws w), calls := Suc (calls w), committed := d\<rparr>))"
  by (simp add: calm_execDB andThen_def split: sum.split prod.split)

lemma fst_mapErr:
  "fst (mapErr f m e w) = (case fst (m e w) of Inl x \<Rightarrow> Inl (f x) | Inr a \<Rightarrow> Inr a)"
  by (auto simp: mapErr_def split: prod.split sum.split)

lemma run_if:
  "andThen (if b then m else n) f e w = (if b then andThen m f e w else andThen n f e w)"
  by simp

lemma run_case_prod:
  "andThen (case p of (a, b) \<Rightarrow> m a b) f e w = (case p of (a, b) \<Rightarrow> andThen (m a b) f e w)"
  by (cases p) simp

lemmas run_simps = andThen_assoc run_ok run_fail run_draws run_beginTx run_commitTx run_execTx
  run_execTx_onError run_execTx_orNoRows run_execDB run_if run_case_prod calm_commitTx calm_execTx calm_execDB

lemma andThen_Inr_iff:
  "andThen m f e w = (Inr b, w') \<longleftrightarrow> (\<exists>a w1. m e w = (Inr a, w1) \<and> f a e w1 = (Inr b, w'))"
  by (auto simp: andThen_def split: prod.splits sum.splits)

text \<open>A run that started from \<open>d\<close> settles: it failed and left \<open>d\<close> (or, when an answer can get lost,
  completed all the same), or it succeeded and completed.\<close>

abbreviation settles :: "env \<Rightarrow> ('d \<Rightarrow> 'a \<Rightarrow> 'd \<Rightarrow> bool) \<Rightarrow> 'd \<Rightarrow> gerr + 'a \<Rightarrow> 'd world \<Rightarrow> bool" where
  "settles e done_rel d r w' \<equiv> (case r of
      Inl x \<Rightarrow> committed w' = d \<or> (\<not> lossless e \<and> (\<exists>a. done_rel d a (committed w')))
    | Inr a \<Rightarrow> done_rel d a (committed w'))"

subsection \<open>The contract of a transactional handler\<close>

text \<open>
  \<open>done d r d'\<close>: \<open>d'\<close> is what a complete run that answers \<open>r\<close> makes of the database \<open>d\<close>.
\<close>

locale tx_handler =
  fixes run :: "('d, 'a) act" and complete :: "'d \<Rightarrow> 'a \<Rightarrow> 'd \<Rightarrow> bool"
  assumes run_wp:
    "wp run e (settles e complete (committed w)) w"
begin

lemma success: "run e w = (Inr a, w') \<Longrightarrow> complete (committed w) a (committed w')"
  using run_wp [of e w] by (auto dest: wpD)

lemma failure_keeps: "lossless e \<Longrightarrow> run e w = (Inl x, w') \<Longrightarrow> committed w' = committed w"
  using run_wp [of e w] by (auto dest: wpD)

lemma all_or_nothing:
  assumes "run e w = (r, w')"
  shows "committed w' = committed w \<or> (\<exists>a. complete (committed w) a (committed w'))"
  using wpD [OF run_wp assms] by (cases r) auto

text \<open>What every complete run keeps, every run keeps.\<close>

lemma invariant_kept:
  assumes "\<And>d a d'. I d \<Longrightarrow> complete d a d' \<Longrightarrow> I d'"
    and "I (committed w)" and "run e w = (r, w')"
  shows "I (committed w')"
  using all_or_nothing [OF assms(3)] assms(1,2) by metis

end

subsection \<open>Repeated requests\<close>

text \<open>A client that repeats a request until it is content.\<close>

primrec attempts :: "nat \<Rightarrow> ('d, 'a) act \<Rightarrow> env \<Rightarrow> 'd world \<Rightarrow> (gerr + 'a) list \<times> 'd world" where
  "attempts 0 m e w = ([], w)"
| "attempts (Suc n) m e w =
     (case m e w of (r, w1) \<Rightarrow> case attempts n m e w1 of (rs, w2) \<Rightarrow> (r # rs, w2))"

text \<open>
  A handler whose complete runs either change the database, for the first time, or replay: however
  often a client repeats the request and whatever fails on the way, the change happens at most
  once, and every later answer the client gets agrees with the first.
\<close>

locale idempotent_handler = tx_handler +
  fixes changes :: "'d \<Rightarrow> 'a \<Rightarrow> 'd \<Rightarrow> bool" and replays :: "'d \<Rightarrow> 'a \<Rightarrow> bool"
    and agrees :: "'a \<Rightarrow> 'a \<Rightarrow> bool"
  assumes complete_cases: "complete d a d' \<Longrightarrow> changes d a d' \<or> (d' = d \<and> replays d a)"
    and change_completes: "changes d a d' \<Longrightarrow> complete d' a' d'' \<Longrightarrow> d'' = d' \<and> agrees a a'"
    and replays_unchanged: "replays d a \<Longrightarrow> \<not> changes d a' d'"
begin

lemma attempts_after_change:
  assumes "changes d a (committed w)" and "attempts n run e w = (rs, w')"
  shows "committed w' = committed w \<and> (\<forall>b. Inr b \<in> set rs \<longrightarrow> agrees a b)"
  using assms
proof (induction n arbitrary: w rs)
  case (Suc n)
  obtain r w1 where r: "run e w = (r, w1)" by fastforce
  obtain bs where b: "attempts n run e w1 = (bs, w')" and rs: "rs = r # bs"
    using Suc.prems r by (auto split: prod.splits)
  have first: "committed w1 = committed w \<and> (\<forall>b. r = Inr b \<longrightarrow> agrees a b)"
    using all_or_nothing [OF r] success [of e w _ w1] r change_completes [OF Suc.prems(1)] by blast
  have "committed w' = committed w1 \<and> (\<forall>b. Inr b \<in> set bs \<longrightarrow> agrees a b)"
    using Suc.prems(1) first by (intro Suc.IH [OF _ b]) simp
  with first rs show ?case by auto
qed simp

lemma attempts_at_most_once:
  assumes "attempts n run e w = (rs, w')"
  shows "(committed w' = committed w \<and> (\<forall>a. Inr a \<in> set rs \<longrightarrow> replays (committed w) a))
    \<or> (\<exists>a. changes (committed w) a (committed w') \<and> (\<forall>b. Inr b \<in> set rs \<longrightarrow> b = a \<or> agrees a b))"
  using assms
proof (induction n arbitrary: w rs)
  case (Suc n)
  obtain r w1 where r: "run e w = (r, w1)" by fastforce
  obtain bs where b: "attempts n run e w1 = (bs, w')" and rs: "rs = r # bs"
    using Suc.prems r by (auto split: prod.splits)
  from run_wp [of e w] r have "settles e complete (committed w) r w1" by (auto dest: wpD)
  then consider
      (same) "committed w1 = committed w" "\<forall>a. r = Inr a \<longrightarrow> replays (committed w) a"
    | (new) a where "changes (committed w) a (committed w1)" "\<forall>b. r = Inr b \<longrightarrow> b = a"
    by (cases r) (auto dest: complete_cases)
  then show ?case
  proof cases
    case same
    with Suc.IH [OF b] rs show ?thesis by (cases r) (auto dest: replays_unchanged)
  next
    case (new a)
    with attempts_after_change [OF _ b] rs show ?thesis by force
  qed
qed simp

end

end
