(* ===== verification/Schema.thy ===== *)
theory Schema
  imports Transactions
begin

text \<open>
  The PostgreSQL schema of \<open>migrations/postgres/\<close>: one record per table, with the columns the
  program reads or writes, and the database as the record of its tables. \<open>insert_*\<close> adds a row
  and checks what the migrations declare for it (PRIMARY KEY, UNIQUE, REFERENCES, CHECK, the
  range of an integer column); a violated constraint is the error of the statement. Timestamps
  are integers (nanoseconds of the epoch), JSONB columns are documents.
\<close>

record user_row =
  u_id :: string
  u_hash :: string
  u_name :: string
  u_balance :: int
  u_stations :: json
  u_categories :: json
  u_budget_min :: int
  u_budget_max :: int
  u_timezone :: string
  u_notify :: bool
  u_notify_start :: "string option"
  u_notify_end :: "string option"
  u_created :: int
  u_updated :: int

record station_row =
  st_id :: string
  st_name :: string
  st_line :: string

record offer_row =
  of_id :: string
  of_merchant :: string
  of_station :: string
  of_title :: string
  of_description :: string
  of_cost :: int
  of_starts :: int
  of_ends :: int
  of_active :: bool
  of_version :: int
  of_category :: string

record inventory_row =
  inv_offer :: string
  inv_quantity :: int
  inv_version :: int

record journey_row =
  j_id :: string
  j_user :: string
  j_station :: string
  j_line :: string
  j_position :: "string option"

record recommendation_row =
  rec_id :: string
  rec_journey :: string
  rec_offer :: string
  rec_score :: rat
  rec_reasons :: json
  rec_title :: "string option"
  rec_body :: "string option"
  rec_tone :: "string option"
  rec_source :: string
  rec_candidates :: json
  rec_latency :: int
  rec_created :: int

record redemption_row =
  rd_id :: string
  rd_user :: string
  rd_journey :: "string option"
  rd_offer :: string
  rd_key :: string
  rd_status :: string
  rd_cost :: int
  rd_code :: "string option"

record ledger_row =
  le_user :: string
  le_redemption :: "string option"
  le_delta :: int
  le_balance :: int
  le_reason :: string

record outbox_row =
  ob_id :: string
  ob_topic :: string
  ob_key :: string
  ob_payload :: json
  ob_occurred :: int
  ob_published :: "int option"
  ob_attempts :: int
  ob_error :: "string option"

record weight_row =
  w_user :: string
  w_category :: string
  w_weight :: rat
  w_clicks :: int
  w_dismisses :: int
  w_redemptions :: int

record subscription_row =
  sub_id :: string
  sub_user :: string
  sub_endpoint :: string
  sub_p256dh :: string
  sub_auth :: string
  sub_agent :: "string option"
  sub_active :: bool
  sub_created :: int

record delivery_row =
  dv_id :: string
  dv_subscription :: string
  dv_user :: string
  dv_journey :: string
  dv_recommendation :: string
  dv_status :: string
  dv_attempts :: int

record dismissal_row =
  dis_user :: string
  dis_journey :: string
  dis_recommendation :: string
  dis_offer :: string

record database =
  users :: "user_row list"
  stations :: "station_row list"
  offers :: "offer_row list"
  inventory :: "inventory_row list"
  journeys :: "journey_row list"
  recommendations :: "recommendation_row list"
  redemptions :: "redemption_row list"
  points_ledger :: "ledger_row list"
  outbox_events :: "outbox_row list"
  processed_events :: "(string \<times> string) list"
  preference_weights :: "weight_row list"
  subscriptions :: "subscription_row list"
  deliveries :: "delivery_row list"
  dismissals :: "dismissal_row list"

type_synonym 'a db_act = "(database, 'a) act"
type_synonym 'a db_stmt = "(database, 'a) stmt"
type_synonym store = "database world"

subsection \<open>Constraints\<close>

text \<open>The first check that fails is the error of the statement.\<close>

fun check_all :: "(bool \<times> string) list \<Rightarrow> gerr + unit" where
  "check_all [] = Inr ()"
| "check_all ((holds, name) # cs) = (if holds then check_all cs else Inl (Constraint name))"

lemma check_all_Inr [simp]: "check_all cs = Inr () \<longleftrightarrow> (\<forall>c\<in>set cs. fst c)"
  by (induction cs) (auto split: if_splits)

definition int32_range :: "int \<Rightarrow> bool" where
  "int32_range n \<longleftrightarrow> - (2 ^ 31) \<le> n \<and> n < 2 ^ 31"

definition constrained :: "(bool \<times> string) list \<Rightarrow> 'a \<Rightarrow> gerr + 'a" where
  "constrained cs a = (case check_all cs of Inl x \<Rightarrow> Inl x | Inr _ \<Rightarrow> Inr a)"

lemma constrained_Inr [simp]: "constrained cs a = Inr b \<longleftrightarrow> (\<forall>c\<in>set cs. fst c) \<and> b = a"
  using check_all_Inr [of cs]
  by (cases "check_all cs") (auto simp: constrained_def simp del: check_all_Inr)

lemma constrained_holds: "(\<forall>c\<in>set cs. fst c) \<Longrightarrow> constrained cs a = Inr a"
  by simp

definition user_exists :: "database \<Rightarrow> string \<Rightarrow> bool" where
  "user_exists d uid = exists_row (\<lambda>u. u_id u = uid) (users d)"

definition offer_exists :: "database \<Rightarrow> string \<Rightarrow> bool" where
  "offer_exists d oid = exists_row (\<lambda>x. of_id x = oid) (offers d)"

definition journey_exists :: "database \<Rightarrow> string \<Rightarrow> bool" where
  "journey_exists d jid = exists_row (\<lambda>j. j_id j = jid) (journeys d)"

definition station_exists :: "database \<Rightarrow> string \<Rightarrow> bool" where
  "station_exists d sid = exists_row (\<lambda>s. st_id s = sid) (stations d)"

definition recommendation_exists :: "database \<Rightarrow> string \<Rightarrow> bool" where
  "recommendation_exists d rid = exists_row (\<lambda>r. rec_id r = rid) (recommendations d)"

lemmas exists_defs = user_exists_def offer_exists_def journey_exists_def station_exists_def
  recommendation_exists_def

text \<open>A redemption that consumed its offer: the condition of the partial unique index.\<close>

definition counted :: "redemption_row \<Rightarrow> bool" where
  "counted r \<longleftrightarrow> rd_status r = ''succeeded'' \<or> rd_status r = ''verified''"

definition insert_redemption :: "redemption_row \<Rightarrow> database \<Rightarrow> gerr + database" where
  "insert_redemption r d = constrained
     [(\<not> exists_row (\<lambda>x. rd_id x = rd_id r) (redemptions d), ''redemptions_pkey''),
      (user_exists d (rd_user r), ''redemptions_user_id_fkey''),
      (case rd_journey r of None \<Rightarrow> True | Some j \<Rightarrow> journey_exists d j,
         ''redemptions_journey_id_fkey''),
      (offer_exists d (rd_offer r), ''redemptions_offer_id_fkey''),
      (rd_key r \<noteq> [], ''redemptions_idempotency_key_check''),
      (rd_status r \<in> {''pending'', ''succeeded'', ''rejected'', ''verified''},
         ''redemptions_status_check''),
      (rd_cost r \<ge> 0, ''redemptions_points_cost_check''),
      (case rd_code r of None \<Rightarrow> True
       | Some c \<Rightarrow> \<not> exists_row (\<lambda>x. rd_code x = Some c) (redemptions d),
         ''redemptions_merchant_verification_code_key''),
      (\<not> exists_row (\<lambda>x. rd_user x = rd_user r \<and> rd_key x = rd_key r) (redemptions d),
         ''redemptions_user_id_idempotency_key_key''),
      (counted r \<longrightarrow>
         \<not> exists_row (\<lambda>x. counted x \<and> rd_user x = rd_user r \<and> rd_offer x = rd_offer r)
              (redemptions d),
         ''redemptions_user_offer_once_idx'')]
     (d\<lparr>redemptions := redemptions d @ [r]\<rparr>)"

definition insert_ledger :: "ledger_row \<Rightarrow> database \<Rightarrow> gerr + database" where
  "insert_ledger l d = constrained
     [(user_exists d (le_user l), ''points_ledger_user_id_fkey''),
      (case le_redemption l of None \<Rightarrow> True
       | Some r \<Rightarrow> exists_row (\<lambda>x. rd_id x = r) (redemptions d),
         ''points_ledger_redemption_id_fkey''),
      (le_delta l \<noteq> 0, ''points_ledger_delta_check''),
      (le_balance l \<ge> 0, ''points_ledger_balance_after_check'')]
     (d\<lparr>points_ledger := points_ledger d @ [l]\<rparr>)"

definition insert_outbox :: "outbox_row \<Rightarrow> database \<Rightarrow> gerr + database" where
  "insert_outbox r d = constrained
     [(\<not> exists_row (\<lambda>x. ob_id x = ob_id r) (outbox_events d), ''outbox_events_pkey'')]
     (d\<lparr>outbox_events := outbox_events d @ [r]\<rparr>)"

definition insert_journey :: "journey_row \<Rightarrow> database \<Rightarrow> gerr + database" where
  "insert_journey j d = constrained
     [(\<not> journey_exists d (j_id j), ''journeys_pkey''),
      (user_exists d (j_user j), ''journeys_user_id_fkey''),
      (station_exists d (j_station j), ''journeys_station_id_fkey'')]
     (d\<lparr>journeys := journeys d @ [j]\<rparr>)"

subsection \<open>What a successful insert means\<close>

lemma insert_redemption_InrD:
  assumes "insert_redemption r d = Inr d'"
  shows "d' = d\<lparr>redemptions := redemptions d @ [r]\<rparr>"
    and "\<forall>x\<in>set (redemptions d). rd_id x \<noteq> rd_id r"
    and "\<And>c. rd_code r = Some c \<Longrightarrow> \<forall>x\<in>set (redemptions d). rd_code x \<noteq> Some c"
    and "user_exists d (rd_user r)" and "offer_exists d (rd_offer r)"
    and "0 \<le> rd_cost r" and "rd_key r \<noteq> []"
  using assms by (auto simp: insert_redemption_def)

lemma insert_ledger_InrD:
  assumes "insert_ledger l d = Inr d'"
  shows "d' = d\<lparr>points_ledger := points_ledger d @ [l]\<rparr>"
    and "le_delta l \<noteq> 0" and "0 \<le> le_balance l" and "user_exists d (le_user l)"
  using assms by (auto simp: insert_ledger_def)

lemma insert_outbox_InrD:
  assumes "insert_outbox r d = Inr d'"
  shows "d' = d\<lparr>outbox_events := outbox_events d @ [r]\<rparr>"
    and "\<forall>x\<in>set (outbox_events d). ob_id x \<noteq> ob_id r"
  using assms by (auto simp: insert_outbox_def)

lemma insert_journey_InrD:
  assumes "insert_journey j d = Inr d'"
  shows "d' = d\<lparr>journeys := journeys d @ [j]\<rparr>"
    and "\<forall>x\<in>set (journeys d). j_id x \<noteq> j_id j"
    and "user_exists d (j_user j)" and "station_exists d (j_station j)"
  using assms by (auto simp: insert_journey_def journey_exists_def)

end
