(* ===== verification/Feedback.thy ===== *)
theory Feedback
  imports Schema "HOL-Library.AList"
begin

text \<open>
  \<open>internal/recommendation/feedback.go\<close>: the category weights a user's clicks, dismissals and
  redemptions teach. The weight column is NUMERIC(8,4) with a CHECK that bounds it to [-5, 5].
\<close>

definition RecommendationClickedTopic :: string where
  "RecommendationClickedTopic = ''recommendation.clicked.v1''"

definition RecommendationDismissedTopic :: string where
  "RecommendationDismissedTopic = ''recommendation.dismissed.v1''"

definition RedemptionSucceededTopic :: string where
  "RedemptionSucceededTopic = ''redemption.succeeded.v1''"

lemmas feedback_topics =
  RecommendationClickedTopic_def RecommendationDismissedTopic_def RedemptionSucceededTopic_def

definition feedbackDelta :: "string \<Rightarrow> rat \<times> int \<times> int \<times> int" where
  "feedbackDelta eventType =
     (if eventType = RecommendationClickedTopic then (1/2, 1, 0, 0)
      else if eventType = RecommendationDismissedTopic then (-3/4, 0, 1, 0)
      else if eventType = RedemptionSucceededTopic then (3/2, 0, 0, 1)
      else (0, 0, 0, 0))"

definition feedback_subject :: "string \<Rightarrow> string \<Rightarrow> database \<Rightarrow> (string \<times> string) option" where
  "feedback_subject userIDHash offerID d =
     (case lookup_row (\<lambda>u. u_hash u = userIDHash) (users d) of
        None \<Rightarrow> None
      | Some u \<Rightarrow>
          (case lookup_row (\<lambda>x. of_id x = offerID) (offers d) of
             None \<Rightarrow> None
           | Some x \<Rightarrow> Some (u_id u, of_category x)))"

definition clamp_weight :: "rat \<Rightarrow> rat" where
  "clamp_weight x = min 5 (max (- 5) x)"

definition bump_weight :: "rat \<Rightarrow> int \<Rightarrow> int \<Rightarrow> int \<Rightarrow> weight_row \<Rightarrow> weight_row" where
  "bump_weight weight clicks dismisses redemps r =
     r\<lparr>w_weight := clamp_weight (w_weight r + weight),
       w_clicks := w_clicks r + clicks,
       w_dismisses := w_dismisses r + dismisses,
       w_redemptions := w_redemptions r + redemps\<rparr>"

definition weight_row_ok :: "weight_row \<Rightarrow> bool" where
  "weight_row_ok r \<longleftrightarrow> - 5 \<le> w_weight r \<and> w_weight r \<le> 5
     \<and> 0 \<le> w_clicks r \<and> int32_range (w_clicks r)
     \<and> 0 \<le> w_dismisses r \<and> int32_range (w_dismisses r)
     \<and> 0 \<le> w_redemptions r \<and> int32_range (w_redemptions r)"

text \<open>\<open>INSERT ... ON CONFLICT (user_id, category) DO UPDATE\<close>\<close>

definition merge_weight ::
  "string \<Rightarrow> string \<Rightarrow> rat \<times> int \<times> int \<times> int \<Rightarrow> weight_row list \<Rightarrow> weight_row list" where
  "merge_weight userID category delta rows =
     (case delta of (weight, clicks, dismisses, redemps) \<Rightarrow>
       let same = (\<lambda>r. w_user r = userID \<and> w_category r = category) in
       if exists_row same rows
       then update_where same (bump_weight weight clicks dismisses redemps) rows
       else rows @ [\<lparr>w_user = userID, w_category = category, w_weight = weight,
         w_clicks = clicks, w_dismisses = dismisses, w_redemptions = redemps\<rparr>])"

definition upsert_weight ::
  "string \<Rightarrow> string \<Rightarrow> rat \<times> int \<times> int \<times> int \<Rightarrow> int \<Rightarrow> database \<Rightarrow> gerr + database" where
  "upsert_weight userID category delta now d =
     (let rows = merge_weight userID category delta (preference_weights d)
      in constrained
           [(user_exists d userID, ''user_preference_weights_user_id_fkey''),
            (list_ex (\<lambda>c. c \<noteq> CHR '' '') category, ''user_preference_weights_category_check''),
            (\<forall>r\<in>set rows. w_user r = userID \<and> w_category r = category \<longrightarrow> weight_row_ok r,
               ''user_preference_weights_weight_check'')]
           (d\<lparr>preference_weights := rows\<rparr>))"

definition ApplyPreferenceFeedback :: "handle \<Rightarrow> string \<Rightarrow> string \<Rightarrow> string \<Rightarrow> unit db_act" where
  "ApplyPreferenceFeedback tx userIDHash offerID eventType =
     (if tx = NilHandle \<or> userIDHash = [] \<or> offerID = []
      then fail (Recommendation_err InvalidFeedbackEvent)
      else if feedbackDelta eventType = (0, 0, 0, 0) then ok ()
      else
        andThen (execTx (reads (\<lambda>t d. row_or_none (feedback_subject userIDHash offerID d))))
          (\<lambda>(userID, category).
            execTx (writes (upsert_weight userID category (feedbackDelta eventType)))))"

text \<open>\<open>LoadPreferenceWeights\<close>: the weights of a user by category, as the association list of
  the map; no database, no weights.\<close>

definition user_weights :: "string \<Rightarrow> database \<Rightarrow> (string \<times> rat) list" where
  "user_weights userIDHash d =
     (case lookup_row (\<lambda>u. u_hash u = userIDHash) (users d) of
        None \<Rightarrow> []
      | Some u \<Rightarrow> map (\<lambda>r. (w_category r, w_weight r))
          (filter (\<lambda>r. w_user r = u_id u) (preference_weights d)))"

definition LoadPreferenceWeights :: "handle \<Rightarrow> string \<Rightarrow> (string \<times> rat) list db_act" where
  "LoadPreferenceWeights db userIDHash =
     (if db = NilHandle \<or> userIDHash = [] then ok []
      else
        andThen (execDB (reads (\<lambda>t d. Inr (user_weights userIDHash d)))) (\<lambda>rows.
          ok (foldl (\<lambda>m (c, x). AList.update c x m) [] rows)))"

lemma upsert_weight_InrD:
  assumes "upsert_weight uid c delta now d = Inr d'"
  shows "d' = d\<lparr>preference_weights := merge_weight uid c delta (preference_weights d)\<rparr>"
    and "\<forall>r\<in>set (merge_weight uid c delta (preference_weights d)).
           w_user r = uid \<and> w_category r = c \<longrightarrow> weight_row_ok r"
    and "user_exists d uid"
  using assms by (auto simp: upsert_weight_def Let_def)

text \<open>Changing other columns of users does not change what a feedback event is about.\<close>

lemma feedback_subject_frame:
  assumes "offers d' = offers d" and "users d' = update_where P f (users d)"
    and "\<And>u. u_id (f u) = u_id u" and "\<And>u. u_hash (f u) = u_hash u"
  shows "feedback_subject h x d' = feedback_subject h x d"
  using assms by (auto simp: feedback_subject_def lookup_update_where split: option.splits)

lemma wp_ApplyPreferenceFeedback:
  assumes "\<And>x. Q (Inl x) w" and "\<And>x. Q (Inl x) (w\<lparr>calls := Suc (calls w)\<rparr>)"
    and "\<And>x. Q (Inl x) (w\<lparr>calls := Suc (Suc (calls w))\<rparr>)"
    and "feedbackDelta ty = (0, 0, 0, 0) \<Longrightarrow> Q (Inr ()) w"
    and "\<And>uid c d. feedback_subject h x (working w) = Some (uid, c) \<Longrightarrow>
           upsert_weight uid c (feedbackDelta ty) (tx_now w) (working w) = Inr d \<Longrightarrow>
           feedbackDelta ty \<noteq> (0, 0, 0, 0) \<Longrightarrow>
           Q (Inr ()) (w\<lparr>working := d, calls := Suc (Suc (calls w))\<rparr>)"
  shows "wp (ApplyPreferenceFeedback tx h x ty) e Q w"
  using assms by (auto simp: ApplyPreferenceFeedback_def intro!: wp_execTx)

lemma feedback_redeemed: "feedbackDelta RedemptionSucceededTopic = (3/2, 0, 0, 1)"
  by (simp add: feedbackDelta_def feedback_topics)

end
