(* ===== verification/Demo.thy ===== *)
theory Demo
  imports Schema
begin

text \<open>
  A small database on which the properties are evaluated: one user, one station, one paid and one
  free offer, one journey; and environments that hand out numbered identifiers.
\<close>

definition demo_hash :: string where
  "demo_hash = ''sha256:'' @ replicate 64 (CHR ''a'')"

definition demo_user :: user_row where
  "demo_user = \<lparr>u_id = ''u1'', u_hash = demo_hash, u_name = ''Demo'', u_balance = 60,
     u_stations = JArr [], u_categories = JArr [], u_budget_min = 0, u_budget_max = 100,
     u_timezone = ''Asia/Taipei'', u_notify = False, u_notify_start = None, u_notify_end = None,
     u_created = 0, u_updated = 0\<rparr>"

definition demo_station :: station_row where
  "demo_station = \<lparr>st_id = ''s1'', st_name = ''Main'', st_line = ''red''\<rparr>"

definition demo_offer :: "string \<Rightarrow> int \<Rightarrow> offer_row" where
  "demo_offer oid cost = \<lparr>of_id = oid, of_merchant = ''m1'', of_station = ''s1'',
     of_title = ''Coffee'', of_description = ''A cup'', of_cost = cost, of_starts = 0,
     of_ends = 1000, of_active = True, of_version = 1, of_category = ''coffee''\<rparr>"

definition demo_journey :: journey_row where
  "demo_journey = \<lparr>j_id = ''j1'', j_user = ''u1'', j_station = ''s1'', j_line = ''red'',
     j_position = None\<rparr>"

definition demo_db :: database where
  "demo_db = \<lparr>users = [demo_user], stations = [demo_station],
     offers = [demo_offer ''paid'' 40, demo_offer ''free'' 0],
     inventory = [\<lparr>inv_offer = ''paid'', inv_quantity = 2, inv_version = 1\<rparr>,
                  \<lparr>inv_offer = ''free'', inv_quantity = 5, inv_version = 1\<rparr>],
     journeys = [demo_journey], recommendations = [], redemptions = [],
     points_ledger = [\<lparr>le_user = ''u1'', le_redemption = None, le_delta = 60, le_balance = 60,
                       le_reason = ''demo-seed''\<rparr>],
     outbox_events = [], processed_events = [], preference_weights = [], subscriptions = [],
     deliveries = [], dismissals = []\<rparr>"

definition demo_world :: "'d \<Rightarrow> 'd world" where
  "demo_world d = \<lparr>committed = d, working = d, tx_now = 0, draws = 0, calls = 0, trace = []\<rparr>"

definition demo_uuid :: "nat \<Rightarrow> string" where
  "demo_uuid n = replicate (Suc n) (CHR ''x'')"

definition calm_env :: env where
  "calm_env = \<lparr>uuid_at = demo_uuid, clock_at = int, outage_at = (\<lambda>_. None)\<rparr>"

text \<open>The answer of call \<open>n\<close> gets lost.\<close>

definition lossy_env :: "nat \<Rightarrow> env" where
  "lossy_env n = \<lparr>uuid_at = demo_uuid, clock_at = int,
     outage_at = (\<lambda>i. if i = n then Some Lost else None)\<rparr>"

lemmas demo_defs = demo_user_def demo_station_def demo_offer_def demo_journey_def demo_db_def
  demo_world_def demo_hash_def

lemma calm_calm_env [simp]: "calm calm_env"
  by (simp add: calm_def calm_env_def)

end
