(* ===== verification/FeedbackTheorems.thy ===== *)
theory FeedbackTheorems
  imports Feedback Demo
begin

text \<open>The correctness statement of \<open>internal/recommendation/feedback.go\<close>.\<close>

text \<open>The weight of a category for a user; 0 as long as nothing was learned.\<close>

definition weight_of :: "string \<Rightarrow> string \<Rightarrow> weight_row list \<Rightarrow> rat" where
  "weight_of uid c rows = (case lookup_row (\<lambda>r. w_user r = uid \<and> w_category r = c) rows of
     None \<Rightarrow> 0 | Some r \<Rightarrow> w_weight r)"

definition weights_ok :: "weight_row list \<Rightarrow> bool" where
  "weights_ok rows \<longleftrightarrow> (\<forall>r\<in>set rows. weight_row_ok r) \<and> unique_by (\<lambda>r. (w_user r, w_category r)) rows"

lemma lookup_update_other:
  assumes "\<And>r. P r \<Longrightarrow> \<not> Q r" and "\<And>r. P r \<Longrightarrow> \<not> Q (f r)"
  shows "lookup_row Q (update_where P f rows) = lookup_row Q rows"
  using assms by (induction rows) (auto simp: lookup_row_def update_where_def)

lemma merge_weight_of:
  assumes "- 5 \<le> dw" and "dw \<le> 5"
  shows "weight_of u b (merge_weight uid c (dw, n, m, k) rows) =
    (if u = uid \<and> b = c then clamp_weight (weight_of uid c rows + dw) else weight_of u b rows)"
proof (cases "exists_row (\<lambda>r. w_user r = uid \<and> w_category r = c) rows")
  case here: True
  then have ex: "lookup_row (\<lambda>r. w_user r = uid \<and> w_category r = c) rows \<noteq> None"
    by (auto simp: lookup_row_None_iff)
  show ?thesis
  proof (cases "u = uid \<and> b = c")
    case True
    from ex obtain r where r: "lookup_row (\<lambda>r. w_user r = uid \<and> w_category r = c) rows = Some r" by auto
    then have "w_user r = uid" "w_category r = c" by (auto dest: lookup_row_SomeD)
    with r here show ?thesis
      unfolding True [THEN conjunct1] True [THEN conjunct2]
      by (simp add: weight_of_def merge_weight_def Let_def lookup_update_where bump_weight_def
          del: exists_row_iff)
  next
    case False
    then have "lookup_row (\<lambda>r. w_user r = u \<and> w_category r = b)
        (update_where (\<lambda>r. w_user r = uid \<and> w_category r = c) (bump_weight dw n m k) rows)
      = lookup_row (\<lambda>r. w_user r = u \<and> w_category r = b) rows"
      by (intro lookup_update_other) (auto simp: bump_weight_def)
    with False here show ?thesis
      by (auto simp: weight_of_def merge_weight_def Let_def simp del: exists_row_iff)
  qed
next
  case False
  then have none: "lookup_row (\<lambda>r. w_user r = uid \<and> w_category r = c) rows = None"
    by (auto simp: lookup_row_None_iff)
  have "clamp_weight dw = dw" using assms by (simp add: clamp_weight_def)
  with False none show ?thesis
    by (auto simp: weight_of_def merge_weight_def Let_def lookup_row_append lookup_row_Cons
        split: option.splits)
qed

lemma merge_weight_other:
  "r \<in> set (merge_weight uid c delta rows) \<Longrightarrow> w_user r = uid \<longrightarrow> w_category r \<noteq> c \<Longrightarrow> r \<in> set rows"
  by (cases delta)
    (auto simp: merge_weight_def Let_def bump_weight_def in_update_where split: if_splits)

lemma merge_weights_ok:
  assumes "weights_ok rows"
    and "\<forall>r\<in>set (merge_weight uid c delta rows). w_user r = uid \<and> w_category r = c \<longrightarrow> weight_row_ok r"
  shows "weights_ok (merge_weight uid c delta rows)"
proof -
  have "weight_row_ok r" if "r \<in> set (merge_weight uid c delta rows)" for r
    using assms that merge_weight_other [OF that] by (auto simp: weights_ok_def)
  moreover have "unique_by (\<lambda>r. (w_user r, w_category r)) (merge_weight uid c delta rows)"
    using assms(1) by (cases delta)
      (auto simp: weights_ok_def merge_weight_def Let_def bump_weight_def unique_by_update_where)
  ultimately show ?thesis by (simp add: weights_ok_def)
qed

lemma feedbackDelta_bounds:
  "feedbackDelta ty = (dw, n, m, k) \<Longrightarrow> - 5 \<le> dw \<and> dw \<le> 5"
  by (auto simp: feedbackDelta_def split: if_splits)

text \<open>
  C31: a feedback event moves exactly one weight, by a bounded step. When \<open>ApplyPreferenceFeedback\<close>
  succeeds for an event that carries a signal, the weight of the offer's category for the event's
  user becomes the old one plus the event's step, clamped to [-5, 5] (an unknown weight counts as 0),
  and every other weight stays; every row stays within the bounds of its columns, one row per user
  and category.
\<close>

theorem feedback_moves_one_weight:
  assumes "ApplyPreferenceFeedback tx h x ty e w = (Inr (), w')"
    and "feedbackDelta ty = (dw, n, m, k)" and "(dw, n, m, k) \<noteq> (0, 0, 0, 0)"
    and "weights_ok (preference_weights (working w))"
  shows "weights_ok (preference_weights (working w')) \<and> committed w' = committed w
    \<and> (\<exists>uid c. feedback_subject h x (working w) = Some (uid, c)
        \<and> (\<forall>u b. weight_of u b (preference_weights (working w')) =
             (if u = uid \<and> b = c then clamp_weight (weight_of uid c (preference_weights (working w)) + dw)
              else weight_of u b (preference_weights (working w)))))"
proof -
  have "wp (ApplyPreferenceFeedback tx h x ty) e (\<lambda>r w'. \<forall>v. r = Inr v \<longrightarrow>
      committed w' = committed w \<and> (\<exists>uid c. feedback_subject h x (working w) = Some (uid, c)
        \<and> upsert_weight uid c (dw, n, m, k) (tx_now w) (working w) = Inr (working w'))) w"
    using assms(2,3) by (intro wp_ApplyPreferenceFeedback) auto
  from wpD [OF this assms(1)] obtain uid c where
    c: "committed w' = committed w" and s: "feedback_subject h x (working w) = Some (uid, c)" and
    u: "upsert_weight uid c (dw, n, m, k) (tx_now w) (working w) = Inr (working w')"
    by auto
  have rows: "preference_weights (working w')
      = merge_weight uid c (dw, n, m, k) (preference_weights (working w))"
    using upsert_weight_InrD(1) [OF u] by simp
  show ?thesis
    using c s merge_weights_ok [OF assms(4) upsert_weight_InrD(2) [OF u]]
      merge_weight_of feedbackDelta_bounds [OF assms(2)]
    unfolding rows by blast
qed

theorem feedback_moves_one_weight_witness:
  "weight_of ''u1'' ''coffee'' (preference_weights (working (snd (ApplyPreferenceFeedback Handle demo_hash
     ''paid'' RecommendationDismissedTopic calm_env (demo_world demo_db))))) = - (3/4)"
proof -
  have run: "fst (ApplyPreferenceFeedback Handle demo_hash ''paid'' RecommendationDismissedTopic calm_env
      (demo_world demo_db)) = Inr ()"
    by code_simp
  have "feedbackDelta RecommendationDismissedTopic = (-3/4, 0, 1, 0)"
    by (simp add: feedbackDelta_def feedback_topics)
  moreover have "feedback_subject demo_hash ''paid'' (working (demo_world demo_db)) = Some (''u1'', ''coffee'')"
    by code_simp
  ultimately show ?thesis
    using feedback_moves_one_weight [of Handle demo_hash "''paid''" RecommendationDismissedTopic calm_env
        "demo_world demo_db" "snd (ApplyPreferenceFeedback Handle demo_hash ''paid''
          RecommendationDismissedTopic calm_env (demo_world demo_db))"] run
    by (auto simp: prod_eq_iff weights_ok_def demo_world_def demo_db_def weight_of_def clamp_weight_def)
qed

end
