(* ===== verification/Text.thy ===== *)
theory Text
  imports Errors
begin

text \<open>
  Go strings: byte lists, read as UTF-8 where the code ranges over runes. \<open>rune_at\<close> is
  \<open>utf8.DecodeRuneInString\<close>, with the replacement character and width 1 for a malformed byte;
  \<open>utf8_encode\<close> is \<open>string(rune)\<close>; \<open>trim_space\<close> is \<open>strings.TrimSpace\<close> (on valid UTF-8, where decoding
  from the end finds the same runes as decoding from the start).
\<close>

type_synonym rune = int

abbreviation byte :: "char \<Rightarrow> int" where
  "byte \<equiv> of_char"

definition continuation :: "int \<Rightarrow> bool" where
  "continuation b \<longleftrightarrow> 0x80 \<le> b \<and> b \<le> 0xBF"

text \<open>The range the second byte of a sequence must be in, by the first.\<close>

definition second_ok :: "int \<Rightarrow> int \<Rightarrow> bool" where
  "second_ok b0 b1 \<longleftrightarrow> continuation b1
     \<and> (b0 = 0xE0 \<longrightarrow> 0xA0 \<le> b1) \<and> (b0 = 0xED \<longrightarrow> b1 \<le> 0x9F)
     \<and> (b0 = 0xF0 \<longrightarrow> 0x90 \<le> b1) \<and> (b0 = 0xF4 \<longrightarrow> b1 \<le> 0x8F)"

definition rune_error :: rune where "rune_error = 0xFFFD"

fun rune_at :: "int list \<Rightarrow> rune \<times> nat" where
  "rune_at [] = (rune_error, 0)"
| "rune_at (b0 # bs) =
     (if b0 < 0x80 then (b0, 1)
      else if 0xC2 \<le> b0 \<and> b0 \<le> 0xDF then
        (case bs of
           b1 # _ \<Rightarrow> (if continuation b1 then ((b0 - 0xC0) * 64 + (b1 - 0x80), 2) else (rune_error, 1))
         | [] \<Rightarrow> (rune_error, 1))
      else if 0xE0 \<le> b0 \<and> b0 \<le> 0xEF then
        (case bs of
           b1 # b2 # _ \<Rightarrow>
             (if second_ok b0 b1 \<and> continuation b2
              then ((b0 - 0xE0) * 4096 + (b1 - 0x80) * 64 + (b2 - 0x80), 3) else (rune_error, 1))
         | _ \<Rightarrow> (rune_error, 1))
      else if 0xF0 \<le> b0 \<and> b0 \<le> 0xF4 then
        (case bs of
           b1 # b2 # b3 # _ \<Rightarrow>
             (if second_ok b0 b1 \<and> continuation b2 \<and> continuation b3
              then ((b0 - 0xF0) * 262144 + (b1 - 0x80) * 4096 + (b2 - 0x80) * 64 + (b3 - 0x80), 4)
              else (rune_error, 1))
         | _ \<Rightarrow> (rune_error, 1))
      else (rune_error, 1))"

lemma rune_at_width: "b \<noteq> [] \<Longrightarrow> 0 < snd (rune_at b)"
  by (cases b) (auto split: list.split)

text \<open>The runes of a string, each with its bytes.\<close>

function rune_chunks :: "string \<Rightarrow> (rune \<times> string) list" where
  "rune_chunks s =
     (if s = [] then []
      else let (r, n) = rune_at (map byte (take 4 s)) in (r, take n s) # rune_chunks (drop n s))"
  by pat_completeness auto
termination
proof (relation "measure length")
  fix s :: string and x r n
  assume "s \<noteq> []" and "x = rune_at (map byte (take 4 s))" and "(r, n) = x"
  then have "0 < n" using rune_at_width [of "map byte (take 4 s)"] by (metis map_is_Nil_conv snd_conv take_eq_Nil zero_neq_numeral)
  with \<open>s \<noteq> []\<close> show "(drop n s, s) \<in> measure length" by simp
qed simp

declare rune_chunks.simps [simp del]

definition runes :: "string \<Rightarrow> rune list" where
  "runes s = map fst (rune_chunks s)"

definition utf8_encode :: "rune \<Rightarrow> string" where
  "utf8_encode r = map char_of
     (if r < 0x80 then [r]
      else if r < 0x800 then [0xC0 + r div 64, 0x80 + r mod 64]
      else if (0xD800 \<le> r \<and> r \<le> 0xDFFF) \<or> 0x10FFFF < r then [0xEF, 0xBF, 0xBD]
      else if r < 0x10000 then [0xE0 + r div 4096, 0x80 + r div 64 mod 64, 0x80 + r mod 64]
      else [0xF0 + r div 262144, 0x80 + r div 4096 mod 64, 0x80 + r div 64 mod 64, 0x80 + r mod 64])"

text \<open>\<open>string(runes)\<close>\<close>

definition of_runes :: "rune list \<Rightarrow> string" where
  "of_runes rs = concat (map utf8_encode rs)"

subsection \<open>\<open>unicode.IsSpace\<close> and \<open>strings.TrimSpace\<close>\<close>

definition is_space :: "rune \<Rightarrow> bool" where
  "is_space r \<longleftrightarrow> (9 \<le> r \<and> r \<le> 13) \<or> r = 0x20 \<or> r = 0x85 \<or> r = 0xA0 \<or> r = 0x1680
     \<or> (0x2000 \<le> r \<and> r \<le> 0x200A) \<or> r = 0x2028 \<or> r = 0x2029 \<or> r = 0x202F \<or> r = 0x205F \<or> r = 0x3000"

definition trim_chunks :: "(rune \<times> string) list \<Rightarrow> (rune \<times> string) list" where
  "trim_chunks cs =
     rev (dropWhile (is_space \<circ> fst) (rev (dropWhile (is_space \<circ> fst) cs)))"

definition trim_space :: "string \<Rightarrow> string" where
  "trim_space s = concat (map snd (trim_chunks (rune_chunks s)))"

definition has_prefix :: "string \<Rightarrow> string \<Rightarrow> bool" where
  "has_prefix p s \<longleftrightarrow> take (length p) s = p"

fun contains :: "string \<Rightarrow> string \<Rightarrow> bool" where
  "contains sub [] = (sub = [])"
| "contains sub (c # s) = (has_prefix sub (c # s) \<or> contains sub s)"

text \<open>A literal that is not ASCII, by its bytes.\<close>

definition text_of_bytes :: "int list \<Rightarrow> string" where
  "text_of_bytes bs = map char_of bs"

subsection \<open>Case mapping\<close>

text \<open>
  \<open>strings.ToLower\<close> and \<open>strings.ToUpper\<close>. Beyond ASCII the mapping is a table of the Unicode
  standard, and a parameter here; a rune that is not valid becomes the replacement character.
\<close>

type_synonym case_table = "rune \<Rightarrow> rune"

definition lower_rune :: "case_table \<Rightarrow> rune \<Rightarrow> rune" where
  "lower_rune t r = (if r < 128 then (if 65 \<le> r \<and> r \<le> 90 then r + 32 else r) else t r)"

definition upper_rune :: "case_table \<Rightarrow> rune \<Rightarrow> rune" where
  "upper_rune t r = (if r < 128 then (if 97 \<le> r \<and> r \<le> 122 then r - 32 else r) else t r)"

definition to_lower :: "case_table \<Rightarrow> string \<Rightarrow> string" where
  "to_lower t s = of_runes (map (lower_rune t) (runes s))"

definition to_upper :: "case_table \<Rightarrow> string \<Rightarrow> string" where
  "to_upper t s = of_runes (map (upper_rune t) (runes s))"

subsection \<open>Decimal numbers\<close>

text \<open>\<open>strconv.FormatInt(n, 10)\<close>\<close>

fun decimal :: "nat \<Rightarrow> string" where
  "decimal n = (if n < 10 then [char_of (48 + n)] else decimal (n div 10) @ [char_of (48 + n mod 10)])"

declare decimal.simps [simp del]

definition decimal_int :: "int \<Rightarrow> string" where
  "decimal_int n = (if n < 0 then CHR ''-'' # decimal (nat (- n)) else decimal (nat n))"

fun decimal_value :: "nat \<Rightarrow> string \<Rightarrow> nat" where
  "decimal_value acc [] = acc"
| "decimal_value acc (c # s) = decimal_value (acc * 10 + (of_char c - 48)) s"

subsection \<open>Facts\<close>

lemma decimal_value_append:
  "decimal_value acc (s @ [c]) = decimal_value acc s * 10 + (of_char c - 48)"
  by (induction s arbitrary: acc) auto

lemma of_char_digit: "n < 10 \<Longrightarrow> of_char (char_of (48 + n)) = (48 + n :: nat)"
  by simp

lemma decimal_value_decimal: "decimal_value 0 (decimal n) = n"
proof (induction n rule: decimal.induct)
  case (1 n)
  show ?case
  proof (cases "n < 10")
    case True
    then show ?thesis by (subst decimal.simps) simp
  next
    case False
    then have "decimal_value 0 (decimal (n div 10)) = n div 10" using 1 by simp
    with False show ?thesis
      by (subst decimal.simps) (simp add: decimal_value_append)
  qed
qed

lemma decimal_inj: "decimal n = decimal m \<Longrightarrow> n = m"
  by (metis decimal_value_decimal)

lemma decimal_digits: "c \<in> set (decimal n) \<Longrightarrow> CHR ''0'' \<le> c \<and> c \<le> CHR ''9''"
proof (induction n arbitrary: c rule: decimal.induct)
  case (1 n)
  have d: "CHR ''0'' \<le> char_of (48 + m) \<and> char_of (48 + m) \<le> CHR ''9''" if "m < 10" for m :: nat
    using that by (simp add: less_eq_char_def)
  show ?case
  proof (cases "n < 10")
    case True
    with "1.prems" d [OF True] show ?thesis by (subst (asm) decimal.simps) auto
  next
    case False
    with "1.prems" have "c \<in> set (decimal (n div 10)) \<or> c = char_of (48 + n mod 10)"
      by (subst (asm) decimal.simps) auto
    with "1.IH" [OF False] d [of "n mod 10"] show ?thesis by auto
  qed
qed

subsection \<open>\<open>strings.Join\<close>, and \<open>strings.TrimRight(_, "/")\<close>\<close>

fun join_with :: "string \<Rightarrow> string list \<Rightarrow> string" where
  "join_with sep [] = []"
| "join_with sep [x] = x"
| "join_with sep (x # xs) = x @ sep @ join_with sep xs"

definition trim_right_slashes :: "string \<Rightarrow> string" where
  "trim_right_slashes s = rev (dropWhile (\<lambda>c. c = CHR ''/'') (rev s))"

lemma rune_chunks_Nil [simp]: "rune_chunks [] = []"
  by (simp add: rune_chunks.simps)

lemma rune_chunks_ascii:
  "byte c < 0x80 \<Longrightarrow> rune_chunks (c # s) = (byte c, [c]) # rune_chunks s"
  by (subst rune_chunks.simps) simp

lemma concat_rune_chunks [simp]: "concat (map snd (rune_chunks s)) = s"
proof (induction s rule: rune_chunks.induct)
  case (1 s)
  show ?case
  proof (cases "s = []")
    case False
    obtain r n where rn: "rune_at (map byte (take 4 s)) = (r, n)" by fastforce
    have "concat (map snd (rune_chunks (drop n s))) = drop n s"
      using 1 [OF False refl rn [symmetric]] .
    with False rn show ?thesis by (subst rune_chunks.simps) simp
  qed simp
qed

lemma trim_space_Nil [simp]: "trim_space [] = []"
  by (simp add: trim_space_def trim_chunks_def)

lemma trim_chunks_id:
  assumes "cs = [] \<or> (\<not> is_space (fst (hd cs)) \<and> \<not> is_space (fst (last cs)))"
  shows "trim_chunks cs = cs"
proof (cases cs)
  case (Cons c cs')
  with assms have "dropWhile (is_space \<circ> fst) cs = cs" by simp
  moreover have "dropWhile (is_space \<circ> fst) (rev cs) = rev cs"
    using assms Cons unfolding dropWhile_eq_self_iff hd_rev comp_def by blast
  ultimately show ?thesis by (simp add: trim_chunks_def)
qed (simp add: trim_chunks_def)

end
