(* ===== verification/Mobility.thy ===== *)
theory Mobility
  imports Text Json "HOL-Library.Word"
begin

text \<open>
  \<open>internal/mobility/\<close>: what a beacon observation says about where a traveller is. The resolver
  asks, in this order, its own cache, Redis, the provider, the fixtures and the fallback station.
  The provider's HTTP endpoint, Redis and the case tables of Unicode are parameters; the resolver's
  cache and the content of Redis are explicit state. 64-bit integers are words.
\<close>

record observation =
  ob_uuid :: string
  ob_major :: "64 word"
  ob_minor :: "64 word"
  ob_power :: int

record provider_response =
  pv_bid :: string
  pv_sid :: string
  pv_lid :: string
  pv_posino :: string
  pv_position :: string
  pv_stationid :: string
  pv_name :: string
  pv_name_legacy :: string

record mob_context =
  mc_station :: string
  mc_line :: string
  mc_position :: string
  mc_name :: string
  mc_source :: string
  mc_confidence :: rat
  mc_near_exit :: bool

definition no_context :: mob_context where
  "no_context = \<lparr>mc_station = [], mc_line = [], mc_position = [], mc_name = [], mc_source = [],
     mc_confidence = 0, mc_near_exit = False\<rparr>"

record station_mapping =
  sm_station :: string
  sm_line :: string
  sm_name :: string

type_synonym provider = "observation \<Rightarrow> gerr + provider_response"

subsection \<open>\<open>formatInt\<close>: signed 64-bit decimal printing\<close>

text \<open>The loop runs while the value is positive as a signed number; there the unsigned quotient
  and remainder are the signed ones.\<close>

function format_loop :: "64 word \<Rightarrow> string \<Rightarrow> string" where
  "format_loop value digits =
     (if 0 <s value
      then format_loop (value div 10) (char_of (48 + unat (value mod 10)) # digits)
      else digits)"
  by pat_completeness auto
termination
proof (relation "measure (\<lambda>(v, _). unat v)")
  fix v :: "64 word" and digits :: string
  assume "0 <s v"
  then have "v \<noteq> 0" by auto
  then have "unat v div 10 < unat v" by (simp add: unat_gt_0)
  then show "((v div 10, char_of (48 + unat (v mod 10)) # digits), (v, digits))
      \<in> measure (\<lambda>(v, _). unat v)"
    by (simp add: unat_div)
qed simp

declare format_loop.simps [simp del]

definition formatInt :: "64 word \<Rightarrow> string" where
  "formatInt value =
     (if value = 0 then ''0''
      else if value <s 0 then CHR ''-'' # format_loop (- value) []
      else format_loop value [])"

text \<open>
  The same with the buffer of the code, 20 bytes filled from the end: \<open>i\<close> is the index of the last
  byte written. The loop ends when it ends, and an index out of the buffer is a panic; both ways of
  not returning are \<open>None\<close>.
\<close>

partial_function (option) fill_digits :: "64 word \<Rightarrow> nat \<Rightarrow> string \<Rightarrow> (nat \<times> string) option" where
  "fill_digits value i digits =
     (if 0 <s value
      then (case i of
              0 \<Rightarrow> None
            | Suc j \<Rightarrow> fill_digits (value div 10) j (digits[j := char_of (48 + unat (value mod 10))]))
      else Some (i, digits))"

definition formatInt_buffer :: "64 word \<Rightarrow> string option" where
  "formatInt_buffer value =
     (if value = 0 then Some ''0''
      else
        (case fill_digits (if value <s 0 then - value else value) 20 (replicate 20 (CHR 0x00)) of
           None \<Rightarrow> None
         | Some (i, digits) \<Rightarrow>
             if value <s 0
             then (case i of 0 \<Rightarrow> None | Suc j \<Rightarrow> Some (drop j (digits[j := CHR ''-''])))
             else Some (drop i digits)))"

definition observationKey :: "case_table \<Rightarrow> observation \<Rightarrow> string" where
  "observationKey lo ob =
     to_lower lo (trim_space (ob_uuid ob)) @ '':'' @ formatInt (ob_major ob) @ '':'' @ formatInt (ob_minor ob)"

definition redisCacheKey :: "string \<Rightarrow> string" where
  "redisCacheKey key = ''mobility:beacon:'' @ key"

subsection \<open>Contexts in Redis\<close>

definition context_json :: "mob_context \<Rightarrow> json" where
  "context_json c = JObj
     [(''station_id'', JStr (mc_station c)),
      (''line_id'', JStr (mc_line c)),
      (''position_id'', JStr (mc_position c)),
      (''station_name'', JStr (mc_name c)),
      (''source'', JStr (mc_source c)),
      (''confidence'', json_number (mc_confidence c)),
      (''near_exit'', JBool (mc_near_exit c))]"

definition decode_context :: "(string \<times> json) list \<Rightarrow> mob_context \<Rightarrow> gerr + mob_context" where
  "decode_context kvs c =
     bind_result (decode_field assign_string ''station_id'' kvs (mc_station c)) (\<lambda>s.
     bind_result (decode_field assign_string ''line_id'' kvs (mc_line c)) (\<lambda>l.
     bind_result (decode_field assign_string ''position_id'' kvs (mc_position c)) (\<lambda>p.
     bind_result (decode_field assign_string ''station_name'' kvs (mc_name c)) (\<lambda>n.
     bind_result (decode_field assign_string ''source'' kvs (mc_source c)) (\<lambda>src.
     bind_result (decode_field assign_float ''confidence'' kvs (mc_confidence c)) (\<lambda>q.
     bind_result (decode_field assign_bool ''near_exit'' kvs (mc_near_exit c)) (\<lambda>b.
     Inr \<lparr>mc_station = s, mc_line = l, mc_position = p, mc_name = n, mc_source = src,
          mc_confidence = q, mc_near_exit = b\<rparr>)))))))"

subsection \<open>The resolver\<close>

record resolver =
  rv_provider :: "provider option"
  rv_mappings :: "string \<rightharpoonup> station_mapping"
  rv_fixtures :: "string \<rightharpoonup> mob_context"
  rv_fallback :: mob_context
  rv_redis :: bool
  rv_cache :: "string \<rightharpoonup> mob_context"

text \<open>
  Redis: what it holds, and whether this call's GET and SET get through. An entry whose time to
  live is over is an entry that is no longer held.
\<close>

record redis =
  rd_entries :: "string \<rightharpoonup> raw"
  rd_get_up :: bool
  rd_set_up :: bool

definition NewResolver ::
  "provider option \<Rightarrow> (string \<rightharpoonup> station_mapping) \<Rightarrow> (string \<rightharpoonup> mob_context) \<Rightarrow> mob_context
     \<Rightarrow> bool \<Rightarrow> resolver" where
  "NewResolver p ms fs fb with_redis =
     \<lparr>rv_provider = p, rv_mappings = ms, rv_fixtures = fs, rv_fallback = fb,
      rv_redis = with_redis, rv_cache = Map.empty\<rparr>"

definition loadRedis :: "resolver \<Rightarrow> redis \<Rightarrow> string \<Rightarrow> mob_context option" where
  "loadRedis r store key =
     (if \<not> rv_redis r \<or> \<not> rd_get_up store then None
      else (case rd_entries store (redisCacheKey key) of
              None \<Rightarrow> None
            | Some encoded \<Rightarrow>
                (case unmarshal (assign_struct decode_context) encoded no_context of
                   Inl e \<Rightarrow> None
                 | Inr c \<Rightarrow> (if mc_station c = [] then None else Some c))))"

definition storeLocal :: "string \<Rightarrow> mob_context \<Rightarrow> resolver \<Rightarrow> resolver" where
  "storeLocal key c r = r\<lparr>rv_cache := (rv_cache r)(key \<mapsto> c)\<rparr>"

definition store_context ::
  "string \<Rightarrow> mob_context \<Rightarrow> resolver \<Rightarrow> redis \<Rightarrow> resolver \<times> redis" where
  "store_context key c r store =
     (storeLocal key c r,
      if \<not> rv_redis r \<or> \<not> rd_set_up store then store
      else store\<lparr>rd_entries := (rd_entries store)(redisCacheKey key \<mapsto> Raw (context_json c))\<rparr>)"

definition exit_words :: "string list" where
  "exit_words = [text_of_bytes [0xE5, 0x87, 0xBA, 0xE5, 0x8F, 0xA3], text_of_bytes [0xE5, 0x87,
    0xBA, 0xE7, 0xAB, 0x99]]"

definition mapping_of ::
  "resolver \<Rightarrow> string \<Rightarrow> string \<Rightarrow> provider_response \<Rightarrow> gerr + station_mapping" where
  "mapping_of r sid lid resp =
     (case rv_mappings r (sid @ ''|'' @ lid) of
        Some m \<Rightarrow> Inr m
      | None \<Rightarrow>
          let name0 = trim_space (pv_name resp);
              name = (if name0 = [] then trim_space (pv_name_legacy resp) else name0) in
          if sid = [] \<or> lid = [] \<or> name = [] then Inl (Mobility_err UnmappedBeacon)
          else Inr \<lparr>sm_station = sid, sm_line = lid, sm_name = name\<rparr>)"

definition normalize ::
  "case_table \<Rightarrow> case_table \<Rightarrow> resolver \<Rightarrow> provider_response \<Rightarrow> string \<Rightarrow> gerr + mob_context" where
  "normalize up lo r resp source =
     bind_result (mapping_of r (to_upper up (trim_space (pv_sid resp)))
         (to_upper up (trim_space (pv_lid resp))) resp) (\<lambda>m.
     if sm_station m = [] then Inl (Mobility_err UnmappedBeacon)
     else
       let position0 = trim_space (pv_posino resp);
           position = (if position0 = [] then trim_space (pv_position resp) else position0);
           nearExit = (contains ''exit'' (to_lower lo position)
                       \<or> list_ex (\<lambda>x. contains x position) exit_words) in
       Inr \<lparr>mc_station = sm_station m, mc_line = sm_line m, mc_position = position,
            mc_name = sm_name m, mc_source = source, mc_confidence = 19/20,
            mc_near_exit = nearExit\<rparr>)"

text \<open>The sources after the caches: the provider, whose answer is kept, then the fixed ones.\<close>

definition fixed_context :: "resolver \<Rightarrow> string \<Rightarrow> gerr + mob_context" where
  "fixed_context r key =
     (case rv_fixtures r key of
        Some c \<Rightarrow> Inr (c\<lparr>mc_source := ''fixture'',
            mc_confidence := (if mc_confidence c = 0 then 3/4 else mc_confidence c)\<rparr>)
      | None \<Rightarrow>
          (if mc_station (rv_fallback r) \<noteq> []
           then Inr ((rv_fallback r)\<lparr>mc_source := ''station_fixture'',
             mc_confidence := (if mc_confidence (rv_fallback r) = 0 then 1/2
                               else mc_confidence (rv_fallback r))\<rparr>)
           else Inl (Mobility_err BeaconUnavailable)))"

definition ask_provider ::
  "case_table \<Rightarrow> case_table \<Rightarrow> resolver \<Rightarrow> observation \<Rightarrow> mob_context option" where
  "ask_provider up lo r ob =
     (case rv_provider r of
        None \<Rightarrow> None
      | Some p \<Rightarrow>
          (case p ob of
             Inl e \<Rightarrow> None
           | Inr resp \<Rightarrow> (case normalize up lo r resp ''provider'' of Inl e \<Rightarrow> None | Inr c \<Rightarrow> Some c)))"

definition resolver_Resolve ::
  "case_table \<Rightarrow> case_table \<Rightarrow> resolver option \<Rightarrow> redis \<Rightarrow> observation
     \<Rightarrow> (gerr + mob_context) \<times> resolver option \<times> redis" where
  "resolver_Resolve up lo rv store ob =
     (case rv of
        None \<Rightarrow> (Inl (Mobility_err InvalidObservation), rv, store)
      | Some r \<Rightarrow>
          (if trim_space (ob_uuid ob) = [] \<or> ob_major ob <s 0 \<or> ob_minor ob <s 0
           then (Inl (Mobility_err InvalidObservation), rv, store)
           else
             let key = observationKey lo ob in
             (case rv_cache r key of
                Some c \<Rightarrow> (Inr (c\<lparr>mc_source := ''cache''\<rparr>), rv, store)
              | None \<Rightarrow>
                  (case loadRedis r store key of
                     Some c \<Rightarrow> (Inr (c\<lparr>mc_source := ''cache''\<rparr>), Some (storeLocal key c r), store)
                   | None \<Rightarrow>
                       (case ask_provider up lo r ob of
                          Some c \<Rightarrow>
                            (case store_context key c r store of
                               (r', store') \<Rightarrow> (Inr c, Some r', store'))
                        | None \<Rightarrow> (fixed_context r key, rv, store))))))"

subsection \<open>The service and its HTTP client\<close>

record mobility_service =
  ms_resolver :: "resolver option"

definition mobility_error_text :: "gerr \<Rightarrow> string" where
  "mobility_error_text e =
     (if e = Mobility_err InvalidObservation then ''invalid beacon observation''
      else if e = Mobility_err BeaconUnavailable then ''beacon context unavailable''
      else if e = Mobility_err UnmappedBeacon then ''beacon station is unmapped''
      else ''beacon provider unavailable'')"

definition ResolveBeacon ::
  "case_table \<Rightarrow> case_table \<Rightarrow> mobility_service option \<Rightarrow> redis \<Rightarrow> observation option
     \<Rightarrow> (gerr + mob_context) \<times> mobility_service option \<times> redis" where
  "ResolveBeacon up lo s store request =
     (case (s, request) of
        (Some sv, Some ob) \<Rightarrow>
          (case ms_resolver sv of
             None \<Rightarrow> (Inl (ErrorInvalidRequest ''beacon resolver is unavailable''), s, store)
           | Some r \<Rightarrow>
               (case resolver_Resolve up lo (Some r) store ob of
                  (Inl e, rv, store') \<Rightarrow>
                    (Inl (ErrorInvalidRequest (mobility_error_text e)), Some (sv\<lparr>ms_resolver := rv\<rparr>), store')
                | (Inr c, rv, store') \<Rightarrow> (Inr c, Some (sv\<lparr>ms_resolver := rv\<rparr>), store')))
      | _ \<Rightarrow> (Inl (ErrorInvalidRequest ''beacon resolver is unavailable''), s, store))"

text \<open>
  The client of the service: \<open>transport\<close> is what the call answers, \<open>Inr None\<close> a response without
  a context. Everything but a context with a station is the one error the callers know.
\<close>

definition http_client_Resolve ::
  "(observation \<Rightarrow> gerr + mob_context option) option \<Rightarrow> observation \<Rightarrow> gerr + mob_context" where
  "http_client_Resolve transport ob =
     (case transport of
        None \<Rightarrow> Inl (Mobility_err BeaconUnavailable)
      | Some send \<Rightarrow>
          (case send ob of
             Inr (Some c) \<Rightarrow> (if mc_station c = [] then Inl (Mobility_err BeaconUnavailable) else Inr c)
           | _ \<Rightarrow> Inl (Mobility_err BeaconUnavailable)))"

subsection \<open>The HTTP provider\<close>

record http_provider =
  hp_endpoint :: string
  hp_username :: string
  hp_password :: string

definition NewHTTPProvider :: "string \<Rightarrow> string \<Rightarrow> string \<Rightarrow> http_provider" where
  "NewHTTPProvider endpoint username password =
     \<lparr>hp_endpoint = trim_space endpoint, hp_username = username, hp_password = password\<rparr>"

definition provider_request :: "http_provider \<Rightarrow> observation \<Rightarrow> json" where
  "provider_request p ob = JObj
     [(''username'', JStr (hp_username p)),
      (''password'', JStr (hp_password p)),
      (''beacon'', JObj
        [(''UUID'', JStr (ob_uuid ob)),
         (''MAJOR'', JStr (decimal_int (sint (ob_major ob)))),
         (''MINOR'', JStr (decimal_int (sint (ob_minor ob)))),
         (''POWER'', JStr (decimal_int (ob_power ob)))])]"

definition empty_response :: provider_response where
  "empty_response = \<lparr>pv_bid = [], pv_sid = [], pv_lid = [], pv_posino = [], pv_position = [],
     pv_stationid = [], pv_name = [], pv_name_legacy = []\<rparr>"

definition decode_response ::
  "(string \<times> json) list \<Rightarrow> provider_response \<Rightarrow> gerr + provider_response" where
  "decode_response kvs p =
     bind_result (decode_field assign_string ''BID'' kvs (pv_bid p)) (\<lambda>bid.
     bind_result (decode_field assign_string ''SID'' kvs (pv_sid p)) (\<lambda>sid.
     bind_result (decode_field assign_string ''LID'' kvs (pv_lid p)) (\<lambda>lid.
     bind_result (decode_field assign_string ''POSINO'' kvs (pv_posino p)) (\<lambda>posino.
     bind_result (decode_field assign_string ''POSITION'' kvs (pv_position p)) (\<lambda>position.
     bind_result (decode_field assign_string ''STATIONID'' kvs (pv_stationid p)) (\<lambda>stationid.
     bind_result (decode_field assign_string ''STATION_NAME'' kvs (pv_name p)) (\<lambda>name.
     bind_result (decode_field assign_string ''STATIONNAME'' kvs (pv_name_legacy p)) (\<lambda>legacy.
     Inr \<lparr>pv_bid = bid, pv_sid = sid, pv_lid = lid, pv_posino = posino, pv_position = position,
          pv_stationid = stationid, pv_name = name, pv_name_legacy = legacy\<rparr>))))))))"

text \<open>\<open>Data *ProviderResponse\<close>: \<open>null\<close> is the nil pointer; anything else fills a response.\<close>

fun assign_response :: "json \<Rightarrow> provider_response option \<Rightarrow> gerr + provider_response option" where
  "assign_response JNull old = Inr None"
| "assign_response j old =
     (case assign_struct decode_response j (case old of None \<Rightarrow> empty_response | Some p \<Rightarrow> p) of
        Inl e \<Rightarrow> Inl e
      | Inr p \<Rightarrow> Inr (Some p))"

text \<open>\<open>post\<close> sends the request: the status and the body, or a failure of the transport.\<close>

definition http_provider_Resolve ::
  "(string \<Rightarrow> json \<Rightarrow> gerr + int \<times> raw) \<Rightarrow> http_provider option \<Rightarrow> provider" where
  "http_provider_Resolve post p ob =
     (case p of
        None \<Rightarrow> Inl (Mobility_err ProviderUnavailable)
      | Some q \<Rightarrow>
          (if hp_endpoint q = [] then Inl (Mobility_err ProviderUnavailable)
           else
             (case post (hp_endpoint q) (provider_request q ob) of
                Inl e \<Rightarrow> Inl (Mobility_err ProviderUnavailable)
              | Inr (status, body) \<Rightarrow>
                  (if status div 100 \<noteq> 2 then Inl (Mobility_err ProviderUnavailable)
                   else
                     (case unmarshal (assign_struct (decode_field assign_response ''d'')) body None of
                        Inl e \<Rightarrow> Inl (Mobility_err ProviderUnavailable)
                      | Inr None \<Rightarrow> Inr empty_response
                      | Inr (Some resp) \<Rightarrow> Inr resp)))))"

subsection \<open>The demo resolver\<close>

definition demo_mappings :: "(string \<times> station_mapping) list" where
  "demo_mappings =
    [(''R04|R'', \<lparr>sm_station = ''R04'', sm_line = ''R'',
        sm_name = text_of_bytes [0xE4, 0xBF, 0xA1, 0xE7, 0xBE, 0xA9, 0xE5, 0xAE, 0x89, 0xE5, 0x92,
          0x8C]\<rparr>),
     (''R03|R'', \<lparr>sm_station = ''R03'', sm_line = ''R'',
        sm_name = text_of_bytes [0xE5, 0x8F, 0xB0, 0xE5, 0x8C, 0x97, 0x31, 0x30, 0x31, 0xEF, 0xBC, 0x8F,
          0xE4, 0xB8, 0x96, 0xE8, 0xB2, 0xBF]\<rparr>),
     (''R09|R'', \<lparr>sm_station = ''R09'', sm_line = ''R'',
        sm_name = text_of_bytes [0xE5, 0x8F, 0xB0, 0xE5, 0xA4, 0xA7, 0xE9, 0x86, 0xAB, 0xE9, 0x99,
          0xA2]\<rparr>),
     (''R10|R'', \<lparr>sm_station = ''R10'', sm_line = ''R'',
        sm_name = text_of_bytes [0xE5, 0x8F, 0xB0, 0xE5, 0x8C, 0x97, 0xE8, 0xBB, 0x8A, 0xE7, 0xAB,
          0x99]\<rparr>),
     (''G12|G'', \<lparr>sm_station = ''G12'', sm_line = ''G'',
        sm_name = text_of_bytes [0xE8, 0xA5, 0xBF, 0xE9, 0x96, 0x80]\<rparr>),
     (''G07|G'', \<lparr>sm_station = ''G07'', sm_line = ''G'',
        sm_name = text_of_bytes [0xE5, 0x85, 0xAC, 0xE9, 0xA4, 0xA8]\<rparr>),
     (''BL18|BL'', \<lparr>sm_station = ''BL18'', sm_line = ''BL'',
        sm_name = text_of_bytes [0xE5, 0xB8, 0x82, 0xE6, 0x94, 0xBF, 0xE5, 0xBA, 0x9C]\<rparr>),
     (''BL12|BL'', \<lparr>sm_station = ''BL12'', sm_line = ''BL'',
        sm_name = text_of_bytes [0xE5, 0x8F, 0xB0, 0xE5, 0x8C, 0x97, 0xE8, 0xBB, 0x8A, 0xE7, 0xAB,
          0x99]\<rparr>),
     (''BL07MALL|BL'', \<lparr>sm_station = ''BL07'', sm_line = ''BL'',
        sm_name = text_of_bytes [0xE6, 0x9D, 0xBF, 0xE6, 0xA9, 0x8B]\<rparr>),
     (''BL10MALL|BL'', \<lparr>sm_station = ''BL10'', sm_line = ''BL'',
        sm_name = text_of_bytes [0xE9, 0xBE, 0x8D, 0xE5, 0xB1, 0xB1, 0xE5, 0xAF, 0xBA]\<rparr>),
     (''O09|O'', \<lparr>sm_station = ''O09'', sm_line = ''O'',
        sm_name = text_of_bytes [0xE8, 0xA1, 0x8C, 0xE5, 0xA4, 0xA9, 0xE5, 0xAE, 0xAE]\<rparr>)]"

definition demo_fixtures :: "(string \<times> mob_context) list" where
  "demo_fixtures =
    [(''demo-beacon:1:4'', \<lparr>mc_station = ''R04'', mc_line = ''R'', mc_position = ''exit-3'',
        mc_name = text_of_bytes [0xE4, 0xBF, 0xA1, 0xE7, 0xBE, 0xA9, 0xE5, 0xAE, 0x89, 0xE5, 0x92, 0x8C],
        mc_source = [], mc_confidence = 3/4, mc_near_exit = True\<rparr>),
     (''demo-beacon:1:3'', \<lparr>mc_station = ''R03'', mc_line = ''R'', mc_position = ''platform'',
        mc_name = text_of_bytes [0xE5, 0x8F, 0xB0, 0xE5, 0x8C, 0x97, 0x31, 0x30, 0x31, 0xEF, 0xBC, 0x8F,
          0xE4, 0xB8, 0x96, 0xE8, 0xB2, 0xBF],
        mc_source = [], mc_confidence = 3/4, mc_near_exit = False\<rparr>)]"

definition DefaultResolver :: "provider option \<Rightarrow> bool \<Rightarrow> resolver" where
  "DefaultResolver p with_redis =
     NewResolver p (map_of demo_mappings) (map_of demo_fixtures) no_context with_redis"

end
