(* ===== verification/MobilitySpec.thy ===== *)
theory MobilitySpec
  imports Mobility
begin

text \<open>
  What the resolver promises: the decimal printing of \<open>formatInt\<close>, keys that tell beacons apart,
  contexts that survive Redis, and a cache that only holds contexts with a station.
\<close>

subsection \<open>\<open>formatInt\<close>\<close>

lemma uint64_bound: "0 \<le> uint (v :: 64 word)" "uint v < 2 ^ 64"
  using uint_lt2p [of v] by simp_all

lemma sint_cases:
  "sint (v :: 64 word) = (if uint v < 2 ^ 63 then uint v else uint v - 2 ^ 64)"
proof -
  have s: "sint v = (uint v + 2 ^ 63) mod 2 ^ 64 - 2 ^ 63"
    using int_word_sint [of "uint v", where 'a = 64] by simp
  show ?thesis
  proof (cases "uint v < 2 ^ 63")
    case True
    have "(uint v + 2 ^ 63) mod 2 ^ 64 = uint v + 2 ^ 63"
      using True uint64_bound [of v] by (intro mod_pos_pos_trivial) auto
    with True s show ?thesis by simp
  next
    case False
    have "(uint v + 2 ^ 63) mod 2 ^ 64 = (uint v + 2 ^ 63 - 2 ^ 64) mod 2 ^ 64"
      by (simp only: minus_mod_self2)
    also have "\<dots> = uint v + 2 ^ 63 - 2 ^ 64"
      using False uint64_bound [of v] by (intro mod_pos_pos_trivial) auto
    finally show ?thesis using False s by simp
  qed
qed

lemma positive_iff: "0 <s (v :: 64 word) \<longleftrightarrow> 0 < uint v \<and> uint v < 2 ^ 63"
  using uint64_bound [of v] by (auto simp: word_sless_alt sint_cases)

lemma negative_iff: "(v :: 64 word) <s 0 \<longleftrightarrow> 2 ^ 63 \<le> uint v"
  using uint64_bound [of v] by (auto simp: word_sless_alt sint_cases)

lemma format_loop_decimal:
  assumes "0 <s v"
  shows "format_loop v ds = decimal (unat v) @ ds"
  using assms
proof (induction v ds rule: format_loop.induct)
  case (1 v ds)
  have step: "format_loop v ds = format_loop (v div 10) (char_of (48 + unat (v mod 10)) # ds)"
    using 1(2) by (subst format_loop.simps) simp
  have d: "uint (v div 10) = uint v div 10" by (simp add: uint_div_distrib)
  show ?case
  proof (cases "uint v < 10")
    case True
    then have "int (unat v) < 10" by (simp only: uint_nat)
    then have u: "unat v < 10" by linarith
    have "v div 10 = 0" using True uint64_bound(1) [of v] by (simp add: word_uint_eq_iff uint_div_distrib)
    with u show ?thesis unfolding step
      by (subst format_loop.simps, subst decimal.simps) (simp add: unat_mod)
  next
    case False
    then have "0 < uint v div 10" "uint v div 10 < 2 ^ 63"
      using 1(2) by (simp_all add: positive_iff)
    then have pos: "0 <s v div 10" by (simp add: positive_iff d)
    from False have "\<not> int (unat v) < 10" unfolding uint_nat .
    then have u: "\<not> unat v < 10" by linarith
    then have "decimal (unat v) = decimal (unat (v div 10)) @ [char_of (48 + unat (v mod 10))]"
      by (subst decimal.simps) (simp add: unat_div unat_mod)
    with 1(1) [OF 1(2) pos] show ?thesis unfolding step by simp
  qed
qed

lemma uint_minus_64: "v \<noteq> 0 \<Longrightarrow> uint (- v :: 64 word) = 2 ^ 64 - uint v"
proof -
  assume "v \<noteq> 0"
  then have "0 < uint v" using uint64_bound(1) [of v] by (simp add: word_uint_eq_iff less_le)
  have "uint (- v) = (- uint v) mod 2 ^ 64" by (simp add: uint_word_ariths)
  also have "\<dots> = (2 ^ 64 - uint v) mod 2 ^ 64"
    by (metis (no_types) diff_0 minus_mod_self1 minus_mod_self2 mod_diff_left_eq mod_self)
  also have "\<dots> = 2 ^ 64 - uint v"
    using \<open>0 < uint v\<close> uint64_bound(2) [of v] by (intro mod_pos_pos_trivial) auto
  finally show ?thesis .
qed

lemma decimal_0: "decimal 0 = ''0''"
  by code_simp

lemma formatInt_decimal:
  "formatInt v = (if sint v = - (2 ^ 63) then ''-'' else decimal_int (sint v))"
proof (cases "v = 0")
  case True
  then show ?thesis by (simp add: formatInt_def decimal_int_def decimal_0)
next
  case nonzero: False
  show ?thesis
  proof (cases "v <s 0")
    case False
    then have p: "0 <s v" "sint v = uint v" "0 < uint v"
      using nonzero uint64_bound [of v]
      by (auto simp: positive_iff negative_iff sint_cases word_uint_eq_iff less_le)
    then show ?thesis
      using nonzero False by (simp add: formatInt_def decimal_int_def format_loop_decimal)
  next
    case True
    then have s: "2 ^ 63 \<le> uint v" "sint v = uint v - 2 ^ 64" "uint (- v) = 2 ^ 64 - uint v"
      using nonzero by (auto simp: negative_iff sint_cases uint_minus_64)
    show ?thesis
    proof (cases "uint v = 2 ^ 63")
      case True
      then have "\<not> 0 <s - v" "sint v = - (2 ^ 63)" using s by (simp_all add: positive_iff)
      with \<open>v <s 0\<close> nonzero show ?thesis by (simp add: formatInt_def format_loop.simps)
    next
      case False
      with s uint64_bound(2) [of v] have "0 <s - v" "sint v \<noteq> - (2 ^ 63)" "sint v < 0"
        "nat (- sint v) = unat (- v)"
        by (simp_all add: positive_iff unat_eq_nat_uint del: nat_uint_eq)
      with \<open>v <s 0\<close> nonzero show ?thesis
        by (simp add: formatInt_def decimal_int_def format_loop_decimal)
    qed
  qed
qed

text \<open>The buffer.\<close>

lemma drop_list_update_head: "j < length ds \<Longrightarrow> drop j (ds[j := c]) = c # drop (Suc j) ds"
  by (simp add: Cons_nth_drop_Suc [symmetric])

text \<open>A value below \<open>10 ^ k\<close> takes at most \<open>k\<close> bytes of the buffer.\<close>

lemma fill_digits_returns:
  assumes "0 <s v \<Longrightarrow> unat v < 10 ^ k" and "k \<le> i" and "i \<le> length ds"
  shows "\<exists>j ds'. fill_digits v i ds = Some (j, ds') \<and> i \<le> j + k \<and> j \<le> i \<and> length ds' = length ds
    \<and> drop j ds' = format_loop v (drop i ds)"
  using assms
proof (induction k arbitrary: v i ds)
  case 0
  then have "\<not> 0 <s v" by (auto simp: unat_eq_zero)
  then show ?case by (subst fill_digits.simps) (simp add: format_loop.simps)
next
  case (Suc k)
  show ?case
  proof (cases "0 <s v")
    case False
    then show ?thesis by (subst fill_digits.simps) (simp add: format_loop.simps)
  next
    case True
    obtain j where i: "i = Suc j" using Suc.prems(2) by (cases i) auto
    let ?c = "char_of (48 + unat (v mod 10)) :: char"
    have "unat (v div 10) < 10 ^ k" using Suc.prems(1) True by (simp add: unat_div less_mult_imp_div_less mult.commute)
    with Suc.IH [of "v div 10" j "ds[j := ?c]"] Suc.prems(2,3) i
    obtain j' ds' where "fill_digits (v div 10) j (ds[j := ?c]) = Some (j', ds')" "j \<le> j' + k" "j' \<le> j"
      "length ds' = length ds" "drop j' ds' = format_loop (v div 10) (drop j (ds[j := ?c]))" by auto
    moreover have "drop j (ds[j := ?c]) = ?c # drop i ds"
      using Suc.prems(3) i by (simp add: drop_list_update_head)
    moreover have "fill_digits v i ds = fill_digits (v div 10) j (ds[j := ?c])"
      using True by (subst fill_digits.simps) (simp add: i)
    moreover have "format_loop v (drop i ds) = format_loop (v div 10) (?c # drop i ds)"
      using True by (subst format_loop.simps) simp
    ultimately show ?thesis using i by auto
  qed
qed

lemma positive_below: "0 <s v \<Longrightarrow> unat (v :: 64 word) < 10 ^ 19"
proof -
  assume "0 <s v"
  then have "int (unat v) < 9223372036854775808" unfolding positive_iff uint_nat by simp
  then have "unat v < 9223372036854775808" by linarith
  also have "\<dots> < (10 :: nat) ^ 19" by simp
  finally show ?thesis .
qed

lemma formatInt_buffer_returns: "formatInt_buffer v = Some (formatInt v)"
proof -
  let ?v = "if v <s 0 then - v else v"
  obtain j ds where f: "fill_digits ?v 20 (replicate 20 (CHR 0x00)) = Some (j, ds)" "1 \<le> j" "j \<le> 20"
    "length ds = 20" "drop j ds = format_loop ?v []"
    using fill_digits_returns [of ?v 19 20 "replicate 20 (CHR 0x00)"] positive_below [of ?v] by auto
  moreover obtain i where "j = Suc i" using f(2) by (cases j) auto
  ultimately show ?thesis
    by (auto simp: formatInt_buffer_def formatInt_def drop_list_update_head)
qed
subsection \<open>Keys\<close>

lemma split_at_last:
  assumes "xs @ c # ys = xs' @ c # ys'" and "c \<notin> set ys" and "c \<notin> set ys'"
  shows "xs = xs' \<and> ys = ys'"
  using assms
proof (induction xs arbitrary: xs')
  case Nil
  then show ?case by (cases xs') auto
next
  case (Cons a xs)
  then show ?case by (cases xs') auto
qed

lemma no_colon: "CHR '':'' \<notin> set (decimal n)"
  using decimal_digits by fastforce

lemma key_decimal:
  assumes "\<not> ob_major ob <s 0" and "\<not> ob_minor ob <s 0"
  shows "observationKey lo ob = to_lower lo (trim_space (ob_uuid ob)) @ CHR '':'' #
    decimal (nat (sint (ob_major ob))) @ CHR '':'' # decimal (nat (sint (ob_minor ob)))"
  using assms by (simp add: observationKey_def formatInt_decimal decimal_int_def word_sless_alt)

lemma observationKey_inj:
  assumes "observationKey lo a = observationKey lo b"
    and "\<not> ob_major a <s 0" "\<not> ob_minor a <s 0" "\<not> ob_major b <s 0" "\<not> ob_minor b <s 0"
  shows "to_lower lo (trim_space (ob_uuid a)) = to_lower lo (trim_space (ob_uuid b))
    \<and> ob_major a = ob_major b \<and> ob_minor a = ob_minor b"
proof -
  let ?u = "\<lambda>x. to_lower lo (trim_space (ob_uuid x))"
  let ?j = "\<lambda>x. decimal (nat (sint (ob_major x)))" and ?n = "\<lambda>x. decimal (nat (sint (ob_minor x)))"
  have eq: "(?u a @ CHR '':'' # ?j a) @ CHR '':'' # ?n a = (?u b @ CHR '':'' # ?j b) @ CHR '':'' # ?n b"
    using assms by (simp add: key_decimal)
  have one: "?u a @ CHR '':'' # ?j a = ?u b @ CHR '':'' # ?j b" and n: "?n a = ?n b"
    using split_at_last [OF eq no_colon no_colon] by simp_all
  have "?u a = ?u b" and j: "?j a = ?j b"
    using split_at_last [OF one no_colon no_colon] by simp_all
  moreover have "sint (ob_major a) = sint (ob_major b)" "sint (ob_minor a) = sint (ob_minor b)"
    using decimal_inj [OF j] decimal_inj [OF n] assms(2-5) by (auto simp: word_sless_alt)
  ultimately show ?thesis by (simp add: signed_word_eqI)
qed

subsection \<open>Redis\<close>

lemma context_roundtrip:
  "unmarshal (assign_struct decode_context) (Raw (context_json c)) old = Inr c"
  by (cases old) (simp add: context_json_def decode_context_def upper_byte_def)

lemma loadRedis_stored:
  assumes "rv_redis r" "rd_set_up store" "mc_station c \<noteq> []"
    and "rv_redis q" "rd_entries later (redisCacheKey key)
      = rd_entries (snd (store_context key c r store)) (redisCacheKey key)" "rd_get_up later"
  shows "loadRedis q later key = Some c"
  using assms by (simp add: loadRedis_def store_context_def context_roundtrip del: unmarshal.simps)

subsection \<open>Resolving\<close>

definition resolver_ok :: "resolver \<Rightarrow> bool" where
  "resolver_ok r \<longleftrightarrow> (\<forall>c\<in>ran (rv_cache r). mc_station c \<noteq> [])
     \<and> (\<forall>c\<in>ran (rv_fixtures r). mc_station c \<noteq> [])"

lemma loadRedis_station: "loadRedis r store key = Some c \<Longrightarrow> mc_station c \<noteq> []"
  by (auto simp: loadRedis_def split: if_splits option.splits sum.splits)

lemma ask_provider_station: "ask_provider up lo r ob = Some c \<Longrightarrow> mc_station c \<noteq> [] \<and> mc_source c = ''provider''"
  by (auto simp: ask_provider_def normalize_def bind_result_def Let_def
      split: if_splits option.splits sum.splits)

lemma resolver_ok_store:
  "resolver_ok r \<Longrightarrow> mc_station c \<noteq> [] \<Longrightarrow> resolver_ok (storeLocal key c r)"
  by (auto simp: resolver_ok_def storeLocal_def ran_def)

lemma resolve_station:
  assumes "resolver_ok r" and "resolver_Resolve up lo (Some r) store ob = (res, rv, store')"
  shows "\<exists>r'. rv = Some r' \<and> resolver_ok r'" and "res = Inr c \<Longrightarrow> mc_station c \<noteq> []"
  using assms
  by (auto simp: resolver_Resolve_def Let_def store_context_def fixed_context_def
      dest: loadRedis_station ask_provider_station intro: resolver_ok_store ranI
      split: if_splits option.splits)
    (auto simp: resolver_ok_def ran_def)

text \<open>An answer that came from a cache or the provider is in the cache afterwards.\<close>

lemma resolve_cached:
  assumes "resolver_Resolve up lo (Some r) store ob = (Inr c, Some r', store')"
    and "mc_source c = ''provider'' \<or> mc_source c = ''cache''"
  shows "map_option (\<lambda>x. x\<lparr>mc_source := ''cache''\<rparr>) (rv_cache r' (observationKey lo ob))
      = Some (c\<lparr>mc_source := ''cache''\<rparr>)"
  using assms
  by (auto simp: resolver_Resolve_def Let_def store_context_def fixed_context_def storeLocal_def
      split: if_splits option.splits)

lemma resolve_valid:
  "resolver_Resolve up lo (Some r) store ob = (Inr c, rv, store') \<Longrightarrow>
     trim_space (ob_uuid ob) \<noteq> [] \<and> \<not> ob_major ob <s 0 \<and> \<not> ob_minor ob <s 0"
  by (auto simp: resolver_Resolve_def split: if_splits)

end
