(* ===== verification/MobilityTheorems.thy ===== *)
theory MobilityTheorems
  imports MobilitySpec
begin

text \<open>The correctness statements of \<open>internal/mobility/\<close>.\<close>

definition demo_observation :: observation where
  "demo_observation = \<lparr>ob_uuid = '' Demo-Beacon '', ob_major = 1, ob_minor = 4, ob_power = -60\<rparr>"

definition demo_provider :: provider where
  "demo_provider ob = Inr (empty_response\<lparr>pv_sid := '' r04'', pv_lid := ''r '', pv_posino := ''Exit 3''\<rparr>)"

definition no_redis :: redis where
  "no_redis = \<lparr>rd_entries = Map.empty, rd_get_up = True, rd_set_up = True\<rparr>"

text \<open>
  \<open>formatInt\<close> prints a signed 64-bit integer in decimal, with one exception: the least one, whose
  negation overflows back to itself, is printed as a bare minus sign.
\<close>

theorem formatInt_is_decimal:
  "formatInt v = (if sint v = - (2 ^ 63) then ''-'' else decimal_int (sint v))"
  by (rule formatInt_decimal)

text \<open>
  C18: \<open>formatInt\<close> returns, and returns the decimal digits. For every 64-bit value its loop, which runs
  while the value is positive, ends, and never writes outside its buffer of 20 bytes (an index out of
  range is a panic in Go). What comes back is the number in decimal, but for the least one, whose
  negation overflows back to itself: it is printed as a bare minus sign.
\<close>

theorem formatInt_returns:
  "formatInt_buffer v = Some (if sint v = - (2 ^ 63) then ''-'' else decimal_int (sint v))"
  by (simp only: formatInt_buffer_returns formatInt_decimal)

text \<open>
  Two beacons never share a cache entry. When the keys of two accepted observations are equal,
  their UUIDs are equal up to surrounding blanks and case, and so are their major and minor numbers,
  whatever characters (colons included) the UUIDs hold.
\<close>

theorem beacon_keys_distinct:
  assumes "resolver_Resolve up lo (Some r) store a = (Inr c, rv, store1)"
    and "resolver_Resolve up lo (Some q) store b = (Inr d, qv, store2)"
    and "observationKey lo a = observationKey lo b"
  shows "to_lower lo (trim_space (ob_uuid a)) = to_lower lo (trim_space (ob_uuid b))
    \<and> ob_major a = ob_major b \<and> ob_minor a = ob_minor b"
  using observationKey_inj [OF assms(3)] resolve_valid [OF assms(1)] resolve_valid [OF assms(2)]
  by blast

lemma demo_resolved:
  "fst (resolver_Resolve id id (Some (DefaultResolver None False)) no_redis demo_observation) =
     Inr \<lparr>mc_station = ''R04'', mc_line = ''R'', mc_position = ''exit-3'',
       mc_name = mc_name (the (rv_fixtures (DefaultResolver None False) ''demo-beacon:1:4'')),
       mc_source = ''fixture'', mc_confidence = 3/4, mc_near_exit = True\<rparr>"
  by code_simp

theorem beacon_keys_distinct_witness:
  "to_lower id (trim_space '' Demo-Beacon '') = to_lower id (trim_space ''demo-beacon'')"
proof -
  let ?r = "resolver_Resolve id id (Some (DefaultResolver None False)) no_redis"
  let ?b = "demo_observation\<lparr>ob_uuid := ''demo-beacon''\<rparr>"
  obtain rv1 s1 where 1: "?r demo_observation = (fst (?r demo_observation), rv1, s1)"
    by (metis prod.collapse)
  have b: "case fst (?r ?b) of Inr d \<Rightarrow> True | Inl x \<Rightarrow> False" by code_simp
  then obtain d where "fst (?r ?b) = Inr d" by (auto split: sum.splits)
  then obtain rv2 s2 where 2: "?r ?b = (Inr d, rv2, s2)" by (metis prod.collapse)
  have "observationKey id demo_observation = observationKey id ?b" by code_simp
  from beacon_keys_distinct [OF 1 [unfolded demo_resolved] 2 this] show ?thesis
    by (simp add: demo_observation_def)
qed

text \<open>
  C33: an answer always names a station, and what was resolved stays resolved. A resolver whose caches
  and fixtures name stations keeps them so and only answers contexts with a station; and an answer
  that came from the provider (or a cache) is given again for the same observation, as a cached
  one, whatever becomes of the provider and of Redis.
\<close>

theorem resolve_answers_and_caches:
  assumes "resolver_ok r" and "resolver_Resolve up lo (Some r) store ob = (Inr c, rv, store')"
  shows "mc_station c \<noteq> [] \<and> (\<exists>r'. rv = Some r' \<and> resolver_ok r'
    \<and> (mc_source c = ''provider'' \<or> mc_source c = ''cache'' \<longrightarrow>
         (\<forall>p later. fst (resolver_Resolve up lo (Some (r'\<lparr>rv_provider := p\<rparr>)) later ob)
            = Inr (c\<lparr>mc_source := ''cache''\<rparr>))))"
proof -
  obtain r' where r': "rv = Some r'" "resolver_ok r'"
    using resolve_station(1) [OF assms] by blast
  have "fst (resolver_Resolve up lo (Some (r'\<lparr>rv_provider := p\<rparr>)) later ob)
      = Inr (c\<lparr>mc_source := ''cache''\<rparr>)"
    if "mc_source c = ''provider'' \<or> mc_source c = ''cache''" for p later
    using resolve_cached [OF assms(2) [unfolded r'(1)] that] resolve_valid [OF assms(2)]
    by (auto simp: resolver_Resolve_def)
  with r' resolve_station(2) [OF assms refl] show ?thesis by blast
qed

theorem resolve_answers_and_caches_witness:
  "\<exists>c. fst (resolver_Resolve id id (Some (DefaultResolver (Some demo_provider) False)) no_redis
      demo_observation) = Inr c \<and> mc_station c \<noteq> []"
proof -
  let ?run = "resolver_Resolve id id (Some (DefaultResolver (Some demo_provider) False)) no_redis
      demo_observation"
  have "case fst ?run of Inr c \<Rightarrow> True | Inl x \<Rightarrow> False" by code_simp
  then obtain c where "fst ?run = Inr c" by (auto split: sum.splits)
  then obtain rv s where c: "?run = (Inr c, rv, s)" by (metis prod.collapse)
  have "resolver_ok (DefaultResolver (Some demo_provider) False)"
    by (auto simp: resolver_ok_def DefaultResolver_def NewResolver_def ran_def demo_fixtures_def
        split: if_splits)
  from resolve_answers_and_caches [OF this c] c show ?thesis by auto
qed

text \<open>
  Resolvers share what they learned through Redis. What one resolver wrote when it stored a
  context is exactly what any other resolver reads back under the same key, as long as the entry is
  still there.
\<close>

theorem redis_shares_contexts:
  assumes "rv_redis r" "rd_set_up store" "mc_station c \<noteq> []"
    and "rv_redis q" "rd_get_up later"
    and "rd_entries later (redisCacheKey key)
      = rd_entries (snd (store_context key c r store)) (redisCacheKey key)"
  shows "loadRedis q later key = Some c"
  using assms by (intro loadRedis_stored)

theorem redis_shares_contexts_witness:
  "loadRedis (DefaultResolver None True) (snd (store_context ''k''
     (no_context\<lparr>mc_station := ''R04'', mc_confidence := 19/20\<rparr>) (DefaultResolver None True) no_redis)) ''k''
   = Some (no_context\<lparr>mc_station := ''R04'', mc_confidence := 19/20\<rparr>)"
  by (rule redis_shares_contexts [where r = "DefaultResolver None True" and store = no_redis])
    (simp_all add: DefaultResolver_def NewResolver_def no_redis_def store_context_def)

end
