(* ===== verification/Preference.thy ===== *)
theory Preference
  imports Feedback Mobility
begin

text \<open>
  \<open>internal/recommendation/preference.go\<close>: what is known of a user's preferences, from Redis, the
  database, or a fallback. Redis is explicit state (\<open>redis\<close> of \<open>Mobility\<close>), \<open>fmt\<close> and \<open>parse_time\<close>
  convert instants, a map of weights is its association list. A query that fails is a reason to go
  on, as in the code.
\<close>

record preference =
  pf_user_hash :: string
  pf_destination :: string
  pf_categories :: "string list"
  pf_weights :: "(string \<times> rat) list"
  pf_budget_min :: int
  pf_budget_max :: int
  pf_generated :: int
  pf_expires :: int
  pf_source :: string

record preference_store =
  pst_client :: bool
  pst_ttl :: int
  pst_db :: handle

text \<open>15 minutes, in nanoseconds\<close>

definition PreferenceTTL :: int where
  "PreferenceTTL = 900000000000"

definition NewPreferenceStore :: "bool \<Rightarrow> int \<Rightarrow> preference_store" where
  "NewPreferenceStore client ttl =
     \<lparr>pst_client = client, pst_ttl = (if ttl \<le> 0 then PreferenceTTL else ttl), pst_db = NilHandle\<rparr>"

definition WithDB :: "preference_store option \<Rightarrow> handle \<Rightarrow> preference_store option" where
  "WithDB s db = map_option (\<lambda>v. v\<lparr>pst_db := db\<rparr>) s"

definition DemoUserIDHash :: string where
  "DemoUserIDHash = ''sha256:'' @ replicate 64 (CHR ''a'')"

definition demo_preference :: "int \<Rightarrow> string \<Rightarrow> preference" where
  "demo_preference now userIDHash =
     \<lparr>pf_user_hash = userIDHash,
      pf_destination = (if userIDHash \<noteq> DemoUserIDHash then [] else ''R04''),
      pf_categories = (if userIDHash \<noteq> DemoUserIDHash then [''general''] else [''coffee'', ''lunch'']),
      pf_weights = [], pf_budget_min = 80, pf_budget_max = 300, pf_generated = now,
      pf_expires = now + PreferenceTTL, pf_source = ''fallback''\<rparr>"

definition DemoPreference :: "string \<Rightarrow> preference db_act" where
  "DemoPreference userIDHash = andThen timeNow (\<lambda>now. ok (demo_preference now userIDHash))"

subsection \<open>Preferences as documents\<close>

definition preference_json :: "(int \<Rightarrow> string) \<Rightarrow> preference \<Rightarrow> json" where
  "preference_json fmt p = JObj
     ([(''user_id_hash'', JStr (pf_user_hash p)),
       (''predicted_destination'', JStr (pf_destination p)),
       (''preferred_categories'', marshal_strings (pf_categories p))]
      @ (if pf_weights p = [] then []
         else [(''category_weights'', JObj (map (\<lambda>(c, x). (c, json_number x)) (sort_key fst (pf_weights p))))])
      @ [(''budget_min_points'', JInt (pf_budget_min p)),
         (''budget_max_points'', JInt (pf_budget_max p)),
         (''generated_at'', JStr (fmt (pf_generated p))),
         (''expires_at'', JStr (fmt (pf_expires p)))])"

fun assign_time :: "(string \<Rightarrow> int option) \<Rightarrow> json \<Rightarrow> int \<Rightarrow> gerr + int" where
  "assign_time parse_time JNull old = Inr old"
| "assign_time parse_time (JStr s) old =
     (case parse_time s of None \<Rightarrow> Inl JsonMismatch | Some t \<Rightarrow> Inr t)"
| "assign_time parse_time j old = Inl JsonMismatch"

fun decode_weights :: "(string \<times> json) list \<Rightarrow> (string \<times> rat) list \<Rightarrow> gerr + (string \<times> rat) list" where
  "decode_weights [] acc = Inr acc"
| "decode_weights ((k, j) # kvs) acc =
     bind_result (assign_float j 0) (\<lambda>q. decode_weights kvs (AList.update k q acc))"

fun assign_weights :: "json \<Rightarrow> (string \<times> rat) list \<Rightarrow> gerr + (string \<times> rat) list" where
  "assign_weights JNull old = Inr []"
| "assign_weights (JObj kvs) old = decode_weights kvs old"
| "assign_weights j old = Inl JsonMismatch"

definition no_preference :: preference where
  "no_preference = \<lparr>pf_user_hash = [], pf_destination = [], pf_categories = [], pf_weights = [],
     pf_budget_min = 0, pf_budget_max = 0, pf_generated = 0, pf_expires = 0, pf_source = []\<rparr>"

definition decode_preference ::
  "(string \<Rightarrow> int option) \<Rightarrow> (string \<times> json) list \<Rightarrow> preference \<Rightarrow> gerr + preference" where
  "decode_preference parse_time kvs p =
     bind_result (decode_field assign_string ''user_id_hash'' kvs (pf_user_hash p)) (\<lambda>h.
     bind_result (decode_field assign_string ''predicted_destination'' kvs (pf_destination p)) (\<lambda>dest.
     bind_result (decode_field assign_strings ''preferred_categories'' kvs (pf_categories p)) (\<lambda>cs.
     bind_result (decode_field assign_weights ''category_weights'' kvs (pf_weights p)) (\<lambda>ws.
     bind_result (decode_field assign_int ''budget_min_points'' kvs (pf_budget_min p)) (\<lambda>lo.
     bind_result (decode_field assign_int ''budget_max_points'' kvs (pf_budget_max p)) (\<lambda>hi.
     bind_result (decode_field (assign_time parse_time) ''generated_at'' kvs (pf_generated p)) (\<lambda>g.
     bind_result (decode_field (assign_time parse_time) ''expires_at'' kvs (pf_expires p)) (\<lambda>x.
     Inr \<lparr>pf_user_hash = h, pf_destination = dest, pf_categories = cs, pf_weights = ws,
          pf_budget_min = lo, pf_budget_max = hi, pf_generated = g, pf_expires = x,
          pf_source = pf_source p\<rparr>))))))))"

subsection \<open>\<open>Get\<close>\<close>

definition preferenceKey :: "string \<Rightarrow> string" where
  "preferenceKey userIDHash = ''preference:'' @ userIDHash"

definition cached_preference ::
  "(string \<Rightarrow> int option) \<Rightarrow> preference_store \<Rightarrow> redis \<Rightarrow> string \<Rightarrow> preference option" where
  "cached_preference parse_time s r userIDHash =
     (if \<not> pst_client s \<or> \<not> rd_get_up r then None
      else
        (case rd_entries r (preferenceKey userIDHash) of
           None \<Rightarrow> None
         | Some encoded \<Rightarrow>
             (case unmarshal (assign_struct (decode_preference parse_time)) encoded no_preference of
                Inl err \<Rightarrow> None
              | Inr p \<Rightarrow> (if pf_user_hash p = userIDHash then Some p else None))))"

definition cache_preference ::
  "(int \<Rightarrow> string) \<Rightarrow> preference_store \<Rightarrow> redis \<Rightarrow> string \<Rightarrow> preference \<Rightarrow> redis" where
  "cache_preference fmt s r userIDHash p =
     (if pst_client s \<and> rd_set_up r
      then r\<lparr>rd_entries := (rd_entries r)(preferenceKey userIDHash \<mapsto> Raw (preference_json fmt p))\<rparr>
      else r)"

definition stored_preference :: "user_row \<Rightarrow> (string list \<times> string list) option" where
  "stored_preference u =
     (case (unmarshal assign_strings (Raw (u_stations u)) [], unmarshal assign_strings (Raw (u_categories u)) []) of
        (Inr ss, Inr cs) \<Rightarrow> Some (ss, cs)
      | _ \<Rightarrow> None)"

definition fallback_preference ::
  "(int \<Rightarrow> string) \<Rightarrow> preference_store \<Rightarrow> redis \<Rightarrow> string \<Rightarrow> preference \<Rightarrow> (preference \<times> redis) db_act" where
  "fallback_preference fmt s r userIDHash fallback =
     (let p = fallback\<lparr>pf_expires := pf_generated fallback + pst_ttl s\<rparr> in
      ok (p, cache_preference fmt s r userIDHash p))"

definition database_preference ::
  "(int \<Rightarrow> string) \<Rightarrow> preference_store \<Rightarrow> redis \<Rightarrow> string \<Rightarrow> preference \<Rightarrow> (preference \<times> redis) db_act" where
  "database_preference fmt s r userIDHash fallback =
     (if pst_db s = NilHandle then fallback_preference fmt s r userIDHash fallback
      else
        andThen (attempt (execDB (reads (\<lambda>t d. row_or_none
            (lookup_row (\<lambda>u. u_hash u = userIDHash) (users d)))))) (\<lambda>q.
        case q of
          Inl err \<Rightarrow> fallback_preference fmt s r userIDHash fallback
        | Inr u \<Rightarrow>
            (case stored_preference u of
               None \<Rightarrow> fallback_preference fmt s r userIDHash fallback
             | Some (ss, cs) \<Rightarrow>
                 andThen timeNow (\<lambda>now.
                 andThen (LoadPreferenceWeights (pst_db s) userIDHash) (\<lambda>ws.
                 let p = \<lparr>pf_user_hash = userIDHash,
                       pf_destination = (case ss of [] \<Rightarrow> [] | x # _ \<Rightarrow> x), pf_categories = cs,
                       pf_weights = ws, pf_budget_min = u_budget_min u, pf_budget_max = u_budget_max u,
                       pf_generated = now, pf_expires = now + pst_ttl s, pf_source = ''postgres''\<rparr> in
                 ok (p, cache_preference fmt s r userIDHash p))))))"

definition preference_Get ::
  "(int \<Rightarrow> string) \<Rightarrow> (string \<Rightarrow> int option) \<Rightarrow> preference_store option \<Rightarrow> redis \<Rightarrow> string
     \<Rightarrow> (preference \<times> redis) db_act" where
  "preference_Get fmt parse_time s r userIDHash =
     (if userIDHash = [] then fail (Recommendation_err InvalidUserIDHash)
      else
        andThen (DemoPreference userIDHash) (\<lambda>fallback.
        case s of
          None \<Rightarrow> ok (fallback, r)
        | Some v \<Rightarrow>
            (case cached_preference parse_time v r userIDHash of
               Some p \<Rightarrow>
                 andThen (attempt (LoadPreferenceWeights (pst_db v) userIDHash)) (\<lambda>q.
                 case q of
                   Inl err \<Rightarrow> ok (p\<lparr>pf_source := ''redis''\<rparr>, r)
                 | Inr ws \<Rightarrow> ok (p\<lparr>pf_weights := ws, pf_source := ''redis''\<rparr>, r))
             | None \<Rightarrow> database_preference fmt v r userIDHash fallback)))"

end
