(* ===== verification/PreferenceTheorems.thy ===== *)
theory PreferenceTheorems
  imports Preference Demo
begin

text \<open>What the preference store promises of its cache.\<close>

lemma preference_folds:
  "fold_name ''predicted_destination'' = ''PREDICTED_DESTINATION''"
  "fold_name ''preferred_categories'' = ''PREFERRED_CATEGORIES''"
  "fold_name ''category_weights'' = ''CATEGORY_WEIGHTS''"
  "fold_name ''budget_min_points'' = ''BUDGET_MIN_POINTS''"
  "fold_name ''budget_max_points'' = ''BUDGET_MAX_POINTS''"
  "fold_name ''generated_at'' = ''GENERATED_AT''"
  "fold_name ''expires_at'' = ''EXPIRES_AT''"
  by code_simp+

lemma decode_weights_numbers: "\<exists>ws. decode_weights (map (\<lambda>(c, x). (c, json_number x)) xs) acc = Inr ws"
  by (induction xs arbitrary: acc) auto

lemma assign_strings_marshal: "assign_strings (marshal_strings ss) old = Inr ss"
  by (simp add: marshal_strings_def)

lemma decode_preference_json:
  assumes "\<And>t. parse_time (fmt t) = Some t"
    and "int64_range (pf_budget_min p)" and "int64_range (pf_budget_max p)"
  shows "\<exists>ws. unmarshal (assign_struct (decode_preference parse_time)) (Raw (preference_json fmt p)) no_preference
    = Inr (p\<lparr>pf_weights := ws, pf_source := []\<rparr>)"
proof -
  obtain ws where ws: "decode_weights (map (\<lambda>(c, x). (c, json_number x)) (sort_key fst (pf_weights p))) [] = Inr ws"
    using decode_weights_numbers by blast
  show ?thesis
    using assms ws
    by (cases p) (auto simp: preference_json_def decode_preference_def no_preference_def field_folds preference_folds
        assign_strings_marshal simp del: fold_name.simps)
qed

lemma cached_after_cache:
  assumes "\<And>t. parse_time (fmt t) = Some t"
    and "int64_range (pf_budget_min p)" and "int64_range (pf_budget_max p)" and "pf_user_hash p = h"
    and "pst_client s" and "rd_set_up r" and "rd_get_up r"
  shows "\<exists>ws. cached_preference parse_time s (cache_preference fmt s r h p) h
    = Some (p\<lparr>pf_weights := ws, pf_source := []\<rparr>)"
  using decode_preference_json [where parse_time = parse_time and fmt = fmt and p = p] assms
  by (auto simp: cached_preference_def cache_preference_def)

text \<open>The budgets the program reads are those of a column of 64 bits, or of the fallback.\<close>

definition saved_by :: "(int \<Rightarrow> string) \<Rightarrow> preference_store \<Rightarrow> redis \<Rightarrow> string \<Rightarrow> preference \<times> redis \<Rightarrow> bool" where
  "saved_by fmt s r h q \<longleftrightarrow> snd q = cache_preference fmt s r h (fst q) \<and> pf_user_hash (fst q) = h
     \<and> int64_range (pf_budget_min (fst q)) \<and> int64_range (pf_budget_max (fst q))"

lemma demo_preference_simps [simp]:
  "pf_user_hash (demo_preference now h) = h" "int64_range (pf_budget_min (demo_preference now h))"
  "int64_range (pf_budget_max (demo_preference now h))"
  by (simp_all add: demo_preference_def int64_range_def)

lemma preference_Get_wp:
  assumes "\<forall>u\<in>set (users (committed w)). int64_range (u_budget_min u) \<and> int64_range (u_budget_max u)"
    and "cached_preference parse_time s r h = None"
  shows "wp (preference_Get fmt parse_time (Some s) r h) e
    (\<lambda>q w'. committed w' = committed w \<and> (\<forall>a. q = Inr a \<longrightarrow> saved_by fmt s r h a)) w"
  unfolding preference_Get_def database_preference_def fallback_preference_def DemoPreference_def
    LoadPreferenceWeights_def Let_def
  using assms
  by (auto simp: saved_by_def intro!: wp_execDB dest!: lookup_row_SomeD split: option.split)

lemma preference_Get_cached:
  assumes "cached_preference parse_time s r h = Some p" and "h \<noteq> []"
  shows "\<exists>ws w'. preference_Get fmt parse_time (Some s) r h e w
    = (Inr (p\<lparr>pf_weights := ws, pf_source := ''redis''\<rparr>, r), w') \<and> committed w' = committed w"
proof -
  have same: "\<exists>ws. p\<lparr>pf_source := x\<rparr> = p\<lparr>pf_weights := ws, pf_source := x\<rparr>" for x
    by (rule exI [of _ "pf_weights p"]) simp
  have "wp (preference_Get fmt parse_time (Some s) r h) e (\<lambda>q w'. committed w' = committed w
      \<and> (\<exists>ws. q = Inr (p\<lparr>pf_weights := ws, pf_source := ''redis''\<rparr>, r))) w"
    unfolding preference_Get_def DemoPreference_def LoadPreferenceWeights_def
    using assms by (auto intro!: wp_execDB same)
  then show ?thesis by (cases "preference_Get fmt parse_time (Some s) r h e w") (auto dest: wpD)
qed

text \<open>
  A preference is the same until it expires. When \<open>Get\<close> has taken a user's preference from the
  database, or fallen back to the default, the next \<open>Get\<close> gives the same preference from Redis,
  whatever became of the database in between, an outage or an update of the preferences included;
  only the learned weights are read afresh.
\<close>

theorem preference_answered_from_cache:
  assumes "preference_Get fmt parse_time (Some s) r h e w = (Inr (p, r1), w1)"
    and "cached_preference parse_time s r h = None" and "pst_client s" and "rd_set_up r" and "rd_get_up r"
    and "\<forall>u\<in>set (users (committed w)). int64_range (u_budget_min u) \<and> int64_range (u_budget_max u)"
    and "\<forall>t. parse_time (fmt t) = Some t"
  shows "\<exists>ws w3. preference_Get fmt parse_time (Some s) r1 h e2 w2
    = (Inr (p\<lparr>pf_weights := ws, pf_source := ''redis''\<rparr>, r1), w3) \<and> committed w3 = committed w2"
proof -
  have h: "h \<noteq> []" using assms(1) by (auto simp: preference_Get_def fail_def)
  from wpD [OF preference_Get_wp [OF assms(6,2)] assms(1)] have saved: "saved_by fmt s r h (p, r1)" by simp
  then obtain ws where "cached_preference parse_time s r1 h = Some (p\<lparr>pf_weights := ws, pf_source := []\<rparr>)"
    using cached_after_cache [of parse_time fmt p h s r] assms(3-5,7) by (auto simp: saved_by_def)
  from preference_Get_cached [OF this h, of fmt e2 w2] show ?thesis by auto
qed

definition demo_store :: preference_store where
  "demo_store = \<lparr>pst_client = True, pst_ttl = 60, pst_db = Handle\<rparr>"

text \<open>Instants as text in unary, for an example that reads them back.\<close>

definition unary :: "int \<Rightarrow> string" where
  "unary t = (if t < 0 then CHR ''-'' # replicate (nat (- t)) (CHR ''1'') else replicate (nat t) (CHR ''1''))"

definition of_unary :: "string \<Rightarrow> int option" where
  "of_unary s = (case s of [] \<Rightarrow> Some 0
     | c # cs \<Rightarrow> Some (if c = CHR ''-'' then - int (length cs) else int (length s)))"

lemma of_unary_unary: "of_unary (unary t) = Some t"
  by (cases "nat t") (auto simp: of_unary_def unary_def)

theorem preference_answered_from_cache_witness:
  "\<exists>p r1 w1 ws w3. preference_Get unary of_unary (Some demo_store)
      \<lparr>rd_entries = (\<lambda>_. None), rd_get_up = True, rd_set_up = True\<rparr> demo_hash calm_env (demo_world demo_db)
      = (Inr (p, r1), w1)
    \<and> preference_Get unary of_unary (Some demo_store) r1 demo_hash calm_env
        (demo_world (demo_db\<lparr>users := []\<rparr>))
      = (Inr (p\<lparr>pf_weights := ws, pf_source := ''redis''\<rparr>, r1), w3)"
proof -
  let ?r = "\<lparr>rd_entries = (\<lambda>_. None), rd_get_up = True, rd_set_up = True\<rparr> :: redis"
  have "\<exists>a. fst (preference_Get unary of_unary (Some demo_store) ?r demo_hash calm_env (demo_world demo_db)) = Inr a"
    by (simp add: preference_Get_def DemoPreference_def cached_preference_def demo_store_def database_preference_def
        LoadPreferenceWeights_def calm_simps demo_world_def demo_db_def demo_user_def demo_hash_def reads_def
        lookup_row_Cons stored_preference_def user_weights_def fallback_preference_def Let_def)
  then obtain p r1 w1 where "preference_Get unary of_unary (Some demo_store) ?r demo_hash calm_env
      (demo_world demo_db) = (Inr (p, r1), w1)"
    by (cases "preference_Get unary of_unary (Some demo_store) ?r demo_hash calm_env (demo_world demo_db)") auto
  moreover have "cached_preference of_unary demo_store ?r demo_hash = None" "pst_client demo_store"
    by (simp_all add: cached_preference_def demo_store_def)
  moreover have "\<forall>u\<in>set (users (committed (demo_world demo_db))). int64_range (u_budget_min u)
      \<and> int64_range (u_budget_max u)"
    by (simp add: demo_world_def demo_db_def demo_user_def int64_range_def)
  ultimately show ?thesis
    using preference_answered_from_cache [of unary of_unary demo_store ?r demo_hash calm_env "demo_world demo_db"]
      of_unary_unary by fastforce
qed

end
