(* ===== verification/Platform.thy ===== *)
theory Platform
  imports Text Json Effects "HOL-Library.AList"
begin

text \<open>
  \<open>internal/platform/\<close>: the settings every program reads from its environment
  (\<open>config/runtime.go\<close>), the browser's access to the API (\<open>app/cors.go\<close>), the health endpoints
  (\<open>app/app.go\<close>) and how a trace travels with a Kafka message (\<open>observability/observability.go\<close>).
  The environment is a function of the variable's name, empty where the variable is not set.
\<close>

type_synonym environment = "string \<Rightarrow> string"

subsection \<open>Settings\<close>

text \<open>\<open>strconv.Atoi\<close>, where \<open>int\<close> has 64 bits.\<close>

definition decimal_digits_only :: "string \<Rightarrow> bool" where
  "decimal_digits_only s \<longleftrightarrow> s \<noteq> [] \<and> list_all (\<lambda>c. CHR ''0'' \<le> c \<and> c \<le> CHR ''9'') s"

definition Atoi :: "string \<Rightarrow> int option" where
  "Atoi s =
     (let negative = (s \<noteq> [] \<and> hd s = CHR ''-'');
          digits = (if s \<noteq> [] \<and> (hd s = CHR ''-'' \<or> hd s = CHR ''+'') then tl s else s);
          n = (if negative then - int (decimal_value 0 digits) else int (decimal_value 0 digits)) in
      if decimal_digits_only digits \<and> int64_range n then Some n else None)"

text \<open>A variable that replaces a default: any text, or a positive number.\<close>

definition text_setting :: "string \<Rightarrow> string \<Rightarrow> string" where
  "text_setting v otherwise = (if v \<noteq> [] then v else otherwise)"

definition positive_setting :: "string \<Rightarrow> int \<Rightarrow> int" where
  "positive_setting v otherwise =
     (if v \<noteq> []
      then (case Atoi v of Some parsed \<Rightarrow> (if parsed > 0 then parsed else otherwise) | None \<Rightarrow> otherwise)
      else otherwise)"

record runtime =
  rt_service :: string
  rt_http :: string
  rt_grpc :: string
  rt_origins :: string

definition Load :: "environment \<Rightarrow> string \<Rightarrow> string \<Rightarrow> string \<Rightarrow> runtime" where
  "Load getenv defaultServiceName defaultHTTPAddr defaultGRPCAddr =
     \<lparr>rt_service = text_setting (getenv ''SERVICE_NAME'') defaultServiceName,
      rt_http = text_setting (getenv ''HTTP_ADDR'') defaultHTTPAddr,
      rt_grpc = text_setting (getenv ''GRPC_ADDR'') defaultGRPCAddr,
      rt_origins = getenv ''CORS_ALLOWED_ORIGINS''\<rparr>"

record dependencies =
  dep_kafka :: string
  dep_postgres :: string
  dep_redis :: string
  dep_clickhouse :: string
  dep_qdrant :: string
  dep_llm_mode :: string
  dep_llm_url :: string
  dep_llm_model :: string
  dep_embedding_mode :: string
  dep_embedding_url :: string
  dep_embedding_model :: string
  dep_embedding_dimension :: int
  dep_embedding_collection :: string
  dep_candidate_limit :: int
  dep_notification_provider :: string
  dep_vapid_subject :: string
  dep_vapid_public :: string
  dep_vapid_private :: string
  dep_beacon_url :: string
  dep_beacon_user :: string
  dep_beacon_password :: string
  dep_beacon_timeout :: int
  dep_mobility_url :: string
  dep_mobility_timeout :: int

definition LoadDependencies :: "environment \<Rightarrow> dependencies" where
  "LoadDependencies getenv =
     \<lparr>dep_kafka = getenv ''KAFKA_BROKERS'',
      dep_postgres = getenv ''POSTGRES_DSN'',
      dep_redis = getenv ''REDIS_ADDR'',
      dep_clickhouse = getenv ''CLICKHOUSE_DSN'',
      dep_qdrant = getenv ''QDRANT_URL'',
      dep_llm_mode = text_setting (getenv ''LLM_MODE'') ''template'',
      dep_llm_url = getenv ''LLM_BASE_URL'',
      dep_llm_model = getenv ''LLM_MODEL'',
      dep_embedding_mode = text_setting (getenv ''EMBEDDING_MODE'') ''hash'',
      dep_embedding_url = getenv ''EMBEDDING_BASE_URL'',
      dep_embedding_model = text_setting (getenv ''EMBEDDING_MODEL'') ''demo-hash-v1'',
      dep_embedding_dimension = positive_setting (getenv ''EMBEDDING_DIMENSION'') 32,
      dep_embedding_collection = text_setting (getenv ''EMBEDDING_COLLECTION'') ''offer_embeddings_v1'',
      dep_candidate_limit = positive_setting (getenv ''RECOMMENDATION_CANDIDATE_LIMIT'') 10,
      dep_notification_provider = text_setting (getenv ''NOTIFICATION_PROVIDER'') ''mock'',
      dep_vapid_subject = getenv ''VAPID_SUBJECT'',
      dep_vapid_public = getenv ''VAPID_PUBLIC_KEY'',
      dep_vapid_private = getenv ''VAPID_PRIVATE_KEY'',
      dep_beacon_url = getenv ''BEACON_API_URL'',
      dep_beacon_user = getenv ''BEACON_API_USERNAME'',
      dep_beacon_password = getenv ''BEACON_API_PASSWORD'',
      dep_beacon_timeout = positive_setting (getenv ''BEACON_API_TIMEOUT_MS'') 800,
      dep_mobility_url = getenv ''MOBILITY_API_URL'',
      dep_mobility_timeout = positive_setting (getenv ''MOBILITY_API_TIMEOUT_MS'') 800\<rparr>"

text \<open>\<open>strings.Split\<close> at a character.\<close>

fun split_on :: "char \<Rightarrow> string \<Rightarrow> string list" where
  "split_on c [] = [[]]"
| "split_on c (x # xs) =
     (if x = c then [] # split_on c xs
      else (case split_on c xs of [] \<Rightarrow> [[x]] | y # ys \<Rightarrow> (x # y) # ys))"

subsection \<open>Requests and answers\<close>

type_synonym http_headers = "string \<Rightarrow> string list"

record http_request =
  hq_method :: string
  hq_origin :: string

record http_reply =
  hr_status :: int
  hr_headers :: http_headers
  hr_body :: "json option"

type_synonym http_handler = "http_request \<Rightarrow> http_headers \<Rightarrow> http_reply"

subsection \<open>Browsers of other origins\<close>

definition corsAllowedMethods :: string where
  "corsAllowedMethods = ''GET,POST,PATCH,OPTIONS''"

definition corsAllowedHeaders :: string where
  "corsAllowedHeaders = ''Content-Type,Idempotency-Key,Traceparent,Tracestate''"

definition allowed_origins :: "string \<Rightarrow> string list" where
  "allowed_origins rawAllowlist = filter (\<lambda>x. x \<noteq> []) (map trim_space (split_on (CHR '','') rawAllowlist))"

definition grant_origin :: "string \<Rightarrow> http_headers \<Rightarrow> http_headers" where
  "grant_origin origin h = h
     (''Access-Control-Allow-Origin'' := [origin],
      ''Access-Control-Allow-Methods'' := [corsAllowedMethods],
      ''Access-Control-Allow-Headers'' := [corsAllowedHeaders],
      ''Vary'' := h ''Vary'' @ [''Origin''])"

definition corsFilter :: "string \<Rightarrow> http_handler \<Rightarrow> http_handler" where
  "corsFilter rawAllowlist handler r h =
     (let origin = trim_space (hq_origin r);
          permitted = (origin \<in> set (allowed_origins rawAllowlist));
          h' = (if origin \<noteq> [] \<and> permitted then grant_origin origin h else h) in
      if hq_method r = ''OPTIONS'' \<and> origin \<noteq> [] then
        (if \<not> permitted then \<lparr>hr_status = 403, hr_headers = h', hr_body = None\<rparr>
         else \<lparr>hr_status = 204, hr_headers = h', hr_body = None\<rparr>)
      else handler r h')"

subsection \<open>Health\<close>

definition status_json :: "string \<Rightarrow> string \<Rightarrow> string \<Rightarrow> json" where
  "status_json service version state = JObj
     [(''service'', JStr service), (''version'', JStr version), (''status'', JStr state)]"

definition writeStatus :: "int \<Rightarrow> string \<Rightarrow> string \<Rightarrow> string \<Rightarrow> http_headers \<Rightarrow> http_reply" where
  "writeStatus code service version state h =
     \<lparr>hr_status = code, hr_headers = h(''Content-Type'' := [''application/json'']),
      hr_body = Some (status_json service version state)\<rparr>"

definition statusHandler :: "string \<Rightarrow> string \<Rightarrow> string \<Rightarrow> http_handler" where
  "statusHandler service version state r h = writeStatus 200 service version state h"

text \<open>A check can be nil; the others answer nil or an error. The first error ends the loop.\<close>

fun readinessHandler :: "string \<Rightarrow> string \<Rightarrow> gerr option option list \<Rightarrow> http_handler" where
  "readinessHandler service version [] r h = writeStatus 200 service version ''ready'' h"
| "readinessHandler service version (check # checks) r h =
     (case check of
        Some (Some err) \<Rightarrow> writeStatus 503 service version ''not_ready'' h
      | _ \<Rightarrow> readinessHandler service version checks r h)"

subsection \<open>Traces across Kafka\<close>

text \<open>
  A carrier is a Go map, here the list of its entries; the propagator writes to it with \<open>Set\<close> and
  reads it with \<open>Get\<close>. Ranging over a map visits the entries in any order: \<open>shuffle\<close>.
\<close>

type_synonym carrier = "(string \<times> string) list"

definition carrier_Set :: "string \<times> string \<Rightarrow> carrier \<Rightarrow> carrier" where
  "carrier_Set kv c = AList.update (fst kv) (snd kv) c"

definition carrier_Get :: "carrier \<Rightarrow> string \<Rightarrow> string" where
  "carrier_Get c key = (case map_of c key of None \<Rightarrow> [] | Some v \<Rightarrow> v)"

definition InjectKafka :: "(carrier \<Rightarrow> carrier) \<Rightarrow> (string \<times> string) list \<Rightarrow> (string \<times> string) list" where
  "InjectKafka shuffle injected = shuffle (fold carrier_Set injected [])"

definition ExtractKafka :: "((string \<Rightarrow> string) \<Rightarrow> 'c \<Rightarrow> 'c) \<Rightarrow> 'c \<Rightarrow> (string \<times> string) list \<Rightarrow> 'c" where
  "ExtractKafka extract ctx headers = extract (carrier_Get (fold carrier_Set headers [])) ctx"

text \<open>The line of a log message; \<open>sc\<close> is the trace and span of the context, when it has one.\<close>

definition log_line :: "(string \<times> string) option \<Rightarrow> string \<Rightarrow> (string \<times> string) list \<Rightarrow> string" where
  "log_line sc message attrs =
     (let fields = (case sc of None \<Rightarrow> [] | Some (t, s) \<Rightarrow> [''trace_id='' @ t, ''span_id='' @ s])
            @ map (\<lambda>(k, v). k @ ''='' @ v) attrs in
      if fields \<noteq> [] then message @ '' '' @ join_with '' '' fields else message)"

subsection \<open>Facts\<close>

lemma text_setting_nonempty: "otherwise \<noteq> [] \<Longrightarrow> text_setting v otherwise \<noteq> []"
  by (simp add: text_setting_def)

lemma positive_setting_pos: "otherwise > 0 \<Longrightarrow> positive_setting v otherwise > 0"
  by (auto simp: positive_setting_def split: option.splits)

lemma Atoi_range: "Atoi s = Some n \<Longrightarrow> int64_range n"
  by (auto simp: Atoi_def Let_def split: if_splits)

lemma positive_setting_range:
  "0 < otherwise \<Longrightarrow> otherwise < 2 ^ 63 \<Longrightarrow> positive_setting v otherwise < 2 ^ 63"
  by (auto simp: positive_setting_def int64_range_def dest!: Atoi_range split: option.splits)

lemma settings_usable:
  fixes getenv :: environment
  defines "d \<equiv> LoadDependencies getenv"
  shows "dep_embedding_dimension d > 0" "dep_candidate_limit d > 0" "dep_beacon_timeout d > 0"
    "dep_mobility_timeout d > 0" "dep_llm_mode d \<noteq> []" "dep_embedding_mode d \<noteq> []"
    "dep_embedding_model d \<noteq> []" "dep_embedding_collection d \<noteq> []" "dep_notification_provider d \<noteq> []"
  by (simp_all add: d_def LoadDependencies_def positive_setting_pos text_setting_nonempty)

lemma allowed_origins_nonempty: "[] \<notin> set (allowed_origins raw)"
  by (simp add: allowed_origins_def)

lemma map_of_carrier: "map_of (fold carrier_Set kvs c) = map_of c ++ map_of (rev kvs)"
  by (induction kvs arbitrary: c) (auto simp: carrier_Set_def update_conv map_add_def fun_eq_iff split: option.splits)

lemma distinct_carrier: "distinct (map fst c) \<Longrightarrow> distinct (map fst (fold carrier_Set kvs c))"
  by (induction kvs arbitrary: c) (simp_all add: carrier_Set_def distinct_update)

end
