(* ===== verification/Copy.thy ===== *)
theory Copy
  imports Text Json
begin

text \<open>
  \<open>internal/recommendation/copy.go\<close>: the words of a recommendation, from a template or from a
  language model whose output must keep to the facts. \<open>nd\<close> is the table behind
  \<open>unicode.IsDigit\<close> beyond ASCII; a generator is a function of the facts (a timeout is one of its
  errors); \<open>print\<close> and \<open>parse\<close> convert between documents and their text.
\<close>

record copy_facts =
  cf_station :: string
  cf_offer :: string
  cf_cost :: int
  cf_discount :: string
  cf_reasons :: "string list"
  cf_time :: string

record copy_output =
  co_title :: string
  co_body :: string
  co_tone :: string

type_synonym copy_generator = "copy_facts \<Rightarrow> gerr + copy_output"
type_synonym digit_table = "rune \<Rightarrow> bool"

subsection \<open>Runes\<close>

definition runeCount :: "string \<Rightarrow> nat" where
  "runeCount s = length (runes s)"

definition truncateRunes :: "string \<Rightarrow> nat \<Rightarrow> string" where
  "truncateRunes s limit =
     (if length (runes s) \<le> limit then s else of_runes (take limit (runes s)))"

definition factToken :: "string \<Rightarrow> string" where
  "factToken s = of_runes (take 20 (runes s))"

definition is_digit :: "digit_table \<Rightarrow> rune \<Rightarrow> bool" where
  "is_digit nd r = (if r < 128 then 48 \<le> r \<and> r \<le> 57 else nd r)"

text \<open>The maximal runs of digits; \<open>current\<close> is the run being read.\<close>

fun digit_runs :: "digit_table \<Rightarrow> rune list \<Rightarrow> rune list \<Rightarrow> string list" where
  "digit_runs nd current [] = (if current = [] then [] else [of_runes current])"
| "digit_runs nd current (r # rs) =
     (if is_digit nd r then digit_runs nd (current @ [r]) rs
      else (if current = [] then [] else [of_runes current]) @ digit_runs nd [] rs)"

definition numericTokens :: "digit_table \<Rightarrow> string \<Rightarrow> string list" where
  "numericTokens nd s = digit_runs nd [] (runes s)"

subsection \<open>Validation\<close>

definition label_ok :: "string \<Rightarrow> bool" where
  "label_ok l \<longleftrightarrow> l \<noteq> [] \<and> runeCount l \<le> 40"

definition ValidateCopyFacts :: "copy_facts \<Rightarrow> gerr option" where
  "ValidateCopyFacts f =
     (if cf_station f = [] \<or> runeCount (cf_station f) > 80 \<or> cf_offer f = []
         \<or> runeCount (cf_offer f) > 120 \<or> cf_cost f < 0 \<or> cf_discount f = []
         \<or> runeCount (cf_discount f) > 160 \<or> length (cf_reasons f) < 1 \<or> length (cf_reasons f) > 3
         \<or> runeCount (cf_time f) > 40
      then Some (Recommendation_err InvalidCopyFacts)
      else if \<not> list_all label_ok (cf_reasons f) then Some (Recommendation_err InvalidCopyFacts)
      else None)"

definition copy_text :: "copy_output \<Rightarrow> string" where
  "copy_text x = co_title x @ '' '' @ co_body x"

definition allowed_numbers :: "digit_table \<Rightarrow> copy_facts \<Rightarrow> string list" where
  "allowed_numbers nd f =
     numericTokens nd (cf_offer f @ '' '' @ cf_discount f @ '' '' @ decimal_int (cf_cost f))"

definition ValidateCopyOutput :: "digit_table \<Rightarrow> copy_facts \<Rightarrow> copy_output \<Rightarrow> gerr option" where
  "ValidateCopyOutput nd f x =
     (if ValidateCopyFacts f \<noteq> None \<or> co_title x = [] \<or> runeCount (co_title x) > 40 \<or> co_body x = []
         \<or> runeCount (co_body x) > 140 \<or> co_tone x \<notin> {''friendly'', ''calm'', ''urgent''}
      then Some (Recommendation_err InvalidCopyOutput)
      else if \<not> contains (factToken (cf_offer f)) (copy_text x)
         \<or> \<not> contains (decimal_int (cf_cost f)) (copy_text x)
         \<or> \<not> contains (factToken (cf_discount f)) (copy_text x)
      then Some (Recommendation_err InvalidCopyOutput)
      else if \<not> set (numericTokens nd (copy_text x)) \<subseteq> set (allowed_numbers nd f)
      then Some (Recommendation_err InvalidCopyOutput)
      else None)"

subsection \<open>The template\<close>

text \<open>Its fixed parts: the full-width colon, "use", "points suffice. Reason:", the enumeration
  comma, "suits", and the full stop.\<close>

definition zh_colon :: string where
  "zh_colon = text_of_bytes [0xEF, 0xBC, 0x9A]"

definition zh_use :: string where
  "zh_use = text_of_bytes [0xEF, 0xBC, 0x8C, 0xE4, 0xBD, 0xBF, 0xE7, 0x94, 0xA8, 0x20]"

definition zh_points :: string where
  "zh_points = text_of_bytes [0x20, 0xE9, 0xBB, 0x9E, 0xE5, 0x8D, 0xB3, 0xE5, 0x8F, 0xAF, 0xE3,
     0x80, 0x82, 0xE6, 0x8E, 0xA8, 0xE8, 0x96, 0xA6, 0xE7, 0x90, 0x86, 0xE7, 0x94, 0xB1, 0xEF, 0xBC, 0x9A]"

definition zh_comma :: string where
  "zh_comma = text_of_bytes [0xE3, 0x80, 0x81]"

definition zh_suits :: string where
  "zh_suits = text_of_bytes [0xEF, 0xBC, 0x8C, 0xE9, 0x81, 0xA9, 0xE5, 0x90, 0x88]"

definition zh_stop :: string where
  "zh_stop = text_of_bytes [0xE3, 0x80, 0x82]"

definition template_body :: "copy_facts \<Rightarrow> string" where
  "template_body f =
     truncateRunes (cf_station f) 20 @ zh_colon @ truncateRunes (cf_discount f) 80 @ zh_use
     @ decimal_int (cf_cost f) @ zh_points @ truncateRunes (join_with zh_comma (cf_reasons f)) 30
     @ (if cf_time f \<noteq> [] then zh_suits @ cf_time f @ zh_stop else [])"

definition TemplateCopy :: "digit_table \<Rightarrow> copy_facts \<Rightarrow> gerr + copy_output" where
  "TemplateCopy nd f =
     (case ValidateCopyFacts f of
        Some err \<Rightarrow> Inl err
      | None \<Rightarrow>
          let x = \<lparr>co_title = truncateRunes (cf_offer f) 40,
                   co_body = truncateRunes (template_body f) 140, co_tone = ''friendly''\<rparr> in
          (case ValidateCopyOutput nd f x of Some err \<Rightarrow> Inl err | None \<Rightarrow> Inr x))"

definition GenerateCopy ::
  "digit_table \<Rightarrow> copy_facts \<Rightarrow> copy_generator option \<Rightarrow> gerr + copy_output \<times> string" where
  "GenerateCopy nd f generator =
     (case TemplateCopy nd f of
        Inl err \<Rightarrow> Inl err
      | Inr template \<Rightarrow>
          (case generator of
             None \<Rightarrow> Inr (template, ''template'')
           | Some g \<Rightarrow>
               (case g f of
                  Inl err \<Rightarrow> Inr (template, ''template'')
                | Inr x \<Rightarrow>
                    (case ValidateCopyOutput nd f x of
                       Some err \<Rightarrow> Inr (template, ''template'')
                     | None \<Rightarrow> Inr (x, ''llm'')))))"

subsection \<open>The generator behind HTTP\<close>

definition facts_json :: "copy_facts \<Rightarrow> json" where
  "facts_json f = JObj
     ([(''station_name'', JStr (cf_station f)), (''offer_name'', JStr (cf_offer f)),
       (''points_cost'', JInt (cf_cost f)), (''discount_description'', JStr (cf_discount f)),
       (''reason_labels'', json_strings (cf_reasons f))]
      @ (if cf_time f = [] then [] else [(''time_context'', JStr (cf_time f))]))"

definition system_prompt :: string where
  "system_prompt = text_of_bytes [0xE5, 0x8F, 0xAA, 0xE8, 0xBC, 0xB8, 0xE5, 0x87, 0xBA, 0xE7, 0xAC,
     0xA6, 0xE5, 0x90, 0x88, 0x20, 0x73, 0x63, 0x68, 0x65, 0x6D, 0x61, 0x20, 0xE7, 0x9A, 0x84, 0x20,
     0x4A, 0x53, 0x4F, 0x4E, 0x20, 0xE6, 0x96, 0x87, 0xE6, 0xA1, 0x88, 0xEF, 0xBC, 0x8C, 0xE4, 0xB8,
     0x8D, 0xE5, 0xBE, 0x97, 0xE6, 0x94, 0xB9, 0xE5, 0xAF, 0xAB, 0x20, 0x66, 0x61, 0x63, 0x74, 0x73,
     0xE3, 0x80, 0x82]"

definition chat_request :: "(json \<Rightarrow> string) \<Rightarrow> string \<Rightarrow> copy_facts \<Rightarrow> json" where
  "chat_request print model f = JObj
     [(''model'', JStr model), (''temperature'', JInt 0),
      (''messages'', JArr
        [JObj [(''role'', JStr ''system''), (''content'', JStr system_prompt)],
         JObj [(''role'', JStr ''user''), (''content'', JStr (print (facts_json f)))]])]"

text \<open>The choices of the answer, each by the content of its message.\<close>

fun decode_contents :: "json list \<Rightarrow> gerr + string list" where
  "decode_contents [] = Inr []"
| "decode_contents (j # js) =
     bind_result (assign_struct (decode_field (assign_struct (decode_field assign_string ''content''))
         ''message'') j []) (\<lambda>s.
     bind_result (decode_contents js) (\<lambda>ss. Inr (s # ss)))"

fun assign_choices :: "json \<Rightarrow> string list \<Rightarrow> gerr + string list" where
  "assign_choices JNull old = Inr []"
| "assign_choices (JArr js) old = decode_contents js"
| "assign_choices j old = Inl JsonMismatch"

definition output_fields :: "string list" where
  "output_fields = [''title'', ''body'', ''tone'']"

text \<open>\<open>DisallowUnknownFields\<close>: a member that fills none of the fields is an error.\<close>

definition known_member :: "string \<times> json \<Rightarrow> bool" where
  "known_member kv \<longleftrightarrow> list_ex (\<lambda>n. fst kv = n \<or> fold_name (fst kv) = fold_name n) output_fields"

definition decode_output :: "(string \<times> json) list \<Rightarrow> copy_output \<Rightarrow> gerr + copy_output" where
  "decode_output kvs x =
     (if \<not> list_all known_member kvs then Inl JsonMismatch
      else
        bind_result (decode_field assign_string ''title'' kvs (co_title x)) (\<lambda>t.
        bind_result (decode_field assign_string ''body'' kvs (co_body x)) (\<lambda>b.
        bind_result (decode_field assign_string ''tone'' kvs (co_tone x)) (\<lambda>n.
        Inr \<lparr>co_title = t, co_body = b, co_tone = n\<rparr>))))"

text \<open>\<open>endpoint\<close> is \<open>url.JoinPath(_, "v1/chat/completions")\<close>; \<open>post\<close> answers with status and body.\<close>

definition http_copy_generator ::
  "(json \<Rightarrow> string) \<Rightarrow> (string \<Rightarrow> raw) \<Rightarrow> (string \<Rightarrow> gerr + string)
     \<Rightarrow> (string \<Rightarrow> json \<Rightarrow> gerr + int \<times> raw) \<Rightarrow> string \<Rightarrow> string \<Rightarrow> copy_generator" where
  "http_copy_generator print parse endpoint post baseURL model f =
     (if baseURL = [] \<or> model = [] then Inl (Recommendation_err CopyGeneration)
      else
        bind_result (endpoint (trim_right_slashes baseURL)) (\<lambda>address.
        bind_result (post address (chat_request print model f)) (\<lambda>(status, body).
        if status < 200 \<or> status \<ge> 300
        then Inl (Wrapped ''status'' (Recommendation_err CopyGeneration))
        else
          (case unmarshal (assign_struct (decode_field assign_choices ''choices'')) body [] of
             Inr (content # _) \<Rightarrow>
               (case unmarshal (assign_struct decode_output) (parse content)
                  \<lparr>co_title = [], co_body = [], co_tone = []\<rparr> of
                  Inl e \<Rightarrow> Inl (Recommendation_err CopyGeneration)
                | Inr x \<Rightarrow> Inr x)
           | _ \<Rightarrow> Inl (Recommendation_err CopyGeneration)))))"

subsection \<open>What copy promises\<close>

text \<open>Copy that keeps to the facts.\<close>

definition faithful :: "digit_table \<Rightarrow> copy_facts \<Rightarrow> copy_output \<Rightarrow> bool" where
  "faithful nd f x \<longleftrightarrow> co_title x \<noteq> [] \<and> runeCount (co_title x) \<le> 40
     \<and> co_body x \<noteq> [] \<and> runeCount (co_body x) \<le> 140
     \<and> contains (factToken (cf_offer f)) (copy_text x)
     \<and> contains (decimal_int (cf_cost f)) (copy_text x)
     \<and> contains (factToken (cf_discount f)) (copy_text x)
     \<and> set (numericTokens nd (copy_text x)) \<subseteq> set (allowed_numbers nd f)"

lemma ValidateCopyOutput_faithful: "ValidateCopyOutput nd f x = None \<Longrightarrow> faithful nd f x"
  by (auto simp: ValidateCopyOutput_def faithful_def split: if_splits)

lemma GenerateCopy_cases:
  "GenerateCopy nd f g = Inr (x, source) \<longleftrightarrow> (\<exists>t. TemplateCopy nd f = Inr t
     \<and> ((source = ''llm'' \<and> (\<exists>h. g = Some h \<and> h f = Inr x) \<and> ValidateCopyOutput nd f x = None)
        \<or> (source = ''template'' \<and> x = t
            \<and> (\<forall>h y. g = Some h \<longrightarrow> h f = Inr y \<longrightarrow> ValidateCopyOutput nd f y \<noteq> None))))"
  by (auto simp: GenerateCopy_def split: sum.splits option.splits)

lemma TemplateCopy_valid: "TemplateCopy nd f = Inr x \<Longrightarrow> ValidateCopyOutput nd f x = None"
  by (auto simp: TemplateCopy_def Let_def split: option.splits)

text \<open>
  A station whose name carries a number, such as Taipei 101, passes it on to the template, whose
  words are then refused unless the offer mentions the number too; and without a template there is
  no copy, whatever the generator.
\<close>

definition numbered_station :: copy_facts where
  "numbered_station = \<lparr>cf_station = text_of_bytes [0xE5, 0x8F, 0xB0, 0xE5, 0x8C, 0x97, 0x31, 0x30, 0x31],
     cf_offer = ''Coffee'', cf_cost = 40, cf_discount = ''A cup'', cf_reasons = [''within_points''],
     cf_time = []\<rparr>"

lemma numbered_station_refused:
  "GenerateCopy (\<lambda>r. False) numbered_station generator = Inl (Recommendation_err InvalidCopyOutput)"
proof -
  have "TemplateCopy (\<lambda>r. False) numbered_station = Inl (Recommendation_err InvalidCopyOutput)"
    by code_simp
  then show ?thesis by (simp add: GenerateCopy_def)
qed

end
