(* ===== verification/Telemetry.thy ===== *)
theory Telemetry
  imports Platform Copy
begin

text \<open>
  What the services report to OpenTelemetry (\<open>platform/observability/observability.go\<close>): the
  middleware around every API request, the span of a Kafka message, counters, gauges and histograms,
  and the count of generated copy (\<open>recommendation/copy.go\<close>). OpenTelemetry itself is a parameter; what
  the code hands to it is a list of signals.
\<close>

subsection \<open>Signals\<close>

type_synonym attributes = "(string \<times> string) list"

datatype span_kind = SpanKindServer | SpanKindProducer | SpanKindConsumer

datatype signal =
    CounterAdd string int attributes
  | GaugeRecord string int attributes
  | HistogramRecord string rat attributes
  | SpanStart string string span_kind attributes
  | SpanError gerr
  | SpanEnd
  | ReplyHeaders "(string \<times> string) list"

text \<open>The propagator's \<open>Extract\<close> and \<open>Inject\<close>, and the context a tracer's \<open>Start\<close> makes.\<close>

record 'c tracing =
  tg_extract :: "(string \<Rightarrow> string) \<Rightarrow> 'c \<Rightarrow> 'c"
  tg_inject :: "'c \<Rightarrow> (string \<times> string) list"
  tg_start :: "string \<Rightarrow> string \<Rightarrow> span_kind \<Rightarrow> attributes \<Rightarrow> 'c \<Rightarrow> 'c"

definition AddCounter :: "string \<Rightarrow> int \<Rightarrow> attributes \<Rightarrow> signal" where
  "AddCounter name v attrs = CounterAdd name v attrs"

definition RecordValue :: "string \<Rightarrow> int \<Rightarrow> attributes \<Rightarrow> signal" where
  "RecordValue name v attrs = GaugeRecord name v attrs"

text \<open>Durations are whole microseconds; \<open>rd\<close> rounds milliseconds to \<open>float64\<close>.\<close>

definition RecordDuration :: "(rat \<Rightarrow> rat) \<Rightarrow> string \<Rightarrow> int \<Rightarrow> attributes \<Rightarrow> signal" where
  "RecordDuration rd name elapsed attrs = HistogramRecord name (rd (of_int elapsed / 1000)) attrs"

definition StartKafkaSpan :: "'c tracing \<Rightarrow> 'c \<Rightarrow> string \<Rightarrow> string \<Rightarrow> bool \<Rightarrow> 'c \<times> signal" where
  "StartKafkaSpan tc ctx topic eventID consumer =
     (let kind = (if consumer then SpanKindConsumer else SpanKindProducer);
          attrs = [(''messaging.destination.name'', topic), (''messaging.message.id'', eventID)] in
      (tg_start tc ''spacetime-node/kafka'' (''kafka.'' @ topic) kind attrs ctx,
       SpanStart ''spacetime-node/kafka'' (''kafka.'' @ topic) kind attrs))"

subsection \<open>The middleware of the API\<close>

record server_transport =
  tr_operation :: string
  tr_request_header :: "string \<Rightarrow> string"

text \<open>A handler answers a response and nil or an error, or it panics, and changes the state \<open>'s\<close>. A
  panic passes through the middleware: nothing after the call of \<open>next\<close> is deferred.\<close>

datatype 'r outcome = Returned 'r "gerr option" | Panicked

type_synonym ('c, 'q, 'r, 's) api_handler = "'c \<Rightarrow> 'q \<Rightarrow> 's \<Rightarrow> 'r outcome \<times> 's"

definition server_operation :: "string \<Rightarrow> server_transport option \<Rightarrow> string" where
  "server_operation serviceName t =
     (case t of
        Some tr \<Rightarrow> (if tr_operation tr \<noteq> [] then tr_operation tr else serviceName)
      | None \<Rightarrow> serviceName)"

definition request_context_of ::
  "'c tracing \<Rightarrow> string \<Rightarrow> server_transport option \<Rightarrow> 'c \<Rightarrow> 'c" where
  "request_context_of tc serviceName t ctx =
     tg_start tc (''spacetime-node/'' @ serviceName) (server_operation serviceName t) SpanKindServer []
       (case t of Some tr \<Rightarrow> tg_extract tc (tr_request_header tr) ctx | None \<Rightarrow> ctx)"

definition Middleware ::
  "'c tracing \<Rightarrow> (rat \<Rightarrow> rat) \<Rightarrow> string \<Rightarrow> ('c, 'q, 'r, 's) api_handler \<Rightarrow> server_transport option \<Rightarrow> int
     \<Rightarrow> 'c \<Rightarrow> 'q \<Rightarrow> 's \<Rightarrow> ('r outcome \<times> 's) \<times> signal list" where
  "Middleware tc rd serviceName next_handler t elapsed ctx req s =
     (let operation = server_operation serviceName t;
          ctx' = request_context_of tc serviceName t ctx;
          opened = SpanStart (''spacetime-node/'' @ serviceName) operation SpanKindServer []
            # (case t of Some tr \<Rightarrow> [ReplyHeaders (tg_inject tc ctx')] | None \<Rightarrow> []);
          attrs = [(''service.name'', serviceName), (''rpc.method'', operation)] in
      (case next_handler ctx' req s of
         (Panicked, s') \<Rightarrow> ((Panicked, s'), opened)
       | (Returned response err, s') \<Rightarrow>
           ((Returned response err, s'),
            opened @ [CounterAdd ''http_server_requests_total'' 1 attrs,
                      HistogramRecord ''http_server_request_duration_ms'' (rd (of_int elapsed / 1000)) attrs]
              @ (case err of
                   Some x \<Rightarrow> [CounterAdd ''http_server_errors_total'' 1 attrs, SpanError x]
                 | None \<Rightarrow> [])
              @ [SpanEnd])))"

subsection \<open>The count of generated copy\<close>

text \<open>\<open>expired\<close>: the deadline of the generator's context has passed when it answers.\<close>

definition copy_outcome :: "bool \<Rightarrow> gerr \<Rightarrow> string" where
  "copy_outcome expired err =
     (if expired then ''timeout''
      else if errors_is err (Recommendation_err InvalidCopyOutput) then ''validation_failure''
      else ''llm_error'')"

definition copy_count :: "string \<Rightarrow> string \<Rightarrow> signal" where
  "copy_count source outcome =
     AddCounter ''copy_generation_total'' 1 [(''copy.source'', source), (''copy.outcome'', outcome)]"

definition GenerateCopy_signals ::
  "digit_table \<Rightarrow> copy_facts \<Rightarrow> copy_generator option \<Rightarrow> bool \<Rightarrow> signal list" where
  "GenerateCopy_signals nd f generator expired =
     (case TemplateCopy nd f of
        Inl err \<Rightarrow> []
      | Inr template \<Rightarrow>
          (case generator of
             None \<Rightarrow> [copy_count ''template'' ''template'']
           | Some g \<Rightarrow>
               (case g f of
                  Inl err \<Rightarrow> [copy_count ''template'' (copy_outcome expired err)]
                | Inr x \<Rightarrow>
                    (case ValidateCopyOutput nd f x of
                       Some err \<Rightarrow> [copy_count ''template'' (copy_outcome expired err)]
                     | None \<Rightarrow> [copy_count ''llm'' ''success'']))))"

subsection \<open>Facts\<close>

text \<open>Every copy is counted once, under the source the recommendation stores.\<close>

lemma copy_counted:
  "GenerateCopy nd f g = Inr (x, source) \<Longrightarrow>
     \<exists>outcome. GenerateCopy_signals nd f g expired = [copy_count source outcome]
       \<and> (source = ''llm'' \<longleftrightarrow> outcome = ''success'')"
  by (auto simp: GenerateCopy_def GenerateCopy_signals_def copy_outcome_def split: sum.splits option.splits)

lemma failed_copy_uncounted: "GenerateCopy nd f g = Inl err \<Longrightarrow> GenerateCopy_signals nd f g expired = []"
  by (auto simp: GenerateCopy_def GenerateCopy_signals_def split: sum.splits option.splits)

text \<open>Requests one after the other: each with its transport, its duration, its context and itself.\<close>

type_synonym ('c, 'q) api_call = "server_transport option \<times> int \<times> 'c \<times> 'q"

fun serve_all ::
  "'c tracing \<Rightarrow> (rat \<Rightarrow> rat) \<Rightarrow> string \<Rightarrow> ('c, 'q, 'r, 's) api_handler \<Rightarrow> ('c, 'q) api_call list \<Rightarrow> 's
     \<Rightarrow> ('r outcome list \<times> 's) \<times> signal list" where
  "serve_all tc rd name h [] s = (([], s), [])"
| "serve_all tc rd name h ((t, elapsed, ctx, req) # more_calls) s =
     (case Middleware tc rd name h t elapsed ctx req s of
        ((out, s'), sigs) \<Rightarrow>
          (case serve_all tc rd name h more_calls s' of
             ((outs, s''), sigs') \<Rightarrow> ((out # outs, s''), sigs @ sigs')))"

text \<open>The same handler without the middleware.\<close>

fun run_all ::
  "'c tracing \<Rightarrow> string \<Rightarrow> ('c, 'q, 'r, 's) api_handler \<Rightarrow> ('c, 'q) api_call list \<Rightarrow> 's \<Rightarrow> 'r outcome list \<times> 's" where
  "run_all tc name h [] s = ([], s)"
| "run_all tc name h ((t, elapsed, ctx, req) # more_calls) s =
     (case h (request_context_of tc name t ctx) req s of
        (out, s') \<Rightarrow> (case run_all tc name h more_calls s' of (outs, s'') \<Rightarrow> (out # outs, s'')))"

fun counted :: "string \<Rightarrow> signal \<Rightarrow> int" where
  "counted name (CounterAdd n v attrs) = (if n = name then v else 0)"
| "counted name _ = 0"

fun span_started :: "signal \<Rightarrow> bool" where
  "span_started (SpanStart a b c d) = True"
| "span_started _ = False"

fun failed :: "'r outcome \<Rightarrow> bool" where
  "failed (Returned r (Some err)) = True"
| "failed _ = False"

definition total :: "string \<Rightarrow> signal list \<Rightarrow> int" where
  "total name sigs = sum_list (map (counted name) sigs)"

lemma total_append [simp]: "total name (xs @ ys) = total name xs + total name ys"
  by (simp add: total_def)

text \<open>What one request adds.\<close>

lemma Middleware_reports:
  assumes "Middleware tc rd name h t elapsed ctx req s = ((out, s'), sigs)"
  shows "h (request_context_of tc name t ctx) req s = (out, s')"
    and "total ''http_server_requests_total'' sigs = (if out = Panicked then 0 else 1)"
    and "total ''http_server_errors_total'' sigs = (if failed out then 1 else 0)"
    and "length (filter span_started sigs) = 1"
    and "length (filter (\<lambda>x. x = SpanEnd) sigs) = (if out = Panicked then 0 else 1)"
  using assms
  by (auto simp: Middleware_def Let_def total_def split: prod.splits outcome.splits option.splits)

end
