(* ===== verification/Embedding.thy ===== *)
theory Embedding
  imports Schema Text
begin

text \<open>
  The vector side of \<open>internal/recommendation/\<close>: the documents embedded (\<open>embedder.go\<close>), the
  client of the vector store Qdrant (\<open>qdrant.go\<close>, \<open>qdrant_index.go\<close>) and the indexer of offers
  (\<open>indexer.go\<close>). The HTTP services, SHA-256 (\<open>sha256\<close>, 32 bytes), \<open>%.6f\<close> (\<open>fixed6\<close>), the
  rounding to \<open>float32\<close> (\<open>rnd\<close>) and \<open>uuid.Parse\<close>/\<open>NewSHA1\<close> (\<open>point_uuid\<close>) are parameters;
  the content of a Qdrant collection is what its requests made of it.
\<close>

record offer_document =
  od_offer :: string
  od_title :: string
  od_description :: string
  od_station :: string
  od_category :: string
  od_version :: int

record profile_document =
  pd_destination :: string
  pd_categories :: "string list"
  pd_weights :: "(string \<times> rat) list"
  pd_budget_min :: int
  pd_budget_max :: int

type_synonym vector = "rat list"
type_synonym embedder = "offer_document \<Rightarrow> gerr + vector"

subsection \<open>Canonical documents\<close>

definition newline :: string where
  "newline = [CHR 0x0A]"

definition CanonicalDocument :: "offer_document \<Rightarrow> string" where
  "CanonicalDocument d = join_with newline
     (filter (\<lambda>v. v \<noteq> []) (map trim_space [od_title d, od_description d, od_category d]))"

text \<open>The weights come from a map, in any order; the sorted lines do not depend on it.\<close>

definition weight_line :: "case_table \<Rightarrow> (rat \<Rightarrow> string) \<Rightarrow> string \<times> rat \<Rightarrow> string" where
  "weight_line lo fixed6 cw = to_lower lo (trim_space (fst cw)) @ ''='' @ fixed6 (snd cw)"

definition CanonicalProfileDocument ::
  "case_table \<Rightarrow> (rat \<Rightarrow> string) \<Rightarrow> profile_document \<Rightarrow> string" where
  "CanonicalProfileDocument lo fixed6 d = join_with newline
     [''destination='' @ trim_space (pd_destination d),
      ''categories='' @ join_with '','' (sort (pd_categories d)),
      ''weights='' @ join_with '','' (sort (map (weight_line lo fixed6) (pd_weights d))),
      ''budget='' @ decimal_int (pd_budget_min d) @ ''-'' @ decimal_int (pd_budget_max d)]"

definition hex_digit :: "nat \<Rightarrow> char" where
  "hex_digit n = (if n < 10 then char_of (48 + n) else char_of (87 + n))"

definition profileContentVersion :: "(string \<Rightarrow> nat list) \<Rightarrow> string \<Rightarrow> string" where
  "profileContentVersion sha256 document =
     ''sha256:'' @ concat (map (\<lambda>b. [hex_digit (b div 16), hex_digit (b mod 16)]) (sha256 document))"

subsection \<open>Embedders\<close>

definition HashEmbedder :: "(string \<Rightarrow> nat list) \<Rightarrow> (rat \<Rightarrow> rat) \<Rightarrow> int \<Rightarrow> embedder" where
  "HashEmbedder sha256 rnd dimension d =
     (if dimension < 1 then Inl (Recommendation_err EmbeddingUnavailable)
      else
        let digest = sha256 (CanonicalDocument d) in
        Inr (map (\<lambda>i. rnd (rnd (of_nat (digest ! (i mod length digest)) / (255 / 2)) - 1))
          [0..<nat dimension]))"

fun decode_vector :: "(rat \<Rightarrow> rat) \<Rightarrow> json list \<Rightarrow> gerr + vector" where
  "decode_vector rnd [] = Inr []"
| "decode_vector rnd (j # js) =
     bind_result (assign_float j 0) (\<lambda>q. bind_result (decode_vector rnd js) (\<lambda>v. Inr (rnd q # v)))"

fun assign_vector :: "(rat \<Rightarrow> rat) \<Rightarrow> json \<Rightarrow> vector \<Rightarrow> gerr + vector" where
  "assign_vector rnd JNull old = Inr []"
| "assign_vector rnd (JArr js) old = decode_vector rnd js"
| "assign_vector rnd j old = Inl JsonMismatch"

fun decode_data :: "(rat \<Rightarrow> rat) \<Rightarrow> json list \<Rightarrow> gerr + vector list" where
  "decode_data rnd [] = Inr []"
| "decode_data rnd (j # js) =
     bind_result (assign_struct (decode_field (assign_vector rnd) ''embedding'') j []) (\<lambda>v.
     bind_result (decode_data rnd js) (\<lambda>vs. Inr (v # vs)))"

fun assign_data :: "(rat \<Rightarrow> rat) \<Rightarrow> json \<Rightarrow> vector list \<Rightarrow> gerr + vector list" where
  "assign_data rnd JNull old = Inr []"
| "assign_data rnd (JArr js) old = decode_data rnd js"
| "assign_data rnd j old = Inl JsonMismatch"

text \<open>The outcome of an HTTP call: the request failed, or status and body arrived.\<close>

type_synonym http_post = "string \<Rightarrow> json \<Rightarrow> gerr + int \<times> raw"

abbreviation http_failed :: "int \<Rightarrow> bool" where
  "http_failed status \<equiv> status < 200 \<or> status \<ge> 300"

definition http_embedder :: "http_post \<Rightarrow> (rat \<Rightarrow> rat) \<Rightarrow> string \<Rightarrow> string \<Rightarrow> int \<Rightarrow> embedder" where
  "http_embedder post rnd baseURL model dimension d =
     (let unavailable = (\<lambda>t. Inl (Wrapped t (Recommendation_err EmbeddingUnavailable))) in
      if trim_space baseURL = [] \<or> trim_space model = [] \<or> dimension < 1
      then Inl (Recommendation_err EmbeddingUnavailable)
      else
        (case post (trim_right_slashes baseURL @ ''/v1/embeddings'')
             (JObj [(''model'', JStr model), (''input'', JStr (CanonicalDocument d))]) of
           Inl err \<Rightarrow> unavailable ''request''
         | Inr (status, body) \<Rightarrow>
             if http_failed status then unavailable ''provider status''
             else
               (case unmarshal (assign_struct (decode_field (assign_data rnd) ''data'')) body [] of
                  Inl err \<Rightarrow> unavailable ''decode response''
                | Inr vectors \<Rightarrow>
                    (case vectors of
                       [v] \<Rightarrow> if int (length v) = dimension then Inr v else unavailable ''dimension''
                     | _ \<Rightarrow> unavailable ''dimension''))))"

definition NewConfiguredEmbedder ::
  "case_table \<Rightarrow> (string \<Rightarrow> nat list) \<Rightarrow> http_post \<Rightarrow> (rat \<Rightarrow> rat) \<Rightarrow> string \<Rightarrow> string \<Rightarrow> string \<Rightarrow> int
     \<Rightarrow> gerr + embedder" where
  "NewConfiguredEmbedder lo sha256 post rnd mode baseURL model dimension =
     (let m = to_lower lo (trim_space mode) in
      if m = [] \<or> m = ''hash'' then Inr (HashEmbedder sha256 rnd dimension)
      else if m = ''http'' then
        (if trim_space baseURL = [] \<or> trim_space model = []
         then Inl (Recommendation_err EmbeddingUnavailable)
         else Inr (http_embedder post rnd baseURL model dimension))
      else Inl (Wrapped (''unsupported embedding mode '' @ mode) (Recommendation_err EmbeddingUnavailable)))"

subsection \<open>Searching Qdrant\<close>

record qdrant_client =
  qc_base :: string

definition NewQdrantClient :: "string \<Rightarrow> qdrant_client" where
  "NewQdrantClient baseURL = \<lparr>qc_base = trim_right_slashes baseURL\<rparr>"

definition qdrant_usable :: "qdrant_client option \<Rightarrow> bool" where
  "qdrant_usable c \<longleftrightarrow> (case c of None \<Rightarrow> False | Some v \<Rightarrow> qc_base v \<noteq> [])"

definition qdrant_Ping :: "(string \<Rightarrow> gerr + int) \<Rightarrow> qdrant_client option \<Rightarrow> gerr option" where
  "qdrant_Ping get c =
     (if \<not> qdrant_usable c then Some (Recommendation_err CandidateRecall)
      else
        (case get (qc_base (the c) @ ''/readyz'') of
           Inl err \<Rightarrow> Some (Wrapped ''request'' (Recommendation_err CandidateRecall))
         | Inr status \<Rightarrow>
             if http_failed status then Some (Wrapped ''qdrant status'' (Recommendation_err CandidateRecall))
             else None))"

record qdrant_candidate =
  qn_offer :: string
  qn_score :: rat

definition search_request :: "vector \<Rightarrow> string \<Rightarrow> string \<Rightarrow> int \<Rightarrow> json" where
  "search_request v stationID embeddingModel limit = JObj
     [(''vector'', JArr (map json_number v)), (''limit'', JInt limit), (''with_payload'', JBool True),
      (''filter'', JObj [(''must'', JArr
        (JObj [(''key'', JStr ''embedding_model''), (''match'', JObj [(''value'', JStr embeddingModel)])]
         # (if stationID = [] then []
            else [JObj [(''key'', JStr ''station_ids''), (''match'', JObj [(''any'', JArr [JStr stationID])])]])))])]"

text \<open>\<open>json.Number\<close> takes a number, as the text of it; \<open>number_text\<close> is that text. It takes \<open>null\<close>
  too, and so does a string.\<close>

fun qdrantID :: "(json \<Rightarrow> string) \<Rightarrow> raw \<Rightarrow> string" where
  "qdrantID number_text (Raw (JStr s)) = s"
| "qdrantID number_text (Raw (JInt n)) = number_text (JInt n)"
| "qdrantID number_text (Raw (JFrac a b)) = number_text (JFrac a b)"
| "qdrantID number_text r = []"

record qdrant_hit =
  qh_id :: raw
  qh_score :: rat
  qh_offer :: string

definition decode_hit :: "(string \<times> json) list \<Rightarrow> qdrant_hit \<Rightarrow> gerr + qdrant_hit" where
  "decode_hit kvs h =
     bind_result (decode_field assign_raw ''id'' kvs (qh_id h)) (\<lambda>i.
     bind_result (decode_field assign_float ''score'' kvs (qh_score h)) (\<lambda>q.
     bind_result (decode_field (assign_struct (decode_field assign_string ''offer_id'')) ''payload'' kvs
       (qh_offer h)) (\<lambda>x.
     Inr \<lparr>qh_id = i, qh_score = q, qh_offer = x\<rparr>)))"

fun decode_hits :: "json list \<Rightarrow> gerr + qdrant_hit list" where
  "decode_hits [] = Inr []"
| "decode_hits (j # js) =
     bind_result (assign_struct decode_hit j \<lparr>qh_id = RawEmpty, qh_score = 0, qh_offer = []\<rparr>) (\<lambda>h.
     bind_result (decode_hits js) (\<lambda>hs. Inr (h # hs)))"

fun assign_hits :: "json \<Rightarrow> qdrant_hit list \<Rightarrow> gerr + qdrant_hit list" where
  "assign_hits JNull old = Inr []"
| "assign_hits (JArr js) old = decode_hits js"
| "assign_hits j old = Inl JsonMismatch"

definition hit_candidates :: "(json \<Rightarrow> string) \<Rightarrow> qdrant_hit list \<Rightarrow> qdrant_candidate list" where
  "hit_candidates number_text hs = concat (map (\<lambda>h.
     let offerID = (if qh_offer h = [] then qdrantID number_text (qh_id h) else qh_offer h) in
     if offerID \<noteq> [] then [\<lparr>qn_offer = offerID, qn_score = qh_score h\<rparr>] else []) hs)"

text \<open>\<open>escape\<close> is \<open>url.PathEscape\<close>.\<close>

definition qdrant_Search ::
  "http_post \<Rightarrow> (string \<Rightarrow> string) \<Rightarrow> (json \<Rightarrow> string) \<Rightarrow> qdrant_client option \<Rightarrow> string \<Rightarrow> vector \<Rightarrow> string
     \<Rightarrow> string \<Rightarrow> int \<Rightarrow> gerr + qdrant_candidate list" where
  "qdrant_Search post escape number_text c collection v stationID embeddingModel limit =
     (if \<not> qdrant_usable c \<or> collection = [] \<or> v = [] \<or> trim_space embeddingModel = [] \<or> limit < 1
      then Inl (Recommendation_err CandidateRecall)
      else
        (case post (qc_base (the c) @ ''/collections/'' @ escape collection @ ''/points/search'')
             (search_request v stationID embeddingModel limit) of
           Inl err \<Rightarrow> Inl (Wrapped ''request'' (Recommendation_err CandidateRecall))
         | Inr (status, body) \<Rightarrow>
             if http_failed status
             then Inl (Wrapped ''qdrant status'' (Recommendation_err CandidateRecall))
             else
               (case unmarshal (assign_struct (decode_field assign_hits ''result'')) body [] of
                  Inl err \<Rightarrow> Inl (Wrapped ''invalid qdrant response'' (Recommendation_err CandidateRecall))
                | Inr hs \<Rightarrow> Inr (hit_candidates number_text hs))))"

end
