(* ===== verification/Indexer.thy ===== *)
theory Indexer
  imports Embedding
begin

text \<open>
  \<open>internal/recommendation/qdrant_index.go\<close> and \<open>indexer.go\<close>: writing offers to the vector store.
  \<open>http\<close> answers a request, given everything sent before, with a status or a failure; every request
  made is recorded in the trace. Both errors that \<open>doJSON\<close> wraps for a bad status are kept as one,
  the status, which is what its callers look at.
\<close>

type_synonym http = "external_call list \<Rightarrow> string \<Rightarrow> string \<Rightarrow> json \<Rightarrow> gerr + int"

subsection \<open>Requests to Qdrant\<close>

record qdrant_point =
  qp_id :: string
  qp_vector :: vector
  qp_payload :: json

definition doJSON ::
  "http \<Rightarrow> qdrant_client option \<Rightarrow> string \<Rightarrow> string \<Rightarrow> json \<Rightarrow> unit db_act" where
  "doJSON http c method path v =
     (if \<not> qdrant_usable c then fail (Recommendation_err QdrantWrite)
      else (\<lambda>e w.
        let address = qc_base (the c) @ path;
            w' = w\<lparr>trace := trace w @ [HttpRequest method address v]\<rparr> in
        case http (trace w) method address v of
          Inl err \<Rightarrow> (Inl (Wrapped ''request'' (Recommendation_err QdrantWrite)), w')
        | Inr status \<Rightarrow>
            if http_failed status then (Inl (Wrapped ''qdrant write failed'' (HttpStatus status)), w')
            else (Inr (), w')))"

text \<open>\<open>errors.As(err, &statusErr) \<and> statusErr.status == 409\<close>\<close>

definition is_conflict :: "gerr \<Rightarrow> bool" where
  "is_conflict err \<longleftrightarrow> errors_is err (HttpStatus 409)"

definition unless_conflict :: "unit db_act \<Rightarrow> unit db_act" where
  "unless_conflict m = andThen (attempt m) (\<lambda>r. case r of
     Inl err \<Rightarrow> (if is_conflict err then ok () else fail err)
   | Inr u \<Rightarrow> ok ())"

definition EnsureCollection ::
  "http \<Rightarrow> (string \<Rightarrow> string) \<Rightarrow> qdrant_client option \<Rightarrow> string \<Rightarrow> int \<Rightarrow> unit db_act" where
  "EnsureCollection http escape c collection dimension =
     (if c = None \<or> collection = [] \<or> dimension < 1 then fail (Recommendation_err QdrantWrite)
      else unless_conflict (doJSON http c ''PUT'' (''/collections/'' @ escape collection)
        (JObj [(''vectors'', JObj [(''distance'', JStr ''Cosine''), (''size'', JInt dimension)])])))"

definition EnsurePayloadIndex ::
  "http \<Rightarrow> (string \<Rightarrow> string) \<Rightarrow> qdrant_client option \<Rightarrow> string \<Rightarrow> string \<Rightarrow> string \<Rightarrow> unit db_act" where
  "EnsurePayloadIndex http escape c collection field schema =
     (if c = None \<or> collection = [] \<or> field = [] \<or> schema = [] then fail (Recommendation_err QdrantWrite)
      else unless_conflict (doJSON http c ''PUT'' (''/collections/'' @ escape collection @ ''/index'')
        (JObj [(''field_name'', JStr field), (''field_schema'', JStr schema)])))"

definition point_ok :: "qdrant_point \<Rightarrow> bool" where
  "point_ok p \<longleftrightarrow> qp_id p \<noteq> [] \<and> qp_vector p \<noteq> []"

definition wire_point :: "(string \<Rightarrow> string) \<Rightarrow> qdrant_point \<Rightarrow> json" where
  "wire_point point_uuid p = JObj
     [(''id'', JStr (point_uuid (qp_id p))), (''vector'', JArr (map json_number (qp_vector p))),
      (''payload'', qp_payload p)]"

definition Upsert ::
  "http \<Rightarrow> (string \<Rightarrow> string) \<Rightarrow> (string \<Rightarrow> string) \<Rightarrow> qdrant_client option \<Rightarrow> string \<Rightarrow> qdrant_point list
     \<Rightarrow> unit db_act" where
  "Upsert http escape point_uuid c collection points =
     (if c = None \<or> collection = [] \<or> points = [] \<or> \<not> list_all point_ok points
      then fail (Recommendation_err QdrantWrite)
      else doJSON http c ''PUT'' (''/collections/'' @ escape collection @ ''/points?wait=true'')
        (JObj [(''points'', JArr (map (wire_point point_uuid) points))]))"

definition qdrant_Delete ::
  "http \<Rightarrow> (string \<Rightarrow> string) \<Rightarrow> (string \<Rightarrow> string) \<Rightarrow> qdrant_client option \<Rightarrow> string \<Rightarrow> string list
     \<Rightarrow> unit db_act" where
  "qdrant_Delete http escape point_uuid c collection offerIDs =
     (if c = None \<or> collection = [] \<or> offerIDs = [] then fail (Recommendation_err QdrantWrite)
      else doJSON http c ''POST'' (''/collections/'' @ escape collection @ ''/points/delete?wait=true'')
        (JObj [(''points'', JArr (map (\<lambda>x. JStr (point_uuid x)) offerIDs))]))"

subsection \<open>The indexer\<close>

record offer_indexer =
  oi_db :: handle
  oi_qdrant :: "qdrant_client option"
  oi_embedder :: "embedder option"
  oi_collection :: string
  oi_model :: string

definition NewOfferIndexer ::
  "handle \<Rightarrow> qdrant_client option \<Rightarrow> embedder option \<Rightarrow> string \<Rightarrow> offer_indexer" where
  "NewOfferIndexer db qdrant emb embeddingModel =
     \<lparr>oi_db = db, oi_qdrant = qdrant, oi_embedder = emb, oi_collection = ''offer_embeddings_v1'',
      oi_model = embeddingModel\<rparr>"

definition WithCollection :: "offer_indexer option \<Rightarrow> string \<Rightarrow> offer_indexer option" where
  "WithCollection i collection =
     map_option (\<lambda>v. if collection \<noteq> [] then v\<lparr>oi_collection := collection\<rparr> else v) i"

definition document_of :: "offer_row \<Rightarrow> offer_document" where
  "document_of x = \<lparr>od_offer = of_id x, od_title = of_title x, od_description = of_description x,
     od_station = of_station x, od_category = of_category x, od_version = of_version x\<rparr>"

definition document_point :: "string \<Rightarrow> offer_document \<Rightarrow> vector \<Rightarrow> qdrant_point" where
  "document_point embeddingModel d v = \<lparr>qp_id = od_offer d, qp_vector = v, qp_payload = JObj
     [(''category'', JStr (od_category d)), (''content_version'', JInt (od_version d)),
      (''embedding_model'', JStr embeddingModel), (''offer_id'', JStr (od_offer d)),
      (''station_ids'', JArr [JStr (od_station d)])]\<rparr>"

fun embed_all :: "embedder \<Rightarrow> string \<Rightarrow> offer_document list \<Rightarrow> gerr + qdrant_point list" where
  "embed_all emb embeddingModel [] = Inr []"
| "embed_all emb embeddingModel (d # ds) =
     bind_result (emb d) (\<lambda>v. bind_result (embed_all emb embeddingModel ds) (\<lambda>ps.
       Inr (document_point embeddingModel d v # ps)))"

definition reindexActiveOffers ::
  "http \<Rightarrow> (string \<Rightarrow> string) \<Rightarrow> (string \<Rightarrow> string) \<Rightarrow> offer_indexer \<Rightarrow> unit db_act" where
  "reindexActiveOffers http escape point_uuid i =
     (if oi_db i = NilHandle then ok ()
      else
        (case oi_embedder i of
           None \<Rightarrow> fail (Recommendation_err EmbeddingUnavailable)
         | Some emb \<Rightarrow>
             andThen (execDB (reads (\<lambda>t d. Inr (filter of_active (offers d))))) (\<lambda>rows.
             andThen (lift_result (embed_all emb (oi_model i) (map document_of rows))) (\<lambda>points.
             if points = [] then ok ()
             else Upsert http escape point_uuid (oi_qdrant i) (oi_collection i) points))))"

fun ensure_indexes ::
  "http \<Rightarrow> (string \<Rightarrow> string) \<Rightarrow> offer_indexer \<Rightarrow> (string \<times> string) list \<Rightarrow> unit db_act" where
  "ensure_indexes http escape i [] = ok ()"
| "ensure_indexes http escape i ((field, schema) # fs) =
     andThen (EnsurePayloadIndex http escape (oi_qdrant i) (oi_collection i) field schema) (\<lambda>_.
       ensure_indexes http escape i fs)"

definition index_fields :: "(string \<times> string) list" where
  "index_fields = [(''station_ids'', ''keyword''), (''category'', ''keyword''),
     (''content_version'', ''integer''), (''embedding_model'', ''keyword'')]"

definition Bootstrap ::
  "http \<Rightarrow> (string \<Rightarrow> string) \<Rightarrow> (string \<Rightarrow> string) \<Rightarrow> offer_indexer option \<Rightarrow> int \<Rightarrow> unit db_act" where
  "Bootstrap http escape point_uuid i dimension =
     (case i of
        None \<Rightarrow> fail (Recommendation_err InvalidOfferChangedEvent)
      | Some v \<Rightarrow>
          if oi_qdrant v = None \<or> oi_collection v = [] \<or> oi_model v = [] \<or> dimension < 1
          then fail (Recommendation_err InvalidOfferChangedEvent)
          else
            andThen (EnsureCollection http escape (oi_qdrant v) (oi_collection v) dimension) (\<lambda>_.
            andThen (ensure_indexes http escape v index_fields) (\<lambda>_.
              reindexActiveOffers http escape point_uuid v)))"

subsection \<open>Changed offers\<close>

record offer_change =
  oc_offer :: string
  oc_version :: int
  oc_type :: string
  oc_title :: string
  oc_description :: string
  oc_station :: string
  oc_category :: string

record offer_changed_event =
  oe_event_type :: string
  oe_schema_version :: int
  oe_payload :: offer_change

definition no_change :: offer_change where
  "no_change = \<lparr>oc_offer = [], oc_version = 0, oc_type = [], oc_title = [], oc_description = [],
     oc_station = [], oc_category = []\<rparr>"

definition decode_change :: "(string \<times> json) list \<Rightarrow> offer_change \<Rightarrow> gerr + offer_change" where
  "decode_change kvs c =
     bind_result (decode_field assign_string ''offer_id'' kvs (oc_offer c)) (\<lambda>x.
     bind_result (decode_field assign_int ''content_version'' kvs (oc_version c)) (\<lambda>v.
     bind_result (decode_field assign_string ''change_type'' kvs (oc_type c)) (\<lambda>ty.
     bind_result (decode_field assign_string ''title'' kvs (oc_title c)) (\<lambda>title.
     bind_result (decode_field assign_string ''description'' kvs (oc_description c)) (\<lambda>descr.
     bind_result (decode_field assign_string ''station_id'' kvs (oc_station c)) (\<lambda>st.
     bind_result (decode_field assign_string ''category'' kvs (oc_category c)) (\<lambda>cat.
     Inr \<lparr>oc_offer = x, oc_version = v, oc_type = ty, oc_title = title, oc_description = descr,
          oc_station = st, oc_category = cat\<rparr>)))))))"

definition decode_changed_event ::
  "(string \<times> json) list \<Rightarrow> offer_changed_event \<Rightarrow> gerr + offer_changed_event" where
  "decode_changed_event kvs ev =
     bind_result (decode_field assign_string ''event_type'' kvs (oe_event_type ev)) (\<lambda>ty.
     bind_result (decode_field assign_int ''schema_version'' kvs (oe_schema_version ev)) (\<lambda>v.
     bind_result (decode_field (assign_struct decode_change) ''payload'' kvs (oe_payload ev)) (\<lambda>p.
     Inr \<lparr>oe_event_type = ty, oe_schema_version = v, oe_payload = p\<rparr>)))"

text \<open>The change a message carries, when it is one the indexer takes.\<close>

definition offer_change_of :: "raw \<Rightarrow> offer_change option" where
  "offer_change_of data =
     (case unmarshal (assign_struct decode_changed_event) data
        \<lparr>oe_event_type = [], oe_schema_version = 0, oe_payload = no_change\<rparr> of
        Inl err \<Rightarrow> None
      | Inr ev \<Rightarrow>
          if oe_event_type ev \<noteq> ''offer.changed.v1'' \<or> oe_schema_version ev \<noteq> 1
             \<or> oc_offer (oe_payload ev) = [] \<or> oc_version (oe_payload ev) < 1
          then None else Some (oe_payload ev))"

definition loadOffer :: "offer_indexer \<Rightarrow> string \<Rightarrow> offer_document db_act" where
  "loadOffer i offerID =
     (if oi_db i = NilHandle then fail (Recommendation_err InvalidOfferChangedEvent)
      else execDB (reads (\<lambda>t d. row_or_none
        (map_option document_of (lookup_row (\<lambda>x. of_id x = offerID) (offers d))))))"

definition change_document :: "offer_change \<Rightarrow> offer_document" where
  "change_document c = \<lparr>od_offer = oc_offer c, od_title = oc_title c, od_description = oc_description c,
     od_station = oc_station c, od_category = oc_category c, od_version = oc_version c\<rparr>"

text \<open>The second half: the later version, the vector, the point.\<close>

definition index_document ::
  "http \<Rightarrow> (string \<Rightarrow> string) \<Rightarrow> (string \<Rightarrow> string) \<Rightarrow> offer_indexer \<Rightarrow> offer_change \<Rightarrow> offer_document
     \<Rightarrow> unit db_act" where
  "index_document http escape point_uuid v c doc0 =
     (let doc = (if od_version doc0 < oc_version c then doc0\<lparr>od_version := oc_version c\<rparr> else doc0) in
      case oi_embedder v of
        None \<Rightarrow> fail (Recommendation_err EmbeddingUnavailable)
      | Some emb \<Rightarrow>
          (if oi_model v = [] then fail (Recommendation_err EmbeddingUnavailable)
           else
             andThen (lift_result (emb doc)) (\<lambda>vec.
             if vec = [] then fail (Recommendation_err EmbeddingUnavailable)
             else Upsert http escape point_uuid (oi_qdrant v) (oi_collection v)
               [document_point (oi_model v) doc vec])))"

definition HandleOfferChanged ::
  "http \<Rightarrow> (string \<Rightarrow> string) \<Rightarrow> (string \<Rightarrow> string) \<Rightarrow> offer_indexer option \<Rightarrow> raw \<Rightarrow> unit db_act" where
  "HandleOfferChanged http escape point_uuid i data =
     (case i of
        None \<Rightarrow> fail (Recommendation_err InvalidOfferChangedEvent)
      | Some v \<Rightarrow>
          (if oi_qdrant v = None then fail (Recommendation_err InvalidOfferChangedEvent)
           else
             (case offer_change_of data of
                None \<Rightarrow> fail (Recommendation_err InvalidOfferChangedEvent)
              | Some c \<Rightarrow>
                  (if oc_type c = ''DELETE''
                   then qdrant_Delete http escape point_uuid (oi_qdrant v) (oi_collection v) [oc_offer c]
                   else if oc_type c \<noteq> ''UPSERT'' then fail (Recommendation_err InvalidOfferChangedEvent)
                   else
                     andThen
                       (if oc_title c = [] \<or> oc_description c = [] \<or> oc_station c = []
                        then loadOffer v (oc_offer c) else ok (change_document c))
                       (index_document http escape point_uuid v c)))))"

end
