(* ===== verification/Outbox.thy ===== *)
theory Outbox
  imports Schema "HOL-Library.Product_Lexorder"
begin

text \<open>
  \<open>internal/platform/outbox/outbox.go\<close>: the transactional outbox. \<open>Enqueue\<close> adds an event to the
  transaction of its caller; \<open>PublishPending\<close> hands the pending events to Kafka in order and marks
  them; \<open>Process\<close> runs a consumer's handler at most once per event.
  Kafka is a parameter: \<open>writer\<close> answers a message, given everything sent so far, with the text of
  an error or with nothing. \<open>locked\<close> says which rows another publisher holds (SKIP LOCKED),
  \<open>collate\<close> is the collation the database sorts text by.
\<close>

record event =
  ev_id :: string
  ev_topic :: string
  ev_key :: string
  ev_payload :: raw

definition event_row :: "event \<Rightarrow> json \<Rightarrow> int \<Rightarrow> outbox_row" where
  "event_row ev payload now =
     \<lparr>ob_id = ev_id ev, ob_topic = ev_topic ev, ob_key = ev_key ev, ob_payload = payload,
      ob_occurred = now, ob_published = None, ob_attempts = 0, ob_error = None\<rparr>"

text \<open>The row an event with a document becomes.\<close>

definition queued :: "event \<Rightarrow> int \<Rightarrow> outbox_row" where
  "queued ev now = event_row ev (case ev_payload ev of Raw j \<Rightarrow> j | _ \<Rightarrow> JNull) now"

definition insert_event :: "event \<Rightarrow> int \<Rightarrow> database \<Rightarrow> gerr + database" where
  "insert_event ev now d =
     (case ev_payload ev of
        Raw j \<Rightarrow> insert_outbox (event_row ev j now) d
      | _ \<Rightarrow> Inl JsonMismatch)"

definition Enqueue :: "handle \<Rightarrow> event \<Rightarrow> unit db_act" where
  "Enqueue tx ev =
     (if tx = NilHandle \<or> ev_id ev = [] \<or> ev_topic ev = [] \<or> ev_key ev = []
         \<or> ev_payload ev = RawEmpty \<or> \<not> json_valid (ev_payload ev)
      then fail OutboxInvalidInput
      else execTx (writes (insert_event ev)))"

lemma insert_event_InrD:
  assumes "insert_event ev now d = Inr d'"
  shows "d' = d\<lparr>outbox_events := outbox_events d @ [queued ev now]\<rparr>"
    and "\<forall>x\<in>set (outbox_events d). ob_id x \<noteq> ev_id ev"
  using assms
  by (auto simp: queued_def event_row_def insert_outbox_def insert_event_def split: raw.splits)

lemma wp_Enqueue:
  assumes "\<And>x. Q (Inl x) w" and "\<And>x. Q (Inl x) (w\<lparr>calls := Suc (calls w)\<rparr>)"
    and "\<And>d. insert_event ev (tx_now w) (working w) = Inr d \<Longrightarrow>
           Q (Inr ()) (w\<lparr>working := d, calls := Suc (calls w)\<rparr>)"
  shows "wp (Enqueue tx ev) e Q w"
  using assms by (auto simp: Enqueue_def intro!: wp_execTx)

lemma wp_Enqueue':
  assumes "\<And>x. Q (Inl x) w" and "\<And>x. Q (Inl x) (w\<lparr>calls := Suc (calls w)\<rparr>)"
    and "\<And>d. ev_id ev \<noteq> [] \<Longrightarrow> insert_event ev (tx_now w) (working w) = Inr d \<Longrightarrow>
           Q (Inr ()) (w\<lparr>working := d, calls := Suc (calls w)\<rparr>)"
  shows "wp (Enqueue tx ev) e Q w"
  using assms by (auto simp: Enqueue_def intro!: wp_execTx)

subsection \<open>The publisher\<close>

type_synonym kafka_writer = "external_call list \<Rightarrow> kafka_message \<Rightarrow> string option"

record publisher =
  pub_db :: handle
  pub_writer :: "kafka_writer option"

text \<open>\<open>kafka\<close> is the writer the library makes of a list of brokers.\<close>

definition NewPublisher :: "handle \<Rightarrow> kafka_writer option \<Rightarrow> publisher" where
  "NewPublisher db writer = \<lparr>pub_db = db, pub_writer = writer\<rparr>"

definition NewKafkaPublisher :: "(string list \<Rightarrow> kafka_writer) \<Rightarrow> handle \<Rightarrow> string list \<Rightarrow> publisher" where
  "NewKafkaPublisher kafka db brokers = NewPublisher db (Some (kafka brokers))"

definition event_message :: "outbox_row \<Rightarrow> kafka_message" where
  "event_message r = \<lparr>km_topic = ob_topic r, km_key = ob_key r, km_value = ob_payload r\<rparr>"

definition write_message :: "kafka_writer \<Rightarrow> kafka_message \<Rightarrow> (string option) db_act" where
  "write_message writer m = (\<lambda>e w. case writer (trace w) m of
     None \<Rightarrow> (Inr None, w\<lparr>trace := trace w @ [KafkaAck m]\<rparr>)
   | Some err \<Rightarrow> (Inr (Some err), w\<lparr>trace := trace w @ [KafkaNack m]\<rparr>))"

definition pending :: "outbox_row \<Rightarrow> bool" where
  "pending r \<longleftrightarrow> ob_published r = None"

definition pending_events ::
  "(string \<Rightarrow> string) \<Rightarrow> (string \<Rightarrow> bool) \<Rightarrow> nat \<Rightarrow> database \<Rightarrow> outbox_row list" where
  "pending_events collate locked limit d =
     take limit (sort_key (\<lambda>r. (ob_occurred r, collate (ob_id r)))
       (filter (\<lambda>r. pending r \<and> \<not> locked (ob_id r)) (outbox_events d)))"

definition count_attempt :: "string \<Rightarrow> string \<Rightarrow> int \<Rightarrow> database \<Rightarrow> gerr + database" where
  "count_attempt err eid now d =
     (let rows = update_where (\<lambda>r. ob_id r = eid)
           (\<lambda>r. r\<lparr>ob_attempts := ob_attempts r + 1, ob_error := Some err\<rparr>) (outbox_events d)
      in constrained
           [(\<forall>r\<in>set rows. int32_range (ob_attempts r), ''integer out of range'')]
           (d\<lparr>outbox_events := rows\<rparr>))"

definition mark_published :: "string \<Rightarrow> int \<Rightarrow> database \<Rightarrow> gerr + database" where
  "mark_published eid now d = Inr (d\<lparr>outbox_events :=
     update_where (\<lambda>r. ob_id r = eid) (\<lambda>r. r\<lparr>ob_published := Some now, ob_error := None\<rparr>)
       (outbox_events d)\<rparr>)"

text \<open>
  The loop over the selected events. The result is the Go pair: how many events were marked, and
  the error if there was one.
\<close>

fun publish_loop :: "kafka_writer \<Rightarrow> outbox_row list \<Rightarrow> nat \<Rightarrow> (nat \<times> gerr option) db_act" where
  "publish_loop writer [] published =
     andThen (attempt commitTx) (\<lambda>r. case r of
       Inl x \<Rightarrow> ok (published, Some x)
     | Inr _ \<Rightarrow> ok (published, None))"
| "publish_loop writer (ev # evs) published =
     andThen (write_message writer (event_message ev)) (\<lambda>answer. case answer of
       Some err \<Rightarrow>
         andThen (attempt (execTx (writes (count_attempt err (ob_id ev))))) (\<lambda>r. case r of
           Inl updateErr \<Rightarrow> ok (published, Some updateErr)
         | Inr _ \<Rightarrow>
             andThen (attempt commitTx) (\<lambda>c. case c of
               Inl commitErr \<Rightarrow> ok (published, Some commitErr)
             | Inr _ \<Rightarrow> ok (published,
                 Some (Wrapped (''publish outbox event '' @ ob_id ev) (Text err)))))
     | None \<Rightarrow>
         andThen (attempt (execTx (writes (mark_published (ob_id ev))))) (\<lambda>r. case r of
           Inl x \<Rightarrow> ok (published, Some x)
         | Inr _ \<Rightarrow> publish_loop writer evs (Suc published)))"

definition PublishPending ::
  "(string \<Rightarrow> string) \<Rightarrow> (string \<Rightarrow> bool) \<Rightarrow> publisher option \<Rightarrow> int \<Rightarrow> (nat \<times> gerr option) db_act"
where
  "PublishPending collate locked p limit =
     (case p of
        None \<Rightarrow> ok (0, Some OutboxInvalidInput)
      | Some pub \<Rightarrow>
          (case pub_writer pub of
             None \<Rightarrow> ok (0, Some OutboxInvalidInput)
           | Some writer \<Rightarrow>
               (if pub_db pub = NilHandle \<or> limit < 1 then ok (0, Some OutboxInvalidInput)
                else
                  andThen (attempt beginTx) (\<lambda>b. case b of
                    Inl x \<Rightarrow> ok (0, Some x)
                  | Inr _ \<Rightarrow>
                      andThen (attempt (execTx (reads (\<lambda>t d.
                          Inr (pending_events collate locked (nat limit) d))))) (\<lambda>q. case q of
                        Inl x \<Rightarrow> ok (0, Some x)
                      | Inr evs \<Rightarrow> publish_loop writer evs 0)))))"

text \<open>\<open>RunPublisher\<close>: one round, then one per tick until the context is done after \<open>ticks\<close> ticks.\<close>

primrec publish_rounds ::
  "(string \<Rightarrow> string) \<Rightarrow> (string \<Rightarrow> bool) \<Rightarrow> publisher option \<Rightarrow> int \<Rightarrow> nat \<Rightarrow> unit db_act" where
  "publish_rounds collate locked p limit 0 = ok ()"
| "publish_rounds collate locked p limit (Suc n) =
     andThen (PublishPending collate locked p limit) (\<lambda>_. publish_rounds collate locked p limit n)"

definition RunPublisher ::
  "(string \<Rightarrow> string) \<Rightarrow> (string \<Rightarrow> bool) \<Rightarrow> publisher option \<Rightarrow> int \<Rightarrow> nat \<Rightarrow> unit db_act" where
  "RunPublisher collate locked p limit ticks =
     (if p = None \<or> limit < 1 then ok ()
      else publish_rounds collate locked p limit (Suc ticks))"

subsection \<open>The consumer side\<close>

definition claim_event :: "string \<Rightarrow> string \<Rightarrow> int \<Rightarrow> database \<Rightarrow> gerr + (nat \<times> database)" where
  "claim_event consumer eid now d =
     (if (consumer, eid) \<in> set (processed_events d) then Inr (0, d)
      else Inr (1, d\<lparr>processed_events := processed_events d @ [(consumer, eid)]\<rparr>))"

definition Process :: "handle \<Rightarrow> string \<Rightarrow> string \<Rightarrow> unit db_act option \<Rightarrow> bool db_act" where
  "Process db consumerName eventID handler =
     (if db = NilHandle \<or> consumerName = [] \<or> eventID = [] then fail OutboxInvalidInput
      else
        andThen beginTx (\<lambda>_.
        andThen (execTx (claim_event consumerName eventID)) (\<lambda>processed.
        if processed = 0 then andThen commitTx (\<lambda>_. ok False)
        else
          andThen (case handler of None \<Rightarrow> ok () | Some h \<Rightarrow> h) (\<lambda>_.
          andThen commitTx (\<lambda>_. ok True)))))"

end
