(* ===== verification/User.thy ===== *)
theory User
  imports Schema Text
begin

text \<open>
  \<open>internal/user/service.go\<close>: anonymous users, their profile and their preferences.
  \<open>known_zone\<close> says which names \<open>time.LoadLocation\<close> knows (the time zone database is not part of
  the program), \<open>fmt\<close> formats an instant. A repeated field of a message that holds nothing is a nil
  slice, which \<open>json.Marshal\<close> writes as \<open>null\<close>.
\<close>

definition anonymousDemoInitialPoints :: int where
  "anonymousDemoInitialPoints = 1200"

definition hash_char :: "char \<Rightarrow> bool" where
  "hash_char c \<longleftrightarrow> (CHR ''0'' \<le> c \<and> c \<le> CHR ''9'') \<or> (CHR ''a'' \<le> c \<and> c \<le> CHR ''f'')"

text \<open>The loop ranges over runes; a rune beyond ASCII is none of the characters allowed.\<close>

definition hash_rune :: "rune \<Rightarrow> bool" where
  "hash_rune r \<longleftrightarrow> (48 \<le> r \<and> r \<le> 57) \<or> (97 \<le> r \<and> r \<le> 102)"

definition validUserIDHash :: "string \<Rightarrow> bool" where
  "validUserIDHash s \<longleftrightarrow> length s = length ''sha256:'' + 64 \<and> has_prefix ''sha256:'' s
     \<and> list_all hash_rune (runes (drop (length ''sha256:'') s))"

text \<open>The CHECK of the column: \<open>user_id_hash ~ '^sha256:[0-9a-f]{64}$'\<close>.\<close>

definition user_id_hash_check :: "string \<Rightarrow> bool" where
  "user_id_hash_check s \<longleftrightarrow> has_prefix ''sha256:'' s \<and> length s = 71 \<and> list_all hash_char (drop 7 s)"

subsection \<open>Provisioning\<close>

definition new_demo_user :: "string \<Rightarrow> string \<Rightarrow> int \<Rightarrow> user_row" where
  "new_demo_user userID userIDHash now =
     \<lparr>u_id = userID, u_hash = userIDHash, u_name = ''Demo Rider'',
      u_balance = anonymousDemoInitialPoints, u_stations = JArr [], u_categories = JArr [],
      u_budget_min = 0, u_budget_max = 0, u_timezone = ''Asia/Taipei'', u_notify = False,
      u_notify_start = None, u_notify_end = None, u_created = now, u_updated = now\<rparr>"

definition insert_demo_user :: "string \<Rightarrow> string \<Rightarrow> int \<Rightarrow> database \<Rightarrow> gerr + database" where
  "insert_demo_user userID userIDHash now d =
     bind_result (constrained [(user_id_hash_check userIDHash, ''users_user_id_hash_check'')] ()) (\<lambda>_.
       if exists_row (\<lambda>u. u_hash u = userIDHash) (users d) then Inr d
       else bind_result (constrained [(\<not> user_exists d userID, ''users_pkey'')]
           (d\<lparr>users := users d @ [new_demo_user userID userIDHash now]\<rparr>)) (insert_ledger
         \<lparr>le_user = userID, le_redemption = None, le_delta = anonymousDemoInitialPoints,
          le_balance = anonymousDemoInitialPoints, le_reason = ''demo_initial_balance''\<rparr>))"

text \<open>\<open>execer\<close> runs a statement: on the pool, or on the transaction of the caller.\<close>

definition EnsureDemoUser ::
  "(unit db_stmt \<Rightarrow> unit db_act) option \<Rightarrow> string \<Rightarrow> unit db_act" where
  "EnsureDemoUser execer userIDHash =
     (case execer of
        None \<Rightarrow> fail (User_err UserInvalidRequest)
      | Some exec \<Rightarrow>
          (if \<not> validUserIDHash userIDHash then fail (User_err UserInvalidRequest)
           else andThen newUUID (\<lambda>userID. exec (writes (insert_demo_user userID userIDHash)))))"

subsection \<open>Profiles\<close>

record user_profile =
  up_user_id :: string
  up_user_id_hash :: string
  up_display_name :: string
  up_created_at :: string
  up_updated_at :: string
  up_stations :: "string list"
  up_categories :: "string list"
  up_budget_min :: int
  up_budget_max :: int
  up_timezone :: string
  up_notify :: bool
  up_start :: string
  up_end :: string

definition map_user_error :: "gerr \<Rightarrow> gerr" where
  "map_user_error err =
     (if errors_is err (User_err UserNotFound) then ErrorUserNotFound ''user not found'' else err)"

definition null_string :: "string option \<Rightarrow> string" where
  "null_string x = (case x of None \<Rightarrow> [] | Some s \<Rightarrow> s)"

definition profile_of :: "(int \<Rightarrow> string) \<Rightarrow> user_row \<Rightarrow> gerr + user_profile" where
  "profile_of fmt u =
     bind_result (unmarshal assign_strings (Raw (u_stations u)) []) (\<lambda>ss.
     bind_result (unmarshal assign_strings (Raw (u_categories u)) []) (\<lambda>cs.
     Inr \<lparr>up_user_id = u_id u, up_user_id_hash = u_hash u, up_display_name = u_name u,
          up_created_at = fmt (u_created u), up_updated_at = fmt (u_updated u),
          up_stations = ss, up_categories = cs, up_budget_min = u_budget_min u,
          up_budget_max = u_budget_max u, up_timezone = u_timezone u, up_notify = u_notify u,
          up_start = null_string (u_notify_start u), up_end = null_string (u_notify_end u)\<rparr>))"

definition profile :: "(int \<Rightarrow> string) \<Rightarrow> string \<Rightarrow> user_profile db_act" where
  "profile fmt userIDHash =
     andThen (onError NoRows (User_err UserNotFound)
         (execDB (reads (\<lambda>t d. row_or_none (lookup_row (\<lambda>u. u_hash u = userIDHash) (users d))))))
       (\<lambda>u. lift_result (profile_of fmt u))"

record user_service =
  us_db :: handle

definition user_service_ready :: "user_service option \<Rightarrow> bool" where
  "user_service_ready s \<longleftrightarrow> (case s of None \<Rightarrow> False | Some v \<Rightarrow> us_db v \<noteq> NilHandle)"

definition GetUserProfile ::
  "(int \<Rightarrow> string) \<Rightarrow> user_service option \<Rightarrow> string option \<Rightarrow> user_profile db_act" where
  "GetUserProfile fmt s request =
     (case request of
        None \<Rightarrow> fail (ErrorInvalidRequest ''user_id_hash must be a sha256 hash'')
      | Some userIDHash \<Rightarrow>
          (if \<not> user_service_ready s \<or> \<not> validUserIDHash userIDHash
           then fail (ErrorInvalidRequest ''user_id_hash must be a sha256 hash'')
           else
             andThen (EnsureDemoUser (Some execDB) userIDHash) (\<lambda>_.
               mapErr map_user_error (profile fmt userIDHash))))"

subsection \<open>Preferences\<close>

record preferences_request =
  pr_user_id_hash :: string
  pr_stations :: "string list"
  pr_categories :: "string list"
  pr_budget_min :: int
  pr_budget_max :: int
  pr_timezone :: string
  pr_notify :: bool
  pr_start :: string
  pr_end :: string

definition digit :: "char \<Rightarrow> bool" where
  "digit c \<longleftrightarrow> CHR ''0'' \<le> c \<and> c \<le> CHR ''9''"

definition digit_value :: "char \<Rightarrow> nat" where
  "digit_value c = of_char c - 48"

text \<open>\<open>time.Parse("15:04", s)\<close>: an hour of one or two digits, a colon, a minute of two digits.\<close>

fun parse_minute :: "nat \<Rightarrow> string \<Rightarrow> (nat \<times> nat) option" where
  "parse_minute hour (sep # m1 # m2 # rest) =
     (if sep = CHR '':'' \<and> digit m1 \<and> digit m2 \<and> rest = []
         \<and> hour < 24 \<and> digit_value m1 * 10 + digit_value m2 < 60
      then Some (hour, digit_value m1 * 10 + digit_value m2) else None)"
| "parse_minute hour s = None"

fun parse_hour_minute :: "string \<Rightarrow> (nat \<times> nat) option" where
  "parse_hour_minute (c # d # s) =
     (if \<not> digit c then None
      else if digit d then parse_minute (digit_value c * 10 + digit_value d) s
      else parse_minute (digit_value c) (d # s))"
| "parse_hour_minute s = None"

definition preference_value_ok :: "string \<Rightarrow> bool" where
  "preference_value_ok v \<longleftrightarrow> trim_space v \<noteq> [] \<and> length v \<le> 80"

definition preference_values_ok :: "string list \<Rightarrow> bool" where
  "preference_values_ok vs \<longleftrightarrow> list_all preference_value_ok vs"

definition validatePreferences ::
  "(string \<Rightarrow> bool) \<Rightarrow> preferences_request \<Rightarrow> string option" where
  "validatePreferences known_zone p =
     (if pr_budget_min p < 0 \<or> pr_budget_max p < pr_budget_min p then Some ''budget range is invalid''
      else if pr_timezone p = [] then Some ''timezone is required''
      else if \<not> known_zone (pr_timezone p) then Some ''timezone is invalid''
      else if length (pr_stations p) > 20 \<or> length (pr_categories p) > 20
        then Some ''preference list is too long''
      else if \<not> preference_values_ok (pr_stations p @ pr_categories p)
        then Some ''preference values are invalid''
      else if (pr_start p = []) \<noteq> (pr_end p = [])
        then Some ''notification window must include both start and end''
      else if \<not> list_all (\<lambda>v. v = [] \<or> parse_hour_minute v \<noteq> None) [pr_start p, pr_end p]
        then Some ''notification time must use HH:MM''
      else if pr_notify p \<and> pr_start p = []
        then Some ''notification window is required when notifications are enabled''
      else None)"

text \<open>\<open>json.Marshal\<close> of a repeated field.\<close>

definition marshal_repeated :: "string list \<Rightarrow> json" where
  "marshal_repeated ss = (if ss = [] then JNull else json_strings ss)"

definition nullif_empty :: "string \<Rightarrow> string option" where
  "nullif_empty s = (if s = [] then None else Some s)"

fun is_array :: "json \<Rightarrow> bool" where
  "is_array (JArr js) = True"
| "is_array j = False"

definition set_preferences :: "preferences_request \<Rightarrow> json \<Rightarrow> json \<Rightarrow> int \<Rightarrow> user_row \<Rightarrow> user_row" where
  "set_preferences p ss cs now u =
     u\<lparr>u_stations := ss, u_categories := cs,
       u_budget_min := pr_budget_min p, u_budget_max := pr_budget_max p,
       u_timezone := pr_timezone p, u_notify := pr_notify p,
       u_notify_start := nullif_empty (pr_start p), u_notify_end := nullif_empty (pr_end p),
       u_updated := now\<rparr>"

definition update_preferences ::
  "preferences_request \<Rightarrow> json \<Rightarrow> json \<Rightarrow> int \<Rightarrow> database \<Rightarrow> gerr + (nat \<times> database)" where
  "update_preferences p ss cs now d =
     (let matches = (\<lambda>u. u_hash u = pr_user_id_hash p);
          n = length (filter matches (users d)) in
      constrained
        [(n > 0 \<longrightarrow> 0 \<le> pr_budget_min p, ''users_budget_min_points_check''),
         (n > 0 \<longrightarrow> pr_budget_min p \<le> pr_budget_max p, ''users_check''),
         (n > 0 \<longrightarrow> is_array ss, ''users_favorite_station_ids_array''),
         (n > 0 \<longrightarrow> is_array cs, ''users_preferred_categories_array'')]
        (n, d\<lparr>users := update_where matches (set_preferences p ss cs now) (users d)\<rparr>))"

definition UpdateUserPreferences ::
  "(string \<Rightarrow> bool) \<Rightarrow> (int \<Rightarrow> string) \<Rightarrow> user_service option \<Rightarrow> preferences_request option
     \<Rightarrow> user_profile db_act" where
  "UpdateUserPreferences known_zone fmt s request =
     (case request of
        None \<Rightarrow> fail (ErrorInvalidRequest ''user_id_hash must be a sha256 hash'')
      | Some p \<Rightarrow>
          (if \<not> user_service_ready s \<or> \<not> validUserIDHash (pr_user_id_hash p)
           then fail (ErrorInvalidRequest ''user_id_hash must be a sha256 hash'')
           else
             (case validatePreferences known_zone p of
                Some msg \<Rightarrow> fail (ErrorInvalidRequest msg)
              | None \<Rightarrow>
                  andThen (EnsureDemoUser (Some execDB) (pr_user_id_hash p)) (\<lambda>_.
                  andThen (execDB (update_preferences p (marshal_repeated (pr_stations p))
                      (marshal_repeated (pr_categories p)))) (\<lambda>count.
                  if count \<noteq> 1 then fail (User_err UserNotFound)
                  else mapErr map_user_error (profile fmt (pr_user_id_hash p)))))))"

end
