(* ===== verification/Journey.thy ===== *)
theory Journey
  imports Outbox Feedback User Mobility
begin

text \<open>
  \<open>internal/journey/service.go\<close>: a traveller enters a station, reads the latest recommendation of
  the journey and says what became of it. \<open>client\<close> is the beacon resolver, \<open>sha1\<close> is
  \<open>uuid.NewSHA1(uuid.Nil, _).String()\<close>, \<open>tie\<close> is the order in which the database delivers
  recommendations of one instant.
\<close>

record journey_service =
  js_db :: handle
  js_resolver :: "(observation \<Rightarrow> gerr + mob_context) option"
  js_limit :: int

record request_context =
  rc_trace :: string
  rc_journey :: string

definition NewService ::
  "handle \<Rightarrow> (observation \<Rightarrow> gerr + mob_context) option list \<Rightarrow> journey_service" where
  "NewService db beaconResolvers =
     \<lparr>js_db = db, js_resolver = (case beaconResolvers of [] \<Rightarrow> None | r # _ \<Rightarrow> r), js_limit = 10\<rparr>"

definition WithRecommendationCandidateLimit ::
  "journey_service option \<Rightarrow> int \<Rightarrow> journey_service option" where
  "WithRecommendationCandidateLimit s limit =
     (case s of
        None \<Rightarrow> None
      | Some v \<Rightarrow>
          if limit > 0 then Some (v\<lparr>js_limit := (if limit > 50 then 50 else limit)\<rparr>) else Some v)"

definition journey_service_ready :: "journey_service option \<Rightarrow> bool" where
  "journey_service_ready s \<longleftrightarrow> (case s of None \<Rightarrow> False | Some v \<Rightarrow> js_db v \<noteq> NilHandle)"

subsection \<open>Entering a station\<close>

record entry_request =
  er_context :: "request_context option"
  er_user_hash :: string
  er_station :: string
  er_line :: string
  er_position :: string
  er_beacon :: "observation option"

definition resolveEntryContext ::
  "journey_service \<Rightarrow> entry_request \<Rightarrow> gerr + (string \<times> string \<times> string)" where
  "resolveEntryContext s request =
     (case er_beacon request of
        None \<Rightarrow> Inr (er_station request, er_line request, er_position request)
      | Some beacon \<Rightarrow>
          (case js_resolver s of
             None \<Rightarrow> Inl (ErrorInvalidRequest ''beacon resolver is unavailable'')
           | Some resolve \<Rightarrow>
               (case resolve beacon of
                  Inl err \<Rightarrow> Inl (ErrorInvalidRequest ''beacon context is unavailable'')
                | Inr resolved \<Rightarrow>
                    if er_station request \<noteq> [] \<and> er_station request \<noteq> mc_station resolved
                    then Inl (ErrorInvalidRequest ''station_id conflicts with resolved beacon station'')
                    else Inr (mc_station resolved, mc_line resolved, mc_position resolved))))"

definition trace_of :: "request_context option \<Rightarrow> string" where
  "trace_of c = (case c of None \<Rightarrow> [] | Some v \<Rightarrow> rc_trace v)"

text \<open>A member with \<open>omitempty\<close>.\<close>

definition omit_empty :: "string \<Rightarrow> string \<Rightarrow> (string \<times> json) list" where
  "omit_empty name v = (if v = [] then [] else [(name, JStr v)])"

definition entry_message ::
  "(int \<Rightarrow> string) \<Rightarrow> string \<Rightarrow> int \<Rightarrow> string \<Rightarrow> string \<Rightarrow> string \<Rightarrow> string \<Rightarrow> string \<Rightarrow> string \<Rightarrow> json"
where
  "entry_message fmt eventID now traceID journeyID userIDHash stationID lineID positionID = JObj
     [(''event_id'', JStr eventID),
      (''event_type'', JStr ''journey.entered.v1''),
      (''schema_version'', JInt 1),
      (''occurred_at'', JStr (fmt now)),
      (''producer'', JStr ''gateway-service''),
      (''trace_id'', JStr traceID),
      (''journey_id'', JStr journeyID),
      (''user_id_hash'', JStr userIDHash),
      (''payload'', JObj
        ((''station_id'', JStr stationID) # omit_empty ''line_id'' lineID
          @ omit_empty ''position_id'' positionID))]"

definition entry_event ::
  "(int \<Rightarrow> string) \<Rightarrow> string \<Rightarrow> int \<Rightarrow> string \<Rightarrow> string \<Rightarrow> string \<Rightarrow> string \<Rightarrow> string \<Rightarrow> string \<Rightarrow> event"
where
  "entry_event fmt eventID now traceID journeyID userIDHash stationID lineID positionID =
     \<lparr>ev_id = eventID, ev_topic = ''journey.entered.v1'', ev_key = userIDHash,
      ev_payload = Raw (entry_message fmt eventID now traceID journeyID userIDHash
        stationID lineID positionID)\<rparr>"

definition select_user_id :: "string \<Rightarrow> database \<Rightarrow> string option" where
  "select_user_id userIDHash d =
     map_option u_id (lookup_row (\<lambda>u. u_hash u = userIDHash) (users d))"

definition station_line :: "string \<Rightarrow> database \<Rightarrow> string option" where
  "station_line stationID d =
     map_option st_line (lookup_row (\<lambda>x. st_id x = stationID) (stations d))"

definition enter_station ::
  "(int \<Rightarrow> string) \<Rightarrow> string \<Rightarrow> string \<Rightarrow> string \<Rightarrow> string \<Rightarrow> string \<Rightarrow> string \<Rightarrow> string db_act" where
  "enter_station fmt userIDHash traceID journeyID stationID requestedLine positionID =
     andThen beginTx (\<lambda>_.
     andThen (EnsureDemoUser (Some execTx) userIDHash) (\<lambda>_.
     andThen (onError NoRows (ErrorJourneyNotFound ''user is not registered'')
         (execTx (reads (\<lambda>t d. row_or_none (select_user_id userIDHash d))))) (\<lambda>userID.
     andThen (onError NoRows (ErrorInvalidRequest ''station is not registered'')
         (execTx (reads (\<lambda>t d. row_or_none (station_line stationID d))))) (\<lambda>stationLineID.
     let lineID = (if requestedLine = [] then stationLineID else requestedLine) in
     andThen (execTx (writes (\<lambda>t. insert_journey
       \<lparr>j_id = journeyID, j_user = userID, j_station = stationID, j_line = lineID,
        j_position = Some positionID\<rparr>))) (\<lambda>_.
     andThen newUUID (\<lambda>eventID.
     andThen timeNow (\<lambda>now.
     andThen (Enqueue Handle (entry_event fmt eventID now traceID journeyID userIDHash
       stationID lineID positionID)) (\<lambda>_.
     andThen commitTx (\<lambda>_. ok journeyID)))))))))"

definition CreateEntryEvent ::
  "(int \<Rightarrow> string) \<Rightarrow> journey_service option \<Rightarrow> entry_request option \<Rightarrow> string db_act" where
  "CreateEntryEvent fmt s req =
     (case (s, req) of
        (Some v, Some request) \<Rightarrow>
          (if js_db v = NilHandle \<or> er_user_hash request = []
           then fail (ErrorInvalidRequest ''user_id_hash and station_id or beacon are required'')
           else if \<not> validUserIDHash (er_user_hash request)
           then fail (ErrorInvalidRequest ''user_id_hash must be a sha256 hash'')
           else
             (case resolveEntryContext v request of
                Inl err \<Rightarrow> fail err
              | Inr (stationID, lineID, positionID) \<Rightarrow>
                  (if stationID = []
                   then fail (ErrorInvalidRequest ''user_id_hash and station_id or beacon are required'')
                   else
                     andThen (if trace_of (er_context request) = [] then newUUID
                              else ok (trace_of (er_context request))) (\<lambda>traceID.
                     andThen newUUID (\<lambda>journeyID.
                       enter_station fmt (er_user_hash request) traceID journeyID stationID lineID
                         positionID)))))
      | _ \<Rightarrow> fail (ErrorInvalidRequest ''user_id_hash and station_id or beacon are required''))"

subsection \<open>The latest recommendation\<close>

text \<open>An element of \<open>candidate_summary\<close> as this service reads it.\<close>

record candidate =
  cd_offer :: string
  cd_title :: string
  cd_description :: string
  cd_station :: string
  cd_cost :: int
  cd_vector :: rat
  cd_rule :: rat
  cd_eligible :: bool
  cd_reasons :: "string list"

definition no_candidate :: candidate where
  "no_candidate = \<lparr>cd_offer = [], cd_title = [], cd_description = [], cd_station = [], cd_cost = 0,
     cd_vector = 0, cd_rule = 0, cd_eligible = False, cd_reasons = []\<rparr>"

definition decode_candidate ::
  "(string \<times> json) list \<Rightarrow> candidate \<Rightarrow> gerr + candidate" where
  "decode_candidate kvs c =
     bind_result (decode_field assign_string ''offer_id'' kvs (cd_offer c)) (\<lambda>offer.
     bind_result (decode_field assign_string ''title'' kvs (cd_title c)) (\<lambda>title.
     bind_result (decode_field assign_string ''description'' kvs (cd_description c)) (\<lambda>descr.
     bind_result (decode_field assign_string ''station_id'' kvs (cd_station c)) (\<lambda>station.
     bind_result (decode_field assign_int ''points_cost'' kvs (cd_cost c)) (\<lambda>cost.
     bind_result (decode_field assign_float ''vector_score'' kvs (cd_vector c)) (\<lambda>vector.
     bind_result (decode_field assign_float ''rule_score'' kvs (cd_rule c)) (\<lambda>rule.
     bind_result (decode_field assign_bool ''eligible'' kvs (cd_eligible c)) (\<lambda>eligible.
     bind_result (decode_field assign_strings ''reasons'' kvs (cd_reasons c)) (\<lambda>reasons.
     Inr \<lparr>cd_offer = offer, cd_title = title, cd_description = descr, cd_station = station,
          cd_cost = cost, cd_vector = vector, cd_rule = rule, cd_eligible = eligible,
          cd_reasons = reasons\<rparr>)))))))))"

fun decode_each :: "(json \<Rightarrow> 'a \<Rightarrow> gerr + 'a) \<Rightarrow> 'a \<Rightarrow> json list \<Rightarrow> gerr + 'a list" where
  "decode_each assign zero [] = Inr []"
| "decode_each assign zero (j # js) =
     bind_result (assign j zero) (\<lambda>a. bind_result (decode_each assign zero js) (\<lambda>as. Inr (a # as)))"

fun assign_list :: "(json \<Rightarrow> 'a \<Rightarrow> gerr + 'a) \<Rightarrow> 'a \<Rightarrow> json \<Rightarrow> 'a list \<Rightarrow> gerr + 'a list" where
  "assign_list assign zero JNull old = Inr []"
| "assign_list assign zero (JArr js) old = decode_each assign zero js"
| "assign_list assign zero j old = Inl JsonMismatch"

record shown_candidate =
  sc_offer :: string
  sc_vector :: rat
  sc_rule :: rat
  sc_eligible :: bool
  sc_reasons :: "string list"

record recommended_offer =
  ro_offer :: string
  ro_title :: string
  ro_body :: string
  ro_reasons :: "string list"
  ro_score :: rat
  ro_cost :: int
  ro_station :: string

record latest_response =
  lr_recommendation :: string
  lr_journey :: string
  lr_offer :: string
  lr_title :: string
  lr_body :: string
  lr_reasons :: "string list"
  lr_source :: string
  lr_latency :: int
  lr_candidates :: "shown_candidate list"
  lr_offers :: "recommended_offer list"

definition newest_recommendation ::
  "(recommendation_row \<Rightarrow> nat) \<Rightarrow> string \<Rightarrow> database \<Rightarrow> recommendation_row option" where
  "newest_recommendation tie journeyID d =
     (case sort_key (\<lambda>r. (- rec_created r, tie r))
        (filter (\<lambda>r. rec_journey r = journeyID) (recommendations d)) of
        [] \<Rightarrow> None
      | r # _ \<Rightarrow> Some r)"

definition loadDismissedOffers :: "string \<Rightarrow> string \<Rightarrow> string list db_act" where
  "loadDismissedOffers journeyID recommendationID =
     execDB (reads (\<lambda>t d. Inr (map dis_offer (filter
       (\<lambda>x. dis_journey x = journeyID \<and> dis_recommendation x = recommendationID) (dismissals d)))))"

definition appendUniqueReason :: "string list \<Rightarrow> string \<Rightarrow> string list" where
  "appendUniqueReason reasons reason =
     (if reason \<in> set reasons then reasons else reasons @ [reason])"

definition minRecommendationCandidates :: "int \<Rightarrow> int \<Rightarrow> int" where
  "minRecommendationCandidates limit count = (if limit < 1 \<or> limit > count then count else limit)"

definition mark_dismissed :: "string list \<Rightarrow> candidate \<Rightarrow> candidate" where
  "mark_dismissed dismissedOffers c =
     (if cd_offer c \<in> set dismissedOffers
      then c\<lparr>cd_eligible := False,
             cd_reasons := appendUniqueReason (cd_reasons c) ''dismissed_by_user''\<rparr>
      else c)"

definition show_candidate :: "candidate \<Rightarrow> shown_candidate" where
  "show_candidate c = \<lparr>sc_offer = cd_offer c, sc_vector = cd_vector c, sc_rule = cd_rule c,
     sc_eligible = cd_eligible c, sc_reasons = cd_reasons c\<rparr>"

text \<open>The stored row knows the copy of the offer that was chosen when it was written.\<close>

definition offer_of ::
  "recommendation_row \<Rightarrow> string list \<Rightarrow> candidate \<Rightarrow> recommended_offer" where
  "offer_of row reasons c =
     (let base = \<lparr>ro_offer = cd_offer c, ro_title = cd_title c, ro_body = cd_description c,
        ro_reasons = cd_reasons c, ro_score = cd_rule c, ro_cost = cd_cost c,
        ro_station = cd_station c\<rparr> in
      if cd_offer c = rec_offer row
      then base\<lparr>ro_title := null_string (rec_title row), ro_body := null_string (rec_body row),
                ro_reasons := reasons\<rparr>
      else base)"

text \<open>The loop over the candidates: what is shown, what is offered, the candidate selected.\<close>

fun offer_loop ::
  "recommendation_row \<Rightarrow> string list \<Rightarrow> string list \<Rightarrow> int \<Rightarrow> candidate list
     \<Rightarrow> shown_candidate list \<times> recommended_offer list \<times> candidate option
     \<Rightarrow> shown_candidate list \<times> recommended_offer list \<times> candidate option" where
  "offer_loop row reasons dismissedOffers limit [] acc = acc"
| "offer_loop row reasons dismissedOffers limit (c0 # cs) (shown, offered, selected) =
     (let c = mark_dismissed dismissedOffers c0;
          shown' = shown @ [show_candidate c] in
      if \<not> cd_eligible c \<or> cd_title c = []
      then offer_loop row reasons dismissedOffers limit cs (shown', offered, selected)
      else
        let selected' = (case selected of
              Some p \<Rightarrow> if cd_offer p = [] then Some c else Some p
            | None \<Rightarrow> Some c);
            offered' = offered @ [offer_of row reasons c] in
        if int (length offered') \<ge> limit then (shown', offered', selected')
        else offer_loop row reasons dismissedOffers limit cs (shown', offered', selected'))"

definition latest_of ::
  "recommendation_row \<Rightarrow> string list \<Rightarrow> candidate list \<Rightarrow> string list \<Rightarrow> int \<Rightarrow> latest_response" where
  "latest_of row reasons candidates dismissedOffers limit =
     (case offer_loop row reasons dismissedOffers limit candidates ([], [], None) of
        (shown, offered, selected) \<Rightarrow>
          let base = \<lparr>lr_recommendation = rec_id row, lr_journey = rec_journey row, lr_offer = [],
                lr_title = [], lr_body = [], lr_reasons = [''no_eligible_offers_remaining''],
                lr_source = rec_source row, lr_latency = rec_latency row,
                lr_candidates = shown, lr_offers = offered\<rparr> in
          (case selected of
             None \<Rightarrow> base
           | Some c \<Rightarrow>
               if cd_offer c = [] then base
               else if cd_offer c = rec_offer row
               then base\<lparr>lr_offer := cd_offer c, lr_title := null_string (rec_title row),
                         lr_body := null_string (rec_body row), lr_reasons := reasons\<rparr>
               else base\<lparr>lr_offer := cd_offer c, lr_title := cd_title c,
                         lr_body := cd_description c, lr_reasons := cd_reasons c\<rparr>))"

definition GetLatestRecommendation ::
  "(recommendation_row \<Rightarrow> nat) \<Rightarrow> journey_service option \<Rightarrow> string option \<Rightarrow> latest_response db_act"
where
  "GetLatestRecommendation tie s req =
     (case (s, req) of
        (Some v, Some journeyID) \<Rightarrow>
          (if js_db v = NilHandle \<or> journeyID = []
           then fail (ErrorInvalidRequest ''journey_id is required'')
           else
             andThen (onError NoRows (ErrorRecommendationNotFound ''recommendation is not ready'')
                 (execDB (reads (\<lambda>t d. row_or_none (newest_recommendation tie journeyID d)))))
               (\<lambda>row.
             andThen (lift_result (unmarshal assign_strings (Raw (rec_reasons row)) []))
               (\<lambda>reasons.
             andThen (lift_result (unmarshal (assign_list (assign_struct decode_candidate) no_candidate)
                 (Raw (rec_candidates row)) [])) (\<lambda>candidates.
             andThen (loadDismissedOffers journeyID (rec_id row)) (\<lambda>dismissedOffers.
               ok (latest_of row reasons candidates dismissedOffers (js_limit v)))))))
      | _ \<Rightarrow> fail (ErrorInvalidRequest ''journey_id is required''))"

subsection \<open>What became of a recommendation\<close>

record feedback_request =
  fr_context :: "request_context option"
  fr_user_hash :: string
  fr_recommendation :: string
  fr_event_type :: string
  fr_surface :: string
  fr_offer :: string

definition validRecommendationEventType :: "string \<Rightarrow> bool" where
  "validRecommendationEventType v \<longleftrightarrow> v = ''recommendation.impressed.v1''
     \<or> v = RecommendationClickedTopic \<or> v = RecommendationDismissedTopic"

definition recommendationFeedbackEventID ::
  "(string \<Rightarrow> string) \<Rightarrow> string \<Rightarrow> string \<Rightarrow> string \<Rightarrow> string \<Rightarrow> string \<Rightarrow> string" where
  "recommendationFeedbackEventID sha1 userIDHash journeyID recommendationID offerID eventType =
     sha1 (''recommendation-feedback-v1'' @ [CHR 0x00] @ userIDHash @ [CHR 0x00] @ journeyID @ [CHR 0x00]
       @ recommendationID @ [CHR 0x00] @ offerID @ [CHR 0x00] @ eventType)"

definition select_recommendation ::
  "string \<Rightarrow> string \<Rightarrow> string \<Rightarrow> database \<Rightarrow> (string \<times> json) option" where
  "select_recommendation recommendationID journeyID userIDHash d =
     map_option (\<lambda>r. (rec_offer r, rec_candidates r))
       (lookup_row (\<lambda>r. rec_id r = recommendationID \<and> rec_journey r = journeyID
          \<and> exists_row (\<lambda>j. j_id j = rec_journey r
               \<and> exists_row (\<lambda>u. u_id u = j_user j \<and> u_hash u = userIDHash) (users d)) (journeys d))
         (recommendations d))"

record allowed_candidate =
  al_offer :: string
  al_eligible :: bool

definition decode_allowed ::
  "(string \<times> json) list \<Rightarrow> allowed_candidate \<Rightarrow> gerr + allowed_candidate" where
  "decode_allowed kvs c =
     bind_result (decode_field assign_string ''offer_id'' kvs (al_offer c)) (\<lambda>offer.
     bind_result (decode_field assign_bool ''eligible'' kvs (al_eligible c)) (\<lambda>eligible.
     Inr \<lparr>al_offer = offer, al_eligible = eligible\<rparr>))"

definition feedback_offer :: "string \<Rightarrow> string \<Rightarrow> json \<Rightarrow> gerr + string" where
  "feedback_offer requestedOfferID primaryOfferID candidateSummary =
     (if requestedOfferID \<noteq> [] \<and> requestedOfferID \<noteq> primaryOfferID
      then bind_result (unmarshal (assign_list (assign_struct decode_allowed)
             \<lparr>al_offer = [], al_eligible = False\<rparr>) (Raw candidateSummary) []) (\<lambda>candidates.
           if list_ex (\<lambda>c. al_offer c = requestedOfferID \<and> al_eligible c) candidates
           then Inr requestedOfferID
           else Inl (ErrorInvalidRequest
             ''offer_id is not an eligible candidate of this recommendation''))
      else Inr primaryOfferID)"

definition insert_dismissal ::
  "string \<Rightarrow> string \<Rightarrow> string \<Rightarrow> database \<Rightarrow> gerr + database" where
  "insert_dismissal journeyID recommendationID offerID d =
     (case lookup_row (\<lambda>j. j_id j = journeyID) (journeys d) of
        None \<Rightarrow> Inr d
      | Some j \<Rightarrow>
          let row = \<lparr>dis_user = j_user j, dis_journey = journeyID,
                dis_recommendation = recommendationID, dis_offer = offerID\<rparr> in
          if row \<in> set (dismissals d) then Inr d
          else constrained
            [(user_exists d (j_user j), ''recommendation_dismissals_user_id_fkey''),
             (recommendation_exists d recommendationID,
                ''recommendation_dismissals_recommendation_id_fkey''),
             (offer_exists d offerID, ''recommendation_dismissals_offer_id_fkey'')]
            (d\<lparr>dismissals := dismissals d @ [row]\<rparr>))"

definition feedback_message ::
  "(int \<Rightarrow> string) \<Rightarrow> string \<Rightarrow> int \<Rightarrow> string \<Rightarrow> string \<Rightarrow> string \<Rightarrow> feedback_request \<Rightarrow> string \<Rightarrow> json"
where
  "feedback_message fmt eventID now traceID journeyID offerID request surface = JObj
     [(''event_id'', JStr eventID),
      (''event_type'', JStr (fr_event_type request)),
      (''schema_version'', JInt 1),
      (''occurred_at'', JStr (fmt now)),
      (''producer'', JStr ''gateway-service''),
      (''trace_id'', JStr traceID),
      (''journey_id'', JStr journeyID),
      (''recommendation_id'', JStr (fr_recommendation request)),
      (''user_id_hash'', JStr (fr_user_hash request)),
      (''payload'', JObj [(''offer_id'', JStr offerID), (''surface'', JStr surface)])]"

definition feedback_event ::
  "(int \<Rightarrow> string) \<Rightarrow> string \<Rightarrow> int \<Rightarrow> string \<Rightarrow> string \<Rightarrow> string \<Rightarrow> feedback_request \<Rightarrow> string \<Rightarrow> event"
where
  "feedback_event fmt eventID now traceID journeyID offerID request surface =
     \<lparr>ev_id = eventID, ev_topic = fr_event_type request, ev_key = fr_user_hash request,
      ev_payload = Raw (feedback_message fmt eventID now traceID journeyID offerID request surface)\<rparr>"

definition record_feedback ::
  "(string \<Rightarrow> string) \<Rightarrow> (int \<Rightarrow> string) \<Rightarrow> string \<Rightarrow> string \<Rightarrow> string \<Rightarrow> feedback_request \<Rightarrow> string db_act"
where
  "record_feedback sha1 fmt traceID journeyID surface request =
     andThen beginTx (\<lambda>_.
     andThen (onError NoRows
         (ErrorRecommendationNotFound ''recommendation is not associated with this journey'')
         (execTx (reads (\<lambda>t d. row_or_none
           (select_recommendation (fr_recommendation request) journeyID (fr_user_hash request) d)))))
       (\<lambda>(primaryOfferID, candidateSummary).
     andThen (lift_result (feedback_offer (fr_offer request) primaryOfferID candidateSummary))
       (\<lambda>offerID.
     let eventID = recommendationFeedbackEventID sha1 (fr_user_hash request) journeyID
           (fr_recommendation request) offerID (fr_event_type request) in
     andThen (execTx (claim_event ''gateway-recommendation-feedback'' eventID)) (\<lambda>claimed.
     if claimed = 0 then andThen commitTx (\<lambda>_. ok eventID)
     else
       andThen (ApplyPreferenceFeedback Handle (fr_user_hash request) offerID (fr_event_type request))
         (\<lambda>_.
       andThen (if fr_event_type request = RecommendationDismissedTopic
                then execTx (writes (\<lambda>t. insert_dismissal journeyID (fr_recommendation request) offerID))
                else ok ()) (\<lambda>_.
       andThen timeNow (\<lambda>now.
       andThen (Enqueue Handle (feedback_event fmt eventID now traceID journeyID offerID request surface))
         (\<lambda>_.
       andThen commitTx (\<lambda>_. ok eventID)))))))))"

definition RecordRecommendationEvent ::
  "(string \<Rightarrow> string) \<Rightarrow> (int \<Rightarrow> string) \<Rightarrow> journey_service option \<Rightarrow> feedback_request option
     \<Rightarrow> string db_act" where
  "RecordRecommendationEvent sha1 fmt s req =
     (case (s, req) of
        (Some v, Some request) \<Rightarrow>
          (if js_db v = NilHandle \<or> fr_user_hash request = [] \<or> fr_recommendation request = []
           then fail (ErrorInvalidRequest ''user_id_hash and recommendation_id are required'')
           else if \<not> validUserIDHash (fr_user_hash request)
           then fail (ErrorInvalidRequest ''user_id_hash must be a sha256 hash'')
           else if \<not> validRecommendationEventType (fr_event_type request)
           then fail (ErrorInvalidRequest
             ''event_type must be recommendation.impressed.v1, recommendation.clicked.v1, or recommendation.dismissed.v1'')
           else
             (case fr_context request of
                None \<Rightarrow> fail (ErrorInvalidRequest ''request_context.journey_id is required'')
              | Some c \<Rightarrow>
                  (if rc_journey c = []
                   then fail (ErrorInvalidRequest ''request_context.journey_id is required'')
                   else
                     let surface = (if fr_surface request = [] then ''web'' else fr_surface request) in
                     if surface \<noteq> ''web'' \<and> surface \<noteq> ''demo''
                     then fail (ErrorInvalidRequest ''surface must be web or demo'')
                     else andThen (if rc_trace c = [] then newUUID else ok (rc_trace c)) (\<lambda>traceID.
                       record_feedback sha1 fmt traceID (rc_journey c) surface request))))
      | _ \<Rightarrow> fail (ErrorInvalidRequest ''user_id_hash and recommendation_id are required''))"

end
