(* ===== verification/Ranking.thy ===== *)
theory Ranking
  imports Preference Copy Embedding Journey
begin

text \<open>
  The decision inside \<open>internal/recommendation/recommendation.go\<close>: which candidate offers a traveller
  may have, what each is worth, and in which order. \<open>rnd\<close> is the rounding of \<open>float64\<close> (of a sum, a
  product, a literal, each by itself), \<open>lo\<close> the case table of \<open>strings.ToLower\<close>.
  A \<open>CandidateSummary\<close> is a \<open>candidate\<close> of \<open>Journey\<close>, which reads back what is stored here.
\<close>

subsection \<open>The offers behind the candidates\<close>

record item =
  it_id :: string
  it_title :: string
  it_description :: string
  it_category :: string
  it_station :: string
  it_cost :: int
  it_active :: bool
  it_starts :: int
  it_ends :: int
  it_quantity :: int

definition no_item :: item where
  "no_item = \<lparr>it_id = [], it_title = [], it_description = [], it_category = [], it_station = [],
     it_cost = 0, it_active = False, it_starts = 0, it_ends = 0, it_quantity = 0\<rparr>"

definition item_of :: "offer_row \<Rightarrow> inventory_row \<Rightarrow> item" where
  "item_of x i = \<lparr>it_id = of_id x, it_title = of_title x, it_description = of_description x,
     it_category = of_category x, it_station = of_station x, it_cost = of_cost x,
     it_active = of_active x, it_starts = of_starts x, it_ends = of_ends x,
     it_quantity = inv_quantity i\<rparr>"

text \<open>The query: the offers of the station among \<open>ids\<close>, with their stock, that the user has not
  redeemed.\<close>

definition redeemed_by :: "string \<Rightarrow> string \<Rightarrow> database \<Rightarrow> bool" where
  "redeemed_by userID offerID d =
     exists_row (\<lambda>r. rd_user r = userID \<and> rd_offer r = offerID \<and> counted r) (redemptions d)"

definition select_items :: "string \<Rightarrow> string \<Rightarrow> string list \<Rightarrow> database \<Rightarrow> item list" where
  "select_items stationID userID ids d =
     concat (map (\<lambda>x. map (item_of x) (filter (\<lambda>i. inv_offer i = of_id x) (inventory d)))
       (filter (\<lambda>x. of_station x = stationID \<and> of_id x \<in> set ids \<and> \<not> redeemed_by userID (of_id x) d)
         (offers d)))"

text \<open>The identifiers asked for, each once.\<close>

fun unique_ids :: "string list \<Rightarrow> qdrant_candidate list \<Rightarrow> string list" where
  "unique_ids ids [] = ids"
| "unique_ids ids (c # cs) =
     unique_ids (if qn_offer c \<in> set ids then ids else ids @ [qn_offer c]) cs"

text \<open>The map the rows are collected in: a later row replaces an earlier one.\<close>

definition find_item :: "item list \<Rightarrow> string \<Rightarrow> item option" where
  "find_item items offerID = lookup_row (\<lambda>x. it_id x = offerID) (rev items)"

subsection \<open>Rules\<close>

definition matchesPreferredCategory :: "case_table \<Rightarrow> string \<Rightarrow> string list \<Rightarrow> bool" where
  "matchesPreferredCategory lo offerCategory preferredCategories =
     (let c = to_lower lo (trim_space offerCategory) in
      c \<noteq> [] \<and> list_ex (\<lambda>p. c = to_lower lo (trim_space p)) preferredCategories)"

definition containsRejection :: "string list \<Rightarrow> bool" where
  "containsRejection reasons =
     list_ex (\<lambda>r. has_prefix ''offer_inactive'' r \<or> r = ''out_of_stock'' \<or> r = ''insufficient_points'')
       reasons"

definition rejections :: "int \<Rightarrow> int \<Rightarrow> item \<Rightarrow> string list" where
  "rejections now balance x =
     (if \<not> it_active x \<or> now < it_starts x \<or> \<not> now < it_ends x then [''offer_inactive_or_expired''] else [])
     @ (if it_quantity x = 0 then [''out_of_stock''] else [])
     @ (if it_cost x > balance then [''insufficient_points''] else [])"

definition category_weight :: "case_table \<Rightarrow> (rat \<Rightarrow> rat) \<Rightarrow> preference \<Rightarrow> string \<Rightarrow> rat" where
  "category_weight lo rnd p category =
     (case map_of (pf_weights p) (to_lower lo (trim_space category)) of None \<Rightarrow> 0 | Some w \<Rightarrow> rnd w)"

text \<open>What is added to the score, in order, and the reason given for it.\<close>

definition bonuses :: "case_table \<Rightarrow> (rat \<Rightarrow> rat) \<Rightarrow> preference \<Rightarrow> item \<Rightarrow> (rat \<times> string) list" where
  "bonuses lo rnd p x =
     (if it_station x = pf_destination p \<and> pf_destination p \<noteq> []
      then [(rnd (1/5), ''near_predicted_destination'')] else [])
     @ (if pf_budget_min p \<le> it_cost x \<and> it_cost x \<le> pf_budget_max p
        then [(rnd (1/10), ''within_budget'')] else [])
     @ (if it_quantity x > 0 \<and> it_quantity x \<le> 5 then [(rnd (1/20), ''inventory_urgency'')] else [])
     @ (if matchesPreferredCategory lo (it_category x) (pf_categories p)
        then [(rnd (1/10), ''preferred_category'')] else [])
     @ (let weight = category_weight lo rnd p (it_category x) in
        if weight \<noteq> 0
        then [(rnd (weight * rnd (1/20)),
               if weight > 0 then ''learned_category_preference'' else ''learned_category_avoidance'')]
        else [])"

record evaluation =
  el_item :: item
  el_summary :: candidate

definition evaluate_item ::
  "case_table \<Rightarrow> (rat \<Rightarrow> rat) \<Rightarrow> preference \<Rightarrow> int \<Rightarrow> int \<Rightarrow> string \<Rightarrow> rat \<Rightarrow> item \<Rightarrow> candidate" where
  "evaluate_item lo rnd p now balance offerID score x =
     (let extra = bonuses lo rnd p x;
          reasons = rejections now balance x @ map snd extra;
          eligible = (reasons = [] \<or> \<not> containsRejection reasons) in
      \<lparr>cd_offer = offerID, cd_title = it_title x, cd_description = it_description x,
       cd_station = it_station x, cd_cost = it_cost x, cd_vector = score,
       cd_rule = foldl (\<lambda>s q. rnd (s + fst q)) score extra, cd_eligible = eligible,
       cd_reasons = (if eligible then reasons @ [''within_points''] else reasons)\<rparr>)"

definition evaluate ::
  "case_table \<Rightarrow> (rat \<Rightarrow> rat) \<Rightarrow> preference \<Rightarrow> int \<Rightarrow> int \<Rightarrow> item list \<Rightarrow> qdrant_candidate \<Rightarrow> evaluation" where
  "evaluate lo rnd p now balance items c =
     (let score = rnd (qn_score c) in
      case find_item items (qn_offer c) of
        None \<Rightarrow> \<lparr>el_item = no_item, el_summary = no_candidate\<lparr>cd_offer := qn_offer c, cd_vector := score,
          cd_rule := score, cd_reasons := [''stale_candidate'']\<rparr>\<rparr>
      | Some x \<Rightarrow> \<lparr>el_item = x,
          el_summary = evaluate_item lo rnd p now balance (qn_offer c) score x\<rparr>)"

text \<open>\<open>sort.SliceStable\<close>: the higher score first, and of equal scores the smaller identifier.\<close>

definition rank_key :: "evaluation \<Rightarrow> rat \<times> string" where
  "rank_key v = (- cd_rule (el_summary v), cd_offer (el_summary v))"

definition rank :: "evaluation list \<Rightarrow> evaluation list" where
  "rank = sort_key rank_key"

definition chosen_of :: "evaluation list \<Rightarrow> evaluation option" where
  "chosen_of vs = find (\<lambda>v. cd_eligible (el_summary v)) vs"

subsection \<open>What the rules decide\<close>

lemma has_prefix_append: "has_prefix p (p @ s)"
  by (simp add: has_prefix_def)

lemma has_prefix_iff: "has_prefix p s \<longleftrightarrow> (\<exists>t. s = p @ t)"
  unfolding has_prefix_def by (metis append_eq_conv_conj append_take_drop_id)

lemma containsRejection_append [simp]:
  "containsRejection (xs @ ys) \<longleftrightarrow> containsRejection xs \<or> containsRejection ys"
  by (auto simp: containsRejection_def)

lemma containsRejection_rejections [simp]:
  "containsRejection (rejections now balance x) \<longleftrightarrow> rejections now balance x \<noteq> []"
  by (auto simp: containsRejection_def rejections_def has_prefix_def)

lemma containsRejection_bonuses [simp]: "\<not> containsRejection (map snd (bonuses lo rnd p x))"
  by (auto simp: containsRejection_def bonuses_def Let_def has_prefix_def)

lemma evaluate_item_eligible [simp]:
  "cd_eligible (evaluate_item lo rnd p now balance offerID score x) \<longleftrightarrow> rejections now balance x = []"
  by (auto simp: evaluate_item_def Let_def)

lemma find_item_Some: "find_item items offerID = Some x \<Longrightarrow> x \<in> set items \<and> it_id x = offerID"
  by (auto simp: find_item_def dest: lookup_row_SomeD)

lemma set_select_items:
  "x \<in> set (select_items stationID userID ids d) \<longleftrightarrow> (\<exists>y\<in>set (offers d). \<exists>i\<in>set (inventory d).
     of_station y = stationID \<and> of_id y \<in> set ids \<and> \<not> redeemed_by userID (of_id y) d
     \<and> inv_offer i = of_id y \<and> x = item_of y i)"
  by (auto simp: select_items_def)

lemma set_unique_ids: "set (unique_ids ids cs) = set ids \<union> qn_offer ` set cs"
  by (induction ids cs rule: unique_ids.induct) auto

lemma distinct_unique_ids: "distinct ids \<Longrightarrow> distinct (unique_ids ids cs)"
  by (induction ids cs rule: unique_ids.induct) auto

lemma chosen_best:
  assumes "chosen_of (rank vs) = Some v"
  shows "v \<in> set vs" and "cd_eligible (el_summary v)"
    and "\<And>u. u \<in> set vs \<Longrightarrow> cd_eligible (el_summary u) \<Longrightarrow> rank_key v \<le> rank_key u"
proof -
  have s: "sorted (map rank_key (rank vs))" by (simp add: rank_def)
  obtain i where i: "i < length (rank vs)" "cd_eligible (el_summary (rank vs ! i))" "v = rank vs ! i"
    and before: "\<forall>j<i. \<not> cd_eligible (el_summary (rank vs ! j))"
    using assms by (auto simp: chosen_of_def find_Some_iff)
  show "v \<in> set vs" using i by (metis nth_mem rank_def set_sort)
  show "cd_eligible (el_summary v)" using i by simp
  fix u assume u: "u \<in> set vs" and e: "cd_eligible (el_summary u)"
  then obtain j where j: "j < length (rank vs)" "u = rank vs ! j"
    by (metis in_set_conv_nth rank_def set_sort)
  with before e have "i \<le> j" by (meson leI)
  with s i j show "rank_key v \<le> rank_key u" by (auto dest: sorted_nth_mono)
qed

end
