(* ===== verification/Recommendation.thy ===== *)
theory Recommendation
  imports Ranking
begin

text \<open>
  \<open>RecommendationService\<close> of \<open>internal/recommendation/recommendation.go\<close>. What the service calls
  outside the repository comes in one record: the HTTP client of Qdrant (\<open>rx_post\<close>),
  \<open>url.PathEscape\<close>, the text of a JSON number, the case and digit tables of Unicode, \<open>%.6f\<close>,
  SHA-256, the rounding to \<open>float32\<close> and \<open>float64\<close>, the value a NUMERIC(8, 4) column keeps of a
  \<open>float64\<close>, and instants as text. Redis is explicit state. Spans and metrics are left out.
\<close>

record externals =
  rx_post :: http_post
  rx_escape :: "string \<Rightarrow> string"
  rx_number :: "json \<Rightarrow> string"
  rx_lower :: case_table
  rx_digits :: digit_table
  rx_fixed6 :: "rat \<Rightarrow> string"
  rx_sha256 :: "string \<Rightarrow> nat list"
  rx_round32 :: "rat \<Rightarrow> rat"
  rx_round :: "rat \<Rightarrow> rat"
  rx_score :: "rat \<Rightarrow> rat"
  rx_fmt :: "int \<Rightarrow> string"
  rx_parse_time :: "string \<Rightarrow> int option"

record recommendation_service =
  rcs_db :: handle
  rcs_qdrant :: "qdrant_client option"
  rcs_preferences :: "preference_store option"
  rcs_collection :: string
  rcs_embedder :: "embedder option"
  rcs_model :: string
  rcs_generator :: "copy_generator option"
  rcs_timeout :: int
  rcs_limit :: int

definition NewRecommendationService ::
  "externals \<Rightarrow> handle \<Rightarrow> qdrant_client option \<Rightarrow> preference_store option \<Rightarrow> recommendation_service" where
  "NewRecommendationService x db qdrant preferences =
     \<lparr>rcs_db = db, rcs_qdrant = qdrant, rcs_preferences = preferences,
      rcs_collection = ''offer_embeddings_v1'',
      rcs_embedder = Some (HashEmbedder (rx_sha256 x) (rx_round32 x) 32), rcs_model = ''demo-hash-v1'',
      rcs_generator = None, rcs_timeout = 250000000, rcs_limit = 10\<rparr>"

definition WithCandidateLimit ::
  "recommendation_service option \<Rightarrow> int \<Rightarrow> recommendation_service option" where
  "WithCandidateLimit s limit =
     (case s of
        None \<Rightarrow> None
      | Some v \<Rightarrow> Some (if limit > 0 then v\<lparr>rcs_limit := (if limit > 50 then 50 else limit)\<rparr> else v))"

definition CandidateLimit :: "recommendation_service option \<Rightarrow> int" where
  "CandidateLimit s = (case s of None \<Rightarrow> 10 | Some v \<Rightarrow> if rcs_limit v < 1 then 10 else rcs_limit v)"

definition WithQueryEmbedder ::
  "recommendation_service option \<Rightarrow> embedder option \<Rightarrow> recommendation_service option" where
  "WithQueryEmbedder s e =
     map_option (\<lambda>v. if e = None then v else v\<lparr>rcs_embedder := e\<rparr>) s"

definition WithEmbeddingCollection ::
  "recommendation_service option \<Rightarrow> string \<Rightarrow> recommendation_service option" where
  "WithEmbeddingCollection s collection =
     map_option (\<lambda>v. if collection \<noteq> [] then v\<lparr>rcs_collection := collection\<rparr> else v) s"

definition WithEmbeddingModel ::
  "recommendation_service option \<Rightarrow> string \<Rightarrow> recommendation_service option" where
  "WithEmbeddingModel s model =
     map_option (\<lambda>v. if trim_space model \<noteq> [] then v\<lparr>rcs_model := trim_space model\<rparr> else v) s"

definition WithCopyGenerator ::
  "recommendation_service option \<Rightarrow> copy_generator option \<Rightarrow> int \<Rightarrow> recommendation_service option" where
  "WithCopyGenerator s generator timeout =
     map_option (\<lambda>v. let u = v\<lparr>rcs_generator := generator\<rparr> in
       if timeout > 0 then u\<lparr>rcs_timeout := timeout\<rparr> else u) s"

subsection \<open>The vector of a traveller\<close>

record entry_payload =
  ep_station :: string
  ep_line :: string
  ep_position :: string

record entry_event_data =
  ee_event_id :: string
  ee_event_type :: string
  ee_schema_version :: int
  ee_trace_id :: string
  ee_journey_id :: string
  ee_user_id_hash :: string
  ee_payload :: entry_payload

record profile_embedding =
  pe_vector :: vector
  pe_model :: string
  pe_version :: string

text \<open>The preference both \<open>ProfileEmbedding\<close> and \<open>Recommend\<close> start from.\<close>

definition service_preference ::
  "externals \<Rightarrow> recommendation_service \<Rightarrow> redis \<Rightarrow> string \<Rightarrow> (preference \<times> redis) db_act" where
  "service_preference x s r userIDHash =
     andThen (DemoPreference userIDHash) (\<lambda>p.
     if rcs_preferences s = None then ok (p, r)
     else preference_Get (rx_fmt x) (rx_parse_time x) (rcs_preferences s) r userIDHash)"

definition profile_of_preference :: "preference \<Rightarrow> profile_document" where
  "profile_of_preference p = \<lparr>pd_destination = pf_destination p, pd_categories = pf_categories p,
     pd_weights = pf_weights p, pd_budget_min = pf_budget_min p, pd_budget_max = pf_budget_max p\<rparr>"

definition profile_query :: "externals \<Rightarrow> entry_event_data \<Rightarrow> preference \<Rightarrow> offer_document" where
  "profile_query x ev p =
     \<lparr>od_offer = [], od_title = ''user profile'',
      od_description = join_with newline
        [''station='' @ ep_station (ee_payload ev), ''line='' @ ep_line (ee_payload ev),
         ''position='' @ ep_position (ee_payload ev),
         CanonicalProfileDocument (rx_lower x) (rx_fixed6 x) (profile_of_preference p)],
      od_station = [], od_category = ''profile'', od_version = 0\<rparr>"

text \<open>The answer, and what Redis holds afterwards, whatever the answer.\<close>

definition ProfileEmbedding ::
  "externals \<Rightarrow> recommendation_service option \<Rightarrow> redis \<Rightarrow> entry_event_data
     \<Rightarrow> ((gerr + profile_embedding) \<times> redis) db_act" where
  "ProfileEmbedding x s r ev =
     (case s of
        None \<Rightarrow> ok (Inl (Recommendation_err EmbeddingUnavailable), r)
      | Some v \<Rightarrow>
          (case rcs_embedder v of
             None \<Rightarrow> ok (Inl (Recommendation_err EmbeddingUnavailable), r)
           | Some embedder \<Rightarrow>
               (if ee_user_id_hash ev = [] \<or> ep_station (ee_payload ev) = []
                then ok (Inl (Recommendation_err EmbeddingUnavailable), r)
                else
                  andThen (attempt (service_preference x v r (ee_user_id_hash ev))) (\<lambda>q. case q of
                    Inl err \<Rightarrow> ok (Inl err, r)
                  | Inr (p, r') \<Rightarrow>
                      ok (bind_result (embedder (profile_query x ev p)) (\<lambda>vec.
                        Inr \<lparr>pe_vector = vec, pe_model = rcs_model v,
                             pe_version = profileContentVersion (rx_sha256 x)
                               (CanonicalProfileDocument (rx_lower x) (rx_fixed6 x) (profile_of_preference p))\<rparr>),
                        r')))))"

definition QueryVector ::
  "externals \<Rightarrow> recommendation_service option \<Rightarrow> redis \<Rightarrow> entry_event_data
     \<Rightarrow> ((gerr + vector) \<times> redis) db_act" where
  "QueryVector x s r ev =
     andThen (ProfileEmbedding x s r ev) (\<lambda>(q, r').
       ok (bind_result q (\<lambda>pe. Inr (pe_vector pe)), r'))"

subsection \<open>What is stored and announced\<close>

record recommendation_request =
  rq_user_hash :: string
  rq_journey :: string
  rq_station :: string
  rq_trace :: string
  rq_vector :: vector
  rq_limit :: int

record recommendation =
  rm_id :: string
  rm_journey :: string
  rm_offer :: string
  rm_score :: rat
  rm_reasons :: "string list"
  rm_title :: string
  rm_body :: string
  rm_tone :: string
  rm_source :: string
  rm_latency :: int
  rm_candidates :: "candidate list"
  rm_offers :: "recommended_offer list"

definition candidate_json :: "candidate \<Rightarrow> json" where
  "candidate_json c = JObj
     ((''offer_id'', JStr (cd_offer c)) # omit_empty ''title'' (cd_title c)
      @ omit_empty ''description'' (cd_description c) @ omit_empty ''station_id'' (cd_station c)
      @ (if cd_cost c = 0 then [] else [(''points_cost'', JInt (cd_cost c))])
      @ [(''vector_score'', json_number (cd_vector c)), (''rule_score'', json_number (cd_rule c)),
         (''eligible'', JBool (cd_eligible c)), (''reasons'', marshal_strings (cd_reasons c))])"

definition recommendation_row_of :: "(rat \<Rightarrow> rat) \<Rightarrow> recommendation \<Rightarrow> int \<Rightarrow> recommendation_row" where
  "recommendation_row_of column m now =
     \<lparr>rec_id = rm_id m, rec_journey = rm_journey m, rec_offer = rm_offer m,
      rec_score = column (rm_score m), rec_reasons = json_strings (rm_reasons m),
      rec_title = Some (rm_title m), rec_body = Some (rm_body m), rec_tone = Some (rm_tone m),
      rec_source = rm_source m, rec_candidates = JArr (map candidate_json (rm_candidates m)),
      rec_latency = rm_latency m, rec_created = now\<rparr>"

fun is_array :: "json \<Rightarrow> bool" where
  "is_array (JArr js) = True"
| "is_array j = False"

definition insert_recommendation :: "recommendation_row \<Rightarrow> database \<Rightarrow> gerr + database" where
  "insert_recommendation r d = constrained
     [(\<not> recommendation_exists d (rec_id r), ''recommendations_pkey''),
      (journey_exists d (rec_journey r), ''recommendations_journey_id_fkey''),
      (offer_exists d (rec_offer r), ''recommendations_offer_id_fkey''),
      (\<bar>rec_score r\<bar> < 10000, ''numeric field overflow''),
      (is_array (rec_reasons r), ''recommendations_reasons_check''),
      (rec_source r \<in> {''template'', ''llm''}, ''recommendations_copy_source_check''),
      (is_array (rec_candidates r), ''recommendations_candidate_summary_check''),
      (rec_latency r \<ge> 0, ''recommendations_decision_latency_ms_check'')]
     (d\<lparr>recommendations := recommendations d @ [r]\<rparr>)"

definition recommendation_message ::
  "(int \<Rightarrow> string) \<Rightarrow> string \<Rightarrow> int \<Rightarrow> recommendation_request \<Rightarrow> recommendation \<Rightarrow> json" where
  "recommendation_message fmt eventID now request m = JObj
     [(''event_id'', JStr eventID),
      (''event_type'', JStr ''recommendation.created.v1''),
      (''schema_version'', JInt 1),
      (''occurred_at'', JStr (fmt now)),
      (''producer'', JStr ''recommendation-service''),
      (''trace_id'', JStr (rq_trace request)),
      (''journey_id'', JStr (rq_journey request)),
      (''recommendation_id'', JStr (rm_id m)),
      (''user_id_hash'', JStr (rq_user_hash request)),
      (''payload'', JObj
        [(''recommendation_id'', JStr (rm_id m)), (''offer_id'', JStr (rm_offer m)),
         (''reasons'', marshal_strings (rm_reasons m)), (''copy_source'', JStr (rm_source m))])]"

definition recommendation_created ::
  "(int \<Rightarrow> string) \<Rightarrow> string \<Rightarrow> int \<Rightarrow> recommendation_request \<Rightarrow> recommendation \<Rightarrow> event" where
  "recommendation_created fmt eventID now request m =
     \<lparr>ev_id = eventID, ev_topic = ''recommendation.created.v1'', ev_key = rq_user_hash request,
      ev_payload = Raw (recommendation_message fmt eventID now request m)\<rparr>"

definition enqueueRecommendationEvent ::
  "(int \<Rightarrow> string) \<Rightarrow> recommendation_request \<Rightarrow> recommendation \<Rightarrow> unit db_act" where
  "enqueueRecommendationEvent fmt request m =
     andThen newUUID (\<lambda>eventID.
     andThen timeNow (\<lambda>now.
       Enqueue Handle (recommendation_created fmt eventID now request m)))"

subsection \<open>\<open>Recommend\<close>\<close>

definition user_balance :: "string \<Rightarrow> database \<Rightarrow> (string \<times> int) option" where
  "user_balance userIDHash d =
     map_option (\<lambda>u. (u_id u, u_balance u)) (lookup_row (\<lambda>u. u_hash u = userIDHash) (users d))"

definition journey_place :: "string \<Rightarrow> string \<Rightarrow> database \<Rightarrow> (string \<times> string) option" where
  "journey_place journeyID userID d =
     (case lookup_row (\<lambda>j. j_id j = journeyID \<and> j_user j = userID) (journeys d) of
        None \<Rightarrow> None
      | Some j \<Rightarrow> map_option (\<lambda>x. (j_station j, st_name x))
          (lookup_row (\<lambda>x. st_id x = j_station j) (stations d)))"

definition facts_of :: "string \<Rightarrow> evaluation \<Rightarrow> copy_facts" where
  "facts_of stationName v =
     \<lparr>cf_station = stationName, cf_offer = it_title (el_item v), cf_cost = it_cost (el_item v),
      cf_discount = it_description (el_item v), cf_reasons = take 3 (cd_reasons (el_summary v)),
      cf_time = []\<rparr>"

text \<open>The copy that was written replaces the words of the chosen offer.\<close>

definition offered ::
  "string \<Rightarrow> copy_output \<Rightarrow> string list \<Rightarrow> evaluation \<Rightarrow> recommended_offer" where
  "offered offerID words reasons v =
     (let base = \<lparr>ro_offer = it_id (el_item v), ro_title = it_title (el_item v),
            ro_body = it_description (el_item v), ro_reasons = cd_reasons (el_summary v),
            ro_score = cd_rule (el_summary v), ro_cost = it_cost (el_item v),
            ro_station = it_station (el_item v)\<rparr> in
      if it_id (el_item v) = offerID
      then base\<lparr>ro_title := co_title words, ro_body := co_body words, ro_reasons := reasons\<rparr>
      else base)"

definition assemble ::
  "recommendation_request \<Rightarrow> int \<Rightarrow> string \<Rightarrow> int \<Rightarrow> evaluation list \<Rightarrow> evaluation \<Rightarrow> copy_output \<Rightarrow> string
     \<Rightarrow> recommendation" where
  "assemble request limit ident latency ranked best words source =
     \<lparr>rm_id = ident, rm_journey = rq_journey request, rm_offer = it_id (el_item best),
      rm_score = cd_rule (el_summary best), rm_reasons = cd_reasons (el_summary best),
      rm_title = co_title words, rm_body = co_body words, rm_tone = co_tone words,
      rm_source = source, rm_latency = latency, rm_candidates = map el_summary ranked,
      rm_offers = map (offered (it_id (el_item best)) words (cd_reasons (el_summary best)))
        (take (nat limit) (filter (\<lambda>v. cd_eligible (el_summary v)) ranked))\<rparr>"

text \<open>The second half of the handler: the words, the row, the event, the commit.\<close>

definition store_recommendation ::
  "externals \<Rightarrow> recommendation_service \<Rightarrow> recommendation_request \<Rightarrow> int \<Rightarrow> string \<Rightarrow> evaluation list
     \<Rightarrow> evaluation \<Rightarrow> recommendation db_act" where
  "store_recommendation x s request started stationName ranked best =
     andThen (lift_result (GenerateCopy (rx_digits x) (facts_of stationName best) (rcs_generator s)))
       (\<lambda>(words, source).
     andThen newUUID (\<lambda>ident.
     andThen timeNow (\<lambda>ended.
     let m = assemble request (CandidateLimit (Some s)) ident ((ended - started) div 1000000)
           ranked best words source in
     andThen (execTx (writes (\<lambda>t. insert_recommendation (recommendation_row_of (rx_score x) m t)))) (\<lambda>_.
     andThen (enqueueRecommendationEvent (rx_fmt x) request m) (\<lambda>_.
     andThen commitTx (\<lambda>_. ok m))))))"

definition recommend_from ::
  "externals \<Rightarrow> recommendation_service \<Rightarrow> recommendation_request \<Rightarrow> int \<Rightarrow> preference
     \<Rightarrow> qdrant_candidate list \<Rightarrow> recommendation db_act" where
  "recommend_from x s request started p candidates =
     andThen beginTx (\<lambda>_.
     andThen (onError NoRows (Recommendation_err RecommendationUserNotFound)
         (execTx (reads (\<lambda>t d. row_or_none (user_balance (rq_user_hash request) d)))))
       (\<lambda>(userID, balance).
     andThen (onError NoRows (Recommendation_err RecommendationJourneyNotFound)
         (execTx (reads (\<lambda>t d. row_or_none (journey_place (rq_journey request) userID d)))))
       (\<lambda>(journeyStation, stationName).
     if journeyStation \<noteq> rq_station request then fail (Recommendation_err JourneyStationMismatch)
     else
       andThen (execTx (reads (\<lambda>t d.
           Inr (select_items journeyStation userID (unique_ids [] candidates) d)))) (\<lambda>items.
       andThen timeNow (\<lambda>now.
       let ranked = rank (map (evaluate (rx_lower x) (rx_round x) p now balance items) candidates) in
       case chosen_of ranked of
         None \<Rightarrow> fail (Recommendation_err NoEligibleOffer)
       | Some best \<Rightarrow> store_recommendation x s request started stationName ranked best)))))"

definition request_limit :: "recommendation_service option \<Rightarrow> recommendation_request \<Rightarrow> int" where
  "request_limit s request =
     (let limit = (if rq_limit request < 1 then CandidateLimit s else rq_limit request) in
      if limit > 50 then 50 else limit)"

definition recommend_with ::
  "externals \<Rightarrow> recommendation_service \<Rightarrow> recommendation_request \<Rightarrow> int \<Rightarrow> preference
     \<Rightarrow> recommendation db_act" where
  "recommend_with x s request started p =
     andThen (lift_result (qdrant_Search (rx_post x) (rx_escape x) (rx_number x) (rcs_qdrant s)
       (rcs_collection s) (rq_vector request) (rq_station request) (rcs_model s)
       (request_limit (Some s) request))) (\<lambda>candidates.
     if candidates = [] then fail (Recommendation_err NoEligibleOffer)
     else recommend_from x s request started p candidates)"

text \<open>The answer, and what Redis holds afterwards, whatever the answer.\<close>

definition Recommend ::
  "externals \<Rightarrow> recommendation_service option \<Rightarrow> redis \<Rightarrow> recommendation_request
     \<Rightarrow> ((gerr + recommendation) \<times> redis) db_act" where
  "Recommend x s r request =
     andThen timeNow (\<lambda>started.
     case s of
       None \<Rightarrow> ok (Inl (Recommendation_err InvalidRecommendationRequest), r)
     | Some v \<Rightarrow>
         (if rcs_db v = NilHandle \<or> rcs_qdrant v = None \<or> rq_user_hash request = []
             \<or> rq_journey request = [] \<or> rq_station request = [] \<or> rq_trace request = []
             \<or> rq_vector request = []
          then ok (Inl (Recommendation_err InvalidRecommendationRequest), r)
          else
            andThen (attempt (service_preference x v r (rq_user_hash request))) (\<lambda>q. case q of
              Inl err \<Rightarrow> ok (Inl err, r)
            | Inr (p, r') \<Rightarrow>
                andThen (attempt (recommend_with x v request started p)) (\<lambda>answer.
                  ok (answer, r')))))"

subsection \<open>\<open>GetLatest\<close>\<close>

definition stored_offer :: "recommendation_row \<Rightarrow> string list \<Rightarrow> candidate \<Rightarrow> recommended_offer" where
  "stored_offer row reasons c =
     (let base = \<lparr>ro_offer = cd_offer c, ro_title = cd_title c, ro_body = cd_description c,
            ro_reasons = cd_reasons c, ro_score = cd_rule c, ro_cost = cd_cost c,
            ro_station = cd_station c\<rparr> in
      if cd_offer c = rec_offer row
      then base\<lparr>ro_title := null_string (rec_title row), ro_body := null_string (rec_body row),
                ro_reasons := reasons\<rparr>
      else base)"

definition stored_recommendation ::
  "(rat \<Rightarrow> rat) \<Rightarrow> recommendation_row \<Rightarrow> string list \<Rightarrow> candidate list \<Rightarrow> int \<Rightarrow> recommendation" where
  "stored_recommendation rnd row reasons candidates limit =
     \<lparr>rm_id = rec_id row, rm_journey = rec_journey row, rm_offer = rec_offer row,
      rm_score = rnd (rec_score row), rm_reasons = reasons,
      rm_title = null_string (rec_title row), rm_body = null_string (rec_body row),
      rm_tone = null_string (rec_tone row), rm_source = rec_source row,
      rm_latency = rec_latency row, rm_candidates = candidates,
      rm_offers = map (stored_offer row reasons)
        (take (nat limit) (filter (\<lambda>c. cd_eligible c \<and> cd_title c \<noteq> []) candidates))\<rparr>"

definition GetLatest ::
  "externals \<Rightarrow> (recommendation_row \<Rightarrow> nat) \<Rightarrow> recommendation_service option \<Rightarrow> string
     \<Rightarrow> recommendation db_act" where
  "GetLatest x tie s journeyID =
     (case s of
        None \<Rightarrow> fail (Recommendation_err InvalidRecommendationRequest)
      | Some v \<Rightarrow>
          (if rcs_db v = NilHandle \<or> journeyID = []
           then fail (Recommendation_err InvalidRecommendationRequest)
           else
             andThen (onError NoRows (Recommendation_err NoEligibleOffer)
                 (execDB (reads (\<lambda>t d. row_or_none (newest_recommendation tie journeyID d))))) (\<lambda>row.
             andThen (lift_result (unmarshal assign_strings (Raw (rec_reasons row)) [])) (\<lambda>reasons.
             andThen (lift_result (unmarshal (assign_list (assign_struct decode_candidate) no_candidate)
                 (Raw (rec_candidates row)) [])) (\<lambda>candidates.
             ok (stored_recommendation (rx_round x) row reasons candidates (CandidateLimit s)))))))"

end
