(* ===== verification/EntryConsumer.thy ===== *)
theory EntryConsumer
  imports Recommendation
begin

text \<open>
  \<open>internal/recommendation/consumer.go\<close>: the consumer of \<open>journey.entered.v1\<close> that turns an entry
  into a recommendation. Kafka keeps one offset for the group: committing message \<open>n\<close> says that
  everything up to \<open>n\<close> is done.
\<close>

abbreviation EntryTopic :: string where
  "EntryTopic \<equiv> ''journey.entered.v1''"

definition no_entry_event :: entry_event_data where
  "no_entry_event = \<lparr>ee_event_id = [], ee_event_type = [], ee_schema_version = 0, ee_trace_id = [],
     ee_journey_id = [], ee_user_id_hash = [],
     ee_payload = \<lparr>ep_station = [], ep_line = [], ep_position = []\<rparr>\<rparr>"

definition decode_entry_payload ::
  "(string \<times> json) list \<Rightarrow> entry_payload \<Rightarrow> gerr + entry_payload" where
  "decode_entry_payload kvs p =
     bind_result (decode_field assign_string ''station_id'' kvs (ep_station p)) (\<lambda>s.
     bind_result (decode_field assign_string ''line_id'' kvs (ep_line p)) (\<lambda>l.
     bind_result (decode_field assign_string ''position_id'' kvs (ep_position p)) (\<lambda>q.
     Inr \<lparr>ep_station = s, ep_line = l, ep_position = q\<rparr>)))"

definition decode_entry_event ::
  "(string \<times> json) list \<Rightarrow> entry_event_data \<Rightarrow> gerr + entry_event_data" where
  "decode_entry_event kvs ev =
     bind_result (decode_field assign_string ''event_id'' kvs (ee_event_id ev)) (\<lambda>i.
     bind_result (decode_field assign_string ''event_type'' kvs (ee_event_type ev)) (\<lambda>ty.
     bind_result (decode_field assign_int ''schema_version'' kvs (ee_schema_version ev)) (\<lambda>v.
     bind_result (decode_field assign_string ''trace_id'' kvs (ee_trace_id ev)) (\<lambda>tr.
     bind_result (decode_field assign_string ''journey_id'' kvs (ee_journey_id ev)) (\<lambda>j.
     bind_result (decode_field assign_string ''user_id_hash'' kvs (ee_user_id_hash ev)) (\<lambda>u.
     bind_result (decode_field (assign_struct decode_entry_payload) ''payload'' kvs (ee_payload ev)) (\<lambda>pl.
     Inr \<lparr>ee_event_id = i, ee_event_type = ty, ee_schema_version = v, ee_trace_id = tr,
          ee_journey_id = j, ee_user_id_hash = u, ee_payload = pl\<rparr>)))))))"

definition DecodeEntryEvent :: "raw \<Rightarrow> gerr + entry_event_data" where
  "DecodeEntryEvent data =
     (case unmarshal (assign_struct decode_entry_event) data no_entry_event of
        Inl e \<Rightarrow> Inl (Text ''invalid journey entered event'')
      | Inr ev \<Rightarrow>
          if ee_event_id ev = [] \<or> ee_event_type ev \<noteq> EntryTopic \<or> ee_schema_version ev \<noteq> 1
             \<or> ee_trace_id ev = [] \<or> ee_journey_id ev = [] \<or> ee_user_id_hash ev = []
             \<or> ep_station (ee_payload ev) = []
          then Inl (Text ''invalid journey entered event'') else Inr ev)"

subsection \<open>The loop\<close>

definition entry_recommendation_request ::
  "recommendation_service option \<Rightarrow> entry_event_data \<Rightarrow> vector \<Rightarrow> recommendation_request" where
  "entry_recommendation_request s ev v =
     \<lparr>rq_user_hash = ee_user_id_hash ev, rq_journey = ee_journey_id ev,
      rq_station = ep_station (ee_payload ev), rq_trace = ee_trace_id ev, rq_vector = v,
      rq_limit = CandidateLimit s\<rparr>"

text \<open>
  What became of a message: \<open>Done\<close> is ready to be committed, \<open>Skipped\<close> goes on without a commit
  (a recommendation that failed), \<open>Stopped\<close> ends the consumer.
\<close>

datatype entry_outcome = Done | Skipped | Stopped gerr

definition handle_entry ::
  "externals \<Rightarrow> (recommendation_row \<Rightarrow> nat) \<Rightarrow> recommendation_service option \<Rightarrow> redis \<Rightarrow> raw
     \<Rightarrow> (entry_outcome \<times> redis) db_act" where
  "handle_entry x tie s r message =
     (case DecodeEntryEvent message of
        Inl _ \<Rightarrow> ok (Done, r)
      | Inr ev \<Rightarrow>
          andThen (attempt (GetLatest x tie s (ee_journey_id ev))) (\<lambda>latest. case latest of
            Inr _ \<Rightarrow> ok (Done, r)
          | Inl _ \<Rightarrow>
              andThen (QueryVector x s r ev) (\<lambda>(q, r1). case q of
                Inl err \<Rightarrow> ok (Stopped err, r1)
              | Inr v \<Rightarrow>
                  andThen (Recommend x s r1 (entry_recommendation_request s ev v))
                    (\<lambda>(answer, r2). ok (case answer of Inl _ \<Rightarrow> Skipped | Inr _ \<Rightarrow> Done, r2)))))"

text \<open>
  \<open>n\<close> messages have been fetched, \<open>offset\<close> is what the group has committed. The result is the
  offset at the end, the error that ended the loop and what Redis holds; \<open>commit_at n\<close> is Kafka's
  answer to the commit of message \<open>n\<close>, \<open>fetch_error\<close> the error of the fetch after the last one.
\<close>

fun entry_loop ::
  "externals \<Rightarrow> (recommendation_row \<Rightarrow> nat) \<Rightarrow> recommendation_service option \<Rightarrow> (nat \<Rightarrow> gerr option)
     \<Rightarrow> gerr \<Rightarrow> nat \<Rightarrow> nat \<Rightarrow> redis \<Rightarrow> raw list \<Rightarrow> (nat \<times> gerr \<times> redis) db_act" where
  "entry_loop x tie s commit_at fetch_error n offset r [] = ok (offset, fetch_error, r)"
| "entry_loop x tie s commit_at fetch_error n offset r (m # ms) =
     andThen (handle_entry x tie s r m) (\<lambda>(outcome, r1). case outcome of
       Stopped err \<Rightarrow> ok (offset, err, r1)
     | Skipped \<Rightarrow> entry_loop x tie s commit_at fetch_error (Suc n) offset r1 ms
     | Done \<Rightarrow>
         (case commit_at n of
            Some err \<Rightarrow> ok (offset, err, r1)
          | None \<Rightarrow> entry_loop x tie s commit_at fetch_error (Suc n) (Suc n) r1 ms))"

definition RunEntryConsumer ::
  "externals \<Rightarrow> (recommendation_row \<Rightarrow> nat) \<Rightarrow> (nat \<Rightarrow> gerr option) \<Rightarrow> gerr \<Rightarrow> string list
     \<Rightarrow> recommendation_service option \<Rightarrow> redis \<Rightarrow> raw list \<Rightarrow> (nat \<times> gerr \<times> redis) db_act" where
  "RunEntryConsumer x tie commit_at fetch_error brokers s r messages =
     (if brokers = [] \<or> s = None
      then ok (0, Text ''recommendation consumer dependencies are missing'', r)
      else entry_loop x tie s commit_at fetch_error 0 0 r messages)"

end
