(* ===== verification/Notification.thy ===== *)
theory Notification
  imports Outbox User
begin

text \<open>
  \<open>internal/notification/\<close>: push subscriptions, the time window a user wants to be notified in,
  and the worker that turns \<open>recommendation.created.v1\<close> events into pushes. The push service of the
  subscriber, Kafka and the time zone database are parameters: \<open>zone\<close> gives, for a zone that
  exists, the local hour and minute of an instant; \<open>tie\<close> orders subscriptions of one instant.
\<close>

record notification_service =
  ns_db :: handle

definition notification_service_ready :: "notification_service option \<Rightarrow> bool" where
  "notification_service_ready s \<longleftrightarrow> (case s of None \<Rightarrow> False | Some v \<Rightarrow> ns_db v \<noteq> NilHandle)"

record subscription =
  sb_id :: string
  sb_active :: bool
  sb_channel :: string

subsection \<open>Subscriptions\<close>

definition validEndpoint :: "string \<Rightarrow> bool" where
  "validEndpoint v \<longleftrightarrow> has_prefix ''https://'' (trim_space v) \<and> length (trim_space v) \<le> 2048"

text \<open>\<open>INSERT ... SELECT ... FROM users ... ON CONFLICT (user_id, endpoint) DO UPDATE ... RETURNING\<close>\<close>

definition upsert_subscription ::
  "string \<Rightarrow> string \<Rightarrow> string \<Rightarrow> string \<Rightarrow> string \<Rightarrow> string \<Rightarrow> int \<Rightarrow> database
     \<Rightarrow> gerr + ((string \<times> bool) \<times> database)" where
  "upsert_subscription sid endpoint p256dh auth agent userIDHash now d =
     (case lookup_row (\<lambda>u. u_hash u = userIDHash) (users d) of
        None \<Rightarrow> Inl NoRows
      | Some u \<Rightarrow>
          (case lookup_row (\<lambda>x. sub_user x = u_id u \<and> sub_endpoint x = endpoint) (subscriptions d) of
             Some old \<Rightarrow> Inr ((sub_id old, True), d\<lparr>subscriptions := update_where
               (\<lambda>x. sub_user x = u_id u \<and> sub_endpoint x = endpoint)
               (\<lambda>x. x\<lparr>sub_p256dh := p256dh, sub_auth := auth, sub_agent := nullif_empty agent,
                      sub_active := True\<rparr>) (subscriptions d)\<rparr>)
           | None \<Rightarrow> constrained
               [(\<not> exists_row (\<lambda>x. sub_id x = sid) (subscriptions d), ''notification_subscriptions_pkey'')]
               ((sid, True), d\<lparr>subscriptions := subscriptions d @
                 [\<lparr>sub_id = sid, sub_user = u_id u, sub_endpoint = endpoint, sub_p256dh = p256dh,
                   sub_auth = auth, sub_agent = nullif_empty agent, sub_active = True,
                   sub_created = now\<rparr>]\<rparr>)))"

definition Register ::
  "notification_service option \<Rightarrow> string \<Rightarrow> string \<Rightarrow> string \<Rightarrow> string \<Rightarrow> string \<Rightarrow> subscription db_act"
where
  "Register s userIDHash endpoint p256dh auth userAgent =
     (if \<not> notification_service_ready s \<or> \<not> validUserIDHash userIDHash \<or> \<not> validEndpoint endpoint
         \<or> trim_space p256dh = [] \<or> trim_space auth = []
      then fail (Notification_err InvalidSubscription)
      else
        andThen newUUID (\<lambda>sid.
        andThen (onError NoRows (Notification_err NotificationUserNotFound)
            (execDB (upsert_subscription sid endpoint p256dh auth (trim_space userAgent) userIDHash)))
          (\<lambda>(i, active). ok \<lparr>sb_id = i, sb_active = active, sb_channel = ''demo''\<rparr>)))"

definition subscription_of_user :: "string \<Rightarrow> string \<Rightarrow> database \<Rightarrow> subscription_row \<Rightarrow> bool" where
  "subscription_of_user subscriptionID userIDHash d x \<longleftrightarrow> sub_id x = subscriptionID
     \<and> exists_row (\<lambda>u. u_id u = sub_user x \<and> u_hash u = userIDHash) (users d)"

definition revoke_subscription ::
  "string \<Rightarrow> string \<Rightarrow> int \<Rightarrow> database \<Rightarrow> gerr + ((string \<times> bool) \<times> database)" where
  "revoke_subscription subscriptionID userIDHash now d =
     (case lookup_row (subscription_of_user subscriptionID userIDHash d) (subscriptions d) of
        None \<Rightarrow> Inl NoRows
      | Some x \<Rightarrow> Inr ((sub_id x, False), d\<lparr>subscriptions := update_where
          (subscription_of_user subscriptionID userIDHash d) (\<lambda>x. x\<lparr>sub_active := False\<rparr>)
          (subscriptions d)\<rparr>))"

definition Revoke :: "notification_service option \<Rightarrow> string \<Rightarrow> string \<Rightarrow> subscription db_act" where
  "Revoke s userIDHash subscriptionID =
     (if \<not> notification_service_ready s \<or> \<not> validUserIDHash userIDHash \<or> trim_space subscriptionID = []
      then fail (Notification_err InvalidSubscription)
      else
        andThen (onError NoRows (Notification_err SubscriptionNotFound)
            (execDB (revoke_subscription subscriptionID userIDHash)))
          (\<lambda>(i, active). ok \<lparr>sb_id = i, sb_active = active, sb_channel = ''demo''\<rparr>))"

subsection \<open>The API\<close>

record notification_api =
  na_service :: "notification_service option"

record register_request =
  rg_user_hash :: string
  rg_endpoint :: string
  rg_p256dh :: string
  rg_auth :: string
  rg_agent :: string

record revoke_request =
  rv_user_hash :: string
  rv_subscription :: string

definition map_notification_error :: "gerr \<Rightarrow> gerr" where
  "map_notification_error err =
     (if errors_is err (Notification_err InvalidSubscription)
      then ErrorInvalidRequest ''invalid notification subscription''
      else if errors_is err (Notification_err NotificationUserNotFound)
      then ErrorInvalidRequest ''user is not registered''
      else if errors_is err (Notification_err SubscriptionNotFound)
      then ErrorInvalidRequest ''subscription not found''
      else err)"

definition RegisterNotificationSubscription ::
  "notification_api option \<Rightarrow> register_request option \<Rightarrow> subscription db_act" where
  "RegisterNotificationSubscription a req =
     (case (a, req) of
        (Some v, Some r) \<Rightarrow>
          (if na_service v = None then fail (ErrorInvalidRequest ''subscription payload is required'')
           else mapErr map_notification_error (Register (na_service v) (rg_user_hash r) (rg_endpoint r)
             (rg_p256dh r) (rg_auth r) (rg_agent r)))
      | _ \<Rightarrow> fail (ErrorInvalidRequest ''subscription payload is required''))"

definition RevokeNotificationSubscription ::
  "notification_api option \<Rightarrow> revoke_request option \<Rightarrow> (string \<times> bool) db_act" where
  "RevokeNotificationSubscription a req =
     (case (a, req) of
        (Some v, Some r) \<Rightarrow>
          (if na_service v = None \<or> trim_space (rv_subscription r) = []
           then fail (ErrorInvalidRequest ''subscription_id is required'')
           else andThen (mapErr map_notification_error
               (Revoke (na_service v) (rv_user_hash r) (rv_subscription r)))
             (\<lambda>x. ok (sb_id x, sb_active x)))
      | _ \<Rightarrow> fail (ErrorInvalidRequest ''subscription_id is required''))"

subsection \<open>The window\<close>

record notification_settings =
  se_hash :: string
  se_timezone :: string
  se_enabled :: bool
  se_start :: string
  se_end :: string

definition user_settings :: "string \<Rightarrow> database \<Rightarrow> (notification_settings \<times> string) option" where
  "user_settings userIDHash d =
     map_option (\<lambda>u. (\<lparr>se_hash = u_hash u, se_timezone = u_timezone u, se_enabled = u_notify u,
        se_start = null_string (u_notify_start u), se_end = null_string (u_notify_end u)\<rparr>, u_id u))
       (lookup_row (\<lambda>u. u_hash u = userIDHash) (users d))"

definition LoadUserSettings :: "string \<Rightarrow> (notification_settings \<times> string) db_act" where
  "LoadUserSettings userIDHash =
     onError NoRows (Notification_err NotificationUserNotFound)
       (execTx (reads (\<lambda>t d. row_or_none (user_settings userIDHash d))))"

type_synonym zones = "string \<Rightarrow> (int \<Rightarrow> nat \<times> nat) option"

definition WithinNotificationWindow :: "zones \<Rightarrow> int \<Rightarrow> string \<Rightarrow> string \<Rightarrow> string \<Rightarrow> bool" where
  "WithinNotificationWindow zone now timezone startLocal endLocal =
     (if startLocal = [] \<or> endLocal = [] then False
      else
        (case (zone timezone, parse_hour_minute startLocal, parse_hour_minute endLocal) of
           (Some loc, Some (sh, sm), Some (eh, em)) \<Rightarrow>
             (case loc now of (h, m) \<Rightarrow>
               let minutes = h * 60 + m; startMinutes = sh * 60 + sm; endMinutes = eh * 60 + em in
               if startMinutes = endMinutes then True
               else if startMinutes < endMinutes then minutes \<ge> startMinutes \<and> minutes < endMinutes
               else minutes \<ge> startMinutes \<or> minutes < endMinutes)
         | _ \<Rightarrow> False))"

text \<open>\<open>requiredWindow(settings) == nil\<close>\<close>

definition window_configured :: "notification_settings \<Rightarrow> bool" where
  "window_configured s \<longleftrightarrow>
     \<not> se_enabled s \<or> (se_timezone s \<noteq> [] \<and> se_start s \<noteq> [] \<and> se_end s \<noteq> [])"

end
