(* ===== verification/NotificationWorker.thy ===== *)
theory NotificationWorker
  imports Notification
begin

text \<open>
  \<open>internal/notification/provider.go\<close> and \<open>worker.go\<close>: push providers and the consumer of
  \<open>recommendation.created.v1\<close>. \<open>push\<close> is \<open>webpush.SendNotificationWithContext\<close>, answering with an HTTP
  status; a provider may look at everything sent before.
\<close>

subsection \<open>Providers\<close>

record push_subscription =
  ps_id :: string
  ps_endpoint :: string
  ps_p256dh :: string
  ps_auth :: string

type_synonym sender = "external_call list \<Rightarrow> push_subscription \<Rightarrow> json \<Rightarrow> gerr + string"

record push_keys =
  pk_subscriber :: string
  pk_public :: string
  pk_private :: string

datatype push_provider = DeterministicProvider | WebPushProvider push_keys

type_synonym web_push =
  "push_keys \<Rightarrow> external_call list \<Rightarrow> push_subscription \<Rightarrow> json \<Rightarrow> gerr + int"

text \<open>\<open>errors.As(err, &deliveryErr)\<close>, with the status\<close>

fun push_status :: "gerr \<Rightarrow> int option" where
  "push_status (PushDelivery status) = Some status"
| "push_status (Wrapped t err) = push_status err"
| "push_status err = None"

definition IsInactiveSubscriptionError :: "gerr \<Rightarrow> bool" where
  "IsInactiveSubscriptionError err \<longleftrightarrow>
     (case push_status err of Some status \<Rightarrow> status = 404 \<or> status = 410 | None \<Rightarrow> False)"

definition PushFailureCode :: "gerr \<Rightarrow> string" where
  "PushFailureCode err =
     (case push_status err of
        Some status \<Rightarrow> if status > 0 then ''http_'' @ decimal_int status else ''provider_error''
      | None \<Rightarrow> ''provider_error'')"

definition NewConfiguredPushProvider ::
  "case_table \<Rightarrow> string \<Rightarrow> string \<Rightarrow> string \<Rightarrow> string \<Rightarrow> gerr + push_provider" where
  "NewConfiguredPushProvider t mode subscriber publicKey privateKey =
     (let m = to_lower t (trim_space mode) in
      if m = [] \<or> m = ''mock'' then Inr DeterministicProvider
      else if m = ''webpush'' then
        (if trim_space subscriber = [] \<or> trim_space publicKey = [] \<or> trim_space privateKey = []
         then Inl (Notification_err InvalidPushProvider)
         else Inr (WebPushProvider
           \<lparr>pk_subscriber = subscriber, pk_public = publicKey, pk_private = privateKey\<rparr>))
      else Inl (Wrapped (''unsupported provider '' @ mode) (Notification_err InvalidPushProvider)))"

definition webpush_Send :: "web_push \<Rightarrow> push_keys option \<Rightarrow> sender" where
  "webpush_Send push keys sent s payload =
     (case keys of
        None \<Rightarrow> Inl (Notification_err InvalidPushProvider)
      | Some k \<Rightarrow>
          if ps_endpoint s = [] \<or> ps_p256dh s = [] \<or> ps_auth s = []
          then Inl (Notification_err InvalidPushProvider)
          else
            (case push k sent s payload of
               Inl err \<Rightarrow> Inl (Wrapped ''web push send'' err)
             | Inr status \<Rightarrow>
                 if status < 200 \<or> status \<ge> 300 then Inl (PushDelivery status) else Inr ''sent''))"

fun provider_Send :: "web_push \<Rightarrow> push_provider \<Rightarrow> sender" where
  "provider_Send push DeterministicProvider sent s payload = Inr ''delivered''"
| "provider_Send push (WebPushProvider keys) sent s payload = webpush_Send push (Some keys) sent s payload"

subsection \<open>The event\<close>

record recommendation_payload =
  rp_recommendation :: string
  rp_offer :: string
  rp_reasons :: "string list"
  rp_source :: string

record recommendation_event =
  re_event_id :: string
  re_event_type :: string
  re_schema_version :: int
  re_occurred_at :: string
  re_producer :: string
  re_trace_id :: string
  re_journey_id :: string
  re_recommendation_id :: string
  re_user_id_hash :: string
  re_payload :: recommendation_payload

definition no_recommendation_event :: recommendation_event where
  "no_recommendation_event = \<lparr>re_event_id = [], re_event_type = [], re_schema_version = 0,
     re_occurred_at = [], re_producer = [], re_trace_id = [], re_journey_id = [],
     re_recommendation_id = [], re_user_id_hash = [], re_payload = \<lparr>rp_recommendation = [],
     rp_offer = [], rp_reasons = [], rp_source = []\<rparr>\<rparr>"

definition decode_recommendation_payload ::
  "(string \<times> json) list \<Rightarrow> recommendation_payload \<Rightarrow> gerr + recommendation_payload" where
  "decode_recommendation_payload kvs p =
     bind_result (decode_field assign_string ''recommendation_id'' kvs (rp_recommendation p)) (\<lambda>r.
     bind_result (decode_field assign_string ''offer_id'' kvs (rp_offer p)) (\<lambda>x.
     bind_result (decode_field assign_strings ''reasons'' kvs (rp_reasons p)) (\<lambda>rs.
     bind_result (decode_field assign_string ''copy_source'' kvs (rp_source p)) (\<lambda>src.
     Inr \<lparr>rp_recommendation = r, rp_offer = x, rp_reasons = rs, rp_source = src\<rparr>))))"

definition decode_recommendation_event ::
  "(string \<times> json) list \<Rightarrow> recommendation_event \<Rightarrow> gerr + recommendation_event" where
  "decode_recommendation_event kvs ev =
     bind_result (decode_field assign_string ''event_id'' kvs (re_event_id ev)) (\<lambda>i.
     bind_result (decode_field assign_string ''event_type'' kvs (re_event_type ev)) (\<lambda>ty.
     bind_result (decode_field assign_int ''schema_version'' kvs (re_schema_version ev)) (\<lambda>v.
     bind_result (decode_field assign_string ''occurred_at'' kvs (re_occurred_at ev)) (\<lambda>occ.
     bind_result (decode_field assign_string ''producer'' kvs (re_producer ev)) (\<lambda>p.
     bind_result (decode_field assign_string ''trace_id'' kvs (re_trace_id ev)) (\<lambda>tr.
     bind_result (decode_field assign_string ''journey_id'' kvs (re_journey_id ev)) (\<lambda>j.
     bind_result (decode_field assign_string ''recommendation_id'' kvs (re_recommendation_id ev)) (\<lambda>r.
     bind_result (decode_field assign_string ''user_id_hash'' kvs (re_user_id_hash ev)) (\<lambda>u.
     bind_result (decode_field (assign_struct decode_recommendation_payload) ''payload'' kvs
       (re_payload ev)) (\<lambda>pl.
     Inr \<lparr>re_event_id = i, re_event_type = ty, re_schema_version = v, re_occurred_at = occ,
          re_producer = p, re_trace_id = tr, re_journey_id = j, re_recommendation_id = r,
          re_user_id_hash = u, re_payload = pl\<rparr>))))))))))"

definition DecodeRecommendationCreatedEvent :: "raw \<Rightarrow> gerr + recommendation_event" where
  "DecodeRecommendationCreatedEvent data =
     (case unmarshal (assign_struct decode_recommendation_event) data no_recommendation_event of
        Inl e \<Rightarrow> Inl (Text ''invalid recommendation created event'')
      | Inr ev \<Rightarrow>
          if re_event_id ev = [] \<or> re_event_type ev \<noteq> ''recommendation.created.v1''
             \<or> re_schema_version ev \<noteq> 1 \<or> re_trace_id ev = [] \<or> re_journey_id ev = []
             \<or> re_recommendation_id ev = [] \<or> re_user_id_hash ev = []
             \<or> rp_recommendation (re_payload ev) = [] \<or> rp_offer (re_payload ev) = []
          then Inl (Text ''invalid recommendation created event'') else Inr ev)"

subsection \<open>Delivering one event\<close>

record subscription_delivery =
  sd_subscription :: push_subscription
  sd_title :: string
  sd_body :: string

text \<open>The joined rows, in order; a column that is NULL does not scan into a string.\<close>

definition delivery_targets ::
  "(subscription_row \<Rightarrow> nat) \<Rightarrow> string \<Rightarrow> string \<Rightarrow> database
     \<Rightarrow> (subscription_row \<times> recommendation_row) list" where
  "delivery_targets tie userID recommendationID d =
     (case lookup_row (\<lambda>r. rec_id r = recommendationID) (recommendations d) of
        None \<Rightarrow> []
      | Some r \<Rightarrow> map (\<lambda>x. (x, r)) (sort_key (\<lambda>x. (sub_created x, tie x))
          (filter (\<lambda>x. sub_user x = userID \<and> sub_active x) (subscriptions d))))"

fun scan_deliveries ::
  "(subscription_row \<times> recommendation_row) list \<Rightarrow> gerr + subscription_delivery list" where
  "scan_deliveries [] = Inr []"
| "scan_deliveries ((x, r) # rows) =
     (case (rec_title r, rec_body r) of
        (Some title, Some body) \<Rightarrow>
          bind_result (scan_deliveries rows) (\<lambda>ds. Inr (\<lparr>sd_subscription = \<lparr>ps_id = sub_id x,
            ps_endpoint = sub_endpoint x, ps_p256dh = sub_p256dh x, ps_auth = sub_auth x\<rparr>,
            sd_title = title, sd_body = body\<rparr> # ds))
      | _ \<Rightarrow> Inl ScanMismatch)"

definition already_delivered :: "string \<Rightarrow> string \<Rightarrow> database \<Rightarrow> bool" where
  "already_delivered subscriptionID recommendationID d =
     exists_row (\<lambda>v. dv_subscription v = subscriptionID \<and> dv_recommendation v = recommendationID)
       (deliveries d)"

definition push_payload :: "recommendation_event \<Rightarrow> subscription_delivery \<Rightarrow> json" where
  "push_payload ev x = JObj
     [(''body'', JStr (sd_body x)),
      (''data'', JObj [(''offer_id'', JStr (rp_offer (re_payload ev))),
                       (''recommendation_id'', JStr (re_recommendation_id ev))]),
      (''title'', JStr (sd_title x))]"

definition send_push :: "sender \<Rightarrow> push_subscription \<Rightarrow> json \<Rightarrow> (gerr + string) db_act" where
  "send_push send s payload = (\<lambda>e w. case send (trace w) s payload of
     Inl err \<Rightarrow> (Inr (Inl err), w\<lparr>trace := trace w @ [PushFailed (ps_endpoint s) payload]\<rparr>)
   | Inr status \<Rightarrow> (Inr (Inr status), w\<lparr>trace := trace w @ [PushSent (ps_endpoint s) payload]\<rparr>))"

definition deactivate :: "string \<Rightarrow> database \<Rightarrow> gerr + database" where
  "deactivate subscriptionID d = Inr (d\<lparr>subscriptions := update_where (\<lambda>x. sub_id x = subscriptionID)
     (\<lambda>x. x\<lparr>sub_active := False\<rparr>) (subscriptions d)\<rparr>)"

text \<open>\<open>INSERT ... ON CONFLICT (subscription_id, recommendation_id) DO NOTHING\<close>\<close>

definition insert_delivery :: "delivery_row \<Rightarrow> database \<Rightarrow> gerr + (nat \<times> database)" where
  "insert_delivery v d =
     bind_result (constrained
       [(dv_status v \<in> {''sent'', ''delivered'', ''failed''}, ''notification_deliveries_status_check''),
        (dv_attempts v > 0, ''notification_deliveries_attempts_check'')] ()) (\<lambda>_.
       if already_delivered (dv_subscription v) (dv_recommendation v) d then Inr (0, d)
       else constrained
         [(\<not> exists_row (\<lambda>x. dv_id x = dv_id v) (deliveries d), ''notification_deliveries_pkey''),
          (exists_row (\<lambda>x. sub_id x = dv_subscription v) (subscriptions d),
             ''notification_deliveries_subscription_id_fkey''),
          (user_exists d (dv_user v), ''notification_deliveries_user_id_fkey''),
          (journey_exists d (dv_journey v), ''notification_deliveries_journey_id_fkey''),
          (recommendation_exists d (dv_recommendation v),
             ''notification_deliveries_recommendation_id_fkey'')]
         (1, d\<lparr>deliveries := deliveries d @ [v]\<rparr>))"

definition notification_message ::
  "(int \<Rightarrow> string) \<Rightarrow> string \<Rightarrow> int \<Rightarrow> recommendation_event \<Rightarrow> string \<Rightarrow> string \<Rightarrow> string \<Rightarrow> string \<Rightarrow> string \<Rightarrow> json"
where
  "notification_message fmt eventID now ev eventType notificationID channel providerName failureCode = JObj
     [(''event_id'', JStr eventID),
      (''event_type'', JStr eventType),
      (''journey_id'', JStr (re_journey_id ev)),
      (''occurred_at'', JStr (fmt now)),
      (''payload'', JObj ([(''channel'', JStr channel)]
         @ (if failureCode \<noteq> [] then [(''failure_code'', JStr failureCode)] else [])
         @ [(''notification_id'', JStr notificationID), (''provider'', JStr providerName)])),
      (''producer'', JStr ''notification-worker''),
      (''recommendation_id'', JStr (re_recommendation_id ev)),
      (''schema_version'', JInt 1),
      (''trace_id'', JStr (re_trace_id ev)),
      (''user_id_hash'', JStr (re_user_id_hash ev))]"

definition notification_event ::
  "(int \<Rightarrow> string) \<Rightarrow> string \<Rightarrow> int \<Rightarrow> recommendation_event \<Rightarrow> string \<Rightarrow> string \<Rightarrow> string \<Rightarrow> string \<Rightarrow> string \<Rightarrow> event"
where
  "notification_event fmt eventID now ev eventType notificationID channel providerName failureCode =
     \<lparr>ev_id = eventID, ev_topic = eventType, ev_key = re_user_id_hash ev,
      ev_payload = Raw (notification_message fmt eventID now ev eventType notificationID channel
        providerName failureCode)\<rparr>"

definition enqueueNotificationEvent ::
  "(int \<Rightarrow> string) \<Rightarrow> recommendation_event \<Rightarrow> string \<Rightarrow> string \<Rightarrow> string \<Rightarrow> string \<Rightarrow> string \<Rightarrow> unit db_act"
where
  "enqueueNotificationEvent fmt ev eventType notificationID channel providerName failureCode =
     andThen newUUID (\<lambda>eventID.
     andThen timeNow (\<lambda>now.
       Enqueue Handle (notification_event fmt eventID now ev eventType notificationID channel
         providerName failureCode)))"

definition delivery_row_of ::
  "string \<Rightarrow> string \<Rightarrow> recommendation_event \<Rightarrow> subscription_delivery \<Rightarrow> string \<Rightarrow> delivery_row" where
  "delivery_row_of notificationID userID ev x status =
     \<lparr>dv_id = notificationID, dv_subscription = ps_id (sd_subscription x), dv_user = userID,
      dv_journey = re_journey_id ev, dv_recommendation = re_recommendation_id ev,
      dv_status = status, dv_attempts = 1\<rparr>"

text \<open>The branch of the loop body for a push that failed, and the one for a push that went out.\<close>

definition note_failure ::
  "(int \<Rightarrow> string) \<Rightarrow> string \<Rightarrow> recommendation_event \<Rightarrow> string \<Rightarrow> subscription_delivery \<Rightarrow> gerr \<Rightarrow> unit db_act"
where
  "note_failure fmt userID ev notificationID x err =
     andThen (if IsInactiveSubscriptionError err
              then execTx (writes (\<lambda>t. deactivate (ps_id (sd_subscription x)))) else ok ()) (\<lambda>_.
     andThen (execTx (\<lambda>t. insert_delivery (delivery_row_of notificationID userID ev x ''failed'')))
       (\<lambda>inserted.
       if inserted > 0
       then enqueueNotificationEvent fmt ev ''notification.failed.v1'' notificationID ''push'' ''webpush''
         (PushFailureCode err)
       else ok ()))"

fun enqueue_each ::
  "(int \<Rightarrow> string) \<Rightarrow> recommendation_event \<Rightarrow> string \<Rightarrow> string \<Rightarrow> string \<Rightarrow> string list \<Rightarrow> unit db_act" where
  "enqueue_each fmt ev notificationID channel providerName [] = ok ()"
| "enqueue_each fmt ev notificationID channel providerName (ty # tys) =
     andThen (enqueueNotificationEvent fmt ev ty notificationID channel providerName []) (\<lambda>_.
       enqueue_each fmt ev notificationID channel providerName tys)"

definition note_success ::
  "(int \<Rightarrow> string) \<Rightarrow> string \<Rightarrow> recommendation_event \<Rightarrow> string \<Rightarrow> subscription_delivery \<Rightarrow> string \<Rightarrow> unit db_act"
where
  "note_success fmt userID ev notificationID x status =
     andThen (execTx (\<lambda>t. insert_delivery (delivery_row_of notificationID userID ev x status)))
       (\<lambda>inserted.
       if inserted = 0 then ok ()
       else if status = ''delivered''
       then enqueue_each fmt ev notificationID ''demo'' ''deterministic-mock''
         [''notification.sent.v1'', ''notification.delivered.v1'']
       else enqueue_each fmt ev notificationID ''push'' ''webpush'' [''notification.sent.v1''])"

fun deliver_each ::
  "sender \<Rightarrow> (int \<Rightarrow> string) \<Rightarrow> string \<Rightarrow> recommendation_event \<Rightarrow> subscription_delivery list \<Rightarrow> unit db_act"
where
  "deliver_each send fmt userID ev [] = ok ()"
| "deliver_each send fmt userID ev (x # xs) =
     andThen newUUID (\<lambda>notificationID.
     andThen (execTx (reads (\<lambda>t d.
         Inr (already_delivered (ps_id (sd_subscription x)) (re_recommendation_id ev) d))))
       (\<lambda>alreadyDelivered.
     if alreadyDelivered then deliver_each send fmt userID ev xs
     else
       andThen (send_push send (sd_subscription x) (push_payload ev x)) (\<lambda>answer.
       andThen (case answer of
           Inl err \<Rightarrow> note_failure fmt userID ev notificationID x err
         | Inr status \<Rightarrow> note_success fmt userID ev notificationID x status) (\<lambda>_.
       deliver_each send fmt userID ev xs))))"

definition deliver ::
  "zones \<Rightarrow> (subscription_row \<Rightarrow> nat) \<Rightarrow> sender \<Rightarrow> (int \<Rightarrow> string) \<Rightarrow> recommendation_event \<Rightarrow> unit db_act"
where
  "deliver zone tie send fmt ev =
     andThen (LoadUserSettings (re_user_id_hash ev)) (\<lambda>(settings, userID).
     if \<not> se_enabled settings \<or> \<not> window_configured settings then ok ()
     else
       andThen timeNow (\<lambda>now.
       if \<not> WithinNotificationWindow zone now (se_timezone settings) (se_start settings) (se_end settings)
       then ok ()
       else
         andThen (execTx (reads (\<lambda>t d.
             scan_deliveries (delivery_targets tie userID (re_recommendation_id ev) d)))) (\<lambda>ds.
           deliver_each send fmt userID ev ds)))"

subsection \<open>The consumer\<close>

abbreviation NotificationConsumer :: string where
  "NotificationConsumer \<equiv> ''notification-worker-v1''"

text \<open>
  The loop over the messages of the topic: how many were committed and the error that ended it.
  \<open>commit_at n\<close> is Kafka's answer to the commit of message \<open>n\<close>, \<open>fetch_error\<close> what the fetch
  behind the last message returns.
\<close>

fun notification_loop ::
  "(recommendation_event \<Rightarrow> unit db_act) \<Rightarrow> (nat \<Rightarrow> gerr option) \<Rightarrow> gerr \<Rightarrow> nat \<Rightarrow> raw list
     \<Rightarrow> (nat \<times> gerr) db_act" where
  "notification_loop handler commit_at fetch_error n [] = ok (n, fetch_error)"
| "notification_loop handler commit_at fetch_error n (m # ms) =
     (case DecodeRecommendationCreatedEvent m of
        Inl _ \<Rightarrow>
          (case commit_at n of
             Some err \<Rightarrow> ok (n, err)
           | None \<Rightarrow> notification_loop handler commit_at fetch_error (Suc n) ms)
      | Inr ev \<Rightarrow>
          andThen (attempt (Process Handle NotificationConsumer (re_event_id ev) (Some (handler ev))))
            (\<lambda>r. case r of
              Inl err \<Rightarrow> ok (n, err)
            | Inr _ \<Rightarrow>
                (case commit_at n of
                   Some err \<Rightarrow> ok (n, err)
                 | None \<Rightarrow> notification_loop handler commit_at fetch_error (Suc n) ms)))"

definition RunWithProvider ::
  "zones \<Rightarrow> (subscription_row \<Rightarrow> nat) \<Rightarrow> (int \<Rightarrow> string) \<Rightarrow> (nat \<Rightarrow> gerr option) \<Rightarrow> gerr
     \<Rightarrow> string list \<Rightarrow> handle \<Rightarrow> sender option \<Rightarrow> raw list \<Rightarrow> (nat \<times> gerr) db_act" where
  "RunWithProvider zone tie fmt commit_at fetch_error brokers db provider messages =
     (if brokers = [] \<or> db = NilHandle
      then ok (0, Text ''notification worker dependencies are missing'')
      else
        (case provider of
           None \<Rightarrow> ok (0, Notification_err InvalidPushProvider)
         | Some send \<Rightarrow>
             notification_loop (deliver zone tie send fmt) commit_at fetch_error 0 messages))"

definition notification_Run ::
  "zones \<Rightarrow> (subscription_row \<Rightarrow> nat) \<Rightarrow> (int \<Rightarrow> string) \<Rightarrow> (nat \<Rightarrow> gerr option) \<Rightarrow> gerr
     \<Rightarrow> string list \<Rightarrow> handle \<Rightarrow> raw list \<Rightarrow> (nat \<times> gerr) db_act" where
  "notification_Run zone tie fmt commit_at fetch_error brokers db messages =
     RunWithProvider zone tie fmt commit_at fetch_error brokers db
       (Some (\<lambda>sent s payload. Inr ''delivered'')) messages"

end
