(* ===== verification/Analytics.thy ===== *)
theory Analytics
  imports Text Json
begin

text \<open>
  \<open>internal/analytics/\<close>: product events out of Kafka into ClickHouse. \<open>parse_time\<close> is
  \<open>time.Parse(time.RFC3339Nano, _)\<close>, \<open>parse_url\<close> is \<open>url.Parse\<close>, \<open>post\<close> is the HTTP client, the
  ClickHouse server and Kafka's consumer group are parameters too. A URL is kept by its parts.
\<close>

definition Topics :: "string list" where
  "Topics =
     [''journey.entered.v1'', ''recommendation.created.v1'', ''notification.sent.v1'',
      ''notification.delivered.v1'', ''notification.failed.v1'', ''recommendation.impressed.v1'',
      ''recommendation.clicked.v1'', ''recommendation.dismissed.v1'', ''redemption.succeeded.v1'',
      ''merchant.verified.v1'', ''visit.attributed.v1'']"

record analytics_event =
  ae_event_id :: string
  ae_event_type :: string
  ae_schema_version :: int
  ae_occurred_at :: string
  ae_producer :: string
  ae_trace_id :: string
  ae_journey_id :: string
  ae_recommendation_id :: string
  ae_user_id_hash :: string
  ae_payload :: raw

record product_event =
  pe_event_id :: string
  pe_event_type :: string
  pe_occurred_at :: int
  pe_producer :: string
  pe_trace_id :: string
  pe_journey_id :: string
  pe_recommendation_id :: string
  pe_user_id_hash :: string
  pe_offer_id :: string
  pe_redemption_id :: string
  pe_merchant_id :: string
  pe_copy_source :: string
  pe_experiment_id :: string
  pe_variant :: string
  pe_attribution_type :: string
  pe_payload :: json

definition no_event :: analytics_event where
  "no_event = \<lparr>ae_event_id = [], ae_event_type = [], ae_schema_version = 0, ae_occurred_at = [],
     ae_producer = [], ae_trace_id = [], ae_journey_id = [], ae_recommendation_id = [],
     ae_user_id_hash = [], ae_payload = RawEmpty\<rparr>"

definition decode_analytics_event ::
  "(string \<times> json) list \<Rightarrow> analytics_event \<Rightarrow> gerr + analytics_event" where
  "decode_analytics_event kvs ev =
     bind_result (decode_field assign_string ''event_id'' kvs (ae_event_id ev)) (\<lambda>i.
     bind_result (decode_field assign_string ''event_type'' kvs (ae_event_type ev)) (\<lambda>t.
     bind_result (decode_field assign_int ''schema_version'' kvs (ae_schema_version ev)) (\<lambda>v.
     bind_result (decode_field assign_string ''occurred_at'' kvs (ae_occurred_at ev)) (\<lambda>occ.
     bind_result (decode_field assign_string ''producer'' kvs (ae_producer ev)) (\<lambda>p.
     bind_result (decode_field assign_string ''trace_id'' kvs (ae_trace_id ev)) (\<lambda>tr.
     bind_result (decode_field assign_string ''journey_id'' kvs (ae_journey_id ev)) (\<lambda>j.
     bind_result (decode_field assign_string ''recommendation_id'' kvs (ae_recommendation_id ev)) (\<lambda>r.
     bind_result (decode_field assign_string ''user_id_hash'' kvs (ae_user_id_hash ev)) (\<lambda>u.
     bind_result (decode_field assign_raw ''payload'' kvs (ae_payload ev)) (\<lambda>pl.
     Inr \<lparr>ae_event_id = i, ae_event_type = t, ae_schema_version = v, ae_occurred_at = occ,
          ae_producer = p, ae_trace_id = tr, ae_journey_id = j, ae_recommendation_id = r,
          ae_user_id_hash = u, ae_payload = pl\<rparr>))))))))))"

definition knownTopic :: "string \<Rightarrow> bool" where
  "knownTopic topic \<longleftrightarrow> topic \<in> set Topics"

text \<open>\<open>map[string]any\<close> from an object; \<open>null\<close> is the nil map.\<close>

fun assign_map :: "json \<Rightarrow> (string \<times> json) list \<Rightarrow> gerr + (string \<times> json) list" where
  "assign_map JNull old = Inr []"
| "assign_map (JObj kvs) old = Inr (old @ kvs)"
| "assign_map j old = Inl JsonMismatch"

definition payload_value :: "(string \<times> json) list \<Rightarrow> string \<Rightarrow> string" where
  "payload_value payload key =
     (case map_member payload key of Some (JStr s) \<Rightarrow> s | _ \<Rightarrow> [])"

definition DecodeEvent :: "(string \<Rightarrow> int option) \<Rightarrow> raw \<Rightarrow> gerr + product_event" where
  "DecodeEvent parse_time data =
     (case unmarshal (assign_struct decode_analytics_event) data no_event of
        Inl e \<Rightarrow> Inl (Analytics_err InvalidEvent)
      | Inr ev \<Rightarrow>
          if ae_event_id ev = [] \<or> ae_schema_version ev \<noteq> 1 \<or> ae_occurred_at ev = []
             \<or> ae_producer ev = [] \<or> ae_trace_id ev = [] \<or> \<not> knownTopic (ae_event_type ev)
             \<or> \<not> json_valid (ae_payload ev)
          then Inl (Analytics_err InvalidEvent)
          else
            (case parse_time (ae_occurred_at ev) of
               None \<Rightarrow> Inl (Analytics_err InvalidEvent)
             | Some occurredAt \<Rightarrow>
                 (case unmarshal assign_map (ae_payload ev) [] of
                    Inl e \<Rightarrow> Inl (Analytics_err InvalidEvent)
                  | Inr payload \<Rightarrow>
                      let attributionType =
                            (if ae_event_type ev = ''merchant.verified.v1'' then ''observed_pos_verified''
                             else payload_value payload ''attribution_type'') in
                      if ae_journey_id ev = [] then Inl (Analytics_err InvalidEvent)
                      else if ae_event_type ev = ''visit.attributed.v1''
                              \<and> attributionType \<noteq> ''inferred_visit''
                      then Inl (Analytics_err InvalidEvent)
                      else Inr
                        \<lparr>pe_event_id = ae_event_id ev, pe_event_type = ae_event_type ev,
                         pe_occurred_at = occurredAt, pe_producer = ae_producer ev,
                         pe_trace_id = ae_trace_id ev, pe_journey_id = ae_journey_id ev,
                         pe_recommendation_id = ae_recommendation_id ev,
                         pe_user_id_hash = ae_user_id_hash ev,
                         pe_offer_id = payload_value payload ''offer_id'',
                         pe_redemption_id = payload_value payload ''redemption_id'',
                         pe_merchant_id = payload_value payload ''merchant_id'',
                         pe_copy_source = payload_value payload ''copy_source'',
                         pe_experiment_id = payload_value payload ''experiment_id'',
                         pe_variant = payload_value payload ''variant'',
                         pe_attribution_type = attributionType,
                         pe_payload = (case ae_payload ev of Raw j \<Rightarrow> j | _ \<Rightarrow> JNull)\<rparr>)))"

subsection \<open>The consumer of a topic\<close>

text \<open>
  \<open>insert_at n ev\<close> is the answer of the writer to the \<open>n\<close>-th message, \<open>commit_at n\<close> that of Kafka to
  the commit of its offset (\<open>None\<close> is success). The result: what was inserted, how many messages
  are committed, and the error that ended the loop; when the messages are used up that is the
  error of the next fetch.
\<close>

fun consume_topic ::
  "(string \<Rightarrow> int option) \<Rightarrow> (nat \<Rightarrow> product_event \<Rightarrow> gerr option) \<Rightarrow> (nat \<Rightarrow> gerr option) \<Rightarrow> gerr
     \<Rightarrow> nat \<Rightarrow> raw list \<Rightarrow> product_event list \<times> nat \<times> gerr" where
  "consume_topic parse_time insert_at commit_at fetch_error n [] = ([], n, fetch_error)"
| "consume_topic parse_time insert_at commit_at fetch_error n (m # ms) =
     (case DecodeEvent parse_time m of
        Inl e \<Rightarrow>
          (case commit_at n of
             Some err \<Rightarrow> ([], n, err)
           | None \<Rightarrow> consume_topic parse_time insert_at commit_at fetch_error (Suc n) ms)
      | Inr ev \<Rightarrow>
          (case insert_at n ev of
             Some err \<Rightarrow> ([], n, err)
           | None \<Rightarrow>
               (case commit_at n of
                  Some err \<Rightarrow> ([ev], n, err)
                | None \<Rightarrow>
                    (case consume_topic parse_time insert_at commit_at fetch_error (Suc n) ms of
                       (evs, k, err) \<Rightarrow> (ev # evs, k, err)))))"

subsection \<open>ClickHouse\<close>

record url =
  url_scheme :: string
  url_hostname :: string
  url_port :: string
  url_path :: string
  url_query :: "(string \<times> string) list"

definition query_get :: "(string \<times> string) list \<Rightarrow> string \<Rightarrow> string" where
  "query_get q k = (case map_of q k of None \<Rightarrow> [] | Some v \<Rightarrow> v)"

definition query_set :: "string \<Rightarrow> string \<Rightarrow> (string \<times> string) list \<Rightarrow> (string \<times> string) list" where
  "query_set k v q = (k, v) # filter (\<lambda>(k', _). k' \<noteq> k) q"

definition trim_slashes :: "string \<Rightarrow> string" where
  "trim_slashes s = rev (dropWhile (\<lambda>c. c = CHR ''/'') (rev (dropWhile (\<lambda>c. c = CHR ''/'') s)))"

record clickhouse =
  ck_base :: url

definition NewClickHouse :: "(string \<Rightarrow> url option) \<Rightarrow> string \<Rightarrow> gerr + clickhouse" where
  "NewClickHouse parse_url raw_url =
     (case parse_url raw_url of
        None \<Rightarrow> Inl (Analytics_err InvalidClickHouseURL)
      | Some u \<Rightarrow>
          if url_hostname u = [] \<and> url_port u = [] then Inl (Analytics_err InvalidClickHouseURL)
          else
            let db = trim_slashes (url_path u);
                q = (if db \<noteq> [] \<and> query_get (url_query u) ''database'' = []
                     then query_set ''database'' db (url_query u) else url_query u);
                v = u\<lparr>url_path := [], url_query := q\<rparr>;
                w = (if url_scheme v = ''clickhouse''
                     then v\<lparr>url_scheme := ''http'',
                       url_port := (if url_port v = ''9000'' then ''8123'' else url_port v)\<rparr>
                     else v) in
            if url_scheme w \<noteq> ''http'' \<and> url_scheme w \<noteq> ''https''
            then Inl (Analytics_err InvalidClickHouseURL)
            else Inr \<lparr>ck_base = w\<rparr>)"

definition product_event_json :: "(int \<Rightarrow> string) \<Rightarrow> product_event \<Rightarrow> json" where
  "product_event_json fmt ev = JObj
     [(''event_id'', JStr (pe_event_id ev)),
      (''event_type'', JStr (pe_event_type ev)),
      (''occurred_at'', JStr (fmt (pe_occurred_at ev))),
      (''producer'', JStr (pe_producer ev)),
      (''trace_id'', JStr (pe_trace_id ev)),
      (''journey_id'', JStr (pe_journey_id ev)),
      (''recommendation_id'', JStr (pe_recommendation_id ev)),
      (''user_id_hash'', JStr (pe_user_id_hash ev)),
      (''offer_id'', JStr (pe_offer_id ev)),
      (''redemption_id'', JStr (pe_redemption_id ev)),
      (''merchant_id'', JStr (pe_merchant_id ev)),
      (''copy_source'', JStr (pe_copy_source ev)),
      (''experiment_id'', JStr (pe_experiment_id ev)),
      (''variant'', JStr (pe_variant ev)),
      (''attribution_type'', JStr (pe_attribution_type ev))]"

text \<open>The member \<open>payload\<close> of the row is the text of the event's payload; \<open>show\<close> prints it.\<close>

definition clickhouse_row :: "(int \<Rightarrow> string) \<Rightarrow> (json \<Rightarrow> string) \<Rightarrow> product_event \<Rightarrow> json" where
  "clickhouse_row fmt print ev =
     (case product_event_json fmt ev of
        JObj kvs \<Rightarrow> JObj (kvs @ [(''payload'', JStr (print (pe_payload ev)))])
      | j \<Rightarrow> j)"

definition clickhouse_Insert ::
  "(int \<Rightarrow> string) \<Rightarrow> (json \<Rightarrow> string) \<Rightarrow> (url \<Rightarrow> json \<Rightarrow> gerr + int) \<Rightarrow> clickhouse option
     \<Rightarrow> product_event \<Rightarrow> gerr option" where
  "clickhouse_Insert fmt print post c ev =
     (case c of
        None \<Rightarrow> Some (Analytics_err InvalidClickHouseURL)
      | Some ck \<Rightarrow>
          if pe_event_id ev = [] then Some (Analytics_err InvalidClickHouseURL)
          else
            (case post ((ck_base ck)\<lparr>url_query := query_set ''query''
                 ''INSERT INTO product_events FORMAT JSONEachRow'' (url_query (ck_base ck))\<rparr>)
                 (clickhouse_row fmt print ev) of
               Inl e \<Rightarrow> Some e
             | Inr status \<Rightarrow> if status div 100 \<noteq> 2 then Some (HttpStatus status) else None))"

subsection \<open>Events for the demo\<close>

definition demo_event ::
  "string \<Rightarrow> string \<Rightarrow> string \<Rightarrow> string \<Rightarrow> string \<Rightarrow> nat \<Rightarrow> string \<times> (string \<times> json) list \<Rightarrow> json" where
  "demo_event timestamp journeyID recommendationID userIDHash traceID index item = JObj
     [(''event_id'', JStr (''demo-'' @ recommendationID @ ''-'' @ decimal (index + 1))),
      (''event_type'', JStr (fst item)),
      (''schema_version'', JInt 1),
      (''occurred_at'', JStr timestamp),
      (''producer'', JStr ''analytics-demo''),
      (''trace_id'', JStr traceID),
      (''journey_id'', JStr journeyID),
      (''recommendation_id'', JStr recommendationID),
      (''user_id_hash'', JStr userIDHash),
      (''payload'', JObj (snd item))]"

definition demo_items :: "string \<Rightarrow> (string \<times> (string \<times> json) list) list" where
  "demo_items recommendationID =
     [(''notification.sent.v1'',
        [(''channel'', JStr ''demo''), (''notification_id'', JStr (recommendationID @ ''-notification''))]),
      (''notification.delivered.v1'',
        [(''channel'', JStr ''demo''), (''notification_id'', JStr (recommendationID @ ''-notification''))]),
      (''recommendation.impressed.v1'', [(''surface'', JStr ''demo'')]),
      (''recommendation.clicked.v1'', [(''surface'', JStr ''demo'')])]"

definition DemoEngagementEvents ::
  "string \<Rightarrow> string \<Rightarrow> string \<Rightarrow> string \<Rightarrow> string \<Rightarrow> gerr + json list" where
  "DemoEngagementEvents timestamp journeyID recommendationID userIDHash traceID =
     (if journeyID = [] \<or> recommendationID = [] \<or> userIDHash = [] \<or> traceID = []
      then Inl (Analytics_err InvalidEvent)
      else Inr (map (\<lambda>(i, item). demo_event timestamp journeyID recommendationID userIDHash traceID i item)
        (enumerate 0 (demo_items recommendationID))))"

end
