(* ===== verification/Programs.thy ===== *)
theory Programs
  imports Platform Indexer EntryConsumer NotificationWorker Analytics
begin

text \<open>
  The programs of \<open>cmd/\<close>: how the settings become services, and the loops that are theirs alone. A
  program ends by returning (\<open>Finished\<close>) or with \<open>log.Fatal\<close> (\<open>Fatal\<close>, exit status 1); a supervisor
  starts it again. \<open>open_db\<close> is the error of \<open>sql.Open\<close>, \<open>telemetry\<close> that of \<open>observability.Setup\<close>.
  Connections, signals and the servers themselves are left out.
\<close>

datatype program_end = Finished | Fatal gerr

subsection \<open>Telemetry\<close>

datatype exporter_option = EndpointURL string | Endpoint string | Insecure

definition validateEndpoint :: "(string \<Rightarrow> url option) \<Rightarrow> string \<Rightarrow> gerr option" where
  "validateEndpoint parse_url endpoint =
     (if contains ''://'' endpoint then
        (case parse_url endpoint of
           None \<Rightarrow> Some (Text ''invalid OTLP endpoint'')
         | Some u \<Rightarrow>
             (if url_hostname u = [] \<and> url_port u = []
                 \<or> url_scheme u \<noteq> ''http'' \<and> url_scheme u \<noteq> ''https''
              then Some (Text ''invalid OTLP endpoint'') else None))
      else None)"

text \<open>\<open>res\<close> and \<open>exporter\<close> are the errors of the OpenTelemetry libraries; without an endpoint nothing
  is exported.\<close>

definition telemetry_Setup ::
  "(string \<Rightarrow> url option) \<Rightarrow> gerr option \<Rightarrow> (exporter_option list \<Rightarrow> gerr option) \<Rightarrow> environment
     \<Rightarrow> gerr + exporter_option list option" where
  "telemetry_Setup parse_url res exporter getenv =
     (let endpoint = trim_space (getenv ''OTEL_EXPORTER_OTLP_ENDPOINT'') in
      if endpoint = [] then Inr None
      else
        (case validateEndpoint parse_url endpoint of
           Some err \<Rightarrow> Inl err
         | None \<Rightarrow>
             let options = (if contains ''://'' endpoint then [EndpointURL endpoint]
                            else [Endpoint endpoint, Insecure]) in
             (case res of
                Some err \<Rightarrow> Inl err
              | None \<Rightarrow> (case exporter options of Some err \<Rightarrow> Inl err | None \<Rightarrow> Inr (Some options)))))"

subsection \<open>Services from settings\<close>

definition configured_embedder :: "externals \<Rightarrow> dependencies \<Rightarrow> gerr + embedder" where
  "configured_embedder x d =
     NewConfiguredEmbedder (rx_lower x) (rx_sha256 x) (rx_post x) (rx_round32 x)
       (dep_embedding_mode d) (dep_embedding_url d) (dep_embedding_model d) (dep_embedding_dimension d)"

definition configured_indexer :: "dependencies \<Rightarrow> embedder \<Rightarrow> offer_indexer option" where
  "configured_indexer d emb =
     WithCollection
       (Some (NewOfferIndexer Handle (Some (NewQdrantClient (dep_qdrant d))) (Some emb) (dep_embedding_model d)))
       (dep_embedding_collection d)"

text \<open>\<open>copywriter\<close> is \<open>NewHTTPCopyGenerator\<close>.\<close>

definition configured_recommender ::
  "externals \<Rightarrow> (string \<Rightarrow> string \<Rightarrow> copy_generator) \<Rightarrow> dependencies
     \<Rightarrow> gerr + recommendation_service option" where
  "configured_recommender x copywriter d =
     bind_result (configured_embedder x d) (\<lambda>emb.
     let service =
           WithCandidateLimit
             (WithEmbeddingCollection
               (WithEmbeddingModel
                 (WithQueryEmbedder
                   (Some (NewRecommendationService x Handle (Some (NewQdrantClient (dep_qdrant d)))
                     (WithDB (Some (NewPreferenceStore (dep_redis d \<noteq> []) PreferenceTTL)) Handle)))
                   (Some emb))
                 (dep_embedding_model d))
               (dep_embedding_collection d))
             (dep_candidate_limit d) in
     Inr (if dep_llm_mode d = ''provider'' \<and> dep_llm_url d \<noteq> [] \<and> dep_llm_model d \<noteq> []
          then WithCopyGenerator service (Some (copywriter (dep_llm_url d) (dep_llm_model d))) 250000000
          else service))"

text \<open>The gateway's service; \<open>connect\<close> is \<open>kratoshttp.NewClient\<close>, its timeout in milliseconds.\<close>

definition NewHTTPClient ::
  "(string \<Rightarrow> int \<Rightarrow> gerr + (observation \<Rightarrow> gerr + mob_context option)) \<Rightarrow> string \<Rightarrow> int
     \<Rightarrow> gerr + (observation \<Rightarrow> gerr + mob_context)" where
  "NewHTTPClient connect endpoint timeout =
     (if trim_space endpoint = [] then Inl (Mobility_err BeaconUnavailable)
      else bind_result (connect (trim_space endpoint) (if timeout \<le> 0 then 800 else timeout)) (\<lambda>transport.
        Inr (http_client_Resolve (Some transport))))"

definition configured_gateway ::
  "(string \<Rightarrow> int \<Rightarrow> gerr + (observation \<Rightarrow> gerr + mob_context option)) \<Rightarrow> dependencies
     \<Rightarrow> gerr + journey_service option" where
  "configured_gateway connect d =
     bind_result
       (if trim_space (dep_mobility_url d) \<noteq> []
        then bind_result (NewHTTPClient connect (dep_mobility_url d) (dep_mobility_timeout d)) (\<lambda>r. Inr (Some r))
        else Inr None) (\<lambda>beaconResolver.
     Inr (WithRecommendationCandidateLimit (Some (NewService Handle [beaconResolver])) (dep_candidate_limit d)))"

subsection \<open>The embedding indexer\<close>

text \<open>
  \<open>n\<close> messages have been fetched; the result is the offset the group has committed and how the
  program ended. \<open>commit_at n\<close> is Kafka's answer to the commit of message \<open>n\<close>, \<open>fetch_end\<close> how the
  fetch after the last message ends the program.
\<close>

fun index_loop ::
  "http \<Rightarrow> (string \<Rightarrow> string) \<Rightarrow> (string \<Rightarrow> string) \<Rightarrow> offer_indexer option \<Rightarrow> (nat \<Rightarrow> gerr option)
     \<Rightarrow> program_end \<Rightarrow> nat \<Rightarrow> raw list \<Rightarrow> (nat \<times> program_end) db_act" where
  "index_loop http escape point_uuid i commit_at fetch_end n [] = ok (n, fetch_end)"
| "index_loop http escape point_uuid i commit_at fetch_end n (m # ms) =
     andThen (attempt (HandleOfferChanged http escape point_uuid i m)) (\<lambda>q. case q of
       Inl err \<Rightarrow> ok (n, Fatal err)
     | Inr _ \<Rightarrow>
         (case commit_at n of
            Some err \<Rightarrow> ok (n, Fatal err)
          | None \<Rightarrow> index_loop http escape point_uuid i commit_at fetch_end (Suc n) ms))"

definition embedding_indexer_main ::
  "externals \<Rightarrow> http \<Rightarrow> (string \<Rightarrow> string) \<Rightarrow> (string \<Rightarrow> gerr option) \<Rightarrow> gerr option
     \<Rightarrow> (nat \<Rightarrow> gerr option) \<Rightarrow> program_end \<Rightarrow> environment \<Rightarrow> raw list \<Rightarrow> (nat \<times> program_end) db_act" where
  "embedding_indexer_main x http point_uuid open_db telemetry commit_at fetch_end getenv messages =
     (let d = LoadDependencies getenv in
      if dep_kafka d = [] \<or> dep_postgres d = [] \<or> dep_qdrant d = []
      then ok (0, Fatal (Text ''KAFKA_BROKERS, POSTGRES_DSN, and QDRANT_URL are required''))
      else
        (case (open_db (dep_postgres d), telemetry, configured_embedder x d) of
           (Some err, _, _) \<Rightarrow> ok (0, Fatal err)
         | (None, Some err, _) \<Rightarrow> ok (0, Fatal err)
         | (None, None, Inl err) \<Rightarrow> ok (0, Fatal err)
         | (None, None, Inr emb) \<Rightarrow>
             let i = configured_indexer d emb in
             andThen (attempt (Bootstrap http (rx_escape x) point_uuid i (dep_embedding_dimension d))) (\<lambda>q.
             case q of
               Inl err \<Rightarrow> ok (0, Fatal err)
             | Inr _ \<Rightarrow> index_loop http (rx_escape x) point_uuid i commit_at fetch_end 0 messages)))"

subsection \<open>The other workers\<close>

text \<open>What the recommendation service runs beside its publisher.\<close>

definition recommendation_main ::
  "externals \<Rightarrow> (string \<Rightarrow> string \<Rightarrow> copy_generator) \<Rightarrow> (recommendation_row \<Rightarrow> nat) \<Rightarrow> (string \<Rightarrow> gerr option)
     \<Rightarrow> (nat \<Rightarrow> gerr option) \<Rightarrow> gerr \<Rightarrow> environment \<Rightarrow> redis \<Rightarrow> raw list \<Rightarrow> (nat \<times> gerr \<times> redis) db_act" where
  "recommendation_main x copywriter tie open_db commit_at fetch_error getenv r messages =
     (let d = LoadDependencies getenv in
      if dep_postgres d = [] \<or> dep_kafka d = [] \<or> dep_qdrant d = []
      then fail (Text ''POSTGRES_DSN, KAFKA_BROKERS, and QDRANT_URL are required'')
      else
        (case open_db (dep_postgres d) of
           Some err \<Rightarrow> fail err
         | None \<Rightarrow>
             andThen (lift_result (configured_recommender x copywriter d)) (\<lambda>service.
               RunEntryConsumer x tie commit_at fetch_error (split_on (CHR '','') (dep_kafka d)) service r
                 messages)))"

definition notification_main ::
  "case_table \<Rightarrow> web_push \<Rightarrow> zones \<Rightarrow> (subscription_row \<Rightarrow> nat) \<Rightarrow> (int \<Rightarrow> string) \<Rightarrow> (string \<Rightarrow> gerr option)
     \<Rightarrow> (nat \<Rightarrow> gerr option) \<Rightarrow> gerr \<Rightarrow> environment \<Rightarrow> raw list \<Rightarrow> (nat \<times> gerr) db_act" where
  "notification_main lo push zone tie fmt open_db commit_at fetch_error getenv messages =
     (let d = LoadDependencies getenv in
      if dep_postgres d = [] \<or> dep_kafka d = []
      then fail (Text ''POSTGRES_DSN and KAFKA_BROKERS are required'')
      else
        (case open_db (dep_postgres d) of
           Some err \<Rightarrow> fail err
         | None \<Rightarrow>
             andThen (lift_result (NewConfiguredPushProvider lo (dep_notification_provider d)
               (dep_vapid_subject d) (dep_vapid_public d) (dep_vapid_private d))) (\<lambda>p.
             RunWithProvider zone tie fmt commit_at fetch_error (split_on (CHR '','') (dep_kafka d)) Handle
               (Some (provider_Send push p)) messages)))"

text \<open>The demo: each event is checked by the consumer's decoder and written to its topic. \<open>write_at n\<close>
  is Kafka's answer to message \<open>n\<close>; the result is what was written, and the error that ended it.\<close>

fun write_demo ::
  "(string \<Rightarrow> int option) \<Rightarrow> (nat \<Rightarrow> gerr option) \<Rightarrow> string \<Rightarrow> nat \<Rightarrow> json list
     \<Rightarrow> kafka_message list \<times> gerr option" where
  "write_demo parse_time write_at userIDHash n [] = ([], None)"
| "write_demo parse_time write_at userIDHash n (j # js) =
     (case DecodeEvent parse_time (Raw j) of
        Inl err \<Rightarrow> ([], Some err)
      | Inr ev \<Rightarrow>
          (case write_at n of
             Some err \<Rightarrow> ([], Some err)
           | None \<Rightarrow>
               (case write_demo parse_time write_at userIDHash (Suc n) js of
                  (sent, end) \<Rightarrow>
                    (\<lparr>km_topic = pe_event_type ev, km_key = userIDHash, km_value = j\<rparr> # sent, end))))"

definition analytics_demo_main ::
  "(string \<Rightarrow> int option) \<Rightarrow> (nat \<Rightarrow> gerr option) \<Rightarrow> string \<Rightarrow> environment \<Rightarrow> string \<Rightarrow> string \<Rightarrow> string \<Rightarrow> string
     \<Rightarrow> kafka_message list \<times> gerr option" where
  "analytics_demo_main parse_time write_at timestamp getenv journeyID recommendationID userIDHash traceID =
     (if dep_kafka (LoadDependencies getenv) = [] then ([], Some (Text ''KAFKA_BROKERS is required''))
      else
        (case DemoEngagementEvents timestamp journeyID recommendationID userIDHash traceID of
           Inl err \<Rightarrow> ([], Some err)
         | Inr events \<Rightarrow> write_demo parse_time write_at userIDHash 0 events))"

end
