(* ===== verification/Redemption.thy ===== *)
theory Redemption
  imports Outbox Feedback
begin

text \<open>
  \<open>internal/redemption/service.go\<close>: points, stock and redemptions. One definition per SQL
  statement of the file, then \<open>Create\<close>, \<open>Get\<close> and \<open>Verify\<close> in the order of the source.
  The row locks (\<open>FOR UPDATE\<close>) need no step of their own: handlers run one after the other here,
  which is what the locks make of concurrent attempts of one user and on one offer.
\<close>

record redemption_service =
  rs_db :: handle

record create_request =
  cr_user_hash :: string
  cr_journey :: string
  cr_offer :: string
  cr_key :: string
  cr_trace :: string

record verify_request =
  vr_redemption :: string
  vr_merchant :: string
  vr_code :: string
  vr_trace :: string

record redemption =
  r_id :: string
  r_journey :: string
  r_offer :: string
  r_status :: string
  r_cost :: int
  r_code :: string

definition no_service :: "redemption_service option \<Rightarrow> bool" where
  "no_service s \<longleftrightarrow> (case s of None \<Rightarrow> True | Some v \<Rightarrow> rs_db v = NilHandle)"

subsection \<open>Reading\<close>

definition select_user :: "string \<Rightarrow> database \<Rightarrow> (string \<times> int) option" where
  "select_user userIDHash d =
     map_option (\<lambda>u. (u_id u, u_balance u))
       (lookup_row (\<lambda>u. u_hash u = userIDHash) (users d))"

text \<open>\<open>Scan\<close> into strings: a NULL column is an error.\<close>

definition scan_redemption :: "redemption_row \<Rightarrow> gerr + redemption" where
  "scan_redemption x =
     (case (rd_journey x, rd_code x) of
        (Some j, Some c) \<Rightarrow>
          Inr \<lparr>r_id = rd_id x, r_journey = j, r_offer = rd_offer x, r_status = rd_status x,
               r_cost = rd_cost x, r_code = c\<rparr>
      | _ \<Rightarrow> Inl ScanMismatch)"

lemma scan_redemption_Inr:
  "scan_redemption x = Inr r \<longleftrightarrow> rd_journey x = Some (r_journey r) \<and> rd_code x = Some (r_code r) \<and>
     rd_id x = r_id r \<and> rd_offer x = r_offer r \<and> rd_status x = r_status r \<and> rd_cost x = r_cost r"
  by (cases r) (auto simp: scan_redemption_def split: option.splits)

definition select_redemption_where ::
  "(redemption_row \<Rightarrow> bool) \<Rightarrow> database \<Rightarrow> gerr + redemption" where
  "select_redemption_where P d =
     bind_result (row_or_none (lookup_row P (redemptions d))) scan_redemption"

definition existingRedemption :: "string \<Rightarrow> string \<Rightarrow> (redemption option) db_act" where
  "existingRedemption userID idempotencyKey =
     orNoRows (execTx (reads (\<lambda>t d.
       select_redemption_where (\<lambda>x. rd_user x = userID \<and> rd_key x = idempotencyKey) d)))"

definition journey_of_user :: "string \<Rightarrow> string \<Rightarrow> database \<Rightarrow> bool" where
  "journey_of_user journeyID userID d =
     exists_row (\<lambda>j. j_id j = journeyID \<and> j_user j = userID) (journeys d)"

definition already_redeemed :: "string \<Rightarrow> string \<Rightarrow> database \<Rightarrow> bool" where
  "already_redeemed userID offerID d =
     exists_row (\<lambda>x. rd_user x = userID \<and> rd_offer x = offerID \<and> counted x) (redemptions d)"

definition offer_live :: "int \<Rightarrow> offer_row \<Rightarrow> bool" where
  "offer_live now x \<longleftrightarrow> of_active x \<and> of_starts x \<le> now \<and> of_ends x > now"

definition select_stock :: "string \<Rightarrow> int \<Rightarrow> database \<Rightarrow> (int \<times> int) option" where
  "select_stock offerID now d =
     (case lookup_row (\<lambda>x. of_id x = offerID \<and> offer_live now x) (offers d) of
        None \<Rightarrow> None
      | Some x \<Rightarrow>
          map_option (\<lambda>i. (inv_quantity i, of_cost x))
            (lookup_row (\<lambda>i. inv_offer i = offerID) (inventory d)))"

subsection \<open>Writing\<close>

definition set_balance :: "int \<Rightarrow> string \<Rightarrow> int \<Rightarrow> database \<Rightarrow> gerr + database" where
  "set_balance newBalance userID now d =
     (let rows = update_where (\<lambda>u. u_id u = userID)
           (\<lambda>u. u\<lparr>u_balance := newBalance, u_updated := now\<rparr>) (users d)
      in constrained
           [(user_exists d userID \<longrightarrow> newBalance \<ge> 0, ''users_point_balance_check'')]
           (d\<lparr>users := rows\<rparr>))"

definition take_stock :: "string \<Rightarrow> int \<Rightarrow> database \<Rightarrow> gerr + database" where
  "take_stock offerID now d =
     (let rows = update_where (\<lambda>i. inv_offer i = offerID)
           (\<lambda>i. i\<lparr>inv_quantity := inv_quantity i - 1, inv_version := inv_version i + 1\<rparr>)
           (inventory d)
      in constrained
           [(\<forall>i\<in>set rows. inv_offer i = offerID \<longrightarrow> inv_quantity i \<ge> 0,
              ''inventory_available_quantity_check''),
            (\<forall>i\<in>set rows. inv_offer i = offerID \<longrightarrow> int64_range (inv_version i),
              ''bigint out of range'')]
           (d\<lparr>inventory := rows\<rparr>))"

definition set_verified :: "string \<Rightarrow> int \<Rightarrow> database \<Rightarrow> gerr + database" where
  "set_verified redemptionID now d = Inr (d\<lparr>redemptions :=
     update_where (\<lambda>x. rd_id x = redemptionID) (\<lambda>x. x\<lparr>rd_status := ''verified''\<rparr>)
       (redemptions d)\<rparr>)"

subsection \<open>Events\<close>

text \<open>\<open>time.Now().UTC().Format(time.RFC3339Nano)\<close>: the formatting of instants is a parameter.\<close>

type_synonym time_format = "int \<Rightarrow> string"

definition succeeded_message ::
  "time_format \<Rightarrow> string \<Rightarrow> int \<Rightarrow> create_request \<Rightarrow> redemption \<Rightarrow> json" where
  "succeeded_message fmt eventID now request r = JObj
     [(''event_id'', JStr eventID),
      (''event_type'', JStr ''redemption.succeeded.v1''),
      (''schema_version'', JInt 1),
      (''occurred_at'', JStr (fmt now)),
      (''producer'', JStr ''redemption-service''),
      (''trace_id'', JStr (cr_trace request)),
      (''journey_id'', JStr (r_journey r)),
      (''user_id_hash'', JStr (cr_user_hash request)),
      (''payload'', JObj
        [(''redemption_id'', JStr (r_id r)),
         (''offer_id'', JStr (r_offer r)),
         (''points_cost'', JInt (r_cost r))])]"

definition succeeded_event ::
  "time_format \<Rightarrow> string \<Rightarrow> int \<Rightarrow> create_request \<Rightarrow> redemption \<Rightarrow> event" where
  "succeeded_event fmt eventID now request r =
     \<lparr>ev_id = eventID, ev_topic = ''redemption.succeeded.v1'', ev_key = cr_user_hash request,
      ev_payload = Raw (succeeded_message fmt eventID now request r)\<rparr>"

definition enqueueSucceededEvent ::
  "time_format \<Rightarrow> create_request \<Rightarrow> redemption \<Rightarrow> unit db_act" where
  "enqueueSucceededEvent fmt request r =
     andThen newUUID (\<lambda>eventID.
     andThen timeNow (\<lambda>now.
       Enqueue Handle (succeeded_event fmt eventID now request r)))"

definition verified_message ::
  "time_format \<Rightarrow> string \<Rightarrow> int \<Rightarrow> verify_request \<Rightarrow> redemption \<Rightarrow> string \<Rightarrow> json" where
  "verified_message fmt eventID now request r userIDHash = JObj
     [(''event_id'', JStr eventID),
      (''event_type'', JStr ''merchant.verified.v1''),
      (''schema_version'', JInt 1),
      (''occurred_at'', JStr (fmt now)),
      (''producer'', JStr ''redemption-service''),
      (''trace_id'', JStr (vr_trace request)),
      (''journey_id'', JStr (r_journey r)),
      (''user_id_hash'', JStr userIDHash),
      (''payload'', JObj
        [(''redemption_id'', JStr (r_id r)),
         (''merchant_id'', JStr (vr_merchant request)),
         (''verified_at'', JStr (fmt now))])]"

definition verified_event ::
  "time_format \<Rightarrow> string \<Rightarrow> int \<Rightarrow> verify_request \<Rightarrow> redemption \<Rightarrow> string \<Rightarrow> event" where
  "verified_event fmt eventID now request r userIDHash =
     \<lparr>ev_id = eventID, ev_topic = ''merchant.verified.v1'', ev_key = r_journey r,
      ev_payload = Raw (verified_message fmt eventID now request r userIDHash)\<rparr>"

definition enqueueVerifiedEvent ::
  "time_format \<Rightarrow> verify_request \<Rightarrow> redemption \<Rightarrow> string \<Rightarrow> unit db_act" where
  "enqueueVerifiedEvent fmt request r userIDHash =
     andThen timeNow (\<lambda>now.
     andThen newUUID (\<lambda>eventID.
       Enqueue Handle (verified_event fmt eventID now request r userIDHash)))"

subsection \<open>\<open>Create\<close>\<close>

text \<open>The statements after the checks: the redemption, the points, the stock, the ledger, the
  learned preference, the event; then the commit.\<close>

definition create_writes ::
  "time_format \<Rightarrow> create_request \<Rightarrow> string \<Rightarrow> int \<Rightarrow> int \<Rightarrow> redemption db_act" where
  "create_writes fmt request userID balance pointsCost =
     andThen newUUID (\<lambda>rid.
     andThen newUUID (\<lambda>code.
     let r = \<lparr>r_id = rid, r_journey = cr_journey request, r_offer = cr_offer request,
              r_status = ''succeeded'', r_cost = pointsCost, r_code = code\<rparr>;
         newBalance = balance - pointsCost in
     andThen (execTx (writes (\<lambda>t. insert_redemption
       \<lparr>rd_id = r_id r, rd_user = userID, rd_journey = Some (r_journey r), rd_offer = r_offer r,
        rd_key = cr_key request, rd_status = r_status r, rd_cost = r_cost r,
        rd_code = Some (r_code r)\<rparr>))) (\<lambda>_.
     andThen (execTx (writes (set_balance newBalance userID))) (\<lambda>_.
     andThen (execTx (writes (take_stock (r_offer r)))) (\<lambda>_.
     andThen (execTx (writes (\<lambda>t. insert_ledger
       \<lparr>le_user = userID, le_redemption = Some (r_id r), le_delta = - r_cost r,
        le_balance = newBalance, le_reason = ''redemption''\<rparr>))) (\<lambda>_.
     andThen (ApplyPreferenceFeedback Handle (cr_user_hash request) (r_offer r)
       RedemptionSucceededTopic) (\<lambda>_.
     andThen (enqueueSucceededEvent fmt request r) (\<lambda>_.
     andThen commitTx (\<lambda>_. ok r)))))))))"

definition create_fresh ::
  "time_format \<Rightarrow> create_request \<Rightarrow> string \<Rightarrow> int \<Rightarrow> redemption db_act" where
  "create_fresh fmt request userID balance =
     andThen (execTx (reads (\<lambda>t d. Inr (journey_of_user (cr_journey request) userID d))))
       (\<lambda>journeyExists.
     if \<not> journeyExists then fail (Redemption_err RedemptionJourneyNotFound) else
     andThen (execTx (reads (\<lambda>t d. Inr (already_redeemed userID (cr_offer request) d))))
       (\<lambda>alreadyRedeemed.
     if alreadyRedeemed then fail (Redemption_err OfferAlreadyRedeemed) else
     andThen (onError NoRows (Redemption_err OfferUnavailable)
         (execTx (reads (\<lambda>t d. row_or_none (select_stock (cr_offer request) t d)))))
       (\<lambda>(availableQuantity, pointsCost).
     if availableQuantity = 0 then fail (Redemption_err OfferUnavailable)
     else if balance < pointsCost then fail (Redemption_err InsufficientPoints)
     else create_writes fmt request userID balance pointsCost)))"

definition Create ::
  "time_format \<Rightarrow> redemption_service option \<Rightarrow> create_request \<Rightarrow> redemption db_act" where
  "Create fmt s request =
     (if no_service s \<or> cr_user_hash request = [] \<or> cr_journey request = []
         \<or> cr_offer request = [] \<or> cr_key request = [] \<or> cr_trace request = []
      then fail (Redemption_err RedemptionInvalidRequest)
      else
        andThen beginTx (\<lambda>_.
        andThen (onError NoRows (Redemption_err RedemptionUserNotFound)
            (execTx (reads (\<lambda>t d. row_or_none (select_user (cr_user_hash request) d)))))
          (\<lambda>(userID, balance).
        andThen (existingRedemption userID (cr_key request)) (\<lambda>found.
        case found of
          Some existing \<Rightarrow>
            (if r_journey existing \<noteq> cr_journey request \<or> r_offer existing \<noteq> cr_offer request
             then fail (Redemption_err IdempotencyKeyConflict)
             else andThen commitTx (\<lambda>_. ok existing))
        | None \<Rightarrow> create_fresh fmt request userID balance))))"

subsection \<open>\<open>Get\<close> and \<open>Verify\<close>\<close>

definition Get :: "redemption_service option \<Rightarrow> string \<Rightarrow> redemption db_act" where
  "Get s redemptionID =
     (if no_service s \<or> redemptionID = [] then fail (Redemption_err RedemptionInvalidRequest)
      else onError NoRows (Redemption_err RedemptionNotFound)
        (execDB (reads (\<lambda>t d. select_redemption_where (\<lambda>x. rd_id x = redemptionID) d))))"

text \<open>The joined row \<open>Verify\<close> reads: the redemption, its merchant, its user's hash.\<close>

definition select_verification ::
  "string \<Rightarrow> database \<Rightarrow> gerr + (redemption \<times> string \<times> string)" where
  "select_verification redemptionID d =
     bind_result (row_or_none (lookup_row (\<lambda>x. rd_id x = redemptionID) (redemptions d))) (\<lambda>x.
     bind_result (row_or_none (lookup_row (\<lambda>y. of_id y = rd_offer x) (offers d))) (\<lambda>offer.
     bind_result (row_or_none (lookup_row (\<lambda>u. u_id u = rd_user x) (users d))) (\<lambda>u.
     bind_result (scan_redemption x) (\<lambda>r. Inr (r, of_merchant offer, u_hash u)))))"

definition Verify ::
  "time_format \<Rightarrow> redemption_service option \<Rightarrow> verify_request \<Rightarrow> redemption db_act" where
  "Verify fmt s request =
     (if no_service s \<or> vr_redemption request = [] \<or> vr_merchant request = []
         \<or> vr_code request = [] \<or> vr_trace request = []
      then fail (Redemption_err RedemptionInvalidRequest)
      else
        andThen beginTx (\<lambda>_.
        andThen (onError NoRows (Redemption_err RedemptionNotFound)
            (execTx (reads (\<lambda>t d. select_verification (vr_redemption request) d))))
          (\<lambda>(r, merchantID, userIDHash).
        if merchantID \<noteq> vr_merchant request \<or> r_code r \<noteq> vr_code request
        then fail (Redemption_err VerificationFailed)
        else if r_status r = ''verified'' then andThen commitTx (\<lambda>_. ok r)
        else if r_status r \<noteq> ''succeeded'' then fail (Redemption_err RedemptionNotVerifiable)
        else
          andThen (execTx (writes (set_verified (r_id r)))) (\<lambda>_.
          let verified = r\<lparr>r_status := ''verified''\<rparr> in
          andThen (enqueueVerifiedEvent fmt request verified userIDHash) (\<lambda>_.
          andThen commitTx (\<lambda>_. ok verified))))))"

end
