(* ===== verification/RedemptionSpec.thy ===== *)
theory RedemptionSpec
  imports Redemption
begin

text \<open>What a redemption must do to the database, and that the code does it.\<close>

subsection \<open>The effect of a redemption\<close>

definition redemption_row_of :: "create_request \<Rightarrow> string \<Rightarrow> redemption \<Rightarrow> redemption_row" where
  "redemption_row_of request userID r =
     \<lparr>rd_id = r_id r, rd_user = userID, rd_journey = Some (r_journey r), rd_offer = r_offer r,
      rd_key = cr_key request, rd_status = r_status r, rd_cost = r_cost r,
      rd_code = Some (r_code r)\<rparr>"

definition debit_row :: "string \<Rightarrow> int \<Rightarrow> redemption \<Rightarrow> ledger_row" where
  "debit_row userID newBalance r =
     \<lparr>le_user = userID, le_redemption = Some (r_id r), le_delta = - r_cost r,
      le_balance = newBalance, le_reason = ''redemption''\<rparr>"

definition redeem ::
  "create_request \<Rightarrow> string \<Rightarrow> int \<Rightarrow> int \<Rightarrow> string \<Rightarrow> redemption \<Rightarrow> event \<Rightarrow> database \<Rightarrow> database"
where
  "redeem request userID balance now category r ev d =
     d\<lparr>redemptions := redemptions d @ [redemption_row_of request userID r],
       users := update_where (\<lambda>u. u_id u = userID)
         (\<lambda>u. u\<lparr>u_balance := balance - r_cost r, u_updated := now\<rparr>) (users d),
       inventory := update_where (\<lambda>i. inv_offer i = r_offer r)
         (\<lambda>i. i\<lparr>inv_quantity := inv_quantity i - 1, inv_version := inv_version i + 1\<rparr>)
         (inventory d),
       points_ledger := points_ledger d @ [debit_row userID (balance - r_cost r) r],
       preference_weights := merge_weight userID category (feedbackDelta RedemptionSucceededTopic)
         (preference_weights d),
       outbox_events := outbox_events d @ [queued ev now]\<rparr>"

text \<open>When a request may be redeemed: by whom, from which balance, at which cost.\<close>

definition redeemable :: "create_request \<Rightarrow> int \<Rightarrow> database \<Rightarrow> string \<Rightarrow> int \<Rightarrow> int \<Rightarrow> bool" where
  "redeemable request now d userID balance cost \<longleftrightarrow>
     select_user (cr_user_hash request) d = Some (userID, balance)
     \<and> \<not> exists_row (\<lambda>x. rd_user x = userID \<and> rd_key x = cr_key request) (redemptions d)
     \<and> journey_of_user (cr_journey request) userID d
     \<and> \<not> already_redeemed userID (cr_offer request) d
     \<and> (\<exists>quantity. select_stock (cr_offer request) now d = Some (quantity, cost) \<and> quantity > 0)
     \<and> 0 < cost \<and> cost \<le> balance"

definition fresh_redemption ::
  "time_format \<Rightarrow> create_request \<Rightarrow> database \<Rightarrow> redemption \<Rightarrow> database \<Rightarrow> bool" where
  "fresh_redemption fmt request d r d' \<longleftrightarrow> (\<exists>userID balance now category eventID t.
     redeemable request now d userID balance (r_cost r)
     \<and> r_journey r = cr_journey request \<and> r_offer r = cr_offer request
     \<and> r_status r = ''succeeded''
     \<and> (\<forall>x\<in>set (redemptions d). rd_id x \<noteq> r_id r \<and> rd_code x \<noteq> Some (r_code r))
     \<and> (\<forall>x\<in>set (outbox_events d). ob_id x \<noteq> eventID)
     \<and> user_exists d userID
     \<and> feedback_subject (cr_user_hash request) (r_offer r) d = Some (userID, category)
     \<and> (\<forall>w\<in>set (merge_weight userID category (feedbackDelta RedemptionSucceededTopic)
            (preference_weights d)). w_user w = userID \<and> w_category w = category \<longrightarrow> weight_row_ok w)
     \<and> d' = redeem request userID balance now category r (succeeded_event fmt eventID t request r) d)"

definition replayed :: "create_request \<Rightarrow> database \<Rightarrow> redemption \<Rightarrow> bool" where
  "replayed request d r \<longleftrightarrow> (\<exists>userID balance x.
     select_user (cr_user_hash request) d = Some (userID, balance)
     \<and> lookup_row (\<lambda>x. rd_user x = userID \<and> rd_key x = cr_key request) (redemptions d) = Some x
     \<and> scan_redemption x = Inr r
     \<and> r_journey r = cr_journey request \<and> r_offer r = cr_offer request)"

definition created ::
  "time_format \<Rightarrow> create_request \<Rightarrow> database \<Rightarrow> redemption \<Rightarrow> database \<Rightarrow> bool" where
  "created fmt request d r d' \<longleftrightarrow>
     fresh_redemption fmt request d r d' \<or> (d' = d \<and> replayed request d r)"

subsection \<open>The statements make the effect\<close>

lemma take_stock_InrD:
  assumes "take_stock x now d = Inr d'"
  shows "d' = d\<lparr>inventory := update_where (\<lambda>i. inv_offer i = x)
         (\<lambda>i. i\<lparr>inv_quantity := inv_quantity i - 1, inv_version := inv_version i + 1\<rparr>)
         (inventory d)\<rparr>"
    and "\<And>i. i \<in> set (inventory d) \<Longrightarrow> inv_offer i = x \<Longrightarrow> 0 < inv_quantity i"
proof -
  let ?f = "\<lambda>i. i\<lparr>inv_quantity := inv_quantity i - 1, inv_version := inv_version i + 1\<rparr>"
  show "d' = d\<lparr>inventory := update_where (\<lambda>i. inv_offer i = x) ?f (inventory d)\<rparr>"
    using assms by (simp add: take_stock_def Let_def)
  fix i assume "i \<in> set (inventory d)" and "inv_offer i = x"
  then have "?f i \<in> set (update_where (\<lambda>i. inv_offer i = x) ?f (inventory d))"
    by (auto simp: in_update_where)
  moreover have "\<forall>i\<in>set (update_where (\<lambda>i. inv_offer i = x) ?f (inventory d)).
      inv_offer i = x \<longrightarrow> 0 \<le> inv_quantity i"
    using assms by (simp add: take_stock_def Let_def)
  ultimately show "0 < inv_quantity i" using \<open>inv_offer i = x\<close> by fastforce
qed

lemma set_balance_InrD:
  assumes "set_balance b uid now d = Inr d'"
  shows "d' = d\<lparr>users := update_where (\<lambda>u. u_id u = uid)
           (\<lambda>u. u\<lparr>u_balance := b, u_updated := now\<rparr>) (users d)\<rparr>"
  using assms by (auto simp: set_balance_def Let_def)

lemma select_stock_row:
  assumes "select_stock x now d = Some (q, c)"
  shows "\<exists>i\<in>set (inventory d). inv_offer i = x \<and> inv_quantity i = q"
  using assms by (auto simp: select_stock_def split: option.splits dest!: lookup_row_SomeD)

lemma feedback_subject_user:
  "feedback_subject h x d = Some (uid, c) \<Longrightarrow> select_user h d = Some (v, b) \<Longrightarrow> uid = v"
  by (auto simp: feedback_subject_def select_user_def split: option.splits)

lemma statements_make_redemption:
  assumes u: "select_user (cr_user_hash request) d = Some (userID, balance)"
    and n: "\<not> exists_row (\<lambda>x. rd_user x = userID \<and> rd_key x = cr_key request) (redemptions d)"
    and j: "journey_of_user (cr_journey request) userID d"
    and a: "\<not> already_redeemed userID (cr_offer request) d"
    and s: "select_stock (cr_offer request) now d = Some (quantity, r_cost r)"
    and q: "r_cost r \<le> balance"
    and r: "r_journey r = cr_journey request" "r_offer r = cr_offer request"
      "r_status r = ''succeeded''"
    and i1: "insert_redemption (redemption_row_of request userID r) d = Inr d1"
    and i2: "set_balance (balance - r_cost r) userID now d1 = Inr d2"
    and i3: "take_stock (r_offer r) now d2 = Inr d3"
    and i4: "insert_ledger (debit_row userID (balance - r_cost r) r) d3 = Inr d4"
    and i5: "feedback_subject (cr_user_hash request) (r_offer r) d4 = Some (uid, category)"
    and i6: "upsert_weight uid category (feedbackDelta RedemptionSucceededTopic) now d4 = Inr d5"
    and i7: "insert_event (succeeded_event fmt eventID t request r) now d5 = Inr d'"
  shows "fresh_redemption fmt request d r d'"
proof -
  note d1 = insert_redemption_InrD [OF i1] and d2 = set_balance_InrD [OF i2]
    and d3 = take_stock_InrD [OF i3] and d4 = insert_ledger_InrD [OF i4]
    and d5 = upsert_weight_InrD [OF i6] and d6 = insert_event_InrD [OF i7]
  have f: "feedback_subject (cr_user_hash request) (r_offer r) d = Some (uid, category)"
    using i5
    by (subst (asm) feedback_subject_frame [where d = d and P = "\<lambda>u. u_id u = userID" and
          f = "\<lambda>u. u\<lparr>u_balance := balance - r_cost r, u_updated := now\<rparr>"])
      (auto simp: d1(1) d2 d3(1) d4(1))
  then have uid: "uid = userID" using u by (rule feedback_subject_user)
  have "quantity > 0"
    using select_stock_row [OF s] d3(2) r by (force simp: d1(1) d2)
  moreover have "r_cost r > 0"
    using d1(6) d4(2) by (simp add: redemption_row_of_def debit_row_def)
  ultimately have "redeemable request now d userID balance (r_cost r)"
    using u n j a s q by (auto simp: redeemable_def)
  moreover have "d' = redeem request userID balance now category r
      (succeeded_event fmt eventID t request r) d"
    by (simp add: d1(1) d2 d3(1) d4(1) d5(1) d6(1) redeem_def uid)
  moreover have "user_exists d userID"
    using d1(4) by (simp add: redemption_row_of_def)
  ultimately show ?thesis
    unfolding fresh_redemption_def
    using r f d1(2,3) d5(2) d6(2)
    by (intro exI [of _ userID] exI [of _ balance] exI [of _ now] exI [of _ category]
        exI [of _ eventID] exI [of _ t])
      (auto simp: d1(1) d2 d3(1) d4(1) d5(1) uid redemption_row_of_def succeeded_event_def)
qed

lemma create_writes_wp:
  assumes d: "committed w = d" "working w = d"
    and u: "select_user (cr_user_hash request) d = Some (userID, balance)"
    and n: "\<not> exists_row (\<lambda>x. rd_user x = userID \<and> rd_key x = cr_key request) (redemptions d)"
    and j: "journey_of_user (cr_journey request) userID d"
    and a: "\<not> already_redeemed userID (cr_offer request) d"
    and "\<exists>quantity. select_stock (cr_offer request) (tx_now w) d = Some (quantity, cost)"
    and q: "cost \<le> balance"
  shows "wp (create_writes fmt request userID balance cost) e
    (settles e (fresh_redemption fmt request) d) w"
proof -
  from assms obtain quantity
    where s: "select_stock (cr_offer request) (tx_now w) d = Some (quantity, cost)" by blast
  let ?r = "\<lambda>rid code. \<lparr>r_id = rid, r_journey = cr_journey request, r_offer = cr_offer request,
    r_status = ''succeeded'', r_cost = cost, r_code = code\<rparr>"
  have made: "fresh_redemption fmt request d (?r rid code) d'"
    if "insert_redemption \<lparr>rd_id = rid, rd_user = userID, rd_journey = Some (cr_journey request),
          rd_offer = cr_offer request, rd_key = cr_key request, rd_status = ''succeeded'',
          rd_cost = cost, rd_code = Some code\<rparr> d = Inr d1"
      and "set_balance (balance - cost) userID (tx_now w) d1 = Inr d2"
      and "take_stock (cr_offer request) (tx_now w) d2 = Inr d3"
      and "insert_ledger \<lparr>le_user = userID, le_redemption = Some rid, le_delta = - cost,
          le_balance = balance - cost, le_reason = ''redemption''\<rparr> d3 = Inr d4"
      and "feedback_subject (cr_user_hash request) (cr_offer request) d4 = Some (uid, category)"
      and "upsert_weight uid category (3/2, 0, 0, 1) (tx_now w) d4 = Inr d5"
      and "insert_event (succeeded_event fmt eid t request (?r rid code)) (tx_now w) d5 = Inr d'"
    for rid code d1 d2 d3 d4 d5 d' uid category eid t
    using that s q
    by (intro statements_make_redemption [OF u n j a, where quantity = quantity
          and now = "tx_now w" and ?d1.0 = d1 and ?d2.0 = d2 and ?d3.0 = d3 and ?d4.0 = d4
          and ?d5.0 = d5])
      (simp_all add: redemption_row_of_def debit_row_def feedbackDelta_def feedback_topics)
  show ?thesis
    unfolding create_writes_def Let_def enqueueSucceededEvent_def
    by (auto simp: d feedback_redeemed intro!: wp_execTx wp_commitTx wp_Enqueue
        wp_ApplyPreferenceFeedback) (meson made)+
qed

lemma create_fresh_wp:
  assumes d: "committed w = d" "working w = d"
    and u: "select_user (cr_user_hash request) d = Some (userID, balance)"
    and n: "\<not> exists_row (\<lambda>x. rd_user x = userID \<and> rd_key x = cr_key request) (redemptions d)"
  shows "wp (create_fresh fmt request userID balance) e
    (settles e (fresh_redemption fmt request) d) w"
  unfolding create_fresh_def
  by (auto simp: d simp del: exists_row_iff intro!: wp_execTx create_writes_wp [OF _ _ u n])

lemma select_where_NoRows:
  "select_redemption_where P d = Inl NoRows \<longleftrightarrow> \<not> exists_row P (redemptions d)"
  by (auto simp: select_redemption_where_def scan_redemption_def bind_result_def row_or_none_def
      lookup_row_None_iff split: option.splits sum.splits dest!: lookup_row_SomeD)

lemma select_where_error:
  "select_redemption_where P d = Inl x \<Longrightarrow> errors_is x NoRows \<Longrightarrow> x = NoRows"
  by (auto simp: select_redemption_where_def scan_redemption_def bind_result_def row_or_none_def
       split: option.splits sum.splits)

lemma Create_wp:
  "wp (Create fmt s request) e (settles e (created fmt request) (committed w)) w"
proof -
  have replay: "created fmt request d r d"
    if "select_user (cr_user_hash request) d = Some (u, b)"
      and "select_redemption_where (\<lambda>x. rd_user x = u \<and> rd_key x = cr_key request) d = Inr r"
      and "r_journey r = cr_journey request" and "r_offer r = cr_offer request" for d u b r
    using that by (auto simp: created_def replayed_def select_redemption_where_def bind_result_Inr_iff)
  have fresh: "wp (create_fresh fmt request u b) e (settles e (created fmt request) d) w"
    if "committed w = d" "working w = d"
      and "select_user (cr_user_hash request) d = Some (u, b)"
      and "select_redemption_where (\<lambda>x. rd_user x = u \<and> rd_key x = cr_key request) d = Inl NoRows"
    for w :: store and d u b
    using that by (intro wp_mono [OF create_fresh_wp])
      (auto simp: created_def select_where_NoRows split: sum.splits)
  show ?thesis
    unfolding Create_def existingRedemption_def
    by (auto intro!: wp_beginTx wp_execTx wp_commitTx fresh simp del: exists_row_iff
        split: option.splits) ((drule (1) select_where_error, assumption) | (drule (3) replay, assumption))+
qed

subsection \<open>\<open>Verify\<close>\<close>

definition verified_now ::
  "time_format \<Rightarrow> verify_request \<Rightarrow> database \<Rightarrow> redemption \<Rightarrow> database \<Rightarrow> bool" where
  "verified_now fmt request d r d' \<longleftrightarrow> (\<exists>r0 h now eventID t.
     select_verification (vr_redemption request) d = Inr (r0, vr_merchant request, h)
     \<and> r_code r0 = vr_code request
     \<and> r_status r0 = ''succeeded'' \<and> r = r0\<lparr>r_status := ''verified''\<rparr>
     \<and> (\<forall>x\<in>set (outbox_events d). ob_id x \<noteq> eventID)
     \<and> d' = d\<lparr>redemptions := update_where (\<lambda>x. rd_id x = r_id r0)
                 (\<lambda>x. x\<lparr>rd_status := ''verified''\<rparr>) (redemptions d),
              outbox_events := outbox_events d @
                [queued (verified_event fmt eventID t request r h) now]\<rparr>)"

definition verified_before :: "verify_request \<Rightarrow> database \<Rightarrow> redemption \<Rightarrow> bool" where
  "verified_before request d r \<longleftrightarrow> (\<exists>h.
     select_verification (vr_redemption request) d = Inr (r, vr_merchant request, h)
     \<and> r_code r = vr_code request \<and> r_status r = ''verified'')"

definition verified ::
  "time_format \<Rightarrow> verify_request \<Rightarrow> database \<Rightarrow> redemption \<Rightarrow> database \<Rightarrow> bool" where
  "verified fmt request d r d' \<longleftrightarrow>
     verified_now fmt request d r d' \<or> (d' = d \<and> verified_before request d r)"

lemma Verify_wp:
  "wp (Verify fmt s request) e (settles e (verified fmt request) (committed w)) w"
proof -
  have made: "verified fmt request d (r\<lparr>r_status := ''verified''\<rparr>) d'"
    if "select_verification (vr_redemption request) d = Inr (r, vr_merchant request, h)"
      and "r_code r = vr_code request" and "r_status r = ''succeeded''"
      and "set_verified (r_id r) now d = Inr d1"
      and "insert_event (verified_event fmt eid t request (r\<lparr>r_status := ''verified''\<rparr>) h) now d1
             = Inr d'" for d r h now d1 eid t d'
    unfolding verified_def verified_now_def using that(1-4) insert_event_InrD [OF that(5)]
    by (intro disjI1 exI [of _ r] exI [of _ h] exI [of _ now] exI [of _ eid] exI [of _ t])
      (auto simp: set_verified_def verified_event_def)
  have again: "verified fmt request d r d"
    if "select_verification (vr_redemption request) d = Inr (r, vr_merchant request, h)"
      and "r_code r = vr_code request" and "r_status r = ''verified''" for d r h
    using that by (auto simp: verified_def verified_before_def)
  show ?thesis
    unfolding Verify_def enqueueVerifiedEvent_def Let_def
    by (auto intro!: wp_beginTx wp_execTx wp_commitTx wp_Enqueue) ((drule (4) made, blast) | (drule (2) again, blast))+
qed

interpretation create: tx_handler "Create fmt s request" "created fmt request"
  for fmt s request
  by unfold_locales (rule Create_wp)

interpretation verify: tx_handler "Verify fmt s request" "verified fmt request"
  for fmt s request
  by unfold_locales (rule Verify_wp)

end
