(* ===== verification/RedemptionBooks.thy ===== *)
theory RedemptionBooks
  imports RedemptionSpec
begin

text \<open>
  The books of the points economy: balances against the ledger, stock, one debit per redemption,
  one redemption per user and offer. Every complete run of \<open>Create\<close> and \<open>Verify\<close> keeps them.
\<close>

subsection \<open>The running balance of the ledger\<close>

definition running_balances :: "ledger_row list \<Rightarrow> bool" where
  "running_balances L \<longleftrightarrow> (\<forall>k<length L. le_balance (L ! k) =
     sum_where (\<lambda>l. le_user l = le_user (L ! k)) le_delta (take (Suc k) L))"

lemma running_balances_Nil [simp]: "running_balances []"
  by (simp add: running_balances_def)

lemma running_balances_snoc:
  "running_balances (L @ [l]) \<longleftrightarrow>
     running_balances L \<and> le_balance l = sum_where (\<lambda>x. le_user x = le_user l) le_delta (L @ [l])"
  by (auto simp: running_balances_def nth_append less_Suc_eq)

subsection \<open>The books\<close>

text \<open>
  \<open>books_ok\<close>: every balance is non-negative and the sum of the user's ledger entries; the ledger's
  running balances are right; every entry belongs to a user and, where it names a redemption, to
  one; stock is non-negative; a redemption is debited exactly once, at its cost; no user has two
  counted redemptions of an offer, nor two redemptions under one idempotency key.
\<close>

definition balances_ok :: "database \<Rightarrow> bool" where
  "balances_ok d \<longleftrightarrow>
     unique_by u_id (users d) \<and> unique_by u_hash (users d)
     \<and> (\<forall>u\<in>set (users d). 0 \<le> u_balance u
          \<and> u_balance u = sum_where (\<lambda>l. le_user l = u_id u) le_delta (points_ledger d))
     \<and> running_balances (points_ledger d)
     \<and> (\<forall>l\<in>set (points_ledger d). user_exists d (le_user l))"

definition stock_ok :: "database \<Rightarrow> bool" where
  "stock_ok d \<longleftrightarrow> unique_by inv_offer (inventory d) \<and> (\<forall>i\<in>set (inventory d). 0 \<le> inv_quantity i)"

definition debits_ok :: "database \<Rightarrow> bool" where
  "debits_ok d \<longleftrightarrow>
     unique_by rd_id (redemptions d)
     \<and> (\<forall>l\<in>set (points_ledger d). \<forall>r. le_redemption l = Some r \<longrightarrow>
          exists_row (\<lambda>x. rd_id x = r) (redemptions d))
     \<and> (\<forall>x\<in>set (redemptions d). counted x \<longrightarrow>
          map le_delta (filter (\<lambda>l. le_redemption l = Some (rd_id x)) (points_ledger d)) = [- rd_cost x])"

definition once_ok :: "database \<Rightarrow> bool" where
  "once_ok d \<longleftrightarrow>
     unique_by (\<lambda>x. (rd_user x, rd_key x)) (redemptions d)
     \<and> unique_by (\<lambda>x. (rd_user x, rd_offer x)) (filter counted (redemptions d))"

definition books_ok :: "database \<Rightarrow> bool" where
  "books_ok d \<longleftrightarrow> balances_ok d \<and> stock_ok d \<and> debits_ok d \<and> once_ok d"

lemma redeem_user_exists:
  "user_exists (redeem request userID balance now category r ev d) u \<longleftrightarrow> user_exists d u"
  by (simp add: redeem_def user_exists_def bex_update_where)

lemma fresh_balances_ok:
  assumes ok: "balances_ok d" and fresh: "fresh_redemption fmt request d r d'"
  shows "balances_ok d'"
proof -
  from fresh obtain userID balance now category eventID t where
    red: "redeemable request now d userID balance (r_cost r)" and
    d': "d' = redeem request userID balance now category r
           (succeeded_event fmt eventID t request r) d" and ex: "user_exists d userID"
    by (auto simp: fresh_redemption_def)
  from red obtain u where u: "u \<in> set (users d)" "u_id u = userID" "u_balance u = balance"
    by (auto simp: redeemable_def select_user_def dest!: lookup_row_SomeD)
  let ?f = "\<lambda>u. u\<lparr>u_balance := balance - r_cost r, u_updated := now\<rparr>"
  let ?row = "debit_row userID (balance - r_cost r) r"
  have bal: "balance = sum_where (\<lambda>l. le_user l = userID) le_delta (points_ledger d)"
    using ok u by (auto simp: balances_ok_def)
  have sums: "0 \<le> u_balance v \<and> u_balance v =
      sum_where (\<lambda>l. le_user l = u_id v) le_delta (points_ledger d @ [?row])"
    if "v \<in> set (update_where (\<lambda>u. u_id u = userID) ?f (users d))" for v
    using that ok red bal
    by (auto simp: in_update_where balances_ok_def debit_row_def redeemable_def)
  have run: "running_balances (points_ledger d @ [?row])"
    using ok bal by (simp add: running_balances_snoc balances_ok_def debit_row_def)
  have who: "user_exists d' u" if "user_exists d u" for u
    using that by (simp add: d' redeem_user_exists)
  have L: "points_ledger d' = points_ledger d @ [?row]"
    and U: "users d' = update_where (\<lambda>u. u_id u = userID) ?f (users d)"
    by (simp_all add: d' redeem_def)
  have "\<forall>l\<in>set (points_ledger d'). user_exists d' (le_user l)"
    using ok ex who by (auto simp: L balances_ok_def debit_row_def)
  moreover have "unique_by u_id (users d')" "unique_by u_hash (users d')"
    using ok by (simp_all add: U unique_by_update_where balances_ok_def)
  moreover have "running_balances (points_ledger d')" using run by (simp add: L)
  moreover have "\<forall>v\<in>set (users d'). 0 \<le> u_balance v
      \<and> u_balance v = sum_where (\<lambda>l. le_user l = u_id v) le_delta (points_ledger d')"
    using sums unfolding U L by blast
  ultimately show ?thesis unfolding balances_ok_def by blast
qed

lemma fresh_stock_ok:
  assumes ok: "stock_ok d" and fresh: "fresh_redemption fmt request d r d'"
  shows "stock_ok d'"
proof -
  from fresh obtain userID balance now category eventID t quantity where
    d': "d' = redeem request userID balance now category r
           (succeeded_event fmt eventID t request r) d" and
    s: "select_stock (r_offer r) now d = Some (quantity, r_cost r)" "quantity > 0"
    by (auto simp: fresh_redemption_def redeemable_def)
  from select_stock_row [OF s(1)] obtain i where
    i: "i \<in> set (inventory d)" "inv_offer i = r_offer r" "inv_quantity i = quantity" by blast
  have "0 < inv_quantity j" if "j \<in> set (inventory d)" "inv_offer j = r_offer r" for j
    using that i s ok by (metis stock_ok_def unique_byD)
  with ok show ?thesis
    by (fastforce simp: stock_ok_def d' redeem_def unique_by_update_where in_update_where)
qed

lemma fresh_debits_ok:
  assumes ok: "debits_ok d" and fresh: "fresh_redemption fmt request d r d'"
  shows "debits_ok d'"
proof -
  from fresh obtain userID balance now category eventID t where
    new: "\<forall>x\<in>set (redemptions d). rd_id x \<noteq> r_id r" and
    d': "d' = redeem request userID balance now category r
           (succeeded_event fmt eventID t request r) d"
    by (auto simp: fresh_redemption_def)
  have none: "filter (\<lambda>l. le_redemption l = Some (r_id r)) (points_ledger d) = []"
    using ok new by (force simp: debits_ok_def filter_empty_conv)
  with ok new show ?thesis
    by (auto simp: debits_ok_def d' redeem_def redemption_row_of_def debit_row_def)
qed

lemma fresh_once_ok:
  assumes ok: "once_ok d" and fresh: "fresh_redemption fmt request d r d'"
  shows "once_ok d'"
proof -
  from fresh obtain userID balance now category eventID t where
    red: "redeemable request now d userID balance (r_cost r)" "r_offer r = cr_offer request" and
    d': "d' = redeem request userID balance now category r
           (succeeded_event fmt eventID t request r) d"
    by (auto simp: fresh_redemption_def)
  from ok red show ?thesis
    by (auto simp: once_ok_def d' redeem_def redemption_row_of_def redeemable_def already_redeemed_def)
qed

lemma created_books_ok:
  "books_ok d \<Longrightarrow> created fmt request d r d' \<Longrightarrow> books_ok d'"
  by (auto simp: created_def books_ok_def intro: fresh_balances_ok fresh_stock_ok
      fresh_debits_ok fresh_once_ok)

lemma verified_now_row:
  assumes "select_verification rid d = Inr (r0, m, h)"
  shows "\<exists>x\<in>set (redemptions d). rd_id x = rid \<and> r_id r0 = rid \<and> rd_status x = r_status r0"
  using assms
  by (auto simp: select_verification_def bind_result_Inr_iff scan_redemption_Inr
      dest!: lookup_row_SomeD)

lemma verified_books_ok:
  assumes ok: "books_ok d" and v: "verified fmt request d r d'"
  shows "books_ok d'"
proof (cases "d' = d")
  case True
  with ok show ?thesis by simp
next
  case False
  with v obtain r0 h now eventID t where
    sel: "select_verification (vr_redemption request) d = Inr (r0, vr_merchant request, h)"
      "r_status r0 = ''succeeded''" and
    d': "d' = d\<lparr>redemptions := update_where (\<lambda>x. rd_id x = r_id r0)
                 (\<lambda>x. x\<lparr>rd_status := ''verified''\<rparr>) (redemptions d),
              outbox_events := outbox_events d @
                [queued (verified_event fmt eventID t request r h) now]\<rparr>"
    by (auto simp: verified_def verified_now_def)
  let ?U = "update_where (\<lambda>x. rd_id x = r_id r0) (\<lambda>x. x\<lparr>rd_status := ''verified''\<rparr>)"
  from verified_now_row [OF sel(1)] obtain x where
    x: "x \<in> set (redemptions d)" "rd_id x = r_id r0" "rd_status x = ''succeeded''"
    using sel(2) by auto
  have same: "rd_id y = r_id r0 \<Longrightarrow> y \<in> set (redemptions d) \<Longrightarrow> counted y" for y
    using x ok unfolding books_ok_def debits_ok_def by (metis unique_byD counted_def)
  have filt: "filter counted (?U (redemptions d)) = ?U (filter counted (redemptions d))"
    using same by (intro filter_update_where) (simp_all add: counted_def)
  have rows: "points_ledger d' = points_ledger d" "users d' = users d" "inventory d' = inventory d"
      "redemptions d' = ?U (redemptions d)"
    by (simp_all add: d')
  have "debits_ok d'" unfolding debits_ok_def
  proof (intro conjI ballI allI impI)
    show "unique_by rd_id (redemptions d')"
      using ok by (simp add: rows unique_by_update_where books_ok_def debits_ok_def)
    fix l rid assume "l \<in> set (points_ledger d')" and "le_redemption l = Some rid"
    with ok obtain y where "y \<in> set (redemptions d)" "rd_id y = rid"
      by (force simp: rows books_ok_def debits_ok_def)
    then show "exists_row (\<lambda>x. rd_id x = rid) (redemptions d')"
      by (auto simp: rows bex_update_where)
  next
    fix y assume "y \<in> set (redemptions d')" and "counted y"
    then obtain z where "z \<in> set (redemptions d)" "rd_id z = rd_id y" "rd_cost z = rd_cost y"
      "counted z"
      using same by (auto simp: rows in_update_where)
    then show "map le_delta (filter (\<lambda>l. le_redemption l = Some (rd_id y)) (points_ledger d'))
        = [- rd_cost y]"
      using ok by (metis rows(1) books_ok_def debits_ok_def)
  qed
  moreover have "balances_ok d' = balances_ok d" "stock_ok d' = stock_ok d"
    by (simp_all add: balances_ok_def stock_ok_def rows user_exists_def)
  moreover have "once_ok d'"
    using ok by (simp add: books_ok_def once_ok_def rows filt unique_by_update_where)
  ultimately show ?thesis using ok by (simp add: books_ok_def)
qed

end
