(* ===== verification/RedemptionRuns.thy ===== *)
theory RedemptionRuns
  imports RedemptionBooks
begin

text \<open>
  What clients of the redemption service see: what a repeated request does, when a request
  succeeds, what it leaves of the stock, and the life of a redemption up to its verification.
\<close>

subsection \<open>Repeated requests\<close>

lemma redeem_select_user:
  "select_user h d = Some (userID, balance) \<Longrightarrow>
   select_user h (redeem request userID balance now category r ev d) = Some (userID, balance - r_cost r)"
  by (auto simp: select_user_def redeem_def lookup_update_where)

text \<open>After a redemption, its request finds it again.\<close>

lemma fresh_then_replayed:
  assumes fresh: "fresh_redemption fmt request d r d'"
  shows "\<exists>userID balance x. select_user (cr_user_hash request) d' = Some (userID, balance)
    \<and> lookup_row (\<lambda>x. rd_user x = userID \<and> rd_key x = cr_key request) (redemptions d') = Some x
    \<and> scan_redemption x = Inr r"
proof -
  from fresh obtain userID balance now category eventID t where
    red: "redeemable request now d userID balance (r_cost r)" and
    d': "d' = redeem request userID balance now category r
           (succeeded_event fmt eventID t request r) d"
    by (auto simp: fresh_redemption_def)
  from red have "select_user (cr_user_hash request) d' = Some (userID, balance - r_cost r)"
    by (simp add: d' redeemable_def redeem_select_user)
  moreover from red have
    "lookup_row (\<lambda>x. rd_user x = userID \<and> rd_key x = cr_key request) (redemptions d') =
       Some (redemption_row_of request userID r)"
    by (auto simp: d' redeem_def redeemable_def lookup_row_append lookup_row_Cons
        lookup_row_None_iff redemption_row_of_def split: option.splits dest!: lookup_row_SomeD)
  ultimately show ?thesis
    by (auto simp: scan_redemption_Inr redemption_row_of_def)
qed

lemma replayed_unique:
  assumes "select_user (cr_user_hash request) d = Some (userID, balance)"
    and "lookup_row (\<lambda>x. rd_user x = userID \<and> rd_key x = cr_key request) (redemptions d) = Some x"
    and "scan_redemption x = Inr r" and "created fmt request d r' d'"
  shows "d' = d" and "r' = r"
proof -
  have "\<not> fresh_redemption fmt request d r' d'"
    using assms(1,2)
    by (auto simp: fresh_redemption_def redeemable_def dest!: lookup_row_SomeD)
  with assms show "d' = d" "r' = r"
    by (auto simp: created_def replayed_def)
qed

lemma fresh_once:
  assumes "fresh_redemption fmt request d r d'" and "created fmt request d' r' d''"
  shows "d'' = d' \<and> r' = r"
  using fresh_then_replayed [OF assms(1)] replayed_unique [OF _ _ _ assms(2)] by blast

lemma replayed_not_fresh: "replayed request d r \<Longrightarrow> \<not> fresh_redemption fmt request d r' d'"
  by (auto simp: replayed_def fresh_redemption_def redeemable_def dest!: lookup_row_SomeD)

interpretation create_once: idempotent_handler "Create fmt s request" "created fmt request"
  "fresh_redemption fmt request" "replayed request" "\<lambda>a b. b = a"
  for fmt s request
  by unfold_locales (auto simp: created_def dest: fresh_once replayed_not_fresh)

subsection \<open>Runs without outages\<close>

definition complete_request :: "redemption_service option \<Rightarrow> create_request \<Rightarrow> bool" where
  "complete_request s request \<longleftrightarrow> \<not> no_service s \<and> cr_user_hash request \<noteq> []
     \<and> cr_journey request \<noteq> [] \<and> cr_offer request \<noteq> [] \<and> cr_key request \<noteq> []
     \<and> cr_trace request \<noteq> []"


lemma Create_replays:
  assumes "complete_request s request" and "calm e"
    and "select_user (cr_user_hash request) (committed w) = Some (userID, balance)"
    and "lookup_row (\<lambda>x. rd_user x = userID \<and> rd_key x = cr_key request)
           (redemptions (committed w)) = Some x"
    and "scan_redemption x = Inr r"
    and "r_journey r = cr_journey request" and "r_offer r = cr_offer request"
  shows "fst (Create fmt s request e w) = Inr r"
    and "committed (snd (Create fmt s request e w)) = committed w"
  using assms
  by (simp_all add: Create_def complete_request_def existingRedemption_def calm_simps reads_def
      select_redemption_where_def row_or_none_def)

lemma Create_conflicts:
  assumes "complete_request s request" and "calm e"
    and "select_user (cr_user_hash request) (committed w) = Some (userID, balance)"
    and "lookup_row (\<lambda>x. rd_user x = userID \<and> rd_key x = cr_key request)
           (redemptions (committed w)) = Some x"
    and "scan_redemption x = Inr r"
    and "r_journey r \<noteq> cr_journey request \<or> r_offer r \<noteq> cr_offer request"
  shows "fst (Create fmt s request e w) = Inl (Redemption_err IdempotencyKeyConflict)"
    and "committed (snd (Create fmt s request e w)) = committed w"
  using assms
  by (auto simp add: Create_def complete_request_def existingRedemption_def calm_simps reads_def
      select_redemption_where_def row_or_none_def)

text \<open>Column ranges: no counter is at the end of its type.\<close>

definition counters_have_room :: "database \<Rightarrow> bool" where
  "counters_have_room d \<longleftrightarrow>
     (\<forall>r\<in>set (preference_weights d). weight_row_ok r \<and> w_redemptions r < 2 ^ 31 - 1)
     \<and> (\<forall>i\<in>set (inventory d). int64_range (inv_version i) \<and> inv_version i < 2 ^ 63 - 1)
     \<and> (\<forall>x\<in>set (offers d). list_ex (\<lambda>c. c \<noteq> CHR '' '') (of_category x))
     \<and> unique_by inv_offer (inventory d)"

lemma clamp_weight_range: "- 5 \<le> clamp_weight x \<and> clamp_weight x \<le> 5"
  by (simp add: clamp_weight_def)

lemma upsert_redeemed:
  assumes "\<forall>r\<in>set (preference_weights d). weight_row_ok r \<and> w_redemptions r < 2 ^ 31 - 1"
    and "user_exists d uid" and "list_ex (\<lambda>c. c \<noteq> CHR '' '') c"
  shows "\<exists>rows. upsert_weight uid c (3/2, 0, 0, 1) now d = Inr (d\<lparr>preference_weights := rows\<rparr>)"
proof -
  have "\<forall>r\<in>set (merge_weight uid c (3/2, 0, 0, 1) (preference_weights d)).
      w_user r = uid \<and> w_category r = c \<longrightarrow> weight_row_ok r"
    using assms(1) clamp_weight_range
    by (auto simp: merge_weight_def Let_def in_update_where bump_weight_def weight_row_ok_def
        counters_have_room_def int32_range_def)
  with assms(2,3) show ?thesis
    by (intro exI [of _ "merge_weight uid c (3/2, 0, 0, 1) (preference_weights d)"])
      (simp add: upsert_weight_def Let_def constrained_holds)
qed

definition new_ids :: "env \<Rightarrow> store \<Rightarrow> bool" where
  "new_ids e w \<longleftrightarrow>
     (\<forall>x\<in>set (redemptions (committed w)). rd_id x \<noteq> uuid_at e (Suc (draws w))
        \<and> rd_code x \<noteq> Some (uuid_at e (Suc (Suc (draws w)))))
     \<and> (\<forall>x\<in>set (outbox_events (committed w)). ob_id x \<noteq> uuid_at e (Suc (Suc (Suc (draws w)))))
     \<and> uuid_at e (Suc (Suc (Suc (draws w)))) \<noteq> []"

lemma select_user_hash:
  "select_user h d = Some (uid, b) \<Longrightarrow> user_exists d uid"
  by (auto simp: select_user_def user_exists_def dest!: lookup_row_SomeD)

lemma feedback_subject_found:
  assumes "select_user h d = Some (uid, b)" and "select_stock x now d = Some (q, c)"
  shows "\<exists>row\<in>set (offers d). feedback_subject h x d = Some (uid, of_category row)"
  using assms
  by (auto simp: select_user_def select_stock_def feedback_subject_def lookup_row_None_iff
      split: option.splits dest!: lookup_row_SomeD)

lemma take_stock_holds:
  assumes "\<forall>i\<in>set (inventory d). inv_offer i = x \<longrightarrow>
      0 < inv_quantity i \<and> int64_range (inv_version i + 1)"
  shows "take_stock x now d = Inr (d\<lparr>inventory := update_where (\<lambda>i. inv_offer i = x)
    (\<lambda>i. i\<lparr>inv_quantity := inv_quantity i - 1, inv_version := inv_version i + 1\<rparr>)
    (inventory d)\<rparr>)"
proof -
  let ?f = "\<lambda>i. i\<lparr>inv_quantity := inv_quantity i - 1, inv_version := inv_version i + 1\<rparr>"
  have "0 \<le> inv_quantity k \<and> int64_range (inv_version k)"
    if "k \<in> set (update_where (\<lambda>i. inv_offer i = x) ?f (inventory d))" "inv_offer k = x" for k
  proof -
    from that obtain m where "m \<in> set (inventory d)" "inv_offer m = x" "k = ?f m"
      unfolding in_update_where by (elim disjE bexE conjE) simp_all
    with assms show ?thesis by fastforce
  qed
  then show ?thesis unfolding take_stock_def Let_def by (intro constrained_holds) simp
qed

lemma Create_redeems:
  assumes req: "complete_request s request" and "calm e"
    and red: "redeemable request (clock_at e (draws w)) (committed w) userID balance cost"
    and room: "counters_have_room (committed w)" and ids: "new_ids e w"
  shows "\<exists>r. fst (Create fmt s request e w) = Inr r \<and> r_cost r = cost"
proof -
  let ?d = "committed w"
  let ?now = "clock_at e (draws w)"
  let ?rid = "uuid_at e (Suc (draws w))" and ?code = "uuid_at e (Suc (Suc (draws w)))"
  from red obtain quantity where
    u: "select_user (cr_user_hash request) ?d = Some (userID, balance)" and
    n: "\<not> exists_row (\<lambda>x. rd_user x = userID \<and> rd_key x = cr_key request) (redemptions ?d)" and
    j: "journey_of_user (cr_journey request) userID ?d" and
    a: "\<not> already_redeemed userID (cr_offer request) ?d" and
    s: "select_stock (cr_offer request) ?now ?d = Some (quantity, cost)" "quantity > 0" and
    c: "0 < cost" "cost \<le> balance"
    by (auto simp: redeemable_def)
  define d1 where "d1 = ?d\<lparr>redemptions := redemptions ?d @ [\<lparr>rd_id = ?rid, rd_user = userID,
    rd_journey = Some (cr_journey request), rd_offer = cr_offer request, rd_key = cr_key request,
    rd_status = ''succeeded'', rd_cost = cost, rd_code = Some ?code\<rparr>]\<rparr>"
  have i1: "insert_redemption \<lparr>rd_id = ?rid, rd_user = userID,
      rd_journey = Some (cr_journey request), rd_offer = cr_offer request, rd_key = cr_key request,
      rd_status = ''succeeded'', rd_cost = cost, rd_code = Some ?code\<rparr> ?d = Inr d1"
    using n j a s ids req c select_user_hash [OF u]
    by (auto simp: insert_redemption_def d1_def new_ids_def journey_of_user_def journey_exists_def
        complete_request_def already_redeemed_def select_stock_def offer_exists_def
        split: option.splits dest!: lookup_row_SomeD)
  define d2 where "d2 = d1\<lparr>users := update_where (\<lambda>u. u_id u = userID)
    (\<lambda>u. u\<lparr>u_balance := balance - cost, u_updated := ?now\<rparr>) (users d1)\<rparr>"
  have i2: "set_balance (balance - cost) userID ?now d1 = Inr d2"
    using c by (simp add: set_balance_def d2_def)
  define d3 where "d3 = d2\<lparr>inventory := update_where (\<lambda>i. inv_offer i = cr_offer request)
    (\<lambda>i. i\<lparr>inv_quantity := inv_quantity i - 1, inv_version := inv_version i + 1\<rparr>)
    (inventory d2)\<rparr>"
  obtain i where i: "i \<in> set (inventory ?d)" "inv_offer i = cr_offer request" "inv_quantity i = quantity"
    using select_stock_row [OF s(1)] by blast
  then have only: "k = i" if "k \<in> set (inventory ?d)" "inv_offer k = cr_offer request" for k
    using that room by (metis counters_have_room_def unique_byD)
  have "\<forall>i\<in>set (inventory ?d). int64_range (inv_version i + 1)"
    using room by (auto simp: counters_have_room_def int64_range_def)
  then have i3: "take_stock (cr_offer request) ?now d2 = Inr d3"
    using i(3) only s(2) unfolding d3_def by (intro take_stock_holds) (auto simp: d2_def d1_def)
  define d4 where "d4 = d3\<lparr>points_ledger := points_ledger d3 @ [\<lparr>le_user = userID,
    le_redemption = Some ?rid, le_delta = - cost, le_balance = balance - cost,
    le_reason = ''redemption''\<rparr>]\<rparr>"
  have i4: "insert_ledger \<lparr>le_user = userID, le_redemption = Some ?rid, le_delta = - cost,
      le_balance = balance - cost, le_reason = ''redemption''\<rparr> d3 = Inr d4"
    using c select_user_hash [OF u]
    by (simp add: insert_ledger_def d4_def d3_def d2_def d1_def user_exists_def bex_update_where)
  obtain row where row: "row \<in> set (offers ?d)"
    and f: "feedback_subject (cr_user_hash request) (cr_offer request) ?d = Some (userID, of_category row)"
    using feedback_subject_found [OF u s(1)] by blast
  have i5: "feedback_subject (cr_user_hash request) (cr_offer request) d4
      = Some (userID, of_category row)"
    using f by (subst feedback_subject_frame [where d = ?d and P = "\<lambda>u. u_id u = userID"
        and f = "\<lambda>u. u\<lparr>u_balance := balance - cost, u_updated := ?now\<rparr>"]) (auto simp: d4_def d3_def d2_def d1_def)
  have ex4: "user_exists d4 userID"
    using select_user_hash [OF u]
    by (simp add: d4_def d3_def d2_def d1_def user_exists_def bex_update_where)
  have "preference_weights d4 = preference_weights ?d"
    by (simp add: d4_def d3_def d2_def d1_def)
  with room row ex4 obtain rows where
    i6: "upsert_weight userID (of_category row) (3/2, 0, 0, 1) ?now d4
      = Inr (d4\<lparr>preference_weights := rows\<rparr>)"
    using upsert_redeemed [of d4 userID "of_category row" ?now] unfolding counters_have_room_def
    by metis
  have i7: "insert_event (succeeded_event fmt (uuid_at e (Suc (Suc (Suc (draws w))))) t request r)
      now (d4\<lparr>preference_weights := rows\<rparr>) = Inr (d4\<lparr>preference_weights := rows,
        outbox_events := outbox_events d4 @
          [queued (succeeded_event fmt (uuid_at e (Suc (Suc (Suc (draws w))))) t request r) now]\<rparr>)"
    for t r now
    using ids by (simp add: insert_event_def succeeded_event_def insert_outbox_def event_row_def
        queued_def new_ids_def d4_def d3_def d2_def d1_def constrained_holds)
  have guard: "ev_id (succeeded_event fmt (uuid_at e (Suc (Suc (Suc (draws w))))) t request r) \<noteq> []"
    "ev_topic (succeeded_event fmt i t request r) \<noteq> []"
    "ev_key (succeeded_event fmt i t request r) \<noteq> []"
    "ev_payload (succeeded_event fmt i t request r) \<noteq> RawEmpty"
    "json_valid (ev_payload (succeeded_event fmt i t request r))" for t r i
    using ids req by (simp_all add: succeeded_event_def new_ids_def complete_request_def)
  have none: "lookup_row (\<lambda>x. rd_user x = userID \<and> rd_key x = cr_key request) (redemptions ?d) = None"
    using n by (simp add: lookup_row_None_iff)
  show ?thesis
    using req u none j a s c i1 i2 i3 i4 i5 i6 i7 guard \<open>calm e\<close>
    apply (simp add: Create_def complete_request_def existingRedemption_def run_simps reads_def row_or_none_def
      select_redemption_where_def create_fresh_def create_writes_def
      ApplyPreferenceFeedback_def feedback_redeemed enqueueSucceededEvent_def Enqueue_def
      writes_def Let_def)
    done
qed


subsection \<open>Stock\<close>

definition stock_units :: "string \<Rightarrow> database \<Rightarrow> int" where
  "stock_units x d = sum_where (\<lambda>i. inv_offer i = x) inv_quantity (inventory d)
     + int (length (filter (\<lambda>r. counted r \<and> rd_offer r = x) (redemptions d)))"

lemma sum_where_update_other:
  assumes "\<And>i. P i \<Longrightarrow> \<not> Q i" and "\<And>i. P i \<Longrightarrow> \<not> Q (f i)"
  shows "sum_where Q v (update_where P f rows) = sum_where Q v rows"
  using assms by (induction rows) (auto simp: sum_where_def update_where_def)

lemma sum_where_update_unique:
  assumes "unique_by k rows" and "i \<in> set rows" and "k i = x" and "\<And>i. k (f i) = k i"
    and "\<And>i. v (f i) = v i - 1"
  shows "sum_where (\<lambda>i. k i = x) v (update_where (\<lambda>i. k i = x) f rows)
    = sum_where (\<lambda>i. k i = x) v rows - (1::int)"
  using assms
proof (induction rows)
  case (Cons a rows)
  show ?case
  proof (cases "k a = x")
    case True
    with Cons.prems have "\<And>r. r \<in> set rows \<Longrightarrow> k r \<noteq> x" by auto
    then have "update_where (\<lambda>i. k i = x) f rows = rows" and "filter (\<lambda>i. k i = x) rows = []"
      by (auto intro: update_where_none simp: filter_empty_conv)
    with True Cons.prems show ?thesis by (simp add: sum_where_def update_where_def)
  next
    case False
    with Cons show ?thesis by (auto simp: sum_where_def update_where_def)
  qed
qed simp

lemma fresh_stock_units:
  assumes ok: "stock_ok d" and fresh: "fresh_redemption fmt request d r d'"
  shows "stock_units x d' = stock_units x d"
proof -
  from fresh obtain userID balance now category eventID t quantity where
    st: "r_status r = ''succeeded''" and
    d': "d' = redeem request userID balance now category r
           (succeeded_event fmt eventID t request r) d" and
    s: "select_stock (r_offer r) now d = Some (quantity, r_cost r)"
    by (auto simp: fresh_redemption_def redeemable_def)
  from select_stock_row [OF s] obtain i where
    i: "i \<in> set (inventory d)" "inv_offer i = r_offer r" by blast
  have u: "unique_by inv_offer (inventory d)" using ok by (simp add: stock_ok_def)
  show ?thesis
  proof (cases "x = r_offer r")
    case True
    with sum_where_update_unique [OF u i(1), where x = x and v = inv_quantity
        and f = "\<lambda>i. i\<lparr>inv_quantity := inv_quantity i - 1, inv_version := inv_version i + 1\<rparr>"] i st
    show ?thesis
      by (simp add: stock_units_def d' redeem_def redemption_row_of_def counted_def)
  next
    case False
    then show ?thesis
      by (auto simp: stock_units_def d' redeem_def redemption_row_of_def
          intro!: sum_where_update_other)
  qed
qed

subsection \<open>The life of a redemption\<close>

lemma verified_now_found:
  assumes v: "verified_now fmt request d r d'"
  shows "\<exists>m h. select_verification (vr_redemption request) d' = Inr (r, m, h)"
proof -
  from v obtain r0 h now eventID t where
    sel: "select_verification (vr_redemption request) d = Inr (r0, vr_merchant request, h)" and
    r: "r = r0\<lparr>r_status := ''verified''\<rparr>" and
    d': "d' = d\<lparr>redemptions := update_where (\<lambda>x. rd_id x = r_id r0)
                 (\<lambda>x. x\<lparr>rd_status := ''verified''\<rparr>) (redemptions d),
              outbox_events := outbox_events d @
                [queued (verified_event fmt eventID t request r h) now]\<rparr>"
    by (auto simp: verified_now_def)
  from sel obtain x where x: "lookup_row (\<lambda>x. rd_id x = vr_redemption request) (redemptions d) = Some x"
     and sc: "scan_redemption x = Inr r0"
    by (auto simp: select_verification_def bind_result_Inr_iff)
  then have "rd_id x = r_id r0" by (simp add: scan_redemption_Inr)
  moreover have "scan_redemption (x\<lparr>rd_status := ''verified''\<rparr>) = Inr r"
    using sc r by (simp add: scan_redemption_Inr)
  ultimately show ?thesis
    using sel x sc
    by (auto simp: select_verification_def bind_result_Inr_iff d' lookup_update_where)
qed

lemma verified_now_status:
  "verified_now fmt request d r d' \<Longrightarrow> r_status r = ''verified''"
  by (auto simp: verified_now_def)

lemma verified_twice:
  assumes "verified_now fmt request d r d'" and "verified fmt request d' r' d''"
  shows "d'' = d' \<and> r' = r"
proof -
  obtain m h where sel: "select_verification (vr_redemption request) d' = Inr (r, m, h)"
    using verified_now_found [OF assms(1)] by blast
  with assms(2) verified_now_status [OF assms(1)] show ?thesis
    by (auto simp: verified_def verified_before_def verified_now_def)
qed

interpretation verify_once: idempotent_handler "Verify fmt s request" "verified fmt request"
  "verified_now fmt request" "verified_before request" "\<lambda>a b. b = a"
  for fmt s request
proof
  show "verified_before request d a \<Longrightarrow> \<not> verified_now fmt request d a' d'" for d a a' d'
    by (auto simp: verified_before_def verified_now_def)
qed (auto simp: verified_def dest: verified_twice)

end
