(* ===== verification/RedemptionTheorems.thy ===== *)
theory RedemptionTheorems
  imports RedemptionRuns Demo
begin

text \<open>
  The correctness statements of \<open>internal/redemption/service.go\<close>, each followed by an evaluation
  on the demo database.
\<close>

definition demo_fmt :: time_format where
  "demo_fmt t = ''2026-01-02T03:04:05Z''"

definition demo_service :: "redemption_service option" where
  "demo_service = Some \<lparr>rs_db = Handle\<rparr>"

definition demo_request :: "string \<Rightarrow> create_request" where
  "demo_request offer = \<lparr>cr_user_hash = demo_hash, cr_journey = ''j1'', cr_offer = offer,
     cr_key = ''k1'', cr_trace = ''t1''\<rparr>"

definition demo_verify :: verify_request where
  "demo_verify = \<lparr>vr_redemption = ''xx'', vr_merchant = ''m1'', vr_code = ''xxx'',
     vr_trace = ''t2''\<rparr>"

lemma demo_books: "books_ok demo_db"
  by (simp add: books_ok_def balances_ok_def stock_ok_def debits_ok_def once_ok_def
      running_balances_def exists_defs sum_where_def demo_defs)

text \<open>The database after the demo request was redeemed.\<close>

definition demo_redeemed :: database where
  "demo_redeemed = committed (snd (Create demo_fmt demo_service (demo_request ''paid'') calm_env
     (demo_world demo_db)))"

definition demo_redemption :: redemption where
  "demo_redemption = \<lparr>r_id = ''xx'', r_journey = ''j1'', r_offer = ''paid'',
     r_status = ''succeeded'', r_cost = 40, r_code = ''xxx''\<rparr>"

lemma run_pair: "fst p = a \<Longrightarrow> p = (a, snd p)"
  by (cases p) simp

lemma demo_create:
  "fst (Create demo_fmt demo_service (demo_request ''paid'') calm_env (demo_world demo_db))
     = Inr demo_redemption"
  by code_simp

lemma demo_create_lost:
  "fst (Create demo_fmt demo_service (demo_request ''paid'') (lossy_env 13) (demo_world demo_db))
     = Inl Driver"
  by code_simp

lemma demo_create_twice:
  "fst (Create demo_fmt demo_service (demo_request ''paid'') calm_env (demo_world demo_redeemed))
     = Inr demo_redemption"
  by code_simp

lemma demo_verified:
  "fst (Verify demo_fmt demo_service demo_verify calm_env (demo_world demo_redeemed))
     = Inr (demo_redemption\<lparr>r_status := ''verified''\<rparr>)"
  by code_simp

lemma demo_outcome:
  "map (\<lambda>u. u_balance u) (users demo_redeemed) = [20]
   \<and> length (points_ledger demo_redeemed) = 2 \<and> length (outbox_events demo_redeemed) = 1"
  by code_simp

lemma demo_fresh:
  "fresh_redemption demo_fmt (demo_request ''paid'') demo_db demo_redemption demo_redeemed"
proof -
  have "\<not> replayed (demo_request ''paid'') demo_db demo_redemption"
    by (simp add: replayed_def demo_db_def)
  then show ?thesis
    using create.success [OF run_pair [OF demo_create]]
    by (simp add: created_def demo_redeemed_def demo_world_def)
qed

lemma demo_complete: "complete_request demo_service (demo_request x) \<longleftrightarrow> x \<noteq> []"
  by (simp add: complete_request_def demo_service_def no_service_def demo_request_def demo_hash_def)

lemma demo_free:
  "fst (Create demo_fmt demo_service (demo_request ''free'') calm_env (demo_world demo_db))
     = Inl (Constraint ''points_ledger_delta_check'')"
  by code_simp

lemma demo_attempts:
  "fst (attempts 3 (Create demo_fmt demo_service (demo_request ''paid'')) (lossy_env 13)
      (demo_world demo_db)) = [Inl Driver, Inr demo_redemption, Inr demo_redemption]"
  by code_simp

text \<open>
  C9: a redemption takes effect completely. When \<open>Create\<close> answers with a redemption, the committed
  database differs from the one before by exactly that redemption: its row, the reduced balance,
  the reduced stock, the ledger entry, the learned preference and the queued event, made from a
  user, journey, offer and stock that allowed it; or the answer is the redemption this user already
  had under this idempotency key, for the same journey and offer, and nothing changed.
\<close>

theorem create_effect:
  assumes "Create fmt s request e w = (Inr r, w')"
  shows "fresh_redemption fmt request (committed w) r (committed w')
    \<or> (committed w' = committed w \<and> replayed request (committed w) r)"
  using create.success [OF assms] by (simp add: created_def)

theorem create_effect_witness:
  "(fresh_redemption demo_fmt (demo_request ''paid'') demo_db demo_redemption demo_redeemed
     \<or> (demo_redeemed = demo_db \<and> replayed (demo_request ''paid'') demo_db demo_redemption))
   \<and> map u_balance (users demo_redeemed) = [20]"
  using create_effect [OF run_pair [OF demo_create]] demo_outcome
  by (simp add: demo_redeemed_def demo_world_def)

text \<open>
  A failed redemption leaves no trace. Whatever error \<open>Create\<close> answers with, after whatever
  statement, the committed database is the one before, as long as no commit takes effect behind a
  lost answer.
\<close>

theorem create_failure_changes_nothing:
  assumes "lossless e" and "Create fmt s request e w = (Inl x, w')"
  shows "committed w' = committed w"
  using assms by (rule create.failure_keeps)

theorem create_failure_changes_nothing_witness:
  "committed (snd (Create demo_fmt demo_service (demo_request ''free'') calm_env
     (demo_world demo_db))) = demo_db"
  using create_failure_changes_nothing
    [OF calm_lossless [OF calm_calm_env] run_pair [OF demo_free]]
  by (simp add: demo_world_def)

text \<open>
  C10: a client that repeats a redemption request any number of times is charged at most once,
  whatever fails and whichever answers get lost; and all the answers it gets are the same
  redemption.
\<close>

theorem create_at_most_once:
  assumes "attempts n (Create fmt s request) e w = (rs, w')"
  shows "(committed w' = committed w \<and> (\<forall>r. Inr r \<in> set rs \<longrightarrow> replayed request (committed w) r))
    \<or> (\<exists>r. fresh_redemption fmt request (committed w) r (committed w')
          \<and> (\<forall>r'. Inr r' \<in> set rs \<longrightarrow> r' = r))"
  using create_once.attempts_at_most_once [OF assms] by simp

theorem create_at_most_once_witness:
  "\<exists>r. fresh_redemption demo_fmt (demo_request ''paid'') demo_db r
      (committed (snd (attempts 3 (Create demo_fmt demo_service (demo_request ''paid''))
        (lossy_env 13) (demo_world demo_db))))"
proof -
  have "\<not> replayed (demo_request ''paid'') demo_db demo_redemption"
    by (simp add: replayed_def demo_db_def)
  then show ?thesis
    using create_at_most_once [OF run_pair [OF demo_attempts]] by (auto simp: demo_world_def)
qed

text \<open>
  After a redemption was made, the same request is answered with it, and nothing is charged
  again, however the first answer was lost.
\<close>

theorem create_retry_returns_first:
  assumes "fresh_redemption fmt request d r (committed w)"
    and "complete_request s request" and "calm e"
  shows "fst (Create fmt' s request e w) = Inr r
    \<and> committed (snd (Create fmt' s request e w)) = committed w"
proof -
  have same: "r_journey r = cr_journey request" "r_offer r = cr_offer request"
    using assms(1) by (auto simp: fresh_redemption_def)
  obtain userID balance x where
    "select_user (cr_user_hash request) (committed w) = Some (userID, balance)"
    "lookup_row (\<lambda>x. rd_user x = userID \<and> rd_key x = cr_key request)
       (redemptions (committed w)) = Some x"
    "scan_redemption x = Inr r"
    using fresh_then_replayed [OF assms(1)] by blast
  from Create_replays [OF assms(2,3) this same]
    have "fst (Create fmt' s request e w) = Inr r"
      "committed (snd (Create fmt' s request e w)) = committed w" by simp_all
  then show ?thesis by simp
qed

theorem create_retry_returns_first_witness:
  "fst (Create demo_fmt demo_service (demo_request ''paid'') calm_env (demo_world demo_redeemed))
     = Inr demo_redemption"
  using create_retry_returns_first [of demo_fmt "demo_request ''paid''" demo_db demo_redemption
      "demo_world demo_redeemed" demo_service calm_env demo_fmt] demo_fresh
  by (simp add: demo_world_def demo_complete)

text \<open>
  An idempotency key cannot be used for a second redemption. When the user already has a
  redemption under the key for another journey or offer, \<open>Create\<close> answers with the conflict error
  and changes nothing.
\<close>

theorem create_key_conflict:
  assumes "complete_request s request" and "calm e"
    and "select_user (cr_user_hash request) (committed w) = Some (userID, balance)"
    and "lookup_row (\<lambda>x. rd_user x = userID \<and> rd_key x = cr_key request)
           (redemptions (committed w)) = Some x"
    and "scan_redemption x = Inr r"
    and "r_journey r \<noteq> cr_journey request \<or> r_offer r \<noteq> cr_offer request"
  shows "fst (Create fmt s request e w) = Inl (Redemption_err IdempotencyKeyConflict)
    \<and> committed (snd (Create fmt s request e w)) = committed w"
  using Create_conflicts [OF assms] by simp

theorem create_key_conflict_witness:
  "fst (Create demo_fmt demo_service (demo_request ''free'') calm_env (demo_world demo_redeemed))
     = Inl (Redemption_err IdempotencyKeyConflict)"
proof -
  have "map_option fst (select_user (cr_user_hash (demo_request ''free''))
      (committed (demo_world demo_redeemed))) = Some ''u1''"
    by code_simp
  then obtain balance where
    u: "select_user (cr_user_hash (demo_request ''free'')) (committed (demo_world demo_redeemed))
      = Some (''u1'', balance)" by auto
  have x: "map_option scan_redemption
      (lookup_row (\<lambda>x. rd_user x = ''u1'' \<and> rd_key x = cr_key (demo_request ''free''))
        (redemptions (committed (demo_world demo_redeemed)))) = Some (Inr demo_redemption)"
    by code_simp
  then obtain x where "lookup_row (\<lambda>x. rd_user x = ''u1'' \<and> rd_key x = cr_key (demo_request ''free''))
        (redemptions (committed (demo_world demo_redeemed))) = Some x"
      "scan_redemption x = Inr demo_redemption" by auto
  from create_key_conflict [OF _ _ u this, of demo_service calm_env demo_fmt]
  show ?thesis
    by (simp add: demo_complete) (simp add: demo_redemption_def demo_request_def)
qed

text \<open>
  C21: a redemption that may happen does happen. When nothing fails, the request is complete, the
  user has the points, the journey is the user's, the offer is live, in stock, not free and not yet
  redeemed, the new identifiers are unused and no counter is at the end of its column, \<open>Create\<close>
  answers with a redemption at the cost of the offer.
\<close>

theorem create_succeeds:
  assumes "complete_request s request" and "calm e"
    and "redeemable request (clock_at e (draws w)) (committed w) userID balance cost"
    and "counters_have_room (committed w)" and "new_ids e w"
  shows "\<exists>r. fst (Create fmt s request e w) = Inr r \<and> r_cost r = cost"
  using assms by (rule Create_redeems)

theorem create_succeeds_witness:
  "\<exists>r. fst (Create demo_fmt demo_service (demo_request ''paid'') calm_env (demo_world demo_db)) = Inr r
     \<and> r_cost r = 40"
proof (rule create_succeeds)
  show "redeemable (demo_request ''paid'') (clock_at calm_env (draws (demo_world demo_db)))
      (committed (demo_world demo_db)) ''u1'' 60 40"
    by (simp add: redeemable_def demo_defs demo_request_def select_user_def lookup_row_Cons
        journey_of_user_def already_redeemed_def select_stock_def offer_live_def calm_env_def)
  show "counters_have_room (committed (demo_world demo_db))"
    by (simp add: counters_have_room_def demo_defs int64_range_def)
  show "new_ids calm_env (demo_world demo_db)"
    by (simp add: new_ids_def demo_defs calm_env_def demo_uuid_def)
qed (simp_all add: demo_complete)

text \<open>
  A free offer can never be redeemed. The schema allows offers that cost no points, but the
  ledger rejects an entry of zero points, so the transaction of \<open>Create\<close> fails for such an offer and
  the database stays as it is.
\<close>

theorem create_free_offer_impossible:
  assumes "\<forall>x\<in>set (offers (committed w)). of_id x = cr_offer request \<longrightarrow> of_cost x = 0"
  shows "committed (snd (Create fmt s request e w)) = committed w"
proof -
  have "\<not> fresh_redemption fmt request (committed w) r d'" for r d'
    using assms
    by (auto simp: fresh_redemption_def redeemable_def select_stock_def split: option.splits
        dest!: lookup_row_SomeD)
  then show ?thesis
    using create.all_or_nothing [OF surjective_pairing] by (metis created_def)
qed

theorem create_free_offer_impossible_witness:
  "committed (snd (Create demo_fmt demo_service (demo_request ''free'') calm_env
     (demo_world demo_db))) = demo_db"
  using create_free_offer_impossible [of "demo_world demo_db" "demo_request ''free''"]
  by (simp add: demo_defs demo_request_def)

text \<open>
  No unit of stock is sold twice and none gets lost. For every offer the sum of the stock left
  and the redemptions that count stays the same over every run of \<open>Create\<close>, whatever it answers.
\<close>

theorem create_conserves_stock:
  assumes "stock_ok (committed w)"
  shows "stock_units x (committed (snd (Create fmt s request e w))) = stock_units x (committed w)"
  using create.all_or_nothing [OF surjective_pairing, of fmt s request e w]
    fresh_stock_units [OF assms] by (auto simp: created_def)

theorem create_conserves_stock_witness:
  "stock_units ''paid'' demo_redeemed = 2"
proof -
  have "stock_ok (committed (demo_world demo_db))"
    using demo_books by (simp add: books_ok_def demo_world_def)
  from create_conserves_stock [OF this] show ?thesis
    unfolding demo_redeemed_def
    by (simp add: stock_units_def demo_defs sum_where_def)
qed

text \<open>
  The books stay balanced. Every run of \<open>Create\<close> and of \<open>Verify\<close>, successful or not and with
  whatever outages, keeps the books: balances are non-negative and the sum of the user's ledger
  entries, the ledger's running balances are right, stock is non-negative, every redemption that
  counts is debited exactly once at its cost, and no user has two of them for one offer or two
  under one idempotency key.
\<close>

theorem redemption_keeps_books:
  assumes "books_ok (committed w)"
  shows "books_ok (committed (snd (Create fmt s request e w)))
    \<and> books_ok (committed (snd (Verify fmt s verify e w)))"
proof -
  obtain r1 w1 r2 w2 where run: "Create fmt s request e w = (r1, w1)" "Verify fmt s verify e w = (r2, w2)"
    by fastforce
  have "books_ok (committed w1)"
    by (rule create.invariant_kept [where I = books_ok, OF created_books_ok assms run(1)])
  moreover have "books_ok (committed w2)"
    by (rule verify.invariant_kept [where I = books_ok, OF verified_books_ok assms run(2)])
  ultimately show ?thesis by (simp add: run)
qed

theorem redemption_keeps_books_witness: "books_ok demo_redeemed"
  using redemption_keeps_books [of "demo_world demo_db"] demo_books
  by (simp add: demo_redeemed_def demo_world_def)

text \<open>
  Only the merchant with the code verifies. When \<open>Verify\<close> answers with a redemption, the
  redemption exists, its offer belongs to the merchant of the request, its code is the one of the
  request, and it is now marked verified; its event is queued exactly when it was not verified
  before, and nothing else changes.
\<close>

theorem verify_effect:
  assumes "Verify fmt s request e w = (Inr r, w')"
  shows "r_status r = ''verified'' \<and> r_code r = vr_code request
    \<and> (\<exists>r0 h. select_verification (vr_redemption request) (committed w) = Inr (r0, vr_merchant request, h)
        \<and> r_code r0 = vr_code request
        \<and> (if r_status r0 = ''verified'' then committed w' = committed w
           else r_status r0 = ''succeeded'' \<and> (\<exists>row. committed w' = (committed w)\<lparr>
             redemptions := update_where (\<lambda>x. rd_id x = r_id r0)
               (\<lambda>x. x\<lparr>rd_status := ''verified''\<rparr>) (redemptions (committed w)),
             outbox_events := outbox_events (committed w) @ [row]\<rparr>
             \<and> ob_topic row = ''merchant.verified.v1'' \<and> pending row)))"
proof -
  consider (now) "verified_now fmt request (committed w) r (committed w')"
    | (before) "committed w' = committed w" "verified_before request (committed w) r"
    using verify.success [OF assms] by (auto simp: verified_def)
  then show ?thesis
  proof cases
    case now
    then obtain r0 h now eventID t where v:
      "select_verification (vr_redemption request) (committed w) = Inr (r0, vr_merchant request, h)"
      "r_code r0 = vr_code request" "r_status r0 = ''succeeded''" "r = r0\<lparr>r_status := ''verified''\<rparr>"
      "committed w' = (committed w)\<lparr>redemptions := update_where (\<lambda>x. rd_id x = r_id r0)
         (\<lambda>x. x\<lparr>rd_status := ''verified''\<rparr>) (redemptions (committed w)),
         outbox_events := outbox_events (committed w) @
           [queued (verified_event fmt eventID t request r h) now]\<rparr>"
      by (auto simp: verified_now_def)
    then show ?thesis
      by (intro conjI exI [of _ r0] exI [of _ h])
        (auto simp: queued_def event_row_def verified_event_def pending_def intro!: exI)
  qed (auto simp: verified_before_def)
qed

theorem verify_effect_witness:
  "\<exists>r0 h. select_verification ''xx'' demo_redeemed = Inr (r0, ''m1'', h) \<and> r_code r0 = ''xxx''"
  using verify_effect [OF run_pair [OF demo_verified]]
  by (auto simp: demo_verify_def demo_world_def)

text \<open>
  C22: a verification is announced at most once. However often a merchant repeats the request and
  whatever fails, at most one event is queued for it.
\<close>

theorem verify_at_most_once:
  assumes "attempts n (Verify fmt s request) e w = (rs, w')"
  shows "length (outbox_events (committed w')) \<le> length (outbox_events (committed w)) + 1
    \<and> (\<forall>r r'. Inr r \<in> set rs \<longrightarrow> Inr r' \<in> set rs \<longrightarrow> r' = r)"
proof (intro conjI allI impI)
  show "length (outbox_events (committed w')) \<le> length (outbox_events (committed w)) + 1"
    using verify_once.attempts_at_most_once [OF assms] by (auto simp: verified_now_def)
  show "r' = r" if "Inr r \<in> set rs" "Inr r' \<in> set rs" for r r'
    using verify_once.attempts_at_most_once [OF assms] that
    by (auto simp: verified_before_def) (metis prod.inject sum.inject(2))
qed

theorem verify_at_most_once_witness:
  "length (outbox_events (committed (snd (attempts 3 (Verify demo_fmt demo_service demo_verify)
     calm_env (demo_world demo_redeemed))))) \<le> 2"
  using verify_at_most_once [OF surjective_pairing, of 3 demo_fmt demo_service demo_verify calm_env
      "demo_world demo_redeemed"] demo_outcome
  by (simp add: demo_world_def)

end
