(* ===== verification/RedemptionApi.thy ===== *)
theory RedemptionApi
  imports RedemptionTheorems Text
begin

text \<open>
  \<open>internal/redemption/api.go\<close>: the gRPC/HTTP face of the redemption service. A nil pointer is
  \<open>None\<close>; the getters of the generated messages answer the zero value for it.
\<close>

record request_context =
  rc_journey_id :: string
  rc_trace_id :: string

record create_redemption_request =
  crr_context :: "request_context option"
  crr_user_id_hash :: string
  crr_offer_id :: string
  crr_idempotency_key :: string

record verify_redemption_request =
  vrr_context :: "request_context option"
  vrr_redemption_id :: string
  vrr_merchant_id :: string
  vrr_verification_code :: string

datatype redemption_status =
    StatusUnspecified | StatusPending | StatusSucceeded | StatusRejected | StatusVerified

record redemption_proto =
  rp_redemption_id :: string
  rp_journey_id :: string
  rp_offer_id :: string
  rp_status :: redemption_status
  rp_points_cost :: int
  rp_code :: string

record redemption_api =
  ra_service :: "redemption_service option"

text \<open>The context of a call: Kratos' HTTP context, a server transport, or neither.\<close>

datatype call_context =
    HttpContext "string \<Rightarrow> string"
  | ServerTransport "string \<Rightarrow> string"
  | PlainContext

fun requestHeader :: "call_context \<Rightarrow> string \<Rightarrow> string" where
  "requestHeader (HttpContext h) key = trim_space (h key)"
| "requestHeader (ServerTransport h) key = trim_space (h key)"
| "requestHeader PlainContext key = []"

definition toProto :: "redemption \<Rightarrow> redemption_proto" where
  "toProto r =
     \<lparr>rp_redemption_id = r_id r, rp_journey_id = r_journey r, rp_offer_id = r_offer r,
      rp_status =
        (if r_status r = ''pending'' then StatusPending
         else if r_status r = ''succeeded'' then StatusSucceeded
         else if r_status r = ''rejected'' then StatusRejected
         else if r_status r = ''verified'' then StatusVerified
         else StatusUnspecified),
      rp_points_cost = r_cost r, rp_code = r_code r\<rparr>"

definition map_redemption_error :: "gerr \<Rightarrow> gerr" where
  "map_redemption_error err =
     (if errors_is err (Redemption_err RedemptionInvalidRequest)
        then ErrorInvalidRequest ''invalid redemption request''
      else if errors_is err (Redemption_err RedemptionJourneyNotFound)
        then ErrorJourneyNotFound ''journey not found''
      else if errors_is err (Redemption_err OfferAlreadyRedeemed)
        then ErrorOfferUnavailable ''offer already redeemed''
      else if errors_is err (Redemption_err OfferUnavailable)
        then ErrorOfferUnavailable ''offer unavailable''
      else if errors_is err (Redemption_err InsufficientPoints)
        then ErrorInsufficientPoints ''insufficient points''
      else if errors_is err (Redemption_err IdempotencyKeyConflict)
        then ErrorIdempotencyKeyConflict
          ''idempotency key is already used for another redemption''
      else if errors_is err (Redemption_err RedemptionNotFound)
        then ErrorRedemptionNotFound ''redemption not found''
      else if errors_is err (Redemption_err VerificationFailed)
          \<or> errors_is err (Redemption_err RedemptionNotVerifiable)
        then ErrorMerchantVerificationFailed ''redemption cannot be verified''
      else if errors_is err (Redemption_err RedemptionUserNotFound)
        then ErrorInvalidRequest ''user is not registered''
      else err)"

definition api_service :: "redemption_api option \<Rightarrow> redemption_service option" where
  "api_service a = (case a of None \<Rightarrow> None | Some x \<Rightarrow> ra_service x)"

definition traceOrNew :: "string \<Rightarrow> string db_act" where
  "traceOrNew traceID = (if traceID = [] then newUUID else ok traceID)"

definition CreateRedemption ::
  "time_format \<Rightarrow> call_context \<Rightarrow> redemption_api option \<Rightarrow> create_redemption_request option
     \<Rightarrow> redemption_proto db_act" where
  "CreateRedemption fmt ctx a request =
     (case request of
        None \<Rightarrow> fail (ErrorInvalidRequest ''request_context with journey_id is required'')
      | Some req \<Rightarrow>
         (case crr_context req of
            None \<Rightarrow> fail (ErrorInvalidRequest ''request_context with journey_id is required'')
          | Some rc \<Rightarrow>
             (if api_service a = None
              then fail (ErrorInvalidRequest ''request_context with journey_id is required'')
              else if rc_journey_id rc = []
              then fail (ErrorInvalidRequest ''request_context.journey_id is required'')
              else
                andThen (traceOrNew (rc_trace_id rc)) (\<lambda>traceID.
                let key0 = trim_space (crr_idempotency_key req);
                    key = (if key0 = [] then requestHeader ctx ''Idempotency-Key'' else key0) in
                if key = [] then fail (ErrorInvalidRequest ''Idempotency-Key is required'')
                else
                  andThen (mapErr map_redemption_error (Create fmt (api_service a)
                      \<lparr>cr_user_hash = crr_user_id_hash req, cr_journey = rc_journey_id rc,
                       cr_offer = crr_offer_id req, cr_key = key, cr_trace = traceID\<rparr>))
                    (\<lambda>r. ok (toProto r))))))"

definition GetRedemption ::
  "redemption_api option \<Rightarrow> string option \<Rightarrow> redemption_proto db_act" where
  "GetRedemption a request =
     (case request of
        None \<Rightarrow> fail (ErrorInvalidRequest ''redemption_id is required'')
      | Some redemptionID \<Rightarrow>
          (if api_service a = None \<or> redemptionID = []
           then fail (ErrorInvalidRequest ''redemption_id is required'')
           else andThen (mapErr map_redemption_error (Get (api_service a) redemptionID))
             (\<lambda>r. ok (toProto r))))"

definition VerifyRedemption ::
  "time_format \<Rightarrow> redemption_api option \<Rightarrow> verify_redemption_request option
     \<Rightarrow> redemption_proto db_act" where
  "VerifyRedemption fmt a request =
     (case request of
        None \<Rightarrow> fail (ErrorInvalidRequest
          ''redemption_id, merchant_id, and verification_code are required'')
      | Some req \<Rightarrow>
          (if api_service a = None \<or> vrr_redemption_id req = [] \<or> vrr_merchant_id req = []
              \<or> vrr_verification_code req = []
           then fail (ErrorInvalidRequest
             ''redemption_id, merchant_id, and verification_code are required'')
           else
             andThen (traceOrNew (case vrr_context req of None \<Rightarrow> [] | Some rc \<Rightarrow> rc_trace_id rc))
               (\<lambda>traceID.
               andThen (mapErr map_redemption_error (Verify fmt (api_service a)
                   \<lparr>vr_redemption = vrr_redemption_id req, vr_merchant = vrr_merchant_id req,
                    vr_code = vrr_verification_code req, vr_trace = traceID\<rparr>))
                 (\<lambda>r. ok (toProto r)))))"

subsection \<open>What a caller sees\<close>

lemma map_redemption_error_total: "map_redemption_error x \<noteq> Redemption_err y"
  by (cases x; cases y) (auto simp: map_redemption_error_def api_error_defs)

lemma wp_Create:
  assumes "\<And>x w'. committed w' = committed w \<or> (\<not> lossless e \<and> (\<exists>a. created fmt request (committed w) a (committed w'))) \<Longrightarrow> Q (Inl x) w'"
    and "\<And>r w'. created fmt request (committed w) r (committed w') \<Longrightarrow> Q (Inr r) w'"
  shows "wp (Create fmt s request) e Q w"
  by (rule wp_mono [OF Create_wp]) (use assms in \<open>auto split: sum.splits\<close>)

lemma wp_Verify:
  assumes "\<And>x w'. committed w' = committed w \<or> (\<not> lossless e \<and> (\<exists>a. verified fmt request (committed w) a (committed w'))) \<Longrightarrow> Q (Inl x) w'"
    and "\<And>r w'. verified fmt request (committed w) r (committed w') \<Longrightarrow> Q (Inr r) w'"
  shows "wp (Verify fmt s request) e Q w"
  by (rule wp_mono [OF Verify_wp]) (use assms in \<open>auto split: sum.splits\<close>)

definition api_created ::
  "time_format \<Rightarrow> call_context \<Rightarrow> create_redemption_request option \<Rightarrow> database \<Rightarrow> redemption_proto
     \<Rightarrow> database \<Rightarrow> bool" where
  "api_created fmt ctx request d p d' \<longleftrightarrow> (\<exists>req rc trace key r.
     request = Some req \<and> crr_context req = Some rc
     \<and> key = (if trim_space (crr_idempotency_key req) = [] then requestHeader ctx ''Idempotency-Key''
              else trim_space (crr_idempotency_key req))
     \<and> key \<noteq> [] \<and> rc_journey_id rc \<noteq> [] \<and> p = toProto r
     \<and> created fmt \<lparr>cr_user_hash = crr_user_id_hash req, cr_journey = rc_journey_id rc,
          cr_offer = crr_offer_id req, cr_key = key, cr_trace = trace\<rparr> d r d')"

lemma CreateRedemption_wp:
  "wp (CreateRedemption fmt ctx a request) e (\<lambda>res w'.
     settles e (api_created fmt ctx request) (committed w) res w'
     \<and> (\<forall>x y. res = Inl x \<longrightarrow> x \<noteq> Redemption_err y)) w"
proof (cases request)
  case None
  then show ?thesis by (simp add: CreateRedemption_def api_error_defs)
next
  case (Some req)
  show ?thesis
  proof (cases "crr_context req")
    case None
    with Some show ?thesis by (simp add: CreateRedemption_def api_error_defs)
  next
    case rc: (Some rc)
    let ?key = "if trim_space (crr_idempotency_key req) = [] then requestHeader ctx ''Idempotency-Key''
      else trim_space (crr_idempotency_key req)"
    have made: "api_created fmt ctx request d (toProto r) d'"
      if "created fmt \<lparr>cr_user_hash = crr_user_id_hash req, cr_journey = rc_journey_id rc,
          cr_offer = crr_offer_id req, cr_key = ?key, cr_trace = t\<rparr> d r d'"
        and "?key \<noteq> []" "rc_journey_id rc \<noteq> []" for t d r d'
      unfolding api_created_def using that Some rc by blast
    show ?thesis
      using made
      by (auto simp: CreateRedemption_def Some rc traceOrNew_def Let_def map_redemption_error_total
          api_error_defs intro!: wp_Create) blast+
  qed
qed

text \<open>
  C23: what the API answers to a redemption request. A success is the service's redemption, made for
  the journey of the request's context under the trimmed idempotency key of the message or, when
  that is blank, of the \<open>Idempotency-Key\<close> header; an error is never a bare error of the service
  (each has its API error), and after an error the database is as before unless an answer got lost.
\<close>

theorem api_create_answers:
  assumes "CreateRedemption fmt ctx a request e w = (res, w')"
  shows "case res of
      Inr p \<Rightarrow> api_created fmt ctx request (committed w) p (committed w')
    | Inl x \<Rightarrow> (\<forall>y. x \<noteq> Redemption_err y) \<and> (lossless e \<longrightarrow> committed w' = committed w)"
  using wpD [OF CreateRedemption_wp assms] by (auto split: sum.splits)

definition demo_api_request :: "create_redemption_request option" where
  "demo_api_request = Some \<lparr>crr_context = Some \<lparr>rc_journey_id = ''j1'', rc_trace_id = []\<rparr>,
     crr_user_id_hash = demo_hash, crr_offer_id = ''paid'', crr_idempotency_key = ''  ''\<rparr>"

theorem api_create_answers_witness:
  "\<exists>p. api_created demo_fmt (HttpContext (\<lambda>_. '' k1 '')) demo_api_request demo_db p
      (committed (snd (CreateRedemption demo_fmt (HttpContext (\<lambda>_. '' k1 ''))
        (Some \<lparr>ra_service = demo_service\<rparr>) demo_api_request calm_env (demo_world demo_db))))"
proof -
  have "\<not> (case fst (CreateRedemption demo_fmt (HttpContext (\<lambda>_. '' k1 ''))
        (Some \<lparr>ra_service = demo_service\<rparr>) demo_api_request calm_env (demo_world demo_db)) of
      Inl x \<Rightarrow> True | Inr p \<Rightarrow> False)"
    by code_simp
  then obtain p where "fst (CreateRedemption demo_fmt (HttpContext (\<lambda>_. '' k1 ''))
        (Some \<lparr>ra_service = demo_service\<rparr>) demo_api_request calm_env (demo_world demo_db)) = Inr p"
    by (auto split: sum.splits)
  from api_create_answers [OF run_pair [OF this]] show ?thesis
    by (auto simp: demo_world_def)
qed

end
