(* ===== verification/Servers.thy ===== *)
theory Servers
  imports Programs User RedemptionApi
begin

text \<open>
  The programs of \<open>cmd/\<close> that serve requests, up to the point where they hand their server to the
  Kratos library: the server \<open>RunWithSetup\<close> (\<open>platform/app/app.go\<close>) builds from the environment, the
  services of the gateway, of the redemption and of the mobility program, and the analytics
  consumer with its loop per topic. A program that cannot start ends with \<open>log.Fatal\<close>: \<open>Inl\<close>.
\<close>

subsection \<open>The server\<close>

text \<open>What the program finds where it runs: \<open>url.Parse\<close>, the errors of the OpenTelemetry resource and
  exporters, and \<open>os.Hostname\<close>.\<close>

record host =
  ho_parse_url :: "string \<Rightarrow> url option"
  ho_resource :: "gerr option"
  ho_exporter :: "exporter_option list \<Rightarrow> gerr option"
  ho_name :: "gerr + string"

record server =
  sv_id :: string
  sv_name :: string
  sv_version :: string
  sv_http :: string
  sv_grpc :: string
  sv_filter :: "http_handler \<Rightarrow> http_handler"
  sv_routes :: "(string \<times> http_handler) list"

text \<open>The server is what Kratos is given: \<open>sv_filter\<close> stands before every route, \<open>sv_routes\<close> are those the
  code adds to the API's. \<open>setup\<close> is nil or a function that answers nil or an error; the API's routes it registers are
  generated code.\<close>

definition RunWithSetup ::
  "host \<Rightarrow> environment \<Rightarrow> string \<Rightarrow> string \<Rightarrow> string \<Rightarrow> string \<Rightarrow> gerr option option
     \<Rightarrow> gerr option option list \<Rightarrow> gerr + server" where
  "RunWithSetup host getenv defaultServiceName defaultHTTPAddr defaultGRPCAddr version setup readyChecks =
     (let runtime = Load getenv defaultServiceName defaultHTTPAddr defaultGRPCAddr in
      bind_result (telemetry_Setup (ho_parse_url host) (ho_resource host) (ho_exporter host) getenv) (\<lambda>_.
      (case setup of
         Some (Some err) \<Rightarrow> Inl err
       | _ \<Rightarrow> Inr
           \<lparr>sv_id = (case ho_name host of Inl _ \<Rightarrow> rt_service runtime | Inr hostname \<Rightarrow> hostname),
            sv_name = rt_service runtime, sv_version = version,
            sv_http = rt_http runtime, sv_grpc = rt_grpc runtime,
            sv_filter = corsFilter (rt_origins runtime),
            sv_routes =
              [(''/healthz'', statusHandler (rt_service runtime) version ''ok''),
               (''/readyz'', readinessHandler (rt_service runtime) version readyChecks),
               (''/version'', statusHandler (rt_service runtime) version ''ok'')]\<rparr>)))"

definition app_Run ::
  "host \<Rightarrow> environment \<Rightarrow> string \<Rightarrow> string \<Rightarrow> string \<Rightarrow> string \<Rightarrow> gerr option option list \<Rightarrow> gerr + server" where
  "app_Run host getenv defaultServiceName defaultHTTPAddr defaultGRPCAddr version readyChecks =
     RunWithSetup host getenv defaultServiceName defaultHTTPAddr defaultGRPCAddr version None readyChecks"

subsection \<open>The gateway\<close>

record gateway =
  gw_journey :: "journey_service option"
  gw_user :: user_service
  gw_redemption :: redemption_api
  gw_notification :: notification_api
  gw_publisher :: publisher
  gw_limit :: int
  gw_interval :: int
  gw_server :: server

text \<open>\<open>ping\<close> is the answer of \<open>db.PingContext\<close>, the publisher's interval is in milliseconds.\<close>

definition gateway_main ::
  "host \<Rightarrow> (string list \<Rightarrow> kafka_writer)
     \<Rightarrow> (string \<Rightarrow> int \<Rightarrow> gerr + (observation \<Rightarrow> gerr + mob_context option))
     \<Rightarrow> (string \<Rightarrow> gerr option) \<Rightarrow> gerr option \<Rightarrow> string \<Rightarrow> environment \<Rightarrow> gerr + gateway" where
  "gateway_main host kafka connect open_db ping version getenv =
     (let d = LoadDependencies getenv in
      if dep_postgres d = [] \<or> dep_kafka d = []
      then Inl (Text ''POSTGRES_DSN and KAFKA_BROKERS are required'')
      else
        (case open_db (dep_postgres d) of
           Some err \<Rightarrow> Inl err
         | None \<Rightarrow>
             bind_result (configured_gateway connect d) (\<lambda>service.
             bind_result (RunWithSetup host getenv ''gateway-service'' '':8000'' '':9000'' version
               (Some None) [Some ping]) (\<lambda>server. Inr
               \<lparr>gw_journey = service,
                gw_user = \<lparr>us_db = Handle\<rparr>,
                gw_redemption = \<lparr>ra_service = Some \<lparr>rs_db = Handle\<rparr>\<rparr>,
                gw_notification = \<lparr>na_service = Some \<lparr>ns_db = Handle\<rparr>\<rparr>,
                gw_publisher = NewKafkaPublisher kafka Handle (split_on (CHR '','') (dep_kafka d)),
                gw_limit = 100, gw_interval = 100,
                gw_server = server\<rparr>))))"

subsection \<open>The redemption program\<close>

record redemption_program =
  rdp_api :: redemption_api
  rdp_publisher :: publisher
  rdp_limit :: int
  rdp_interval :: int
  rdp_server :: server

definition redemption_main ::
  "host \<Rightarrow> (string list \<Rightarrow> kafka_writer) \<Rightarrow> (string \<Rightarrow> gerr option) \<Rightarrow> gerr option \<Rightarrow> string \<Rightarrow> environment
     \<Rightarrow> gerr + redemption_program" where
  "redemption_main host kafka open_db ping version getenv =
     (let d = LoadDependencies getenv in
      if dep_postgres d = [] \<or> dep_kafka d = []
      then Inl (Text ''POSTGRES_DSN and KAFKA_BROKERS are required'')
      else
        (case open_db (dep_postgres d) of
           Some err \<Rightarrow> Inl err
         | None \<Rightarrow>
             bind_result (RunWithSetup host getenv ''redemption-service'' '':8003'' '':9003'' version
               (Some None) [Some ping]) (\<lambda>server. Inr
               \<lparr>rdp_api = \<lparr>ra_service = Some \<lparr>rs_db = Handle\<rparr>\<rparr>,
                rdp_publisher = NewKafkaPublisher kafka Handle (split_on (CHR '','') (dep_kafka d)),
                rdp_limit = 100, rdp_interval = 0,
                rdp_server = server\<rparr>)))"

subsection \<open>The mobility program\<close>

text \<open>\<open>post\<close> is the HTTP client with its timeout in milliseconds.\<close>

definition mobility_main ::
  "host \<Rightarrow> (int \<Rightarrow> string \<Rightarrow> json \<Rightarrow> gerr + int \<times> raw) \<Rightarrow> string \<Rightarrow> environment
     \<Rightarrow> gerr + (mobility_service \<times> server)" where
  "mobility_main host post version getenv =
     (let d = LoadDependencies getenv;
          beacons = NewHTTPProvider (dep_beacon_url d) (dep_beacon_user d) (dep_beacon_password d);
          timeout = (if dep_beacon_timeout d \<le> 0 then 800 else dep_beacon_timeout d);
          resolver = DefaultResolver (Some (http_provider_Resolve (post timeout) (Some beacons))) (dep_redis d \<noteq> [])
      in bind_result (RunWithSetup host getenv ''mobility-service'' '':8001'' '':9001'' version (Some None) [])
           (\<lambda>server. Inr (\<lparr>ms_resolver = Some resolver\<rparr>, server)))"

subsection \<open>The servers of the workers\<close>

text \<open>They serve their health only; the recommendation service also asks Qdrant, and publishes its
  events: with which publisher, limit and interval.\<close>

definition recommendation_publisher ::
  "(string list \<Rightarrow> kafka_writer) \<Rightarrow> environment \<Rightarrow> publisher \<times> int \<times> int" where
  "recommendation_publisher kafka getenv =
     (NewKafkaPublisher kafka Handle (split_on (CHR '','') (dep_kafka (LoadDependencies getenv))), 100, 100)"

definition recommendation_server ::
  "host \<Rightarrow> (string \<Rightarrow> gerr + int) \<Rightarrow> gerr option \<Rightarrow> string \<Rightarrow> environment \<Rightarrow> gerr + server" where
  "recommendation_server host get ping version getenv =
     app_Run host getenv ''recommendation-service'' '':8002'' '':9002'' version
       [Some ping, Some (qdrant_Ping get (Some (NewQdrantClient (dep_qdrant (LoadDependencies getenv)))))]"

definition notification_server ::
  "host \<Rightarrow> gerr option \<Rightarrow> string \<Rightarrow> environment \<Rightarrow> gerr + server" where
  "notification_server host ping version getenv =
     app_Run host getenv ''notification-worker'' '':8004'' '':9004'' version [Some ping]"

subsection \<open>The analytics consumer\<close>

text \<open>
  One loop per topic runs; \<open>ends\<close> are the errors of those that ended, in the order their ends are
  received, \<open>cancelled n\<close> is the context's error at the \<open>n\<close>-th reception. A reception waits until a
  loop has ended, so the list holds as many ends as are received.
\<close>

fun await_topics :: "(nat \<Rightarrow> gerr option) \<Rightarrow> nat \<Rightarrow> gerr option list \<Rightarrow> gerr option" where
  "await_topics cancelled n [] = None"
| "await_topics cancelled n (err # errs) =
     (case cancelled n of
        Some c \<Rightarrow> Some c
      | None \<Rightarrow> (case err of Some x \<Rightarrow> Some x | None \<Rightarrow> await_topics cancelled (Suc n) errs))"

text \<open>The messages of a topic are those its loop fetches before it ends. \<open>arrival\<close> lists the topics
  in the order in which their loops ended.\<close>

record topic_environment =
  te_parse_time :: "string \<Rightarrow> int option"
  te_insert :: "string \<Rightarrow> nat \<Rightarrow> product_event \<Rightarrow> gerr option"
  te_commit :: "string \<Rightarrow> nat \<Rightarrow> gerr option"
  te_fetch_error :: "string \<Rightarrow> gerr"
  te_messages :: "string \<Rightarrow> raw list"

definition consumed :: "topic_environment \<Rightarrow> string \<Rightarrow> product_event list \<times> nat \<times> gerr" where
  "consumed t topic = consume_topic (te_parse_time t) (te_insert t topic) (te_commit t topic)
     (te_fetch_error t topic) 0 (te_messages t topic)"

definition analytics_Run ::
  "topic_environment \<Rightarrow> (nat \<Rightarrow> gerr option) \<Rightarrow> string list \<Rightarrow> string list \<Rightarrow> bool \<Rightarrow> gerr option" where
  "analytics_Run t cancelled arrival brokers writer =
     (if brokers = [] \<or> \<not> writer then Some (Text ''analytics consumer dependencies are missing'')
      else await_topics cancelled 0 (map (\<lambda>topic. Some (snd (snd (consumed t topic)))) arrival))"

text \<open>\<open>surroundings\<close> makes the surroundings of the loops from the writer; \<open>stopped\<close> says whether a signal
  ended the context.\<close>

definition analytics_main ::
  "host \<Rightarrow> (clickhouse \<Rightarrow> topic_environment) \<Rightarrow> (nat \<Rightarrow> gerr option) \<Rightarrow> string list \<Rightarrow> bool \<Rightarrow> environment
     \<Rightarrow> program_end" where
  "analytics_main host surroundings cancelled arrival stopped getenv =
     (let d = LoadDependencies getenv in
      if dep_kafka d = [] \<or> dep_clickhouse d = []
      then Fatal (Text ''KAFKA_BROKERS and CLICKHOUSE_DSN are required'')
      else
        (case NewClickHouse (ho_parse_url host) (dep_clickhouse d) of
           Inl err \<Rightarrow> Fatal err
         | Inr ck \<Rightarrow>
             (case telemetry_Setup (ho_parse_url host) (ho_resource host) (ho_exporter host) getenv of
                Inl err \<Rightarrow> Fatal err
              | Inr _ \<Rightarrow>
                  (case analytics_Run (surroundings ck) cancelled arrival (split_on (CHR '','') (dep_kafka d)) True of
                     Some err \<Rightarrow> (if stopped then Finished else Fatal err)
                   | None \<Rightarrow> Finished))))"

end
