(* ===== verification/UserSpec.thy ===== *)
theory UserSpec
  imports User RedemptionBooks Demo
begin

text \<open>What the user service promises: hashes, provisioning, preferences.\<close>

subsection \<open>Hashes\<close>

lemma rune_at_small:
  assumes "rune_at (b # bs) = (r, n)" and "r < 0x80"
  shows "r = b \<and> n = 1"
  using assms
  by (auto simp: continuation_def second_ok_def rune_error_def split: if_splits list.splits)

lemma hash_rune_char: "hash_rune (byte c) = hash_char c"
proof -
  have "byte c = int (of_char c)" by (rule of_nat_of_char [symmetric])
  then show ?thesis
    by (simp only: hash_rune_def hash_char_def less_eq_char_def) simp
qed

lemma hash_runes: "list_all hash_rune (runes s) = list_all hash_char s"
proof (induction s rule: rune_chunks.induct)
  case (1 s)
  show ?case
  proof (cases s)
    case Nil
    then show ?thesis by (simp add: runes_def)
  next
    case (Cons c t)
    obtain r n where rn: "rune_at (map byte (take 4 s)) = (r, n)" by fastforce
    have chunks: "rune_chunks s = (r, take n s) # rune_chunks (drop n s)"
      using rn Cons by (subst rune_chunks.simps) simp
    show ?thesis
    proof (cases "r < 0x80")
      case True
      have "rune_at (byte c # map byte (take 3 t)) = (r, n)"
        using rn Cons by simp
      from rune_at_small [OF this True] have "r = byte c" "n = 1" by auto
      moreover have "list_all hash_rune (runes (drop n s)) = list_all hash_char (drop n s)"
        using 1 [OF _ refl rn [symmetric]] Cons by simp
      ultimately show ?thesis
        using Cons by (simp add: runes_def chunks [unfolded Cons] hash_rune_char)
    next
      case False
      then have "\<not> hash_rune r" by (simp add: hash_rune_def)
      moreover have "\<not> hash_char c"
      proof
        assume "hash_char c"
        then have "byte c < 0x80"
          by (auto simp: hash_rune_def simp flip: hash_rune_char)
        then have "rune_at (map byte (take 4 s)) = (byte c, 1)" using Cons by simp
        with rn \<open>byte c < 0x80\<close> False show False by simp
      qed
      ultimately show ?thesis using Cons by (simp add: runes_def chunks [unfolded Cons])
    qed
  qed
qed

lemma valid_hash_iff: "validUserIDHash s = user_id_hash_check s"
  by (auto simp: validUserIDHash_def user_id_hash_check_def hash_runes numeral_eq_Suc)

subsection \<open>Provisioning\<close>

definition provisioned :: "string \<Rightarrow> database \<Rightarrow> unit \<Rightarrow> database \<Rightarrow> bool" where
  "provisioned h d u d' \<longleftrightarrow> (\<exists>userID now. user_id_hash_check h
     \<and> \<not> exists_row (\<lambda>u. u_hash u = h) (users d) \<and> \<not> user_exists d userID
     \<and> d' = d\<lparr>users := users d @ [new_demo_user userID h now],
              points_ledger := points_ledger d @
                [\<lparr>le_user = userID, le_redemption = None, le_delta = 1200, le_balance = 1200,
                  le_reason = ''demo_initial_balance''\<rparr>]\<rparr>)"

definition known_user :: "string \<Rightarrow> database \<Rightarrow> unit \<Rightarrow> bool" where
  "known_user h d u \<longleftrightarrow> exists_row (\<lambda>u. u_hash u = h) (users d)"

lemma insert_demo_user_cases:
  assumes "insert_demo_user uid h now d = Inr d'"
  shows "provisioned h d u d' \<or> (d' = d \<and> known_user h d u)"
proof (cases "exists_row (\<lambda>u. u_hash u = h) (users d)")
  case True
  with assms show ?thesis by (auto simp: insert_demo_user_def bind_result_Inr_iff known_user_def)
next
  case False
  with assms have "user_id_hash_check h" "\<not> user_exists d uid"
    and "insert_ledger \<lparr>le_user = uid, le_redemption = None, le_delta = 1200, le_balance = 1200,
            le_reason = ''demo_initial_balance''\<rparr>
          (d\<lparr>users := users d @ [new_demo_user uid h now]\<rparr>) = Inr d'"
    by (auto simp: insert_demo_user_def bind_result_Inr_iff anonymousDemoInitialPoints_def
        split: if_splits)
  with insert_ledger_InrD(1) [OF this(3)] False have "provisioned h d u d'"
    by (auto simp: provisioned_def)
  then show ?thesis ..
qed

definition ensured :: "string \<Rightarrow> database \<Rightarrow> unit \<Rightarrow> database \<Rightarrow> bool" where
  "ensured h d u d' \<longleftrightarrow> provisioned h d u d' \<or> (d' = d \<and> known_user h d u)"

lemma EnsureDemoUser_wp:
  "wp (EnsureDemoUser (Some execDB) h) e (settles e (ensured h) (committed w)) w"
  unfolding EnsureDemoUser_def
  by (auto simp: ensured_def intro!: wp_execDB dest: insert_demo_user_cases)

interpretation ensure: idempotent_handler "EnsureDemoUser (Some execDB) h" "ensured h"
  "provisioned h" "known_user h" "\<lambda>a b. True" for h
  by unfold_locales
    (auto simp: EnsureDemoUser_wp ensured_def provisioned_def known_user_def new_demo_user_def)

lemma provisioned_books_ok:
  assumes ok: "books_ok d" and p: "provisioned h d u d'"
  shows "books_ok d'"
proof -
  from p obtain userID now where new: "\<not> exists_row (\<lambda>u. u_hash u = h) (users d)"
    "\<not> user_exists d userID" and
    d': "d' = d\<lparr>users := users d @ [new_demo_user userID h now],
              points_ledger := points_ledger d @
                [\<lparr>le_user = userID, le_redemption = None, le_delta = 1200, le_balance = 1200,
                  le_reason = ''demo_initial_balance''\<rparr>]\<rparr>"
    by (auto simp: provisioned_def)
  have none: "sum_where (\<lambda>l. le_user l = userID) le_delta (points_ledger d) = 0"
  proof -
    have "filter (\<lambda>l. le_user l = userID) (points_ledger d) = []"
      using ok new(2) by (auto simp: books_ok_def balances_ok_def filter_empty_conv)
    then show ?thesis by (simp add: sum_where_def)
  qed
  have "balances_ok d'"
    using ok new none
    by (auto simp: books_ok_def balances_ok_def d' new_demo_user_def running_balances_snoc
        user_exists_def anonymousDemoInitialPoints_def)
  moreover have "stock_ok d' \<and> debits_ok d' \<and> once_ok d'"
    using ok by (auto simp: books_ok_def stock_ok_def debits_ok_def once_ok_def d')
  ultimately show ?thesis by (simp add: books_ok_def)
qed

subsection \<open>Preferences\<close>

lemma run_EnsureDemoUser:
  assumes "calm e" and "validUserIDHash h"
  shows "andThen (EnsureDemoUser (Some execDB) h) f e w =
    (case insert_demo_user (uuid_at e (draws w)) h (clock_at e (Suc (draws w))) (committed w) of
       Inl x \<Rightarrow> (Inl x, w\<lparr>draws := Suc (Suc (draws w)), calls := Suc (calls w)\<rparr>)
     | Inr d \<Rightarrow> f () e (w\<lparr>draws := Suc (Suc (draws w)), calls := Suc (calls w), committed := d\<rparr>))"
  using assms
  by (simp add: EnsureDemoUser_def run_simps andThen_assoc writes_def split: sum.split)

lemma insert_demo_user_holds:
  assumes "validUserIDHash h" and "unique_by u_hash (users d)" and "\<not> user_exists d uid"
  shows "\<exists>d'. insert_demo_user uid h now d = Inr d' \<and> unique_by u_hash (users d')
    \<and> exists_row (\<lambda>u. u_hash u = h) (users d')"
proof (cases "exists_row (\<lambda>u. u_hash u = h) (users d)")
  case True
  with assms show ?thesis
    by (intro exI [of _ d]) (simp add: insert_demo_user_def valid_hash_iff constrained_holds)
next
  case False
  let ?d = "d\<lparr>users := users d @ [new_demo_user uid h now], points_ledger := points_ledger d @
    [\<lparr>le_user = uid, le_redemption = None, le_delta = 1200, le_balance = 1200,
      le_reason = ''demo_initial_balance''\<rparr>]\<rparr>"
  have "insert_demo_user uid h now d = Inr ?d"
    using assms False
    by (simp add: insert_demo_user_def valid_hash_iff constrained_holds insert_ledger_def
        user_exists_def anonymousDemoInitialPoints_def new_demo_user_def)
  with assms False show ?thesis
    by (intro exI [of _ ?d]) (simp add: new_demo_user_def)
qed

lemma filter_unique_single:
  assumes "unique_by k xs" and "x \<in> set xs" and "k x = a"
  shows "filter (\<lambda>y. k y = a) xs = [x]"
  using assms
proof (induction xs)
  case (Cons y xs)
  then show ?case by (cases "y = x") (auto simp: filter_empty_conv)
qed simp

lemma run_profile:
  assumes "calm e" and "lookup_row (\<lambda>u. u_hash u = h) (users (committed w)) = Some u"
  shows "fst (profile fmt h e w) = profile_of fmt u"
  using assms
  by (simp add: profile_def onError_def calm_execDB andThen_def reads_def lift_result_def)

definition profile_matches :: "preferences_request \<Rightarrow> user_profile \<Rightarrow> bool" where
  "profile_matches p q \<longleftrightarrow> up_user_id_hash q = pr_user_id_hash p \<and> up_stations q = pr_stations p
     \<and> up_categories q = pr_categories p \<and> up_budget_min q = pr_budget_min p
     \<and> up_budget_max q = pr_budget_max p \<and> up_timezone q = pr_timezone p
     \<and> up_notify q = pr_notify p \<and> up_start q = pr_start p \<and> up_end q = pr_end p"

lemma profile_of_preferences:
  assumes "pr_stations p \<noteq> []" and "pr_categories p \<noteq> []" and "u_hash u = pr_user_id_hash p"
  shows "\<exists>q. profile_of fmt (set_preferences p (marshal_repeated (pr_stations p))
      (marshal_repeated (pr_categories p)) now u) = Inr q \<and> profile_matches p q"
  using assms
  by (auto simp: profile_of_def set_preferences_def marshal_repeated_def json_strings_def
      profile_matches_def null_string_def nullif_empty_def)

end
