(* ===== verification/JourneySpec.thy ===== *)
theory JourneySpec
  imports Journey UserSpec
begin

text \<open>What entering a station, reading a recommendation and answering it must do.\<close>

text \<open>The identifiers an environment hands out are not empty.\<close>

definition uuids_ok :: "env \<Rightarrow> bool" where
  "uuids_ok e \<longleftrightarrow> (\<forall>n. uuid_at e n \<noteq> [])"

lemma uuids_okD [simp]: "uuids_ok e \<Longrightarrow> uuid_at e n \<noteq> []"
  by (simp add: uuids_ok_def)

subsection \<open>Entering a station\<close>

text \<open>\<open>entered good fmt s req d jid d'\<close>: \<open>d'\<close> is \<open>d\<close> with the user provided for, the journey
  \<open>jid\<close> and its event; when \<open>good\<close> holds, the identifiers of the event are not empty.\<close>

definition entered ::
  "bool \<Rightarrow> (int \<Rightarrow> string) \<Rightarrow> journey_service option \<Rightarrow> entry_request option
     \<Rightarrow> database \<Rightarrow> string \<Rightarrow> database \<Rightarrow> bool" where
  "entered good fmt s req d jid d' \<longleftrightarrow>
     (\<exists>v request d1 userID stationID line positionID stationLine eventID t now traceID.
        s = Some v \<and> req = Some request \<and> validUserIDHash (er_user_hash request)
        \<and> resolveEntryContext v request = Inr (stationID, line, positionID) \<and> stationID \<noteq> []
        \<and> ensured (er_user_hash request) d () d1
        \<and> select_user_id (er_user_hash request) d1 = Some userID \<and> user_exists d1 userID
        \<and> station_line stationID d = Some stationLine
        \<and> (trace_of (er_context request) \<noteq> [] \<longrightarrow> traceID = trace_of (er_context request))
        \<and> (good \<longrightarrow> jid \<noteq> [] \<and> traceID \<noteq> []) \<and> eventID \<noteq> []
        \<and> (\<forall>j\<in>set (journeys d). j_id j \<noteq> jid) \<and> (\<forall>x\<in>set (outbox_events d). ob_id x \<noteq> eventID)
        \<and> d' = d1\<lparr>journeys := journeys d @
                    [\<lparr>j_id = jid, j_user = userID, j_station = stationID,
                      j_line = (if line = [] then stationLine else line), j_position = Some positionID\<rparr>],
                  outbox_events := outbox_events d @
                    [queued (entry_event fmt eventID t traceID jid (er_user_hash request) stationID
                       (if line = [] then stationLine else line) positionID) now]\<rparr>)"

lemma ensured_frame:
  assumes "ensured h d u d'"
  shows "journeys d' = journeys d" "outbox_events d' = outbox_events d" "stations d' = stations d"
    "processed_events d' = processed_events d" "recommendations d' = recommendations d"
    "offers d' = offers d" "redemptions d' = redemptions d" "dismissals d' = dismissals d"
  using assms by (auto simp: ensured_def provisioned_def)

lemma Enqueue_id:
  "fst (Enqueue tx ev e w) = Inr u \<Longrightarrow> ev_id ev \<noteq> []"
  by (auto simp: Enqueue_def fail_def split: if_splits)

lemma enter_station_made:
  assumes h: "validUserIDHash (er_user_hash request)"
    and c: "resolveEntryContext v request = Inr (stationID, line, positionID)" "stationID \<noteq> []"
    and u: "insert_demo_user uid (er_user_hash request) now d = Inr d1"
      "select_user_id (er_user_hash request) d1 = Some userID"
    and st: "station_line stationID d1 = Some stationLine"
    and tr: "trace_of (er_context request) \<noteq> [] \<longrightarrow> traceID = trace_of (er_context request)"
    and good: "good \<longrightarrow> jid \<noteq> [] \<and> traceID \<noteq> []"
    and lineID: "lineID = (if line = [] then stationLine else line)"
    and eid: "ev_id (entry_event fmt eventID t traceID jid (er_user_hash request) stationID lineID positionID) \<noteq> []"
    and j: "insert_journey \<lparr>j_id = jid, j_user = userID, j_station = stationID,
        j_line = lineID, j_position = Some positionID\<rparr> d1 = Inr d2"
    and ev: "insert_event (entry_event fmt eventID t traceID jid (er_user_hash request) stationID
        lineID positionID) now d2 = Inr d3"
  shows "entered good fmt (Some v) (Some request) d jid d3"
proof -
  have en: "ensured (er_user_hash request) d () d1"
    using insert_demo_user_cases [OF u(1)] by (simp add: ensured_def)
  note fr = ensured_frame [OF en] and jd = insert_journey_InrD [OF j] and ed = insert_event_InrD [OF ev]
  have d3: "d3 = d1\<lparr>journeys := journeys d @ [\<lparr>j_id = jid, j_user = userID, j_station = stationID,
        j_line = lineID, j_position = Some positionID\<rparr>],
      outbox_events := outbox_events d @ [queued (entry_event fmt eventID t traceID jid
        (er_user_hash request) stationID lineID positionID) now]\<rparr>"
    by (simp add: jd(1) ed(1) fr)
  have ids: "eventID \<noteq> []" "\<forall>x\<in>set (outbox_events d). ob_id x \<noteq> eventID"
    "\<forall>x\<in>set (journeys d). j_id x \<noteq> jid" "user_exists d1 userID"
    using eid ed(2) jd(2,3) by (simp_all add: entry_event_def jd(1) fr)
  have "station_line stationID d = Some stationLine" using st by (simp add: station_line_def fr)
  with h c en u(2) tr good ids d3 show ?thesis
    unfolding entered_def lineID by blast
qed

lemma enter_station_wp:
  assumes "validUserIDHash (er_user_hash request)"
    and "resolveEntryContext v request = Inr (stationID, line, positionID)" and "stationID \<noteq> []"
    and "trace_of (er_context request) \<noteq> [] \<longrightarrow> traceID = trace_of (er_context request)"
    and "good \<longrightarrow> jid \<noteq> [] \<and> traceID \<noteq> []" and d: "committed w = d"
  shows "wp (enter_station fmt (er_user_hash request) traceID jid stationID line positionID) e
    (settles e (entered good fmt (Some v) (Some request)) d) w"
  unfolding enter_station_def EnsureDemoUser_def Let_def
  using assms(1) d
  by (auto split del: if_split intro!: wp_beginTx wp_execTx wp_commitTx wp_Enqueue')
    (blast intro: enter_station_made [OF assms(1-3) _ _ _ assms(4,5) refl])+

lemma CreateEntryEvent_wp:
  "wp (CreateEntryEvent fmt s req) e (settles e (entered (uuids_ok e) fmt s req) (committed w)) w"
proof (cases s; cases req)
  fix v request assume "s = Some v" and "req = Some request"
  then show ?thesis
    by (cases "resolveEntryContext v request")
      (auto simp: CreateEntryEvent_def intro!: enter_station_wp)
qed (simp_all add: CreateEntryEvent_def)

lemma entered_weaken: "entered good fmt s req d jid d' \<Longrightarrow> entered False fmt s req d jid d'"
  unfolding entered_def by blast

interpretation enter: tx_handler "CreateEntryEvent fmt s req" "entered False fmt s req" for fmt s req
  by unfold_locales (rule wp_mono [OF CreateEntryEvent_wp], auto dest: entered_weaken split: sum.splits)

subsection \<open>Answering a recommendation\<close>

text \<open>The weights a feedback event leaves.\<close>

definition learned :: "string \<Rightarrow> string \<Rightarrow> string \<Rightarrow> database \<Rightarrow> weight_row list \<Rightarrow> bool" where
  "learned h offerID ty d rows \<longleftrightarrow>
     (if feedbackDelta ty = (0, 0, 0, 0) then rows = preference_weights d
      else \<exists>uid c. feedback_subject h offerID d = Some (uid, c)
        \<and> rows = merge_weight uid c (feedbackDelta ty) (preference_weights d)
        \<and> (\<forall>r\<in>set rows. w_user r = uid \<and> w_category r = c \<longrightarrow> weight_row_ok r))"

definition dismissed_by :: "string \<Rightarrow> string \<Rightarrow> string \<Rightarrow> database \<Rightarrow> dismissal_row list \<Rightarrow> bool" where
  "dismissed_by journeyID recommendationID offerID d rows \<longleftrightarrow>
     (case lookup_row (\<lambda>j. j_id j = journeyID) (journeys d) of
        None \<Rightarrow> rows = dismissals d
      | Some j \<Rightarrow>
          let row = \<lparr>dis_user = j_user j, dis_journey = journeyID,
                dis_recommendation = recommendationID, dis_offer = offerID\<rparr> in
          rows = (if row \<in> set (dismissals d) then dismissals d else dismissals d @ [row]))"

definition dismissals_after ::
  "string \<Rightarrow> string \<Rightarrow> string \<Rightarrow> string \<Rightarrow> database \<Rightarrow> dismissal_row list \<Rightarrow> bool" where
  "dismissals_after ty journeyID recommendationID offerID d rows \<longleftrightarrow>
     (if ty = RecommendationDismissedTopic
      then dismissed_by journeyID recommendationID offerID d rows else rows = dismissals d)"

abbreviation feedback_consumer :: string where
  "feedback_consumer \<equiv> ''gateway-recommendation-feedback''"

text \<open>What the event is about: the journey, the offer and the event's identifier.\<close>

definition feedback_target ::
  "(string \<Rightarrow> string) \<Rightarrow> feedback_request option \<Rightarrow> database \<Rightarrow> string \<Rightarrow> string \<Rightarrow> string \<Rightarrow> bool" where
  "feedback_target sha1 req d journeyID offerID eventID \<longleftrightarrow> (\<exists>request c primary summary.
     req = Some request \<and> fr_context request = Some c \<and> journeyID = rc_journey c \<and> journeyID \<noteq> []
     \<and> select_recommendation (fr_recommendation request) journeyID (fr_user_hash request) d
         = Some (primary, summary)
     \<and> feedback_offer (fr_offer request) primary summary = Inr offerID
     \<and> eventID = recommendationFeedbackEventID sha1 (fr_user_hash request) journeyID
         (fr_recommendation request) offerID (fr_event_type request))"

definition feedback_recorded ::
  "(string \<Rightarrow> string) \<Rightarrow> (int \<Rightarrow> string) \<Rightarrow> feedback_request option \<Rightarrow> database \<Rightarrow> string \<Rightarrow> database \<Rightarrow> bool"
where
  "feedback_recorded sha1 fmt req d eventID d' \<longleftrightarrow>
     (\<exists>request journeyID offerID weights dism t now traceID surface.
        req = Some request \<and> feedback_target sha1 req d journeyID offerID eventID
        \<and> validRecommendationEventType (fr_event_type request)
        \<and> (feedback_consumer, eventID) \<notin> set (processed_events d)
        \<and> learned (fr_user_hash request) offerID (fr_event_type request) d weights
        \<and> dismissals_after (fr_event_type request) journeyID (fr_recommendation request) offerID d dism
        \<and> d' = d\<lparr>processed_events := processed_events d @ [(feedback_consumer, eventID)],
                 preference_weights := weights, dismissals := dism,
                 outbox_events := outbox_events d @
                   [queued (feedback_event fmt eventID t traceID journeyID offerID request surface) now]\<rparr>)"

definition feedback_seen ::
  "(string \<Rightarrow> string) \<Rightarrow> feedback_request option \<Rightarrow> database \<Rightarrow> string \<Rightarrow> bool" where
  "feedback_seen sha1 req d eventID \<longleftrightarrow> (\<exists>journeyID offerID.
     feedback_target sha1 req d journeyID offerID eventID
     \<and> (feedback_consumer, eventID) \<in> set (processed_events d))"

lemma insert_dismissal_InrD:
  assumes "insert_dismissal journeyID recommendationID offerID d = Inr d'"
  shows "\<exists>rows. dismissed_by journeyID recommendationID offerID d rows \<and> d' = d\<lparr>dismissals := rows\<rparr>"
proof (cases "lookup_row (\<lambda>j. j_id j = journeyID) (journeys d)")
  case None
  then show ?thesis using assms
    by (intro exI [of _ "dismissals d"]) (simp add: insert_dismissal_def dismissed_by_def)
next
  case (Some j)
  let ?row = "\<lparr>dis_user = j_user j, dis_journey = journeyID,
    dis_recommendation = recommendationID, dis_offer = offerID\<rparr>"
  show ?thesis
    using assms Some
    by (intro exI [of _ "if ?row \<in> set (dismissals d) then dismissals d else dismissals d @ [?row]"])
      (auto simp: insert_dismissal_def dismissed_by_def Let_def)
qed

lemma dismissals_after_frame:
  assumes "journeys d' = journeys d" and "dismissals d' = dismissals d"
  shows "dismissals_after ty j r x d' = dismissals_after ty j r x d"
  unfolding dismissals_after_def dismissed_by_def assms by (rule refl)

lemma claim_event_Inr:
  "claim_event c eid t d = Inr (n, d') \<longleftrightarrow>
     (if (c, eid) \<in> set (processed_events d) then n = 0 \<and> d' = d
      else n = 1 \<and> d' = d\<lparr>processed_events := processed_events d @ [(c, eid)]\<rparr>)"
  by (auto simp: claim_event_def)

lemma feedback_recorded_made:
  assumes r: "fr_context request = Some c" "rc_journey c \<noteq> []"
      "validRecommendationEventType (fr_event_type request)"
    and sel: "select_recommendation (fr_recommendation request) (rc_journey c) (fr_user_hash request) d
      = Some (primary, summary)"
    and off: "feedback_offer (fr_offer request) primary summary = Inr offerID"
    and eid: "eventID = recommendationFeedbackEventID sha1 (fr_user_hash request) (rc_journey c)
      (fr_recommendation request) offerID (fr_event_type request)"
    and new: "(feedback_consumer, eventID) \<notin> set (processed_events d)"
    and d1: "d1 = d\<lparr>processed_events := processed_events d @ [(feedback_consumer, eventID)]\<rparr>"
    and learn: "d2 = d1\<lparr>preference_weights := weights\<rparr>"
      "learned (fr_user_hash request) offerID (fr_event_type request) d1 weights"
    and dis: "d3 = d2\<lparr>dismissals := dism\<rparr>" "dismissals_after (fr_event_type request) (rc_journey c)
        (fr_recommendation request) offerID d2 dism"
    and ev: "insert_event (feedback_event fmt eventID t traceID (rc_journey c) offerID request surface)
      now d3 = Inr d'"
  shows "feedback_recorded sha1 fmt (Some request) d eventID d'"
proof -
  have "feedback_target sha1 (Some request) d (rc_journey c) offerID eventID"
    using r sel off eid by (auto simp: feedback_target_def)
  moreover have "learned (fr_user_hash request) offerID (fr_event_type request) d weights"
  proof -
    have "feedback_subject (fr_user_hash request) offerID d1 = feedback_subject (fr_user_hash request) offerID d"
      by (simp add: feedback_subject_def d1 split: option.split)
    with learn(2) show ?thesis unfolding learned_def by (simp add: d1 split: if_splits)
  qed
  moreover have "dismissals_after (fr_event_type request) (rc_journey c) (fr_recommendation request)
      offerID d dism"
    using dis(2) dismissals_after_frame [of d2 d] by (simp add: d1 learn(1))
  moreover have "d' = d\<lparr>processed_events := processed_events d @ [(feedback_consumer, eventID)],
      preference_weights := weights, dismissals := dism, outbox_events := outbox_events d @
        [queued (feedback_event fmt eventID t traceID (rc_journey c) offerID request surface) now]\<rparr>"
    by (simp add: insert_event_InrD(1) [OF ev] dis(1) learn(1) d1)
  ultimately show ?thesis
    using r(3) new unfolding feedback_recorded_def by blast
qed

lemma wp_feedback:
  assumes "\<And>x k. Q (Inl x) (w\<lparr>calls := k\<rparr>)"
    and "\<And>rows k. learned h x ty (working w) rows \<Longrightarrow>
           Q (Inr ()) (w\<lparr>working := (working w)\<lparr>preference_weights := rows\<rparr>, calls := k\<rparr>)"
  shows "wp (ApplyPreferenceFeedback tx h x ty) e Q w"
proof (rule wp_ApplyPreferenceFeedback)
  show "Q (Inl y) w" for y using assms(1) [of y "calls w"] by simp
  show "Q (Inr ()) w" if "feedbackDelta ty = (0, 0, 0, 0)"
    using assms(2) [of "preference_weights (working w)" "calls w"] that by (simp add: learned_def)
  fix uid c d
  assume f: "feedback_subject h x (working w) = Some (uid, c)" and n: "feedbackDelta ty \<noteq> (0, 0, 0, 0)"
    and u: "upsert_weight uid c (feedbackDelta ty) (tx_now w) (working w) = Inr d"
  show "Q (Inr ()) (w\<lparr>working := d, calls := Suc (Suc (calls w))\<rparr>)"
    using assms(2) f n upsert_weight_InrD(2) [OF u]
    unfolding upsert_weight_InrD(1) [OF u] learned_def by auto
qed (use assms(1) in auto)

lemma wp_dismissal:
  assumes "\<And>x k. Q (Inl x) (w\<lparr>calls := k\<rparr>)"
    and "\<And>rows k. dismissals_after ty j r x (working w) rows \<Longrightarrow>
           Q (Inr ()) (w\<lparr>working := (working w)\<lparr>dismissals := rows\<rparr>, calls := k\<rparr>)"
  shows "wp (if ty = RecommendationDismissedTopic then execTx (writes (\<lambda>t. insert_dismissal j r x))
    else ok ()) e Q w"
proof (cases "ty = RecommendationDismissedTopic")
  case True
  with assms show ?thesis
    by (auto simp: dismissals_after_def intro!: wp_execTx dest!: insert_dismissal_InrD)
next
  case False
  with assms(2) [of "dismissals (working w)" "calls w"] show ?thesis by (simp add: dismissals_after_def)
qed

lemma wp_claim:
  assumes "\<And>x k. Q (Inl x) (w\<lparr>calls := k\<rparr>)"
    and "(c, eid) \<in> set (processed_events (working w)) \<Longrightarrow> Q (Inr 0) (w\<lparr>calls := Suc (calls w)\<rparr>)"
    and "(c, eid) \<notin> set (processed_events (working w)) \<Longrightarrow> Q (Inr 1) (w\<lparr>working := (working w)
      \<lparr>processed_events := processed_events (working w) @ [(c, eid)]\<rparr>, calls := Suc (calls w)\<rparr>)"
  shows "wp (execTx (claim_event c eid)) e Q w"
  using assms by (auto simp: claim_event_Inr intro!: wp_execTx split: if_splits)

lemma record_feedback_wp:
  assumes r: "fr_context request = Some c" "rc_journey c \<noteq> []"
      "validRecommendationEventType (fr_event_type request)" and d: "committed w = d"
  shows "wp (record_feedback sha1 fmt traceID (rc_journey c) surface request) e
    (settles e (\<lambda>d eid d'. feedback_recorded sha1 fmt (Some request) d eid d'
       \<or> (d' = d \<and> feedback_seen sha1 (Some request) d eid)) d) w"
proof -
  have seen: "feedback_seen sha1 (Some request) d (recommendationFeedbackEventID sha1
      (fr_user_hash request) (rc_journey c) (fr_recommendation request) offerID (fr_event_type request))"
    if "select_recommendation (fr_recommendation request) (rc_journey c) (fr_user_hash request) d
          = Some (primary, summary)"
      and "feedback_offer (fr_offer request) primary summary = Inr offerID"
      and "(feedback_consumer, recommendationFeedbackEventID sha1 (fr_user_hash request)
        (rc_journey c) (fr_recommendation request) offerID (fr_event_type request))
          \<in> set (processed_events d)" for primary summary offerID
    unfolding feedback_seen_def feedback_target_def using that r(1,2) by blast
  have made: "feedback_recorded sha1 fmt (Some request) d eid d'"
    if "select_recommendation (fr_recommendation request) (rc_journey c) (fr_user_hash request) d
          = Some (primary, summary)"
      and "feedback_offer (fr_offer request) primary summary = Inr offerID"
      and "(feedback_consumer, eid) \<notin> set (processed_events d)"
      and "learned (fr_user_hash request) offerID (fr_event_type request)
        (d\<lparr>processed_events := processed_events d @ [(feedback_consumer, eid)]\<rparr>) weights"
      and "dismissals_after (fr_event_type request) (rc_journey c) (fr_recommendation request) offerID
        (d\<lparr>processed_events := processed_events d @ [(feedback_consumer, eid)],
           preference_weights := weights\<rparr>) dism"
      and "insert_event (feedback_event fmt eid t traceID (rc_journey c) offerID request surface) now
        (d\<lparr>processed_events := processed_events d @ [(feedback_consumer, eid)],
           preference_weights := weights, dismissals := dism\<rparr>) = Inr d'"
      and "eid = recommendationFeedbackEventID sha1 (fr_user_hash request) (rc_journey c)
        (fr_recommendation request) offerID (fr_event_type request)"
    for eid primary summary offerID weights dism now t d'
    by (rule feedback_recorded_made [OF r that(1,2,7,3) refl refl that(4) refl])
      (use that(5,6) in simp_all)
  show ?thesis
    unfolding record_feedback_def Let_def
    by (auto simp: d simp del: wp_if wp_lift_result split del: if_split intro!: wp_beginTx wp_liftI wp_claim
        wp_reads wp_commitTx wp_Enqueue wp_feedback wp_dismissal)
      ((drule (5) made, rule refl, blast) | (drule (2) seen, blast))+
qed

abbreviation feedback_answered ::
  "(string \<Rightarrow> string) \<Rightarrow> (int \<Rightarrow> string) \<Rightarrow> feedback_request option \<Rightarrow> database \<Rightarrow> string \<Rightarrow> database \<Rightarrow> bool"
where
  "feedback_answered sha1 fmt req d eid d' \<equiv>
     feedback_recorded sha1 fmt req d eid d' \<or> (d' = d \<and> feedback_seen sha1 req d eid)"

lemma RecordRecommendationEvent_wp:
  "wp (RecordRecommendationEvent sha1 fmt s req) e
     (settles e (feedback_answered sha1 fmt req) (committed w)) w"
proof (cases s; cases req)
  fix v request assume "s = Some v" and "req = Some request"
  then show ?thesis
    by (cases "fr_context request")
      (auto simp: RecordRecommendationEvent_def Let_def intro!: record_feedback_wp)
qed (simp_all add: RecordRecommendationEvent_def)

lemma feedback_target_fun:
  "feedback_target sha1 req d j x eid \<Longrightarrow> feedback_target sha1 req d j' x' eid' \<Longrightarrow>
     j' = j \<and> x' = x \<and> eid' = eid"
  by (auto simp: feedback_target_def)

lemma feedback_target_frame:
  assumes "recommendations d' = recommendations d" and "journeys d' = journeys d" and "users d' = users d"
  shows "feedback_target sha1 req d' = feedback_target sha1 req d"
  unfolding feedback_target_def select_recommendation_def assms by (rule refl)

lemma feedback_recorded_frame:
  assumes "feedback_recorded sha1 fmt req d eid d'"
  shows "feedback_target sha1 req d' = feedback_target sha1 req d"
    and "(feedback_consumer, eid) \<in> set (processed_events d')"
    and "(feedback_consumer, eid) \<notin> set (processed_events d)"
    and "\<exists>j x. feedback_target sha1 req d j x eid"
  using assms by (auto simp: feedback_recorded_def intro!: feedback_target_frame)

lemma feedback_once:
  assumes "feedback_recorded sha1 fmt req d a d'" and "feedback_answered sha1 fmt req d' a' d''"
  shows "d'' = d' \<and> a' = a"
proof -
  note fr = feedback_recorded_frame [OF assms(1)]
  obtain j x where t: "feedback_target sha1 req d j x a" using fr(4) by blast
  have "a' = a" if "feedback_target sha1 req d' j' x' a'" for j' x'
    using feedback_target_fun [OF t] that by (simp add: fr(1))
  moreover have "\<exists>j' x'. feedback_target sha1 req d' j' x' a'"
    using assms(2) by (auto simp: feedback_recorded_def feedback_seen_def)
  ultimately have "a' = a" by blast
  with assms(2) fr(2) show ?thesis by (auto simp: feedback_recorded_def)
qed

interpretation feedback: idempotent_handler "RecordRecommendationEvent sha1 fmt s req"
  "feedback_answered sha1 fmt req" "feedback_recorded sha1 fmt req" "feedback_seen sha1 req"
  "\<lambda>a b. b = a" for sha1 fmt s req
proof
  show "feedback_seen sha1 req d a \<Longrightarrow> \<not> feedback_recorded sha1 fmt req d a' d'" for d a a' d'
    by (auto simp: feedback_seen_def feedback_recorded_def dest: feedback_target_fun)
qed (auto simp: RecordRecommendationEvent_wp dest: feedback_once)

subsection \<open>The latest recommendation\<close>

definition offerable :: "string list \<Rightarrow> candidate \<Rightarrow> bool" where
  "offerable dismissedOffers c \<longleftrightarrow>
     cd_eligible c \<and> cd_title c \<noteq> [] \<and> cd_offer c \<notin> set dismissedOffers"

lemma mark_offerable:
  "offerable dm c \<Longrightarrow> mark_dismissed dm c = c"
  "\<not> offerable dm c \<longleftrightarrow> (cd_eligible (mark_dismissed dm c) \<longrightarrow> cd_title (mark_dismissed dm c) = [])"
  by (auto simp: offerable_def mark_dismissed_def)

text \<open>The candidate the loop ends up with: the first one whose offer has a name.\<close>

fun select_named :: "candidate option \<Rightarrow> candidate list \<Rightarrow> candidate option" where
  "select_named sel [] = sel"
| "select_named sel (c # cs) = select_named
     (case sel of Some p \<Rightarrow> if cd_offer p = [] then Some c else Some p | None \<Rightarrow> Some c) cs"

lemma offer_loop_result:
  assumes "int (length off) < limit"
  shows "\<exists>sh'. offer_loop row reasons dm limit cs (sh, off, sel) = (sh',
      off @ map (offer_of row reasons) (take (nat limit - length off) (filter (offerable dm) cs)),
      select_named sel (take (nat limit - length off) (filter (offerable dm) cs)))"
  using assms
proof (induction cs arbitrary: sh off sel)
  case (Cons c cs)
  show ?case
  proof (cases "offerable dm c")
    case False
    then have "cd_eligible (mark_dismissed dm c) \<longrightarrow> cd_title (mark_dismissed dm c) = []"
      by (simp add: mark_offerable(2))
    then have "offer_loop row reasons dm limit (c # cs) (sh, off, sel)
        = offer_loop row reasons dm limit cs (sh @ [show_candidate (mark_dismissed dm c)], off, sel)"
      by (auto simp: Let_def)
    with False Cons.IH [OF Cons.prems] show ?thesis by simp
  next
    case True
    then have el: "cd_eligible (mark_dismissed dm c)" "cd_title (mark_dismissed dm c) \<noteq> []"
      by (auto simp: mark_offerable(1) offerable_def)
    show ?thesis
    proof (cases "int (length off) + 1 < limit")
      case lt: True
      then have "nat limit - length off = Suc (nat limit - Suc (length off))" by simp
      with lt True el Cons.IH [of "off @ [offer_of row reasons c]"] show ?thesis
        by (simp add: Let_def mark_offerable(1))
    next
      case False
      with Cons.prems have "nat limit - length off = 1" by linarith
      with False True el show ?thesis by (simp add: Let_def mark_offerable(1))
    qed
  qed
qed simp

lemma select_named_Some:
  "cd_offer p \<noteq> [] \<Longrightarrow> select_named (Some p) cs = Some p"
  by (induction cs) auto

lemma select_named_offer:
  assumes "case sel of None \<Rightarrow> True | Some p \<Rightarrow> cd_offer p = []"
  shows "(case select_named sel cs of None \<Rightarrow> [] | Some c \<Rightarrow> cd_offer c)
    = (case find (\<lambda>c. cd_offer c \<noteq> []) cs of None \<Rightarrow> [] | Some c \<Rightarrow> cd_offer c)"
  using assms
proof (induction cs arbitrary: sel)
  case (Cons c cs)
  have "(case sel of Some p \<Rightarrow> if cd_offer p = [] then Some c else Some p | None \<Rightarrow> Some c) = Some c"
    using Cons.prems by (auto split: option.splits)
  with Cons.IH [of "Some c"] show ?case
    by (cases "cd_offer c = []") (simp_all add: select_named_Some)
qed (auto split: option.splits)

definition first_offer :: "recommended_offer list \<Rightarrow> string" where
  "first_offer xs = (case find (\<lambda>x. ro_offer x \<noteq> []) xs of None \<Rightarrow> [] | Some x \<Rightarrow> ro_offer x)"

lemma offer_of_offer [simp]: "ro_offer (offer_of row reasons c) = cd_offer c"
  by (simp add: offer_of_def Let_def)

lemma first_offer_map:
  "first_offer (map (offer_of row reasons) cs)
     = (case find (\<lambda>c. cd_offer c \<noteq> []) cs of None \<Rightarrow> [] | Some c \<Rightarrow> cd_offer c)"
  by (induction cs) (auto simp: first_offer_def)

lemma latest_of_offers:
  assumes "0 < limit"
  shows "lr_offers (latest_of row reasons cs dm limit)
      = map (offer_of row reasons) (take (nat limit) (filter (offerable dm) cs))"
    and "lr_offer (latest_of row reasons cs dm limit) = first_offer (lr_offers (latest_of row reasons cs dm limit))"
    and "lr_recommendation (latest_of row reasons cs dm limit) = rec_id row"
    and "lr_journey (latest_of row reasons cs dm limit) = rec_journey row"
proof -
  let ?es = "take (nat limit) (filter (offerable dm) cs)"
  obtain sh where l: "offer_loop row reasons dm limit cs ([], [], None)
      = (sh, map (offer_of row reasons) ?es, select_named None ?es)"
    using offer_loop_result [of "[]" limit row reasons dm cs "[]" None] assms by auto
  have lo: "lr_offer (latest_of row reasons cs dm limit)
      = (case select_named None ?es of None \<Rightarrow> [] | Some c \<Rightarrow> cd_offer c)"
    by (simp add: latest_of_def l Let_def split: option.split)
  show os: "lr_offers (latest_of row reasons cs dm limit) = map (offer_of row reasons) ?es"
    by (simp add: latest_of_def l Let_def split: option.split)
  show "lr_offer (latest_of row reasons cs dm limit) = first_offer (lr_offers (latest_of row reasons cs dm limit))"
    unfolding os lo first_offer_map by (rule select_named_offer) simp
  show "lr_recommendation (latest_of row reasons cs dm limit) = rec_id row"
    "lr_journey (latest_of row reasons cs dm limit) = rec_journey row"
    by (simp_all add: latest_of_def l Let_def split: option.split)
qed

text \<open>What the service reads before it answers.\<close>

definition latest_read ::
  "(recommendation_row \<Rightarrow> nat) \<Rightarrow> string \<Rightarrow> database \<Rightarrow> recommendation_row \<Rightarrow> string list \<Rightarrow> candidate list
     \<Rightarrow> string list \<Rightarrow> bool" where
  "latest_read tie journeyID d row reasons candidates dismissedOffers \<longleftrightarrow>
     newest_recommendation tie journeyID d = Some row
     \<and> unmarshal assign_strings (Raw (rec_reasons row)) [] = Inr reasons
     \<and> unmarshal (assign_list (assign_struct decode_candidate) no_candidate) (Raw (rec_candidates row)) []
         = Inr candidates
     \<and> dismissedOffers = map dis_offer (filter
         (\<lambda>x. dis_journey x = journeyID \<and> dis_recommendation x = rec_id row) (dismissals d))"

lemma GetLatestRecommendation_wp:
  "wp (GetLatestRecommendation tie s req) e (\<lambda>r w'. committed w' = committed w
     \<and> (\<forall>resp. r = Inr resp \<longrightarrow> (\<exists>v journeyID row reasons candidates dismissedOffers.
          s = Some v \<and> req = Some journeyID
          \<and> latest_read tie journeyID (committed w) row reasons candidates dismissedOffers
          \<and> resp = latest_of row reasons candidates dismissedOffers (js_limit v)))) w"
proof (cases s; cases req)
  fix v journeyID assume "s = Some v" and "req = Some journeyID"
  then show ?thesis
    by (auto simp: GetLatestRecommendation_def loadDismissedOffers_def latest_read_def
        simp del: wp_lift_result unmarshal.simps intro!: wp_execDB wp_liftI)
qed (simp_all add: GetLatestRecommendation_def)

end
