(* ===== verification/RecommendationSpec.thy ===== *)
theory RecommendationSpec
  imports EntryConsumer JourneySpec
begin

text \<open>What a recommendation must be, and that the service makes no other.\<close>

subsection \<open>The decision\<close>

text \<open>The offer \<open>offerID\<close> suits the user now: it belongs to the station, runs, is in stock, is
  affordable, and the user has not redeemed it.\<close>

definition suits :: "database \<Rightarrow> string \<Rightarrow> string \<Rightarrow> int \<Rightarrow> int \<Rightarrow> string \<Rightarrow> bool" where
  "suits d stationID userID balance now offerID \<longleftrightarrow>
     (\<exists>x\<in>set (offers d). \<exists>i\<in>set (inventory d). of_id x = offerID \<and> inv_offer i = offerID
        \<and> of_station x = stationID \<and> of_active x \<and> of_starts x \<le> now \<and> now < of_ends x
        \<and> inv_quantity i \<noteq> 0 \<and> of_cost x \<le> balance \<and> \<not> redeemed_by userID offerID d)"

lemma rejections_item_of:
  "rejections now balance (item_of x i) = [] \<longleftrightarrow>
     of_active x \<and> of_starts x \<le> now \<and> now < of_ends x \<and> inv_quantity i \<noteq> 0 \<and> of_cost x \<le> balance"
  by (auto simp: rejections_def item_of_def)

lemma evaluate_offer [simp]: "cd_offer (el_summary (evaluate lo rnd p now balance items c)) = qn_offer c"
  by (simp add: evaluate_def evaluate_item_def Let_def split: option.split)

lemma find_select_items:
  assumes "unique_by of_id (offers d)" and "unique_by inv_offer (inventory d)"
    and "x \<in> set (offers d)" and "i \<in> set (inventory d)" and "inv_offer i = of_id x"
    and "of_station x = stationID" and "of_id x \<in> set ids" and "\<not> redeemed_by userID (of_id x) d"
  shows "find_item (select_items stationID userID ids d) (of_id x) = Some (item_of x i)"
proof -
  have mem: "item_of x i \<in> set (select_items stationID userID ids d)"
    using assms(3-8) by (auto simp: set_select_items)
  have one: "y = item_of x i"
    if y: "y \<in> set (select_items stationID userID ids d)" "it_id y = of_id x" for y
  proof -
    obtain z k where "z \<in> set (offers d)" "k \<in> set (inventory d)" "inv_offer k = of_id z"
      "y = item_of z k"
      using y(1) unfolding set_select_items by blast
    moreover from this y(2) have "of_id z = of_id x" by (simp add: item_of_def)
    ultimately show ?thesis using assms(1-5) by (metis unique_byD)
  qed
  have "lookup_row (\<lambda>y. it_id y = of_id x) (rev (select_items stationID userID ids d)) \<noteq> None"
    using bexI [OF _ mem, of "\<lambda>y. it_id y = of_id x"] by (simp add: lookup_row_None_iff item_of_def)
  then obtain y where y: "lookup_row (\<lambda>y. it_id y = of_id x)
      (rev (select_items stationID userID ids d)) = Some y" by blast
  with one lookup_row_SomeD [OF y] show ?thesis by (simp add: find_item_def)
qed

lemma evaluate_eligible:
  assumes "unique_by of_id (offers d)" and "unique_by inv_offer (inventory d)"
    and "qn_offer c \<in> set ids"
  shows "cd_eligible (el_summary (evaluate lo rnd p now balance
      (select_items stationID userID ids d) c))
    \<longleftrightarrow> suits d stationID userID balance now (qn_offer c)"
proof
  assume "suits d stationID userID balance now (qn_offer c)"
  then obtain x i where x: "x \<in> set (offers d)" "i \<in> set (inventory d)" "of_id x = qn_offer c"
      "inv_offer i = of_id x" "of_station x = stationID" "\<not> redeemed_by userID (of_id x) d"
    and no: "rejections now balance (item_of x i) = []"
    by (auto simp: suits_def rejections_item_of)
  have "find_item (select_items stationID userID ids d) (qn_offer c) = Some (item_of x i)"
    using find_select_items [OF assms(1,2) x(1,2,4,5) _ x(6), of ids] assms(3) x(3) by simp
  with no show "cd_eligible (el_summary (evaluate lo rnd p now balance
      (select_items stationID userID ids d) c))"
    by (simp add: evaluate_def Let_def)
next
  assume e: "cd_eligible (el_summary (evaluate lo rnd p now balance
      (select_items stationID userID ids d) c))"
  then obtain y where y: "find_item (select_items stationID userID ids d) (qn_offer c) = Some y"
    and no: "rejections now balance y = []"
    by (auto simp: evaluate_def Let_def no_candidate_def split: option.splits)
  from find_item_Some [OF y] obtain x i where "x \<in> set (offers d)" "i \<in> set (inventory d)"
    "of_station x = stationID" "\<not> redeemed_by userID (of_id x) d" "inv_offer i = of_id x"
    "y = item_of x i" "of_id x = qn_offer c"
    by (auto simp: set_select_items item_of_def)
  with no show "suits d stationID userID balance now (qn_offer c)"
    by (auto simp: suits_def rejections_item_of)
qed

text \<open>An eligible evaluation is about a row of the query.\<close>

lemma evaluate_eligible_item:
  assumes "cd_eligible (el_summary (evaluate lo rnd p now balance items c))"
  shows "it_id (el_item (evaluate lo rnd p now balance items c)) = qn_offer c"
  using assms
  by (auto simp: evaluate_def Let_def no_candidate_def dest: find_item_Some split: option.splits)

subsection \<open>What a run makes of the database\<close>

abbreviation searched ::
  "externals \<Rightarrow> recommendation_service \<Rightarrow> recommendation_request \<Rightarrow> gerr + qdrant_candidate list" where
  "searched x s request \<equiv> qdrant_Search (rx_post x) (rx_escape x) (rx_number x) (rcs_qdrant s)
     (rcs_collection s) (rq_vector request) (rq_station request) (rcs_model s)
     (request_limit (Some s) request)"

definition ranking ::
  "externals \<Rightarrow> recommendation_request \<Rightarrow> preference \<Rightarrow> qdrant_candidate list \<Rightarrow> database \<Rightarrow> string
     \<Rightarrow> int \<Rightarrow> int \<Rightarrow> evaluation list" where
  "ranking x request p hits d userID balance now = rank (map (evaluate (rx_lower x) (rx_round x) p now
     balance (select_items (rq_station request) userID (unique_ids [] hits) d)) hits)"

definition decided ::
  "externals \<Rightarrow> recommendation_service \<Rightarrow> recommendation_request \<Rightarrow> preference \<Rightarrow> database \<Rightarrow> string \<Rightarrow> int
     \<Rightarrow> int \<Rightarrow> string \<Rightarrow> evaluation \<Rightarrow> recommendation \<Rightarrow> bool" where
  "decided x s request p d userID balance now stationName best m \<longleftrightarrow>
     (\<exists>hits ident latency words source. searched x s request = Inr hits
        \<and> chosen_of (ranking x request p hits d userID balance now) = Some best
        \<and> GenerateCopy (rx_digits x) (facts_of stationName best) (rcs_generator s) = Inr (words, source)
        \<and> m = assemble request (CandidateLimit (Some s)) ident latency
             (ranking x request p hits d userID balance now) best words source)"

definition announced ::
  "externals \<Rightarrow> recommendation_request \<Rightarrow> database \<Rightarrow> recommendation \<Rightarrow> database \<Rightarrow> bool" where
  "announced x request d m d' \<longleftrightarrow>
     (\<forall>r\<in>set (recommendations d). rec_id r \<noteq> rm_id m) \<and> offer_exists d (rm_offer m) \<and> 0 \<le> rm_latency m
     \<and> (\<exists>eid occurred now. eid \<noteq> [] \<and> (\<forall>r\<in>set (outbox_events d). ob_id r \<noteq> eid)
         \<and> d' = d\<lparr>recommendations := recommendations d @ [recommendation_row_of (rx_score x) m now],
                outbox_events := outbox_events d
                  @ [queued (recommendation_created (rx_fmt x) eid occurred request m) now]\<rparr>)"

definition recommended ::
  "externals \<Rightarrow> recommendation_service \<Rightarrow> recommendation_request \<Rightarrow> preference
     \<Rightarrow> database \<Rightarrow> recommendation \<Rightarrow> database \<Rightarrow> bool" where
  "recommended x s request p d m d' \<longleftrightarrow>
     (\<exists>userID balance now stationName best.
        user_balance (rq_user_hash request) d = Some (userID, balance)
        \<and> journey_place (rq_journey request) userID d = Some (rq_station request, stationName)
        \<and> decided x s request p d userID balance now stationName best m)
     \<and> announced x request d m d'"

lemma insert_recommendation_InrD:
  assumes "insert_recommendation r d = Inr d'"
  shows "d' = d\<lparr>recommendations := recommendations d @ [r]\<rparr>"
    and "\<forall>x\<in>set (recommendations d). rec_id x \<noteq> rec_id r" and "offer_exists d (rec_offer r)"
    and "0 \<le> rec_latency r"
  using assms by (auto simp: insert_recommendation_def recommendation_exists_def)

lemma announced_made:
  assumes "insert_recommendation (recommendation_row_of (rx_score x) m now) d = Inr d1"
    and "insert_event (recommendation_created (rx_fmt x) eid occurred request m) now d1 = Inr d'"
    and "ev_id (recommendation_created (rx_fmt x) eid occurred request m) \<noteq> []"
  shows "announced x request d m d'"
  using insert_recommendation_InrD [OF assms(1)] insert_event_InrD [OF assms(2)] assms(3)
  by (auto simp: announced_def recommendation_row_of_def recommendation_created_def)

lemma store_recommendation_wp:
  assumes "working w = d" and "committed w = d"
    and "\<And>words source ident latency d'.
      GenerateCopy (rx_digits x) (facts_of stationName best) (rcs_generator s) = Inr (words, source) \<Longrightarrow>
      announced x request d (assemble request (CandidateLimit (Some s)) ident latency ranked best words source) d'
      \<Longrightarrow> R (assemble request (CandidateLimit (Some s)) ident latency ranked best words source) d'"
  shows "wp (store_recommendation x s request started stationName ranked best) e
    (settles e (\<lambda>d. R) d) w"
  unfolding store_recommendation_def Let_def enqueueRecommendationEvent_def
  by (auto simp: assms(1,2) simp del: wp_lift_result
      intro!: wp_liftI wp_commitTx wp_Enqueue' wp_execTx)
    (blast intro: assms(3) announced_made)+

lemma recommend_from_wp:
  assumes "searched x s request = Inr hits" and "committed w = d"
  shows "wp (recommend_from x s request started p hits) e
    (settles e (recommended x s request p) d) w"
proof -
  let ?ranked = "\<lambda>userID balance now. rank (map (evaluate (rx_lower x) (rx_round x) p now balance
    (select_items (rq_station request) userID (unique_ids [] hits) d)) hits)"
  have made: "recommended x s request p d (assemble request (CandidateLimit (Some s)) ident latency
      (?ranked userID balance now) best words source) d'"
    if "user_balance (rq_user_hash request) d = Some (userID, balance)"
      and "journey_place (rq_journey request) userID d = Some (rq_station request, stationName)"
      and "chosen_of (?ranked userID balance now) = Some best"
      and "GenerateCopy (rx_digits x) (facts_of stationName best) (rcs_generator s) = Inr (words, source)"
      and "announced x request d (assemble request (CandidateLimit (Some s)) ident latency
        (?ranked userID balance now) best words source) d'"
    for userID balance now stationName best words source ident latency d'
    using that assms(1) unfolding recommended_def decided_def ranking_def by blast
  show ?thesis
    unfolding recommend_from_def Let_def
    by (auto simp: assms(2) split: option.split if_split
        intro!: wp_beginTx wp_reads store_recommendation_wp) (erule (3) made)
qed

lemma recommend_with_wp:
  "wp (recommend_with x s request started p) e
     (settles e (recommended x s request p) (committed w)) w"
  unfolding recommend_with_def
  by (auto simp del: wp_lift_result intro!: wp_liftI recommend_from_wp)

interpretation recommend: tx_handler "recommend_with x s request started p" "recommended x s request p"
  for x s request started p
  by standard (rule recommend_with_wp)

subsection \<open>The preference\<close>

text \<open>Reading a preference leaves the database alone.\<close>

lemma service_preference_local: "tx_local (service_preference x s r h)"
  unfolding service_preference_def preference_Get_def DemoPreference_def database_preference_def
    fallback_preference_def LoadPreferenceWeights_def Let_def
  by (intro tx_local_intros)

lemma Recommend_wp:
  "wp (Recommend x s r request) e (\<lambda>q w'. \<exists>answer r'. q = Inr (answer, r')
     \<and> settles e (\<lambda>d m d'. \<exists>v p. s = Some v \<and> recommended x v request p d m d') (committed w) answer w') w"
proof (cases s)
  case None
  then show ?thesis by (simp add: Recommend_def)
next
  case (Some v)
  have step: "wp (recommend_with x v request started p) e (settles e
      (\<lambda>d m d'. \<exists>u p. s = Some u \<and> recommended x u request p d m d') (committed w)) w'"
    if "committed w' = committed w" for w' started p
    by (rule wp_mono [OF recommend_with_wp]) (use Some that in \<open>auto split: sum.splits\<close>)
  show ?thesis
    by (auto simp: Recommend_def Some intro!: wp_tx_local [OF service_preference_local]
        wp_mono [OF step] split: sum.split)
qed

end
