(* ===== verification/JourneyTheorems.thy ===== *)
theory JourneyTheorems
  imports JourneySpec Demo RedemptionTheorems
begin

text \<open>The correctness statements of \<open>internal/journey/service.go\<close>.\<close>

definition demo_journeys :: "journey_service option" where
  "demo_journeys = WithRecommendationCandidateLimit (Some (NewService Handle [])) 2"

definition demo_entry :: "entry_request option" where
  "demo_entry = Some \<lparr>er_context = None, er_user_hash = demo_hash, er_station = ''s1'', er_line = [],
     er_position = ''P1'', er_beacon = None\<rparr>"

definition demo_members :: "string \<Rightarrow> bool \<Rightarrow> (string \<times> json) list" where
  "demo_members offer eligible = [(''offer_id'', JStr offer), (''title'', JStr ''Coffee''),
     (''description'', JStr ''A cup''), (''station_id'', JStr ''s1''), (''points_cost'', JInt 40),
     (''vector_score'', JInt 1), (''rule_score'', JInt 2), (''eligible'', JBool eligible),
     (''reasons'', JArr [JStr ''near''])]"

definition demo_candidate :: "string \<Rightarrow> bool \<Rightarrow> json" where
  "demo_candidate offer eligible = JObj (demo_members offer eligible)"

definition demo_recommendation :: recommendation_row where
  "demo_recommendation = \<lparr>rec_id = ''r1'', rec_journey = ''j1'', rec_offer = ''paid'', rec_score = 2,
     rec_reasons = JArr [JStr ''near''], rec_title = Some ''Your coffee'', rec_body = Some ''Close by'',
     rec_tone = None, rec_source = ''llm'',
     rec_candidates = JArr [demo_candidate ''paid'' True, demo_candidate ''old'' False,
       demo_candidate ''free'' True], rec_latency = 12, rec_created = 5\<rparr>"

definition demo_recommended :: database where
  "demo_recommended = demo_db\<lparr>recommendations := [demo_recommendation]\<rparr>"

definition demo_dismiss :: "feedback_request option" where
  "demo_dismiss = Some \<lparr>fr_context = Some \<lparr>rc_trace = ''t1'', rc_journey = ''j1''\<rparr>,
     fr_user_hash = demo_hash, fr_recommendation = ''r1'', fr_event_type = ''recommendation.dismissed.v1'',
     fr_surface = [], fr_offer = []\<rparr>"

text \<open>A stand-in for the hash: any function of the identity.\<close>

definition demo_sha1 :: "string \<Rightarrow> string" where
  "demo_sha1 s = CHR ''e'' # s"

definition demo_tie :: "recommendation_row \<Rightarrow> nat" where
  "demo_tie r = 0"

lemma uuids_ok_demo [simp]: "uuids_ok calm_env" "uuids_ok (lossy_env n)"
  by (simp_all add: uuids_ok_def calm_env_def lossy_env_def demo_uuid_def)

lemma demo_enter:
  "fst (CreateEntryEvent demo_fmt demo_journeys demo_entry calm_env (demo_world demo_db)) = Inr ''xx''"
  by code_simp

lemma demo_enter_world:
  "length (journeys (committed (snd (CreateEntryEvent demo_fmt demo_journeys demo_entry calm_env
     (demo_world demo_db))))) = 2"
  by code_simp

text \<open>
  C34: entering a station is one step. When \<open>CreateEntryEvent\<close> answers with a journey, the user is
  provided for, the journey is stored under the resolved station, line and position, and its event
  is queued in the same transaction, with identifiers that are not empty; when it fails, the
  database is as before, unless the answer of a commit got lost, and then all of it is there.
\<close>

theorem entry_all_or_nothing:
  assumes "CreateEntryEvent fmt s req e w = (r, w')" and "uuids_ok e"
  shows "case r of
      Inr jid \<Rightarrow> entered True fmt s req (committed w) jid (committed w')
    | Inl x \<Rightarrow> committed w' = committed w
        \<or> (\<not> lossless e \<and> (\<exists>jid. entered True fmt s req (committed w) jid (committed w')))"
  using wpD [OF CreateEntryEvent_wp assms(1)] unfolding eqTrueI [OF assms(2)] .

theorem entry_all_or_nothing_witness:
  "entered True demo_fmt demo_journeys demo_entry demo_db ''xx''
     (committed (snd (CreateEntryEvent demo_fmt demo_journeys demo_entry calm_env (demo_world demo_db))))"
  using entry_all_or_nothing [OF run_pair [OF demo_enter] uuids_ok_demo(1)] by (simp add: demo_world_def)


lemma demo_feedback_attempts:
  "fst (attempts 2 (RecordRecommendationEvent demo_sha1 demo_fmt demo_journeys demo_dismiss) (lossy_env 7)
     (demo_world demo_recommended))
   = [Inl Driver, Inr (recommendationFeedbackEventID demo_sha1 demo_hash ''j1'' ''r1'' ''paid''
        ''recommendation.dismissed.v1'')]"
  by code_simp

text \<open>
  C35: feedback counts once. However often a client sends the same feedback, and whichever answers
  get lost, the weight moves once, the dismissal is noted once, one event is queued, and every
  answer carries the same event identifier.
\<close>

theorem feedback_at_most_once:
  assumes "attempts n (RecordRecommendationEvent sha1 fmt s req) e w = (rs, w')"
  shows "(committed w' = committed w \<and> (\<forall>eid. Inr eid \<in> set rs \<longrightarrow> feedback_seen sha1 req (committed w) eid))
    \<or> (\<exists>eid. feedback_recorded sha1 fmt req (committed w) eid (committed w')
          \<and> (\<forall>eid'. Inr eid' \<in> set rs \<longrightarrow> eid' = eid))"
  using feedback.attempts_at_most_once [OF assms] by simp

theorem feedback_at_most_once_witness:
  "\<exists>eid. feedback_recorded demo_sha1 demo_fmt demo_dismiss demo_recommended eid
     (committed (snd (attempts 2 (RecordRecommendationEvent demo_sha1 demo_fmt demo_journeys demo_dismiss)
        (lossy_env 7) (demo_world demo_recommended))))"
proof -
  have "\<not> feedback_seen demo_sha1 demo_dismiss demo_recommended x" for x
    by (simp add: feedback_seen_def demo_recommended_def demo_db_def)
  with feedback_at_most_once [OF run_pair [OF demo_feedback_attempts]] show ?thesis
    by (auto simp: demo_world_def)
qed

definition demo_candidates :: "candidate list" where
  "demo_candidates = map (\<lambda>(x, el). \<lparr>cd_offer = x, cd_title = ''Coffee'', cd_description = ''A cup'',
     cd_station = ''s1'', cd_cost = 40, cd_vector = 1, cd_rule = 2, cd_eligible = el,
     cd_reasons = [''near'']\<rparr>) [(''paid'', True), (''old'', False), (''free'', True)]"

lemma demo_member_fields:
  "decode_field assign_string ''offer_id'' (demo_members x el) s = Inr x"
  "decode_field assign_string ''title'' (demo_members x el) s = Inr ''Coffee''"
  "decode_field assign_string ''description'' (demo_members x el) s = Inr ''A cup''"
  "decode_field assign_string ''station_id'' (demo_members x el) s = Inr ''s1''"
  "decode_field assign_int ''points_cost'' (demo_members x el) n = Inr 40"
  "decode_field assign_float ''vector_score'' (demo_members x el) q = Inr 1"
  "decode_field assign_float ''rule_score'' (demo_members x el) q = Inr 2"
  "decode_field assign_bool ''eligible'' (demo_members x el) b = Inr el"
  "decode_field assign_strings ''reasons'' (demo_members x el) ss = Inr [''near'']"
  by (simp_all add: demo_members_def field_folds int64_range_def del: fold_name.simps)

lemma decode_demo_candidate:
  "assign_struct decode_candidate (demo_candidate x el) no_candidate
     = Inr \<lparr>cd_offer = x, cd_title = ''Coffee'', cd_description = ''A cup'', cd_station = ''s1'',
         cd_cost = 40, cd_vector = 1, cd_rule = 2, cd_eligible = el, cd_reasons = [''near'']\<rparr>"
  by (simp only: demo_candidate_def assign_struct.simps decode_candidate_def demo_member_fields
      bind_result_simps)

lemma decode_demo_candidates:
  "unmarshal (assign_list (assign_struct decode_candidate) no_candidate)
     (Raw (rec_candidates demo_recommendation)) [] = Inr demo_candidates"
  by (simp add: demo_recommendation_def decode_demo_candidate demo_candidates_def del: assign_struct.simps)

lemma demo_newest: "newest_recommendation demo_tie ''j1'' demo_recommended = Some demo_recommendation"
  by (simp add: newest_recommendation_def demo_recommended_def demo_recommendation_def)

lemma demo_latest:
  "\<exists>resp :: latest_response. fst (GetLatestRecommendation demo_tie demo_journeys (Some ''j1'') calm_env
      (demo_world demo_recommended)) = Inr resp
     \<and> map ro_offer (lr_offers resp) = [''paid'', ''free'']"
proof -
  have v: "demo_journeys = Some \<lparr>js_db = Handle, js_resolver = None, js_limit = 2\<rparr>"
    by (simp add: demo_journeys_def WithRecommendationCandidateLimit_def NewService_def)
  have "fst (GetLatestRecommendation demo_tie demo_journeys (Some ''j1'') calm_env
      (demo_world demo_recommended)) = Inr (latest_of demo_recommendation [''near''] demo_candidates [] 2)"
    unfolding v using decode_demo_candidates demo_newest
    by (simp add: GetLatestRecommendation_def andThen_def onError_def calm_execDB reads_def
        loadDismissedOffers_def lift_result_def ok_def demo_world_def demo_recommendation_def
        demo_recommended_def demo_db_def del: assign_list.simps)
  then show ?thesis
    by (simp add: latest_of_offers(1) demo_candidates_def offerable_def numeral_2_eq_2)
qed

lemma latest_answer:
  assumes "GetLatestRecommendation tie (Some v) (Some journeyID) e w = (Inr resp, w')" and "0 < js_limit v"
  shows "committed w' = committed w \<and> (\<exists>row reasons candidates dismissedOffers.
     latest_read tie journeyID (committed w) row reasons candidates dismissedOffers
     \<and> lr_recommendation resp = rec_id row
     \<and> lr_offers resp = map (offer_of row reasons)
         (take (nat (js_limit v)) (filter (offerable dismissedOffers) candidates))
     \<and> lr_offer resp = first_offer (lr_offers resp))"
proof -
  from wpD [OF GetLatestRecommendation_wp assms(1)] obtain row reasons candidates dm where
    "committed w' = committed w" and "latest_read tie journeyID (committed w) row reasons candidates dm"
    and r: "resp = latest_of row reasons candidates dm (js_limit v)" by auto
  with latest_of_offers [OF assms(2), of row reasons candidates dm] show ?thesis
    unfolding r by blast
qed

text \<open>
  C36: the latest recommendation offers exactly what it may. The answer belongs to the newest
  recommendation of the journey; its offers are, in the stored order and up to the limit, the
  candidates that are eligible, have a title and were not dismissed for it; the offer it leads with
  is the first of them, or none.
\<close>

theorem latest_offers:
  assumes "GetLatestRecommendation tie (Some v) (Some journeyID) e w = (Inr resp, w')" and "0 < js_limit v"
  shows "committed w' = committed w \<and> (\<exists>row reasons candidates dismissedOffers.
     latest_read tie journeyID (committed w) row reasons candidates dismissedOffers
     \<and> lr_recommendation resp = rec_id row
     \<and> lr_offers resp = map (offer_of row reasons)
         (take (nat (js_limit v)) (filter (offerable dismissedOffers) candidates))
     \<and> lr_offer resp = first_offer (lr_offers resp))"
  using assms by (rule latest_answer)

theorem latest_offers_witness:
  "\<exists>resp :: latest_response. map ro_offer (lr_offers resp) = [''paid'', ''free'']
     \<and> lr_offer resp = first_offer (lr_offers resp)"
proof -
  obtain resp where r: "fst (GetLatestRecommendation demo_tie demo_journeys (Some ''j1'') calm_env
      (demo_world demo_recommended)) = Inr resp" and os: "map ro_offer (lr_offers resp) = [''paid'', ''free'']"
    using demo_latest by (elim exE conjE) (rule that)
  obtain v where v: "demo_journeys = Some v" "0 < js_limit v"
    by (simp add: demo_journeys_def WithRecommendationCandidateLimit_def NewService_def)
  have "lr_offer resp = first_offer (lr_offers resp)"
    using latest_offers [OF run_pair [OF r [unfolded v(1)]] v(2)] by (elim conjE exE)
  with os show ?thesis by (intro exI [of _ resp] conjI)
qed







text \<open>
  The number of offers is bounded. However the candidate limit of a service was set, it lies
  between 1 and 50, and an answer never holds more offers than the space reserved for it.
\<close>

theorem candidate_limit_bounds:
  assumes "foldl WithRecommendationCandidateLimit (Some (NewService db rs)) limits = Some v"
  shows "1 \<le> js_limit v \<and> js_limit v \<le> 50
    \<and> int (length (lr_offers (latest_of row reasons candidates dismissedOffers (js_limit v))))
        \<le> minRecommendationCandidates (js_limit v) (int (length candidates))"
proof -
  have "\<exists>u. foldl WithRecommendationCandidateLimit (Some u0) limits = Some u \<and> 1 \<le> js_limit u \<and> js_limit u \<le> 50"
    if "1 \<le> js_limit u0 \<and> js_limit u0 \<le> 50" for u0
    using that
    by (induction limits arbitrary: u0) (auto simp: WithRecommendationCandidateLimit_def)
  from this [of "NewService db rs"] have l: "1 \<le> js_limit v" "js_limit v \<le> 50"
    using assms by (auto simp: NewService_def)
  moreover have "length (filter (offerable dismissedOffers) candidates) \<le> length candidates" by simp
  ultimately show ?thesis
    by (auto simp: latest_of_offers(1) minRecommendationCandidates_def intro: min.coboundedI1)
qed

theorem candidate_limit_bounds_witness:
  "js_limit (the (foldl WithRecommendationCandidateLimit (Some (NewService Handle [])) [- 4, 70, 0])) \<le> 50"
  using candidate_limit_bounds [of Handle "[]" "[- 4, 70, 0]"]
  by (simp add: WithRecommendationCandidateLimit_def NewService_def)

end
