(* ===== verification/RecommendationTheorems.thy ===== *)
theory RecommendationTheorems
  imports RecommendationSpec JourneyTheorems "HOL-Library.Multiset"
begin

text \<open>The correctness statements of the recommendation service.\<close>

text \<open>A vector store that finds the two offers of the demo database.\<close>

definition demo_externals :: externals where
  "demo_externals = \<lparr>rx_post = (\<lambda>address body. Inr (200, Raw (JObj [(''result'', JArr
       [JObj [(''id'', JStr ''free'')], JObj [(''id'', JStr ''paid''), (''score'', JFrac 1 2)]])]))),
     rx_escape = (\<lambda>s. s), rx_number = (\<lambda>j. []), rx_lower = (\<lambda>r. r), rx_digits = (\<lambda>r. False),
     rx_fixed6 = (\<lambda>q. []), rx_sha256 = (\<lambda>s. replicate 32 127), rx_round32 = (\<lambda>q. q),
     rx_round = (\<lambda>q. q), rx_score = (\<lambda>q. q), rx_fmt = demo_fmt, rx_parse_time = (\<lambda>s. None)\<rparr>"

definition demo_recommender :: "recommendation_service option" where
  "demo_recommender = Some (NewRecommendationService demo_externals Handle
     (Some (NewQdrantClient ''http://q/'')) None)"

definition demo_asked :: recommendation_request where
  "demo_asked = \<lparr>rq_user_hash = demo_hash, rq_journey = ''j1'', rq_station = ''s1'',
     rq_trace = ''t1'', rq_vector = [1], rq_limit = 0\<rparr>"

definition demo_redis :: redis where
  "demo_redis = \<lparr>rd_entries = (\<lambda>_. None), rd_get_up = True, rd_set_up = True\<rparr>"

lemma demo_search: "searched demo_externals (the demo_recommender) demo_asked
  = Inr [\<lparr>qn_offer = ''free'', qn_score = 0\<rparr>, \<lparr>qn_offer = ''paid'', qn_score = 1/2\<rparr>]"
  by code_simp

abbreviation demo_run where
  "demo_run \<equiv> Recommend demo_externals demo_recommender demo_redis demo_asked calm_env (demo_world demo_db)"

lemma demo_recommends:
  "case fst demo_run of Inr (Inr m, r) \<Rightarrow> rm_offer m = ''paid'' \<and> rm_title m = ''Coffee''
     \<and> map cd_eligible (rm_candidates m) = [True, True] \<and> rm_source m = ''template'' | _ \<Rightarrow> False"
  by code_simp

lemma demo_run_result:
  obtains m r where "demo_run = (Inr (Inr m, r), snd demo_run)" "rm_offer m = ''paid''" "rm_title m = ''Coffee''"
    "map cd_eligible (rm_candidates m) = [True, True]" "rm_source m = ''template''"
proof -
  obtain m :: recommendation and r where f: "fst demo_run = Inr (Inr m, r)" and m: "rm_offer m = ''paid''" "rm_title m = ''Coffee''"
    "map cd_eligible (rm_candidates m) = [True, True]" "rm_source m = ''template''"
    using demo_recommends by (auto split: sum.splits)
  show thesis by (rule that [OF run_pair [OF f] m])
qed

text \<open>
  C3: a recommendation is made whole or not at all. \<open>Recommend\<close> always comes to an answer. When it
  answers with a recommendation, that is one the rules decide on, and the database is the old one
  with its row and its event; when it fails, the database is as before, unless the answer of the
  commit got lost, and then all of it is there.
\<close>

theorem recommend_effect:
  assumes "Recommend x s r request e w = (q, w')"
  shows "\<exists>answer r'. q = Inr (answer, r') \<and> (case answer of
      Inr m \<Rightarrow> (\<exists>v p. s = Some v \<and> recommended x v request p (committed w) m (committed w'))
    | Inl err \<Rightarrow> committed w' = committed w
        \<or> (\<not> lossless e \<and> (\<exists>m v p. s = Some v \<and> recommended x v request p (committed w) m (committed w'))))"
  using wpD [OF Recommend_wp assms] by blast

theorem recommend_effect_witness:
  "\<exists>v m p d'. recommended demo_externals v demo_asked p demo_db m d' \<and> rm_offer m = ''paid''"
proof -
  obtain m r where run: "demo_run = (Inr (Inr m, r), snd demo_run)" and "rm_offer m = ''paid''"
    by (rule demo_run_result)
  with recommend_effect [OF run] show ?thesis by (auto simp: demo_world_def)
qed

lemma recommended_ranking:
  assumes "recommended x s request p d m d'"
  obtains hits userID balance now stationName best words source where
    "searched x s request = Inr hits" "user_balance (rq_user_hash request) d = Some (userID, balance)"
    "journey_place (rq_journey request) userID d = Some (rq_station request, stationName)"
    "chosen_of (ranking x request p hits d userID balance now) = Some best"
    "GenerateCopy (rx_digits x) (facts_of stationName best) (rcs_generator s) = Inr (words, source)"
    "rm_candidates m = map el_summary (ranking x request p hits d userID balance now)"
    "rm_offer m = it_id (el_item best)" "rm_score m = cd_rule (el_summary best)"
    "rm_title m = co_title words" "rm_body m = co_body words" "rm_tone m = co_tone words"
    "rm_source m = source" "rm_reasons m = cd_reasons (el_summary best)"
    "rm_offers m = map (offered (rm_offer m) words (rm_reasons m))
       (take (nat (CandidateLimit (Some s))) (filter (\<lambda>v. cd_eligible (el_summary v))
         (ranking x request p hits d userID balance now)))"
    "rm_journey m = rq_journey request"
  using assms by (auto simp: recommended_def decided_def assemble_def)

text \<open>An order of candidates: \<open>a\<close> is at least as good as \<open>b\<close>.\<close>

definition as_good :: "candidate \<Rightarrow> candidate \<Rightarrow> bool" where
  "as_good a b \<longleftrightarrow> cd_rule a > cd_rule b \<or> (cd_rule a = cd_rule b \<and> cd_offer a \<le> cd_offer b)"

lemma as_good_rank_key: "rank_key u \<le> rank_key v \<longleftrightarrow> as_good (el_summary u) (el_summary v)"
  by (auto simp: rank_key_def as_good_def less_eq_prod_def)

lemma ranking_mem:
  assumes "v \<in> set (ranking x request p hits d userID balance now)"
  obtains c where "c \<in> set hits" "v = evaluate (rx_lower x) (rx_round x) p now balance
    (select_items (rq_station request) userID (unique_ids [] hits) d) c"
  using assms by (auto simp: ranking_def rank_def)

text \<open>
  C4: the recommendation is the best there is. The candidates reported are the hits of the vector
  search, best first; a candidate is called eligible exactly when its offer suits the user (of the
  station, running, in stock, affordable, not yet redeemed by the user); and the offer recommended
  is eligible, none of the eligible ones being better.
\<close>

theorem recommendation_is_best:
  assumes "Recommend x s r request e w = (Inr (Inr m, r'), w')"
    and "unique_by of_id (offers (committed w))" and "unique_by inv_offer (inventory (committed w))"
  shows "\<exists>v hits userID balance now. s = Some v \<and> searched x v request = Inr hits
    \<and> user_balance (rq_user_hash request) (committed w) = Some (userID, balance)
    \<and> mset (map cd_offer (rm_candidates m)) = mset (map qn_offer hits)
    \<and> sorted_wrt as_good (rm_candidates m)
    \<and> (\<forall>c\<in>set (rm_candidates m). cd_eligible c \<longleftrightarrow>
         suits (committed w) (rq_station request) userID balance now (cd_offer c))
    \<and> (\<exists>b\<in>set (rm_candidates m). cd_eligible b \<and> cd_offer b = rm_offer m \<and> cd_rule b = rm_score m
         \<and> (\<forall>c\<in>set (rm_candidates m). cd_eligible c \<longrightarrow> as_good b c))"
proof -
  obtain v p where v: "s = Some v" and rec: "recommended x v request p (committed w) m (committed w')"
    using wpD [OF Recommend_wp assms(1)] by auto
  obtain hits userID balance now best where h: "searched x v request = Inr hits"
      "user_balance (rq_user_hash request) (committed w) = Some (userID, balance)"
    and best: "chosen_of (ranking x request p hits (committed w) userID balance now) = Some best"
    and m: "rm_candidates m = map el_summary (ranking x request p hits (committed w) userID balance now)"
      "rm_offer m = it_id (el_item best)" "rm_score m = cd_rule (el_summary best)"
    using recommended_ranking [OF rec] by metis
  let ?R = "ranking x request p hits (committed w) userID balance now"
  have "mset (map cd_offer (rm_candidates m)) = mset (map qn_offer hits)"
    by (simp add: m(1) ranking_def rank_def mset_map image_mset.compositionality comp_def)
  moreover have "sorted_wrt as_good (rm_candidates m)"
  proof -
    have "sorted (map rank_key ?R)" by (simp add: ranking_def rank_def)
    then show ?thesis unfolding m(1) sorted_wrt_map as_good_rank_key [symmetric] .
  qed
  moreover have "\<forall>c\<in>set (rm_candidates m). cd_eligible c \<longleftrightarrow>
      suits (committed w) (rq_station request) userID balance now (cd_offer c)"
  proof -
    have "cd_eligible (el_summary u) \<longleftrightarrow>
        suits (committed w) (rq_station request) userID balance now (cd_offer (el_summary u))"
      if u: "u \<in> set ?R" for u
      by (rule ranking_mem [OF u])
        (simp add: evaluate_eligible [OF assms(2,3)] set_unique_ids)
    then show ?thesis by (simp add: m(1))
  qed
  moreover have "el_summary best \<in> set (rm_candidates m)" "cd_eligible (el_summary best)"
    "\<forall>c\<in>set (rm_candidates m). cd_eligible c \<longrightarrow> as_good (el_summary best) c"
    using chosen_best [OF best [unfolded ranking_def]]
    by (auto simp: m(1) ranking_def rank_def as_good_rank_key)
  moreover have "cd_offer (el_summary best) = rm_offer m"
  proof -
    have "best \<in> set ?R" "cd_eligible (el_summary best)"
      using chosen_best [OF best [unfolded ranking_def]] by (auto simp: ranking_def rank_def)
    then show ?thesis
      unfolding m(2) by (auto elim!: ranking_mem simp: evaluate_eligible_item)
  qed
  ultimately show ?thesis using v h m(3) by metis
qed

theorem recommendation_is_best_witness:
  "\<exists>m :: recommendation. rm_offer m = ''paid'' \<and> sorted_wrt as_good (rm_candidates m) \<and> length (rm_candidates m) = 2"
proof -
  obtain m r where run: "demo_run = (Inr (Inr m, r), snd demo_run)" and m: "rm_offer m = ''paid''"
    "map cd_eligible (rm_candidates m) = [True, True]"
    by (rule demo_run_result)
  have "unique_by of_id (offers (committed (demo_world demo_db)))"
    "unique_by inv_offer (inventory (committed (demo_world demo_db)))"
    by (simp_all add: demo_world_def demo_db_def demo_offer_def)
  from recommendation_is_best [OF run this] have "sorted_wrt as_good (rm_candidates m)" by blast
  moreover have "length (rm_candidates m) = 2" using arg_cong [OF m(2), of length] by simp
  ultimately show ?thesis using m(1) by blast
qed

text \<open>The chosen evaluation is about an offer of the database.\<close>

lemma chosen_offer:
  assumes "chosen_of (ranking x request p hits d userID balance now) = Some best"
  obtains y i where "y \<in> set (offers d)" "el_item best = item_of y i"
    "el_summary best = evaluate_item (rx_lower x) (rx_round x) p now balance (of_id y)
       (cd_vector (el_summary best)) (el_item best)"
    "cd_eligible (el_summary best)"
proof -
  let ?items = "select_items (rq_station request) userID (unique_ids [] hits) d"
  have best: "best \<in> set (ranking x request p hits d userID balance now)" "cd_eligible (el_summary best)"
    using chosen_best [OF assms [unfolded ranking_def]] by (auto simp: ranking_def rank_def)
  obtain c where c: "best = evaluate (rx_lower x) (rx_round x) p now balance ?items c"
    using best(1) by (rule ranking_mem)
  with best(2) obtain z where z: "find_item ?items (qn_offer c) = Some z"
    by (auto simp: evaluate_def Let_def no_candidate_def split: option.splits)
  with c have b: "best = \<lparr>el_item = z,
      el_summary = evaluate_item (rx_lower x) (rx_round x) p now balance (qn_offer c) (rx_round x (qn_score c)) z\<rparr>"
    by (simp add: evaluate_def Let_def)
  from find_item_Some [OF z] obtain y i where "y \<in> set (offers d)" "z = item_of y i" "it_id z = qn_offer c"
    by (auto simp: set_select_items)
  with b best(2) that [of y i] show ?thesis
    by (simp add: item_of_def evaluate_item_def Let_def)
qed

text \<open>
  C15: the words keep to the facts. The title and body of a recommendation name its offer, cost and
  discount as the database has them, contain no other number, and have the lengths the surfaces
  allow; they are the template's, or those of the language model and then they passed the same
  validation.
\<close>

theorem recommendation_copy_faithful:
  assumes "Recommend x s r request e w = (Inr (Inr m, r'), w')"
  shows "\<exists>v stationName. s = Some v \<and> (\<exists>y\<in>set (offers (committed w)). of_id y = rm_offer m
    \<and> (let f = \<lparr>cf_station = stationName, cf_offer = of_title y, cf_cost = of_cost y,
            cf_discount = of_description y, cf_reasons = take 3 (rm_reasons m), cf_time = []\<rparr>;
          words = \<lparr>co_title = rm_title m, co_body = rm_body m, co_tone = rm_tone m\<rparr> in
        faithful (rx_digits x) f words
        \<and> (rm_source m = ''template'' \<and> TemplateCopy (rx_digits x) f = Inr words
           \<or> rm_source m = ''llm'' \<and> (\<exists>g. rcs_generator v = Some g \<and> g f = Inr words))))"
proof -
  obtain v p where v: "s = Some v" and rec: "recommended x v request p (committed w) m (committed w')"
    using wpD [OF Recommend_wp assms] by auto
  obtain hits userID balance now stationName best words source where
    best: "chosen_of (ranking x request p hits (committed w) userID balance now) = Some best"
    and copy: "GenerateCopy (rx_digits x) (facts_of stationName best) (rcs_generator v) = Inr (words, source)"
    and m: "rm_offer m = it_id (el_item best)" "rm_title m = co_title words" "rm_body m = co_body words"
      "rm_tone m = co_tone words" "rm_source m = source" "rm_reasons m = cd_reasons (el_summary best)"
    using recommended_ranking [OF rec] by metis
  obtain y i where y: "y \<in> set (offers (committed w))" "el_item best = item_of y i"
    using best by (rule chosen_offer)
  have "facts_of stationName best = \<lparr>cf_station = stationName, cf_offer = of_title y, cf_cost = of_cost y,
      cf_discount = of_description y, cf_reasons = take 3 (rm_reasons m), cf_time = []\<rparr>"
    by (simp add: facts_of_def y(2) item_of_def m(6))
  moreover have "words = \<lparr>co_title = rm_title m, co_body = rm_body m, co_tone = rm_tone m\<rparr>"
    by (simp add: m)
  ultimately show ?thesis
    using copy v y m(1,5) unfolding GenerateCopy_cases Let_def
    by (auto simp: item_of_def intro!: exI [of _ stationName] bexI [of _ y]
        intro: ValidateCopyOutput_faithful dest: TemplateCopy_valid)
qed

theorem recommendation_copy_faithful_witness:
  "\<exists>f words. co_title words = ''Coffee'' \<and> faithful (\<lambda>r. False) f words"
proof -
  obtain m r where run: "demo_run = (Inr (Inr m, r), snd demo_run)" and m: "rm_title m = ''Coffee''"
    by (rule demo_run_result)
  obtain f where "faithful (rx_digits demo_externals) f
      \<lparr>co_title = rm_title m, co_body = rm_body m, co_tone = rm_tone m\<rparr>"
    using recommendation_copy_faithful [OF run] unfolding Let_def by blast
  with m show ?thesis by (intro exI conjI) (auto simp: demo_externals_def)
qed

end
