(* ===== verification/Consumers.thy ===== *)
theory Consumers
  imports Transactions
begin

text \<open>
  What the consumers of a Kafka topic share that commit a message only after they treated it: the
  loop fetches a message, treats it, commits its offset, and stops at the first error. A consumer
  promises the two equations of its loop; the offsets follow.
\<close>

text \<open>The messages of a sequence were all treated with success, one after the other.\<close>

fun treated_all :: "(raw \<Rightarrow> ('d, unit) act) \<Rightarrow> env \<Rightarrow> raw list \<Rightarrow> 'd world \<Rightarrow> 'd world \<Rightarrow> bool" where
  "treated_all treat e [] w w' \<longleftrightarrow> w' = w"
| "treated_all treat e (m # ms) w w' \<longleftrightarrow>
     (\<exists>w1. treat m e w = (Inr (), w1) \<and> treated_all treat e ms w1 w')"

lemma treated_all_nth:
  "treated_all treat e ms w w' \<Longrightarrow> j < length ms \<Longrightarrow> \<exists>w1 w2. treat (ms ! j) e w1 = (Inr (), w2)"
proof (induction ms arbitrary: w j)
  case (Cons m ms)
  then show ?case by (cases j) auto
qed simp

locale topic_consumer =
  fixes loop :: "(nat \<Rightarrow> gerr option) \<Rightarrow> 'h \<Rightarrow> nat \<Rightarrow> raw list \<Rightarrow> ('d, nat \<times> 'h) act"
    and treat :: "raw \<Rightarrow> ('d, unit) act" and halt :: "gerr \<Rightarrow> 'h"
  assumes loop_end: "loop commit_at fin n [] = ok (n, fin)"
    and loop_message: "loop commit_at fin n (m # ms) =
      andThen (attempt (treat m)) (\<lambda>q. case q of
        Inl err \<Rightarrow> ok (n, halt err)
      | Inr _ \<Rightarrow> (case commit_at n of Some err \<Rightarrow> ok (n, halt err) | None \<Rightarrow> loop commit_at fin (Suc n) ms))"
begin

text \<open>The loop ends having committed a prefix, all of it treated, and the last world is the one
  after that prefix or after one more treatment.\<close>

lemma committed_treated:
  assumes "loop commit_at fin n ms e w = (Inr (k, h), w')"
  shows "n \<le> k \<and> k \<le> n + length ms
    \<and> (\<exists>w1. treated_all treat e (take (k - n) ms) w w1
         \<and> (w' = w1 \<or> (\<exists>q. treat (ms ! (k - n)) e w1 = (q, w')))
         \<and> (if k = n + length ms then h = fin else \<exists>err. h = halt err))"
  using assms
proof (induction ms arbitrary: n w)
  case Nil
  then show ?case by (simp add: loop_end ok_def)
next
  case (Cons m ms)
  obtain q w1 where t: "treat m e w = (q, w1)" by fastforce
  show ?case
  proof (cases "\<exists>err. q = Inl err \<or> commit_at n = Some err")
    case True
    with Cons.prems t have "k = n" "w' = w1" "\<exists>err. h = halt err"
      unfolding loop_message andThen_def attempt_def ok_def by (auto split: sum.splits)
    with t show ?thesis by auto
  next
    case False
    then have "q = Inr ()" by (metis (full_types) old.unit.exhaust sum.exhaust)
    moreover have "commit_at n = None" using False by (cases "commit_at n") auto
    ultimately have "loop commit_at fin (Suc n) ms e w1 = (Inr (k, h), w')"
      using Cons.prems t unfolding loop_message andThen_def attempt_def by simp
    from Cons.IH [OF this] obtain w2 where ih: "Suc n \<le> k" "k \<le> Suc n + length ms"
      "treated_all treat e (take (k - Suc n) ms) w1 w2"
      "w' = w2 \<or> (\<exists>q. treat (ms ! (k - Suc n)) e w2 = (q, w'))"
      "if k = Suc n + length ms then h = fin else \<exists>err. h = halt err" by blast
    then have k: "k - n = Suc (k - Suc n)" by simp
    have "treated_all treat e (take (k - n) (m # ms)) w w2"
      unfolding k using t \<open>q = Inr ()\<close> ih(3) by auto
    moreover have "w' = w2 \<or> (\<exists>q. treat ((m # ms) ! (k - n)) e w2 = (q, w'))"
      unfolding k using ih(4) by simp
    ultimately show ?thesis using ih(1,2,5) by (intro conjI exI [of _ w2]) simp_all
  qed
qed

text \<open>A message that can never be treated is never passed.\<close>

lemma untreatable_stops:
  assumes "loop commit_at fin n ms e w = (Inr (k, h), w')" and "j < length ms"
    and "\<And>e w w1. treat (ms ! j) e w \<noteq> (Inr (), w1)"
  shows "k \<le> n + j \<and> (\<exists>err. h = halt err)"
proof -
  note r = committed_treated [OF assms(1)]
  then obtain w1 where all: "treated_all treat e (take (k - n) ms) w w1" by blast
  have "k \<le> n + j"
  proof (rule ccontr)
    assume "\<not> k \<le> n + j"
    then have "j < length (take (k - n) ms)" "take (k - n) ms ! j = ms ! j" using assms(2) by auto
    with treated_all_nth [OF all] assms(3) show False by metis
  qed
  with r assms(2) show ?thesis by (auto split: if_splits)
qed

end

end
