(* ===== verification/ProgramTheorems.thy ===== *)
theory ProgramTheorems
  imports Programs RecommendationTheorems Consumers
begin

text \<open>The correctness statements of the programs: their settings, and the embedding indexer.\<close>

subsection \<open>Vectors\<close>

lemma HashEmbedder_length: "HashEmbedder sha256 rnd n d = Inr v \<Longrightarrow> int (length v) = n \<and> 0 < n"
  by (auto simp: HashEmbedder_def Let_def split: if_splits)

lemma http_embedder_length:
  "http_embedder post rnd url model n d = Inr v \<Longrightarrow> int (length v) = n \<and> 0 < n"
  by (auto simp: http_embedder_def Let_def split: if_splits sum.splits prod.splits list.splits)

lemma NewConfiguredEmbedder_length:
  "NewConfiguredEmbedder lo sha256 post rnd mode url model n = Inr emb \<Longrightarrow> emb d = Inr v
     \<Longrightarrow> int (length v) = n \<and> 0 < n"
  by (auto simp: NewConfiguredEmbedder_def Let_def dest: HashEmbedder_length http_embedder_length
      split: if_splits)

text \<open>
  Vectors fit their collection. Whatever the environment says, an embedder the programs are
  configured with, be it the hash or a model behind HTTP, only ever returns vectors of the configured
  dimension, which is positive: the one the indexer creates the collection with, and the one the
  recommendation service searches it with.
\<close>

theorem configured_vectors_fit:
  assumes "configured_embedder x (LoadDependencies getenv) = Inr emb" and "emb doc = Inr v"
  shows "int (length v) = dep_embedding_dimension (LoadDependencies getenv) \<and> v \<noteq> []"
  using NewConfiguredEmbedder_length [OF assms(1) [unfolded configured_embedder_def] assms(2)] by auto

definition demo_environment :: environment where
  "demo_environment name =
     (if name = ''EMBEDDING_DIMENSION'' then ''4''
      else if name \<in> {''KAFKA_BROKERS'', ''POSTGRES_DSN'', ''QDRANT_URL''} then ''db''
      else if name = ''RECOMMENDATION_CANDIDATE_LIMIT'' then ''70'' else [])"

lemma configured_demo:
  "configured_embedder demo_externals (LoadDependencies demo_environment)
     = Inr (HashEmbedder (rx_sha256 demo_externals) (rx_round32 demo_externals) 4)"
proof -
  have d: "dep_embedding_mode (LoadDependencies demo_environment) = ''hash''"
    "dep_embedding_dimension (LoadDependencies demo_environment) = 4" by code_simp+
  have "to_lower (rx_lower demo_externals) (trim_space ''hash'') = ''hash''" by code_simp
  then show ?thesis by (simp add: configured_embedder_def NewConfiguredEmbedder_def d)
qed

theorem configured_vectors_fit_witness:
  "\<exists>emb v. configured_embedder demo_externals (LoadDependencies demo_environment) = Inr emb
     \<and> emb (document_of (demo_offer ''paid'' 40)) = Inr v \<and> length v = 4 \<and> v \<noteq> []"
proof -
  let ?d = "LoadDependencies demo_environment" and ?x = demo_externals
  let ?doc = "document_of (demo_offer ''paid'' 40)"
  let ?emb = "HashEmbedder (rx_sha256 ?x) (rx_round32 ?x) 4"
  note emb = configured_demo
  obtain v where v: "?emb ?doc = Inr v" by (auto simp: HashEmbedder_def Let_def)
  moreover have "dep_embedding_dimension ?d = 4" by code_simp
  ultimately show ?thesis using configured_vectors_fit [OF emb v] emb by auto
qed

lemma demo_model_trimmed: "trim_space ''demo-hash-v1'' = ''demo-hash-v1''"
  by code_simp

text \<open>
  C17: programs started from one environment agree. The recommendation service searches the
  collection the indexer writes, at the same Qdrant, with vectors of the same embedder; the gateway
  shows as many offers as the service keeps, between 1 and 50. They agree on the name of the
  embedding model exactly when it is written without surrounding blanks: the service trims it, the
  indexer does not, and the search filters by it.
\<close>

theorem programs_agree:
  assumes "configured_recommender x copywriter (LoadDependencies getenv) = Inr s"
    and "configured_gateway connect (LoadDependencies getenv) = Inr g"
  shows "\<exists>v i gv. s = Some v \<and> g = Some gv
    \<and> configured_indexer (LoadDependencies getenv) (the (rcs_embedder v)) = Some i
    \<and> rcs_collection v = oi_collection i \<and> rcs_qdrant v = oi_qdrant i \<and> rcs_embedder v = oi_embedder i
    \<and> CandidateLimit s = js_limit gv \<and> 1 \<le> js_limit gv \<and> js_limit gv \<le> 50
    \<and> (rcs_model v = oi_model i \<longleftrightarrow> trim_space (oi_model i) = oi_model i)"
proof -
  let ?d = "LoadDependencies getenv"
  note u = settings_usable [of getenv]
  from assms(1) obtain emb where emb: "configured_embedder x ?d = Inr emb"
    by (auto simp: configured_recommender_def bind_result_Inr_iff)
  from assms(2) obtain r where "g = WithRecommendationCandidateLimit (Some (NewService Handle [r])) (dep_candidate_limit ?d)"
    by (auto simp: configured_gateway_def bind_result_Inr_iff)
  then obtain gv where g: "g = Some gv" "js_limit gv = (if dep_candidate_limit ?d > 50 then 50 else dep_candidate_limit ?d)"
    using u(2) by (simp add: WithRecommendationCandidateLimit_def)
  obtain v where v: "s = Some v" "rcs_collection v = dep_embedding_collection ?d"
    "rcs_qdrant v = Some (NewQdrantClient (dep_qdrant ?d))" "rcs_embedder v = Some emb"
    "rcs_limit v = (if dep_candidate_limit ?d > 50 then 50 else dep_candidate_limit ?d)"
    "rcs_model v = (if trim_space (dep_embedding_model ?d) \<noteq> [] then trim_space (dep_embedding_model ?d)
       else ''demo-hash-v1'')"
    using assms(1) u(2,8) unfolding configured_recommender_def emb bind_result_simps Let_def
      WithCandidateLimit_def WithEmbeddingCollection_def WithEmbeddingModel_def WithQueryEmbedder_def
      WithCopyGenerator_def NewRecommendationService_def
    by (auto split: if_splits)
  obtain i where i: "configured_indexer ?d emb = Some i" "oi_collection i = dep_embedding_collection ?d"
    "oi_qdrant i = Some (NewQdrantClient (dep_qdrant ?d))" "oi_embedder i = Some emb"
    "oi_model i = dep_embedding_model ?d"
    using u(8) by (auto simp: configured_indexer_def WithCollection_def NewOfferIndexer_def)
  have "rcs_model v = oi_model i \<longleftrightarrow> trim_space (oi_model i) = oi_model i"
    using v(6) i(5) u(7) demo_model_trimmed by (cases "trim_space (dep_embedding_model ?d) = []") auto
  moreover have "CandidateLimit s = js_limit gv" "1 \<le> js_limit gv" "js_limit gv \<le> 50"
    using u(2) v(5) g(2) by (auto simp: CandidateLimit_def v(1))
  ultimately show ?thesis using v i g by auto
qed

theorem programs_agree_witness:
  "\<exists>v i gv. configured_recommender demo_externals (\<lambda>url model f. Inl Driver) (LoadDependencies demo_environment) = Inr (Some v)
    \<and> configured_gateway (\<lambda>url timeout. Inl Driver) (LoadDependencies demo_environment) = Inr (Some gv)
    \<and> configured_indexer (LoadDependencies demo_environment) (the (rcs_embedder v)) = Some i
    \<and> rcs_model v = oi_model i \<and> CandidateLimit (Some v) = 50 \<and> js_limit gv = 50"
proof -
  let ?d = "LoadDependencies demo_environment"
  obtain emb where emb: "configured_embedder demo_externals ?d = Inr emb"
    using configured_demo by auto
  have d: "dep_mobility_url ?d = []" "dep_llm_mode ?d = ''template''" "dep_candidate_limit ?d = 70" by code_simp+
  obtain s where s: "configured_recommender demo_externals (\<lambda>url model f. Inl Driver) ?d = Inr s"
    by (simp add: configured_recommender_def emb Let_def)
  obtain g where g: "configured_gateway (\<lambda>url timeout. Inl Driver) ?d = Inr g"
    by (simp add: configured_gateway_def d)
  have "js_limit (the g) = 50" using g
    by (auto simp: configured_gateway_def d WithRecommendationCandidateLimit_def)
  moreover have "oi_model i = ''demo-hash-v1''" if "configured_indexer ?d e = Some i" for e i
    using that by (auto simp: configured_indexer_def WithCollection_def NewOfferIndexer_def
      LoadDependencies_def text_setting_def demo_environment_def split: if_splits)
  ultimately show ?thesis using programs_agree [OF s g] s g demo_model_trimmed by fastforce
qed

subsection \<open>The index\<close>

lemma doJSON_Inr:
  "doJSON http c method path v e w = (Inr (), w') \<longleftrightarrow> qdrant_usable c
     \<and> w' = w\<lparr>trace := trace w @ [HttpRequest method (qc_base (the c) @ path) v]\<rparr>
     \<and> (\<exists>status. http (trace w) method (qc_base (the c) @ path) v = Inr status \<and> \<not> http_failed status)"
  by (auto simp: doJSON_def fail_def Let_def split: sum.splits if_splits)

text \<open>What the index is to hold of a changed offer: what the event says, or, where it does not say it
  all, what the database does; in the later of the two versions.\<close>

definition current_document :: "database \<Rightarrow> offer_change \<Rightarrow> offer_document \<Rightarrow> bool" where
  "current_document d c doc \<longleftrightarrow> (\<exists>base. doc = base\<lparr>od_version := max (od_version base) (oc_version c)\<rparr>
     \<and> (if oc_title c \<noteq> [] \<and> oc_description c \<noteq> [] \<and> oc_station c \<noteq> [] then base = change_document c
        else \<exists>x\<in>set (offers d). of_id x = oc_offer c \<and> base = document_of x))"

text \<open>The one request a change leads to.\<close>

definition index_request ::
  "(string \<Rightarrow> string) \<Rightarrow> (string \<Rightarrow> string) \<Rightarrow> offer_indexer \<Rightarrow> database \<Rightarrow> offer_change \<Rightarrow> external_call \<Rightarrow> bool" where
  "index_request escape point_uuid i d c request \<longleftrightarrow>
     (let base = qc_base (the (oi_qdrant i)) @ ''/collections/'' @ escape (oi_collection i) in
      if oc_type c = ''DELETE''
      then request = HttpRequest ''POST'' (base @ ''/points/delete?wait=true'')
             (JObj [(''points'', JArr [JStr (point_uuid (oc_offer c))])])
      else oc_type c = ''UPSERT'' \<and> (\<exists>doc emb v. current_document d c doc \<and> oi_embedder i = Some emb
             \<and> emb doc = Inr v \<and> v \<noteq> []
             \<and> request = HttpRequest ''PUT'' (base @ ''/points?wait=true'')
                 (JObj [(''points'', JArr [wire_point point_uuid (document_point (oi_model i) doc v)])])))"

lemma loadOffer_Inr:
  assumes "loadOffer i offerID e w = (Inr doc, w')"
  shows "committed w' = committed w \<and> trace w' = trace w
    \<and> (\<exists>x\<in>set (offers (committed w)). of_id x = offerID \<and> doc = document_of x)"
proof -
  have "wp (loadOffer i offerID) e (\<lambda>r w'. \<forall>doc. r = Inr doc \<longrightarrow> committed w' = committed w
      \<and> trace w' = trace w \<and> (\<exists>x\<in>set (offers (committed w)). of_id x = offerID \<and> doc = document_of x)) w"
    unfolding loadOffer_def by (auto intro!: wp_execDB dest!: lookup_row_SomeD)
  from wpD [OF this assms] show ?thesis by blast
qed

lemma index_document_Inr:
  assumes "index_document http escape point_uuid i c doc0 e w = (Inr (), w')"
  shows "\<exists>emb v. oi_embedder i = Some emb \<and> v \<noteq> []
    \<and> emb (doc0\<lparr>od_version := max (od_version doc0) (oc_version c)\<rparr>) = Inr v
    \<and> Upsert http escape point_uuid (oi_qdrant i) (oi_collection i)
        [document_point (oi_model i) (doc0\<lparr>od_version := max (od_version doc0) (oc_version c)\<rparr>) v] e w
      = (Inr (), w')"
proof -
  have d: "(if od_version doc0 < oc_version c then doc0\<lparr>od_version := oc_version c\<rparr> else doc0)
      = doc0\<lparr>od_version := max (od_version doc0) (oc_version c)\<rparr>"
    by (simp add: max_def)
  from assms show ?thesis unfolding index_document_def d Let_def
    by (auto simp: fail_def andThen_Inr_iff lift_result_def split: option.splits if_splits)
qed

lemma HandleOfferChanged_Inr:
  assumes "HandleOfferChanged http escape point_uuid (Some i) data e w = (Inr (), w')"
  shows "\<exists>c method address body status. offer_change_of data = Some c
    \<and> index_request escape point_uuid i (committed w) c (HttpRequest method address body)
    \<and> committed w' = committed w \<and> trace w' = trace w @ [HttpRequest method address body]
    \<and> http (trace w) method address body = Inr status \<and> \<not> http_failed status"
proof -
  obtain c where c: "offer_change_of data = Some c"
    using assms by (auto simp: HandleOfferChanged_def fail_def split: if_splits option.splits)
  show ?thesis
  proof (cases "oc_type c = ''DELETE''")
    case True
    have "qdrant_Delete http escape point_uuid (oi_qdrant i) (oi_collection i) [oc_offer c] e w = (Inr (), w')"
      using assms True by (simp add: HandleOfferChanged_def c fail_def split: if_splits)
    then show ?thesis
      by (auto simp: qdrant_Delete_def fail_def doJSON_Inr c True index_request_def Let_def split: if_splits)
  next
    case False
    let ?bare = "oc_title c = [] \<or> oc_description c = [] \<or> oc_station c = []"
    from assms False have up: "oc_type c = ''UPSERT''"
      by (simp add: HandleOfferChanged_def c fail_def split: if_splits)
    from assms obtain doc0 w1 where
      l: "(if ?bare then loadOffer i (oc_offer c) else ok (change_document c)) e w = (Inr doc0, w1)"
      and x: "index_document http escape point_uuid i c doc0 e w1 = (Inr (), w')"
      by (auto simp: HandleOfferChanged_def c up fail_def andThen_Inr_iff split: if_splits)
    let ?doc = "doc0\<lparr>od_version := max (od_version doc0) (oc_version c)\<rparr>"
    from index_document_Inr [OF x] obtain emb v where emb: "oi_embedder i = Some emb" "v \<noteq> []" "emb ?doc = Inr v"
      and u: "Upsert http escape point_uuid (oi_qdrant i) (oi_collection i)
        [document_point (oi_model i) ?doc v] e w1 = (Inr (), w')" by blast
    have w1: "current_document (committed w) c ?doc" "committed w1 = committed w" "trace w1 = trace w"
      using l unfolding current_document_def by (auto simp: ok_def dest: loadOffer_Inr split: if_splits)
    with emb have "index_request escape point_uuid i (committed w) c (HttpRequest ''PUT''
        (qc_base (the (oi_qdrant i)) @ ''/collections/'' @ escape (oi_collection i) @ ''/points?wait=true'')
        (JObj [(''points'', JArr [wire_point point_uuid (document_point (oi_model i) ?doc v)])]))"
      unfolding index_request_def Let_def using up by auto
    with u w1 c show ?thesis
      by (auto simp: Upsert_def fail_def doJSON_Inr split: if_splits)
  qed
qed



definition demo_change :: "string \<Rightarrow> int \<Rightarrow> raw" where
  "demo_change kind version = Raw (JObj
     [(''event_type'', JStr ''offer.changed.v1''), (''schema_version'', JInt 1),
      (''payload'', JObj [(''offer_id'', JStr ''paid''), (''content_version'', JInt version),
                          (''change_type'', JStr kind)])])"

abbreviation demo_http :: http where
  "demo_http \<equiv> (\<lambda>sent method address body. Inr 200)"

lemma change_folds:
  "fold_name ''content_version'' = ''CONTENT_VERSION''" "fold_name ''change_type'' = ''CHANGE_TYPE''"
  "fold_name ''category'' = ''CATEGORY''"
  by code_simp+

lemma demo_change_read:
  assumes "int64_range version" and "1 \<le> version"
  shows "offer_change_of (demo_change kind version)
    = Some (no_change\<lparr>oc_offer := ''paid'', oc_version := version, oc_type := kind\<rparr>)"
proof -
  have "int64_range 1" by (simp add: int64_range_def)
  then show ?thesis using assms
  by (simp add: offer_change_of_def demo_change_def decode_changed_event_def decode_change_def no_change_def
      field_folds change_folds del: fold_name.simps)
qed




subsection \<open>The indexer's loop\<close>

interpretation index: topic_consumer "index_loop http escape point_uuid i"
    "HandleOfferChanged http escape point_uuid i" Fatal
  for http escape point_uuid i
  by unfold_locales simp_all

text \<open>The program fails before its first message, or runs its loop.\<close>

lemma embedding_indexer_main_cases:
  assumes "embedding_indexer_main x http pu open_db telemetry com fin getenv messages e w = (Inr (k, halt), w')"
  obtains (startup) err where "k = 0" "halt = Fatal err"
    | (looping) emb w0 where "configured_embedder x (LoadDependencies getenv) = Inr emb"
        "index_loop http (rx_escape x) pu (configured_indexer (LoadDependencies getenv) emb) com fin 0
           messages e w0 = (Inr (k, halt), w')"
proof (cases "configured_embedder x (LoadDependencies getenv)")
  case (Inl err)
  with assms startup show thesis unfolding embedding_indexer_main_def Let_def
    by (auto simp: ok_def split: if_splits option.splits)
next
  case (Inr emb)
  obtain q w1 where "Bootstrap http (rx_escape x) pu (configured_indexer (LoadDependencies getenv) emb)
      (dep_embedding_dimension (LoadDependencies getenv)) e w = (q, w1)" by fastforce
  with assms Inr startup looping show thesis unfolding embedding_indexer_main_def Let_def
    by (cases q) (auto simp: ok_def andThen_def attempt_def split: if_splits option.splits)
qed

text \<open>
  C13: the indexer commits what it has indexed. Whenever the embedding indexer stops, having
  committed \<open>k\<close> messages, it has handled each of those, in order, with success: the offset of a change
  is committed only after Qdrant took it, so a change is never lost. It stops before the last message
  only by failing, and is then started again at message \<open>k\<close>.
\<close>

theorem indexer_commits_what_it_indexed:
  assumes "embedding_indexer_main x http point_uuid open_db telemetry commit_at fetch_end getenv messages e w
    = (Inr (k, halt), w')"
  shows "k \<le> length messages \<and> (k < length messages \<longrightarrow> (\<exists>err. halt = Fatal err))
    \<and> (k = 0 \<or> (\<exists>emb w0 w1. configured_embedder x (LoadDependencies getenv) = Inr emb
         \<and> treated_all (HandleOfferChanged http (rx_escape x) point_uuid
             (configured_indexer (LoadDependencies getenv) emb)) e (take k messages) w0 w1))"
  using assms
proof (cases rule: embedding_indexer_main_cases)
  case (looping emb w0)
  from index.committed_treated [OF looping(2)] looping(1) show ?thesis by (auto split: if_splits)
qed auto

definition demo_indexing where
  "demo_indexing messages = embedding_indexer_main demo_externals demo_http (\<lambda>s. s) (\<lambda>dsn. None) None
     (\<lambda>n. None) Finished demo_environment messages calm_env (demo_world demo_db)"

lemma demo_settings:
  fixes d :: dependencies defines "d \<equiv> LoadDependencies demo_environment"
  shows "dep_kafka d = ''db''" "dep_postgres d = ''db''" "dep_qdrant d = ''db''"
    "dep_embedding_model d = ''demo-hash-v1''" "dep_embedding_dimension d = 4"
    "dep_embedding_collection d = ''offer_embeddings_v1''"
  unfolding d_def by code_simp+

lemma demo_doJSON:
  "qdrant_usable c \<Longrightarrow> doJSON demo_http c method path v e w
     = (Inr (), w\<lparr>trace := trace w @ [HttpRequest method (qc_base (the c) @ path) v]\<rparr>)"
  by (simp add: doJSON_def Let_def)

lemma db_url: "trim_right_slashes ''db'' = ''db''"
  by code_simp

definition demo_embedder :: embedder where
  "demo_embedder = HashEmbedder (rx_sha256 demo_externals) (rx_round32 demo_externals) 4"

lemma demo_embeds: "\<exists>q qs. demo_embedder doc = Inr (q # qs)"
  by (simp add: demo_embedder_def HashEmbedder_def Let_def numeral_eq_Suc upt_rec)

lemma demo_configured:
  "configured_embedder demo_externals (LoadDependencies demo_environment) = Inr demo_embedder"
  "configured_indexer (LoadDependencies demo_environment) emb = Some \<lparr>oi_db = Handle,
     oi_qdrant = Some \<lparr>qc_base = ''db''\<rparr>, oi_embedder = Some emb,
     oi_collection = ''offer_embeddings_v1'', oi_model = ''demo-hash-v1''\<rparr>"
  by (simp_all add: configured_demo demo_embedder_def configured_indexer_def WithCollection_def
      NewOfferIndexer_def NewQdrantClient_def demo_settings db_url)

lemma demo_indexing_stops:
  "fst (demo_indexing [demo_change ''UPSERT'' 7, RawInvalid, demo_change ''DELETE'' 8])
     = Inr (1, Fatal (Recommendation_err InvalidOfferChangedEvent))"
proof -
  note e = demo_embeds
  obtain q1 qs1 where e1: "demo_embedder (document_of (demo_offer ''paid'' 40)) = Inr (q1 # qs1)" using e by blast
  obtain q2 qs2 where e2: "demo_embedder (document_of (demo_offer ''free'' 0)) = Inr (q2 # qs2)" using e by blast
  obtain q3 qs3 where e3: "demo_embedder (document_of (demo_offer ''paid'' 40)\<lparr>od_version := 7\<rparr>) = Inr (q3 # qs3)" using e by blast
  have "int64_range 7" by (simp add: int64_range_def)
  have bad: "offer_change_of RawInvalid = None" by (simp add: offer_change_of_def)
  have u: "qdrant_usable (Some \<lparr>qc_base = ''db''\<rparr>)" by (simp add: qdrant_usable_def)
  have o: "offers demo_db = [demo_offer ''paid'' 40, demo_offer ''free'' 0]" "of_active (demo_offer i c)" "of_id (demo_offer i c) = i" 
      "od_version (document_of (demo_offer i c)) = 1" "od_offer (document_of (demo_offer i c)) = i" for i c
    by (simp_all add: demo_db_def demo_offer_def document_of_def)
  show ?thesis
   unfolding demo_indexing_def embedding_indexer_main_def Let_def demo_configured demo_settings
   by (simp add: demo_settings Bootstrap_def unless_conflict_def EnsureCollection_def EnsurePayloadIndex_def index_fields_def
     calm_simps demo_doJSON u reindexActiveOffers_def o e1 e2 e3 Upsert_def point_ok_def document_point_def
     demo_world_def reads_def HandleOfferChanged_def demo_change_read \<open>int64_range 7\<close> no_change_def loadOffer_def
     lookup_row_Cons index_document_def bad)
qed
theorem indexer_commits_what_it_indexed_witness:
  "\<exists>w0 w1. treated_all (HandleOfferChanged demo_http (\<lambda>s. s) (\<lambda>s. s)
     (configured_indexer (LoadDependencies demo_environment) demo_embedder))
     calm_env [demo_change ''UPSERT'' 7] w0 w1"
proof -
  obtain w' where "demo_indexing [demo_change ''UPSERT'' 7, RawInvalid, demo_change ''DELETE'' 8]
      = (Inr (1, Fatal (Recommendation_err InvalidOfferChangedEvent)), w')"
    using demo_indexing_stops by (cases "demo_indexing [demo_change ''UPSERT'' 7, RawInvalid, demo_change ''DELETE'' 8]") auto
  moreover have "rx_escape demo_externals = (\<lambda>s. s)" by (simp add: demo_externals_def)
  ultimately show ?thesis
    using indexer_commits_what_it_indexed [of demo_externals demo_http "\<lambda>s. s"] demo_configured(1)
    unfolding demo_indexing_def by fastforce
qed

text \<open>
  A change the indexer cannot read stops it for good. If one of the messages of
  \<open>offer.changed.v1\<close> is not a change of a known kind, then in every run, whatever Qdrant, Kafka and the
  database answer, the program dies at that message or before it, without committing it; started
  again, it finds the message again. No later change of an offer reaches the index.
\<close>

theorem invalid_change_stops_indexer:
  assumes "embedding_indexer_main x http point_uuid open_db telemetry commit_at fetch_end getenv messages e w
    = (Inr (k, halt), w')"
    and "j < length messages"
    and "case offer_change_of (messages ! j) of None \<Rightarrow> True | Some c \<Rightarrow> oc_type c \<notin> {''DELETE'', ''UPSERT''}"
  shows "k \<le> j \<and> (\<exists>err. halt = Fatal err)"
  using assms(1)
proof (cases rule: embedding_indexer_main_cases)
  case (looping emb w0)
  obtain v where v: "configured_indexer (LoadDependencies getenv) emb = Some v"
    by (simp add: configured_indexer_def WithCollection_def)
  have "HandleOfferChanged http (rx_escape x) point_uuid (Some v) (messages ! j) e' w1 \<noteq> (Inr (), w2)" for e' w1 w2
    using assms(3) by (auto simp: index_request_def Let_def dest!: HandleOfferChanged_Inr split: if_splits)
  from index.untreatable_stops [OF looping(2) assms(2)] this show ?thesis unfolding v by simp
qed auto

theorem invalid_change_stops_indexer_witness:
  "\<exists>k err w'. demo_indexing [demo_change ''UPSERT'' 7, RawInvalid, demo_change ''DELETE'' 8]
     = (Inr (k, Fatal err), w') \<and> k \<le> 1"
proof -
  let ?ms = "[demo_change ''UPSERT'' 7, RawInvalid, demo_change ''DELETE'' 8]"
  obtain k halt w' where run: "demo_indexing ?ms = (Inr (k, halt), w')"
    using demo_indexing_stops by (cases "demo_indexing ?ms") auto
  have "offer_change_of RawInvalid = None" by (simp add: offer_change_of_def)
  with invalid_change_stops_indexer [OF run [unfolded demo_indexing_def], of 1] run show ?thesis by auto
qed

subsection \<open>Traces across Kafka\<close>

text \<open>
  A trace survives Kafka. Whatever the propagator writes into a carrier, and in whatever order
  the publisher's headers come out of the map, the consumer reads back the same values.
\<close>

theorem trace_survives_kafka:
  assumes "mset (shuffle (fold carrier_Set injected [])) = mset (fold carrier_Set injected [])"
  shows "ExtractKafka extract ctx (InjectKafka shuffle injected)
    = extract (carrier_Get (fold carrier_Set injected [])) ctx"
proof -
  let ?c = "fold carrier_Set injected []"
  have d: "distinct (map fst ?c)" by (rule distinct_carrier) simp
  have "mset (map fst (shuffle ?c)) = mset (map fst ?c)" using assms by (simp add: mset_map)
  then have d': "distinct (map fst (shuffle ?c))" using d by (metis mset_eq_imp_distinct_iff)
  have "set (shuffle ?c) = set ?c" using assms by (metis mset_eq_setD)
  then have "map_of (shuffle ?c) = map_of ?c" using d d' by (metis map_of_inject_set)
  moreover have "map_of (rev (shuffle ?c)) = map_of (shuffle ?c)" using d' by (intro map_of_inject_set [THEN iffD2]) (simp_all add: rev_map [symmetric])
  ultimately have "carrier_Get (fold carrier_Set (shuffle ?c) []) = carrier_Get ?c"
    by (auto simp: carrier_Get_def fun_eq_iff map_of_carrier)
  then show ?thesis by (simp add: ExtractKafka_def InjectKafka_def)
qed

definition demo_carrier :: "(string \<times> string) list" where
  "demo_carrier = [(''traceparent'', ''00''), (''tracestate'', ''a''), (''traceparent'', ''01'')]"

theorem trace_survives_kafka_witness:
  "ExtractKafka (\<lambda>get ctx. (get ''traceparent'', get ''tracestate'')) ([], []) (InjectKafka rev demo_carrier)
    = (''01'', ''a'')"
proof -
  have "ExtractKafka (\<lambda>get ctx. (get ''traceparent'', get ''tracestate'')) ([], []) (InjectKafka rev demo_carrier)
      = (carrier_Get (fold carrier_Set demo_carrier []) ''traceparent'',
         carrier_Get (fold carrier_Set demo_carrier []) ''tracestate'')"
    by (subst trace_survives_kafka [of rev]) simp_all
  then show ?thesis by (simp add: demo_carrier_def carrier_Set_def carrier_Get_def)
qed

end
