(* ===== verification/ServerTheorems.thy ===== *)
theory ServerTheorems
  imports Servers ProgramTheorems
begin

text \<open>
  What every server built by \<open>RunWithSetup\<close> answers to browsers of other origins and to the probes,
  which configurations the gateway and the redemption program start with, and how the analytics
  program ends.
\<close>

subsection \<open>Servers\<close>

definition check_fails :: "gerr option option \<Rightarrow> bool" where
  "check_fails check \<longleftrightarrow> (\<exists>err. check = Some (Some err))"

lemma readiness_answer:
  "hr_status (readinessHandler service version checks r h)
     = (if \<exists>c\<in>set checks. check_fails c then 503 else 200)"
  by (induction checks) (auto simp: writeStatus_def check_fails_def split: option.split)

lemma probes_keep_headers:
  "k \<noteq> ''Content-Type'' \<Longrightarrow> hr_headers (statusHandler service version state r h) k = h k"
  "k \<noteq> ''Content-Type'' \<Longrightarrow> hr_headers (readinessHandler service version checks r h) k = h k"
  by (simp add: statusHandler_def writeStatus_def)
    (induction checks, auto simp: writeStatus_def split: option.split)

lemma RunWithSetup_Inr:
  assumes "RunWithSetup host getenv name http grpc version setup checks = Inr s"
  shows "sv_filter s = corsFilter (getenv ''CORS_ALLOWED_ORIGINS'')"
    and "sv_routes s =
      [(''/healthz'', statusHandler (sv_name s) version ''ok''),
       (''/readyz'', readinessHandler (sv_name s) version checks),
       (''/version'', statusHandler (sv_name s) version ''ok'')]"
  using assms
  by (auto simp: RunWithSetup_def Let_def Load_def bind_result_Inr_iff split: option.splits)

text \<open>
  C20: a server lets only the browsers in it was told to, and says whether it is ready. Whatever
  handler of its API answers, an answer carries the header that opens it to another origin exactly when
  the request names an origin of the allowlist, and then for that origin alone; a preflight of any
  other origin is refused and reaches no handler; and \<open>/readyz\<close> answers with 200 exactly when no check
  fails, with 503 otherwise, while \<open>/healthz\<close> always answers with 200.
\<close>

theorem server_guards_and_reports:
  assumes "RunWithSetup host getenv name http grpc version setup checks = Inr s"
    and "h ''Access-Control-Allow-Origin'' = []"
    and "\<And>r h. hr_headers (handler r h) ''Access-Control-Allow-Origin'' = h ''Access-Control-Allow-Origin''"
  shows "(let reply = sv_filter s handler r h; origin = trim_space (hq_origin r);
            permitted = (origin \<in> set (allowed_origins (getenv ''CORS_ALLOWED_ORIGINS''))) in
      hr_headers reply ''Access-Control-Allow-Origin'' = (if permitted then [origin] else [])
      \<and> (hq_method r = ''OPTIONS'' \<and> origin \<noteq> [] \<longrightarrow>
           hr_status reply = (if permitted then 204 else 403) \<and> hr_body reply = None))
    \<and> (\<exists>ready healthy. map_of (sv_routes s) ''/readyz'' = Some ready
         \<and> map_of (sv_routes s) ''/healthz'' = Some healthy
         \<and> hr_status (ready r h) = (if \<exists>c\<in>set checks. check_fails c then 503 else 200)
         \<and> hr_status (healthy r h) = 200)"
proof -
  note s = RunWithSetup_Inr [OF assms(1)]
  show ?thesis
    using allowed_origins_nonempty [of "getenv ''CORS_ALLOWED_ORIGINS''"] assms(2,3)
    by (auto simp: s corsFilter_def grant_origin_def Let_def readiness_answer statusHandler_def writeStatus_def)
qed

definition demo_host :: host where
  "demo_host = \<lparr>ho_parse_url = (\<lambda>s. None), ho_resource = None, ho_exporter = (\<lambda>os. None),
     ho_name = Inr ''node1''\<rparr>"

abbreviation open_environment :: environment where
  "open_environment \<equiv> demo_environment(''CORS_ALLOWED_ORIGINS'' := ''https://a, https://b'')"

definition demo_server :: "gerr option \<Rightarrow> gerr + server" where
  "demo_server ping = RunWithSetup demo_host open_environment ''gateway-service'' '':8000'' '':9000'' ''dev''
     (Some None) [Some ping]"

lemma demo_server_starts: obtains s where "demo_server ping = Inr s"
proof -
  have "trim_space (open_environment ''OTEL_EXPORTER_OTLP_ENDPOINT'') = []" by code_simp
  with that show thesis by (simp add: demo_server_def RunWithSetup_def telemetry_Setup_def Let_def)
qed

theorem server_guards_and_reports_witness:
  "\<exists>s ready. demo_server (Some Driver) = Inr s \<and> map_of (sv_routes s) ''/readyz'' = Some ready
     \<and> (let r = \<lparr>hq_method = ''GET'', hq_origin = ''https://b''\<rparr> in
        hr_status (ready r (\<lambda>_. [])) = 503
        \<and> hr_headers (sv_filter s ready r (\<lambda>_. [])) ''Access-Control-Allow-Origin'' = [''https://b''])"
proof -
  let ?r = "\<lparr>hq_method = ''GET'', hq_origin = ''https://b''\<rparr>"
  let ?ready = "readinessHandler ''gateway-service'' ''dev'' [Some (Some Driver)]"
  obtain s where s: "demo_server (Some Driver) = Inr s" by (rule demo_server_starts)
  have "sv_name s = ''gateway-service''" using s
    by (auto simp: demo_server_def RunWithSetup_def Load_def Let_def bind_result_Inr_iff text_setting_def
        demo_environment_def)
  then have ready: "map_of (sv_routes s) ''/readyz'' = Some ?ready"
    by (simp add: RunWithSetup_Inr(2) [OF s [unfolded demo_server_def]])
  have o: "trim_space ''https://b'' = ''https://b''"
    "''https://b'' \<in> set (allowed_origins (open_environment ''CORS_ALLOWED_ORIGINS''))" by code_simp+
  have "hr_headers (?ready r h) ''Access-Control-Allow-Origin'' = h ''Access-Control-Allow-Origin''" for r h
    by (rule probes_keep_headers) simp
  from server_guards_and_reports [where h = "\<lambda>_. []" and handler = ?ready and r = ?r,
      OF s [unfolded demo_server_def] refl this] s o ready
  show ?thesis by (auto simp: Let_def check_fails_def)
qed

subsection \<open>Programs\<close>

text \<open>The gateway, the redemption program and the recommendation service share the outbox of one
  database, and each publishes it in the same way: whichever runs drains what the others left.\<close>

lemma gateway_starts:
  assumes "gateway_main host kafka connect open_db ping version getenv = Inr g"
  shows "dep_postgres (LoadDependencies getenv) \<noteq> []" "dep_kafka (LoadDependencies getenv) \<noteq> []"
    "open_db (dep_postgres (LoadDependencies getenv)) = None"
    "configured_gateway connect (LoadDependencies getenv) = Inr (gw_journey g)"
    "gw_publisher g = NewKafkaPublisher kafka Handle (split_on (CHR '','') (dep_kafka (LoadDependencies getenv)))"
    "gw_limit g = 100"
  using assms
  by (auto simp: gateway_main_def Let_def bind_result_Inr_iff split: if_splits option.splits)

lemma redemption_starts:
  assumes "redemption_main host kafka open_db ping version getenv = Inr p"
  shows "rdp_publisher p = NewKafkaPublisher kafka Handle (split_on (CHR '','') (dep_kafka (LoadDependencies getenv)))"
    "rdp_limit p = 100"
  using assms
  by (auto simp: redemption_main_def Let_def bind_result_Inr_iff split: if_splits option.splits)

lemma programs_share_publisher:
  assumes "gateway_main host kafka connect open_db ping version getenv = Inr g"
    and "redemption_main host' kafka open_db' ping' version' getenv = Inr p"
  shows "gw_publisher g = rdp_publisher p \<and> gw_limit g = rdp_limit p
    \<and> (gw_publisher g, gw_limit g) = (fst (recommendation_publisher kafka getenv),
         fst (snd (recommendation_publisher kafka getenv)))"
  by (simp add: gateway_starts [OF assms(1)] redemption_starts [OF assms(2)] recommendation_publisher_def)

text \<open>The end of the first loop ends the analytics program: a supervisor restarts it, unless it was
  told to stop.\<close>

lemma analytics_ends:
  assumes "brokers \<noteq> []" and "arrival \<noteq> []"
  shows "analytics_Run t cancelled arrival brokers True
    = Some (case cancelled 0 of Some c \<Rightarrow> c | None \<Rightarrow> snd (snd (consumed t (hd arrival))))"
  using assms by (cases arrival) (auto simp: analytics_Run_def split: option.split)

end
