(* ===== verification/TelemetryTheorems.thy ===== *)
theory TelemetryTheorems
  imports Telemetry ServerTheorems
begin

text \<open>What the telemetry of a service says of the requests it served, and how a trace goes on.\<close>

lemma serve_all_reports:
  assumes "serve_all tc rd name h requests s = ((outs, s'), sigs)"
  shows "run_all tc name h requests s = (outs, s')
    \<and> total ''http_server_requests_total'' sigs = int (length (filter (\<lambda>x. x \<noteq> Panicked) outs))
    \<and> total ''http_server_errors_total'' sigs = int (length (filter failed outs))
    \<and> length (filter span_started sigs) = length outs
    \<and> length (filter (\<lambda>x. x = SpanEnd) sigs) = length (filter (\<lambda>x. x \<noteq> Panicked) outs)"
  using assms
proof (induction requests arbitrary: s outs s' sigs)
  case Nil
  then show ?case by (simp add: total_def)
next
  case (Cons c requests)
  obtain t elapsed ctx req where c: "c = (t, elapsed, ctx, req)" by (cases c)
  obtain out s1 sigs1 where first: "Middleware tc rd name h t elapsed ctx req s = ((out, s1), sigs1)"
    by (metis surj_pair)
  obtain outs2 s2 sigs2 where rest: "serve_all tc rd name h requests s1 = ((outs2, s2), sigs2)"
    by (metis surj_pair)
  have "outs = out # outs2" "s' = s2" "sigs = sigs1 @ sigs2"
    using Cons.prems by (simp_all add: c first rest)
  with Middleware_reports [OF first] Cons.IH [OF rest] show ?case
    by (simp add: c)
qed

text \<open>
  The middleware of the API is transparent, and counts what returns. Whatever requests a service
  serves, it answers each as the bare handler does in the traced context and leaves the same state; it
  opens one span per request, counts a request per answer and an error per answer with an error.
  A request whose handler panics is neither counted nor has its span ended: between the requests opened
  and the requests counted lie exactly the panics.
\<close>

theorem middleware_counts_what_returns:
  "case serve_all tc rd name h requests s of (answers, sigs) \<Rightarrow>
     answers = run_all tc name h requests s
     \<and> total ''http_server_requests_total'' sigs = int (length (filter (\<lambda>x. x \<noteq> Panicked) (fst answers)))
     \<and> total ''http_server_errors_total'' sigs = int (length (filter failed (fst answers)))
     \<and> length (filter span_started sigs) = length (fst answers)
     \<and> length (filter (\<lambda>x. x = SpanEnd) sigs) + length (filter (\<lambda>x. x = Panicked) (fst answers))
         = length (filter span_started sigs)"
proof (cases "serve_all tc rd name h requests s")
  case (Pair answers sigs)
  then have run: "serve_all tc rd name h requests s = ((fst answers, snd answers), sigs)" by simp
  show ?thesis
    using serve_all_reports [OF run] sum_length_filter_compl [of "\<lambda>x. x = Panicked" "fst answers"]
    by (simp add: Pair)
qed

subsection \<open>One trace from the publisher to the consumer\<close>

text \<open>When a tracer's span stays in the trace of its context, and the propagator reads from a carrier
  the trace it wrote there, the consumer's span is in the trace of the publisher's.\<close>

lemma consumer_continues_trace:
  fixes tc :: "'c tracing" and trace_in :: "'c \<Rightarrow> string"
  assumes "\<And>tracer name kind attrs ctx. trace_in ctx \<noteq> [] \<Longrightarrow> trace_in (tg_start tc tracer name kind attrs ctx) = trace_in ctx"
    and "\<And>ctx ctx'. trace_in ctx \<noteq> [] \<Longrightarrow>
      trace_in (tg_extract tc (carrier_Get (fold carrier_Set (tg_inject tc ctx) [])) ctx') = trace_in ctx"
    and "\<And>c. mset (shuffle c) = mset c" and "trace_in sender \<noteq> []"
  shows "trace_in (fst (StartKafkaSpan tc
      (ExtractKafka (tg_extract tc) receiver
        (InjectKafka shuffle (tg_inject tc (fst (StartKafkaSpan tc sender topic eventID False)))))
      topic eventID' True)) = trace_in sender"
  using assms by (simp add: StartKafkaSpan_def Let_def trace_survives_kafka)

end
