(* ===== verification/ApiErrors.thy ===== *)
theory ApiErrors
  imports RedemptionApi
begin

text \<open>
  How a Go caller tells the API's errors apart: the predicates of
  \<open>api/proto/spacetime_node/v1/errors_errors.pb.go\<close>. Kratos' \<open>errors.FromError\<close>, which makes an API
  error of any error, is a parameter; of it the facts need that it finds the API error in a chain of
  wrapped errors.
\<close>

definition IsInvalidRequest :: "(gerr \<Rightarrow> api_error) \<Rightarrow> gerr option \<Rightarrow> bool" where
  "IsInvalidRequest FromError err =
     (case err of
        None \<Rightarrow> False
      | Some x \<Rightarrow> (let e = FromError x in api_reason e = ''INVALID_REQUEST'' \<and> api_code e = 400))"

definition IsJourneyNotFound :: "(gerr \<Rightarrow> api_error) \<Rightarrow> gerr option \<Rightarrow> bool" where
  "IsJourneyNotFound FromError err =
     (case err of
        None \<Rightarrow> False
      | Some x \<Rightarrow> (let e = FromError x in api_reason e = ''JOURNEY_NOT_FOUND'' \<and> api_code e = 404))"

definition IsRecommendationNotFound :: "(gerr \<Rightarrow> api_error) \<Rightarrow> gerr option \<Rightarrow> bool" where
  "IsRecommendationNotFound FromError err =
     (case err of
        None \<Rightarrow> False
      | Some x \<Rightarrow> (let e = FromError x in api_reason e = ''RECOMMENDATION_NOT_FOUND'' \<and> api_code e = 404))"

definition IsRedemptionNotFound :: "(gerr \<Rightarrow> api_error) \<Rightarrow> gerr option \<Rightarrow> bool" where
  "IsRedemptionNotFound FromError err =
     (case err of
        None \<Rightarrow> False
      | Some x \<Rightarrow> (let e = FromError x in api_reason e = ''REDEMPTION_NOT_FOUND'' \<and> api_code e = 404))"

definition IsIdempotencyKeyConflict :: "(gerr \<Rightarrow> api_error) \<Rightarrow> gerr option \<Rightarrow> bool" where
  "IsIdempotencyKeyConflict FromError err =
     (case err of
        None \<Rightarrow> False
      | Some x \<Rightarrow> (let e = FromError x in api_reason e = ''IDEMPOTENCY_KEY_CONFLICT'' \<and> api_code e = 409))"

definition IsInsufficientPoints :: "(gerr \<Rightarrow> api_error) \<Rightarrow> gerr option \<Rightarrow> bool" where
  "IsInsufficientPoints FromError err =
     (case err of
        None \<Rightarrow> False
      | Some x \<Rightarrow> (let e = FromError x in api_reason e = ''INSUFFICIENT_POINTS'' \<and> api_code e = 409))"

definition IsOfferUnavailable :: "(gerr \<Rightarrow> api_error) \<Rightarrow> gerr option \<Rightarrow> bool" where
  "IsOfferUnavailable FromError err =
     (case err of
        None \<Rightarrow> False
      | Some x \<Rightarrow> (let e = FromError x in api_reason e = ''OFFER_UNAVAILABLE'' \<and> api_code e = 409))"

definition IsMerchantVerificationFailed :: "(gerr \<Rightarrow> api_error) \<Rightarrow> gerr option \<Rightarrow> bool" where
  "IsMerchantVerificationFailed FromError err =
     (case err of
        None \<Rightarrow> False
      | Some x \<Rightarrow> (let e = FromError x in api_reason e = ''MERCHANT_VERIFICATION_FAILED'' \<and> api_code e = 409))"

definition IsUserNotFound :: "(gerr \<Rightarrow> api_error) \<Rightarrow> gerr option \<Rightarrow> bool" where
  "IsUserNotFound FromError err =
     (case err of
        None \<Rightarrow> False
      | Some x \<Rightarrow> (let e = FromError x in api_reason e = ''USER_NOT_FOUND'' \<and> api_code e = 404))"

lemmas is_error_defs =
  IsInvalidRequest_def
  IsJourneyNotFound_def
  IsRecommendationNotFound_def
  IsRedemptionNotFound_def
  IsIdempotencyKeyConflict_def
  IsInsufficientPoints_def
  IsOfferUnavailable_def
  IsMerchantVerificationFailed_def
  IsUserNotFound_def

subsection \<open>Every service error of a redemption is told apart\<close>

fun api_in_chain :: "gerr \<Rightarrow> api_error option" where
  "api_in_chain (Api a) = Some a"
| "api_in_chain (Wrapped t e) = api_in_chain e"
| "api_in_chain e = None"

definition finds_api_errors :: "(gerr \<Rightarrow> api_error) \<Rightarrow> bool" where
  "finds_api_errors FromError \<longleftrightarrow> (\<forall>e a. api_in_chain e = Some a \<longrightarrow> FromError e = a)"

definition api_verdicts :: "(gerr \<Rightarrow> api_error) \<Rightarrow> gerr \<Rightarrow> bool list" where
  "api_verdicts FromError e = map (\<lambda>p. p FromError (Some e))
     [IsInvalidRequest, IsJourneyNotFound, IsRecommendationNotFound, IsRedemptionNotFound,
      IsIdempotencyKeyConflict, IsInsufficientPoints, IsOfferUnavailable, IsMerchantVerificationFailed,
      IsUserNotFound]"

text \<open>The place, in that order, of the one predicate that holds of a mapped service error.\<close>

fun redemption_verdict :: "redemption_error \<Rightarrow> nat" where
  "redemption_verdict RedemptionInvalidRequest = 0"
| "redemption_verdict RedemptionUserNotFound = 0"
| "redemption_verdict RedemptionJourneyNotFound = 1"
| "redemption_verdict RedemptionNotFound = 3"
| "redemption_verdict IdempotencyKeyConflict = 4"
| "redemption_verdict InsufficientPoints = 5"
| "redemption_verdict OfferUnavailable = 6"
| "redemption_verdict OfferAlreadyRedeemed = 6"
| "redemption_verdict VerificationFailed = 7"
| "redemption_verdict RedemptionNotVerifiable = 7"

fun wrapped_in :: "string list \<Rightarrow> gerr \<Rightarrow> gerr" where
  "wrapped_in [] e = e"
| "wrapped_in (t # ts) e = Wrapped t (wrapped_in ts e)"

lemma errors_is_wrapped [simp]:
  "errors_is (wrapped_in ts (Redemption_err y)) (Redemption_err z) \<longleftrightarrow> y = z"
  by (induction ts) auto

lemma api_in_wrapped [simp]: "api_in_chain (wrapped_in ts (Api a)) = Some a"
  by (induction ts) auto

lemma redemption_errors_told_apart:
  assumes "finds_api_errors FromError"
  shows "api_verdicts FromError (wrapped_in us (map_redemption_error (wrapped_in ts (Redemption_err y))))
    = (replicate 9 False)[redemption_verdict y := True]"
proof -
  have "FromError (wrapped_in us (Api a)) = a" for a
    using assms by (simp add: finds_api_errors_def)
  then show ?thesis
    by (cases y) (simp_all add: map_redemption_error_def api_error_defs api_verdicts_def is_error_defs
        Let_def eval_nat_numeral)
qed

end
