(* ===== verification/RecommendationShown.thy ===== *)
theory RecommendationShown
  imports RecommendationTheorems
begin

text \<open>
  From the recommendation service to the gateway: what \<open>Recommend\<close> stores, both readers of the
  table, \<open>GetLatest\<close> of the service and \<open>GetLatestRecommendation\<close> of the gateway, read back.
\<close>

subsection \<open>The stored documents\<close>

lemma decode_field_append:
  "decode_field f n (xs @ ys) old = bind_result (decode_field f n xs old) (decode_field f n ys)"
  by (induction xs arbitrary: old) (auto split: sum.split)

lemma decode_field_omit_empty:
  "decode_field assign_string n (omit_empty n' v) old =
     Inr (if (n' = n \<or> fold_name n' = fold_name n) \<and> v \<noteq> [] then v else old)"
  by (simp add: omit_empty_def)

lemma decode_field_omit_other:
  "n' \<noteq> n \<Longrightarrow> fold_name n' \<noteq> fold_name n \<Longrightarrow> decode_field f n (omit_empty n' v) old = Inr old"
  by (simp add: omit_empty_def)

lemma assign_marshal_strings [simp]: "assign_strings (marshal_strings ss) old = Inr ss"
  by (simp add: marshal_strings_def)

definition candidate_members :: "candidate \<Rightarrow> (string \<times> json) list" where
  "candidate_members c =
     (''offer_id'', JStr (cd_offer c)) # omit_empty ''title'' (cd_title c)
      @ omit_empty ''description'' (cd_description c) @ omit_empty ''station_id'' (cd_station c)
      @ (if cd_cost c = 0 then [] else [(''points_cost'', JInt (cd_cost c))])
      @ [(''vector_score'', json_number (cd_vector c)), (''rule_score'', json_number (cd_rule c)),
         (''eligible'', JBool (cd_eligible c)), (''reasons'', marshal_strings (cd_reasons c))]"

lemma candidate_fields:
  "decode_field assign_string ''offer_id'' (candidate_members c) [] = Inr (cd_offer c)"
  "decode_field assign_string ''title'' (candidate_members c) [] = Inr (cd_title c)"
  "decode_field assign_string ''description'' (candidate_members c) [] = Inr (cd_description c)"
  "decode_field assign_string ''station_id'' (candidate_members c) [] = Inr (cd_station c)"
  "int64_range (cd_cost c) \<Longrightarrow> decode_field assign_int ''points_cost'' (candidate_members c) 0 = Inr (cd_cost c)"
  "decode_field assign_float ''vector_score'' (candidate_members c) 0 = Inr (cd_vector c)"
  "decode_field assign_float ''rule_score'' (candidate_members c) 0 = Inr (cd_rule c)"
  "decode_field assign_bool ''eligible'' (candidate_members c) False = Inr (cd_eligible c)"
  "decode_field assign_strings ''reasons'' (candidate_members c) [] = Inr (cd_reasons c)"
  by (simp_all add: candidate_members_def decode_field_append decode_field_omit_empty
      decode_field_omit_other field_folds del: fold_name.simps)

lemma decode_candidate_json:
  assumes "int64_range (cd_cost c)"
  shows "assign_struct decode_candidate (candidate_json c) no_candidate = Inr c"
  using candidate_fields(5) [OF assms]
  by (simp add: candidate_json_def decode_candidate_def no_candidate_def candidate_fields
      flip: candidate_members_def)

lemma decode_candidates_json:
  assumes "\<forall>c\<in>set cs. int64_range (cd_cost c)"
  shows "unmarshal (assign_list (assign_struct decode_candidate) no_candidate)
    (Raw (JArr (map candidate_json cs))) [] = Inr cs"
  using assms by (induction cs) (simp_all add: decode_candidate_json del: assign_struct.simps)

subsection \<open>The stored row\<close>

lemma newest_single:
  assumes "\<forall>r\<in>set (recommendations d). rec_journey r \<noteq> j" and "rec_journey row = j"
  shows "newest_recommendation tie j (d\<lparr>recommendations := recommendations d @ [row], outbox_events := os\<rparr>)
    = Some row"
  using assms by (auto simp: newest_recommendation_def filter_empty_conv)

lemma evaluate_cost:
  assumes "\<forall>y\<in>set (offers d). int64_range (of_cost y)"
    and "v \<in> set (ranking x request p hits d userID balance now)"
  shows "int64_range (cd_cost (el_summary v))"
proof -
  obtain c where c: "v = evaluate (rx_lower x) (rx_round x) p now balance
      (select_items (rq_station request) userID (unique_ids [] hits) d) c"
    using assms(2) by (rule ranking_mem)
  show ?thesis
  proof (cases "find_item (select_items (rq_station request) userID (unique_ids [] hits) d) (qn_offer c)")
    case None
    then show ?thesis by (simp add: c evaluate_def no_candidate_def int64_range_def Let_def)
  next
    case (Some z)
    with find_item_Some [OF Some] assms(1) show ?thesis
      by (auto simp: c evaluate_def evaluate_item_def Let_def set_select_items item_of_def)
  qed
qed

lemma recommended_row:
  assumes "recommended x v request p d m d'"
    and "\<forall>r\<in>set (recommendations d). rec_journey r \<noteq> rq_journey request"
    and "\<forall>y\<in>set (offers d). int64_range (of_cost y)"
  obtains row now where "row = recommendation_row_of (rx_score x) m now"
    "newest_recommendation tie (rq_journey request) d' = Some row"
    "unmarshal assign_strings (Raw (rec_reasons row)) [] = Inr (rm_reasons m)"
    "unmarshal (assign_list (assign_struct decode_candidate) no_candidate) (Raw (rec_candidates row)) []
       = Inr (rm_candidates m)"
    "dismissals d' = dismissals d"
proof -
  obtain hits userID balance t where c: "rm_candidates m = map el_summary (ranking x request p hits d userID balance t)"
    and j: "rm_journey m = rq_journey request"
    using recommended_ranking [OF assms(1)] by metis
  obtain eid occurred now where d': "d' = d\<lparr>recommendations := recommendations d
      @ [recommendation_row_of (rx_score x) m now], outbox_events := outbox_events d
      @ [queued (recommendation_created (rx_fmt x) eid occurred request m) now]\<rparr>"
    using assms(1) by (auto simp: recommended_def announced_def)
  have "\<forall>c\<in>set (rm_candidates m). int64_range (cd_cost c)"
    using evaluate_cost [OF assms(3)] by (auto simp: c)
  from decode_candidates_json [OF this] show thesis
    using that [of "recommendation_row_of (rx_score x) m now" now]
      newest_single [OF assms(2), of "recommendation_row_of (rx_score x) m now"]
    by (simp add: d' j recommendation_row_of_def)
qed

subsection \<open>What the gateway makes of it\<close>

lemma hit_named: "c \<in> set (hit_candidates number hs) \<Longrightarrow> qn_offer c \<noteq> []"
  by (auto simp: hit_candidates_def Let_def split: if_splits)

lemma searched_named:
  "searched x v request = Inr hits \<Longrightarrow> c \<in> set hits \<Longrightarrow> qn_offer c \<noteq> []"
  by (auto simp: qdrant_Search_def dest: hit_named split: if_splits sum.splits)

text \<open>What an eligible evaluation reports of its offer.\<close>

lemma eligible_summary:
  assumes "v \<in> set (ranking x request p hits d userID balance now)" and "cd_eligible (el_summary v)"
  shows "cd_title (el_summary v) = it_title (el_item v)"
    and "offered i words reasons v = (let c = el_summary v in
      if cd_offer c = i then \<lparr>ro_offer = i, ro_title = co_title words, ro_body = co_body words,
          ro_reasons = reasons, ro_score = cd_rule c, ro_cost = cd_cost c, ro_station = cd_station c\<rparr>
      else \<lparr>ro_offer = cd_offer c, ro_title = cd_title c, ro_body = cd_description c,
          ro_reasons = cd_reasons c, ro_score = cd_rule c, ro_cost = cd_cost c, ro_station = cd_station c\<rparr>)"
    and "\<exists>y\<in>set (offers d). cd_title (el_summary v) = of_title y"
    and "\<exists>c\<in>set hits. cd_offer (el_summary v) = qn_offer c"
proof -
  obtain c where c: "c \<in> set hits" "v = evaluate (rx_lower x) (rx_round x) p now balance
      (select_items (rq_station request) userID (unique_ids [] hits) d) c"
    using assms(1) by (rule ranking_mem)
  with assms(2) obtain z where z: "find_item (select_items (rq_station request) userID
      (unique_ids [] hits) d) (qn_offer c) = Some z"
    by (auto simp: evaluate_def Let_def no_candidate_def split: option.splits)
  note zi = find_item_Some [OF z]
  show "cd_title (el_summary v) = it_title (el_item v)"
    by (simp add: c(2) evaluate_def evaluate_item_def Let_def z)
  show "offered i words reasons v = (let c = el_summary v in
      if cd_offer c = i then \<lparr>ro_offer = i, ro_title = co_title words, ro_body = co_body words,
          ro_reasons = reasons, ro_score = cd_rule c, ro_cost = cd_cost c, ro_station = cd_station c\<rparr>
      else \<lparr>ro_offer = cd_offer c, ro_title = cd_title c, ro_body = cd_description c,
          ro_reasons = cd_reasons c, ro_score = cd_rule c, ro_cost = cd_cost c, ro_station = cd_station c\<rparr>)"
    using zi by (auto simp: c(2) offered_def evaluate_def evaluate_item_def Let_def z)
  show "\<exists>y\<in>set (offers d). cd_title (el_summary v) = of_title y"
    using zi by (auto simp: c(2) evaluate_def evaluate_item_def Let_def z set_select_items item_of_def)
  show "\<exists>c\<in>set hits. cd_offer (el_summary v) = qn_offer c" using c by auto
qed

text \<open>The answer for a candidate list whose first offerable candidate is the one recommended.\<close>

lemma latest_of_primary:
  assumes "0 < limit" and "filter (offerable dm) cs = c # rest" and "cd_offer c = rec_offer row"
    and "cd_offer c \<noteq> []"
  shows "lr_offer (latest_of row reasons cs dm limit) = rec_offer row"
    and "lr_title (latest_of row reasons cs dm limit) = null_string (rec_title row)"
    and "lr_body (latest_of row reasons cs dm limit) = null_string (rec_body row)"
    and "lr_reasons (latest_of row reasons cs dm limit) = reasons"
    and "lr_source (latest_of row reasons cs dm limit) = rec_source row"
proof -
  let ?es = "take (nat limit) (filter (offerable dm) cs)"
  obtain sh where l: "offer_loop row reasons dm limit cs ([], [], None)
      = (sh, map (offer_of row reasons) ?es, select_named None ?es)"
    using offer_loop_result [of "[]" limit row reasons dm cs "[]" None] assms(1) by auto
  have "select_named None ?es = Some c"
    using assms by (cases "nat limit") (auto simp: select_named_Some)
  with l assms(3,4) show
    "lr_offer (latest_of row reasons cs dm limit) = rec_offer row"
    "lr_title (latest_of row reasons cs dm limit) = null_string (rec_title row)"
    "lr_body (latest_of row reasons cs dm limit) = null_string (rec_body row)"
    "lr_reasons (latest_of row reasons cs dm limit) = reasons"
    "lr_source (latest_of row reasons cs dm limit) = rec_source row"
    by (simp_all add: latest_of_def Let_def)
qed

lemma find_filter: "find P xs = Some a \<Longrightarrow> \<exists>rest. filter P xs = a # rest"
  by (induction xs) (auto split: if_splits)

lemma calm_GetLatestRecommendation:
  assumes "calm e" and "js_db v \<noteq> NilHandle" and "j \<noteq> []"
    and "newest_recommendation tie j (committed w) = Some row"
    and "unmarshal assign_strings (Raw (rec_reasons row)) [] = Inr reasons"
    and "unmarshal (assign_list (assign_struct decode_candidate) no_candidate) (Raw (rec_candidates row)) []
       = Inr candidates"
    and "\<forall>y\<in>set (dismissals (committed w)). dis_journey y \<noteq> j"
  shows "fst (GetLatestRecommendation tie (Some v) (Some j) e w)
    = Inr (latest_of row reasons candidates [] (js_limit v))"
proof -
  have dm: "filter (\<lambda>y. dis_journey y = j \<and> dis_recommendation y = rec_id row) (dismissals (committed w)) = []"
    using assms(7) by (auto simp: filter_empty_conv)
  show ?thesis
    using assms(2-6)
    by (simp add: GetLatestRecommendation_def loadDismissedOffers_def calm_simps assms(1) reads_def dm
        del: unmarshal.simps)
qed

lemma Recommend_asked:
  "Recommend x s r request e w = (Inr (Inr m, r'), w') \<Longrightarrow> rq_journey request \<noteq> []"
  by (auto simp: Recommend_def run_draws run_ok split: option.splits if_splits)

lemma Recommend_handle:
  "Recommend x (Some u) r request e w = (Inr (Inr m, r'), w') \<Longrightarrow> rcs_db u \<noteq> NilHandle"
  by (auto simp: Recommend_def run_draws run_ok split: if_splits)

lemma stored_offer_eq: "stored_offer row reasons = offer_of row reasons"
  by (simp add: fun_eq_iff stored_offer_def offer_of_def)

text \<open>The offers of the stored row are those of the recommendation.\<close>

lemma shown_offers:
  assumes rec: "recommended x u request p d m d'" and row: "row = recommendation_row_of (rx_score x) m t"
    and titles: "\<forall>y\<in>set (offers d). of_title y \<noteq> []"
  obtains best rest where "filter (offerable []) (rm_candidates m) = best # rest"
    "cd_offer best = rm_offer m" "cd_offer best \<noteq> []"
    "rm_offers m = map (offer_of row (rm_reasons m))
       (take (nat (CandidateLimit (Some u))) (filter (offerable []) (rm_candidates m)))"
proof -
  obtain hits userID balance now stationName best words source where
    hits: "searched x u request = Inr hits"
    and best: "chosen_of (ranking x request p hits d userID balance now) = Some best"
    and m: "rm_candidates m = map el_summary (ranking x request p hits d userID balance now)"
      "rm_offer m = it_id (el_item best)" "rm_title m = co_title words" "rm_body m = co_body words"
      "rm_offers m = map (offered (rm_offer m) words (rm_reasons m))
         (take (nat (CandidateLimit (Some u))) (filter (\<lambda>v. cd_eligible (el_summary v))
           (ranking x request p hits d userID balance now)))"
    using recommended_ranking [OF rec] by metis
  let ?R = "ranking x request p hits d userID balance now"
  have shown: "filter (offerable []) (rm_candidates m)
    = map el_summary (filter (\<lambda>v. cd_eligible (el_summary v)) ?R)"
  proof -
    have "offerable [] (el_summary z) \<longleftrightarrow> cd_eligible (el_summary z)" if "z \<in> set ?R" for z
      unfolding offerable_def using eligible_summary(3) [OF that] titles by fastforce
    then show ?thesis unfolding m(1) filter_map by (auto intro!: arg_cong [of _ _ "map el_summary"] filter_cong)
  qed
  obtain rest where rest: "filter (\<lambda>v. cd_eligible (el_summary v)) ?R = best # rest"
    using find_filter best unfolding chosen_of_def by metis
  have mem: "best \<in> set ?R" "cd_eligible (el_summary best)"
    using chosen_best [OF best [unfolded ranking_def]] by (auto simp: ranking_def rank_def)
  have ne: "cd_offer (el_summary best) \<noteq> []"
    using eligible_summary(4) [OF mem] searched_named [OF hits] by metis
  have id: "cd_offer (el_summary best) = rm_offer m"
    using mem unfolding m(2) by (auto elim!: ranking_mem simp: evaluate_eligible_item)
  have "offer_of row (rm_reasons m) (el_summary z) = offered (rm_offer m) words (rm_reasons m) z"
    if "z \<in> set ?R" "cd_eligible (el_summary z)" for z
    unfolding eligible_summary(2) [OF that]
    by (auto simp: offer_of_def Let_def row recommendation_row_of_def m(3,4) null_string_def)
  then have "rm_offers m = map (offer_of row (rm_reasons m))
      (take (nat (CandidateLimit (Some u))) (filter (offerable []) (rm_candidates m)))"
    unfolding m(5) shown take_map map_map by (auto dest!: in_set_takeD intro!: map_cong)
  with that [OF shown [unfolded rest list.map] id ne] show thesis .
qed

text \<open>
  C11: the traveller is shown what was decided. For the first recommendation of a journey, the
  gateway's \<open>GetLatestRecommendation\<close> answers with the recommendation \<open>Recommend\<close> made: its
  offer, title, body, reasons and source, and, the limits of the two services agreeing, the same
  offers in the same order.
\<close>

theorem gateway_shows_recommendation:
  assumes "Recommend x s r request e w = (Inr (Inr m, r'), w')"
    and "\<forall>row\<in>set (recommendations (committed w)). rec_journey row \<noteq> rq_journey request"
    and "\<forall>y\<in>set (dismissals (committed w)). dis_journey y \<noteq> rq_journey request"
    and "\<forall>y\<in>set (offers (committed w)). int64_range (of_cost y) \<and> of_title y \<noteq> []"
    and "committed w2 = committed w'" and "calm e2" and "js_db v \<noteq> NilHandle" and "0 < js_limit v"
  shows "\<exists>resp. fst (GetLatestRecommendation tie (Some v) (Some (rq_journey request)) e2 w2) = Inr resp
    \<and> lr_recommendation resp = rm_id m \<and> lr_offer resp = rm_offer m
    \<and> lr_title resp = rm_title m \<and> lr_body resp = rm_body m \<and> lr_reasons resp = rm_reasons m
    \<and> lr_source resp = rm_source m
    \<and> (js_limit v = CandidateLimit s \<longrightarrow> lr_offers resp = rm_offers m)"
proof -
  obtain u p where u: "s = Some u" and rec: "recommended x u request p (committed w) m (committed w')"
    using wpD [OF Recommend_wp assms(1)] by auto
  have ok: "\<forall>y\<in>set (offers (committed w)). int64_range (of_cost y)"
    "\<forall>y\<in>set (offers (committed w)). of_title y \<noteq> []" using assms(4) by blast+
  obtain row t where row: "row = recommendation_row_of (rx_score x) m t"
      "newest_recommendation tie (rq_journey request) (committed w') = Some row"
      "unmarshal assign_strings (Raw (rec_reasons row)) [] = Inr (rm_reasons m)"
      "unmarshal (assign_list (assign_struct decode_candidate) no_candidate) (Raw (rec_candidates row)) []
       = Inr (rm_candidates m)" "dismissals (committed w') = dismissals (committed w)"
    using recommended_row [OF rec assms(2) ok(1)] by metis
  obtain best rest where best: "filter (offerable []) (rm_candidates m) = best # rest"
      "cd_offer best = rm_offer m" "cd_offer best \<noteq> []"
    and os: "rm_offers m = map (offer_of row (rm_reasons m))
       (take (nat (CandidateLimit (Some u))) (filter (offerable []) (rm_candidates m)))"
    using shown_offers [OF rec row(1) ok(2)] by metis
  have run: "fst (GetLatestRecommendation tie (Some v) (Some (rq_journey request)) e2 w2)
      = Inr (latest_of row (rm_reasons m) (rm_candidates m) [] (js_limit v))"
    using row(2-5) assms(3,5) Recommend_asked [OF assms(1)]
    by (intro calm_GetLatestRecommendation assms) (simp_all del: unmarshal.simps)
  have row_fields: "rec_offer row = rm_offer m" "rec_title row = Some (rm_title m)" "rec_body row = Some (rm_body m)"
      "rec_source row = rm_source m" "rec_id row = rm_id m"
    by (simp_all add: row(1) recommendation_row_of_def)
  have "lr_offers (latest_of row (rm_reasons m) (rm_candidates m) [] (js_limit v)) = rm_offers m"
    if "js_limit v = CandidateLimit s"
    using latest_of_offers(1) [OF assms(8), of row "rm_reasons m" "rm_candidates m" "[]"]
    unfolding os that u .
  then show ?thesis
    using run latest_of_primary [OF assms(8) best(1) _ best(3), of row] best(2,3)
    by (simp add: row_fields latest_of_offers(3) [OF assms(8)] null_string_def)
qed

lemma reads_back:
  assumes "Recommend x s r request e w = (Inr (Inr m, r'), w')"
    and "\<forall>row\<in>set (recommendations (committed w)). rec_journey row \<noteq> rq_journey request"
    and "\<forall>y\<in>set (offers (committed w)). int64_range (of_cost y) \<and> of_title y \<noteq> []"
    and "committed w2 = committed w'" and "calm e2"
  shows "\<exists>w3. GetLatest x tie s (rq_journey request) e2 w2
      = (Inr (m\<lparr>rm_score := rx_round x (rx_score x (rm_score m))\<rparr>), w3) \<and> committed w3 = committed w2"
proof -
  obtain u p where u: "s = Some u" and rec: "recommended x u request p (committed w) m (committed w')"
    using wpD [OF Recommend_wp assms(1)] by auto
  have ok: "\<forall>y\<in>set (offers (committed w)). int64_range (of_cost y)"
    "\<forall>y\<in>set (offers (committed w)). of_title y \<noteq> []" using assms(3) by blast+
  obtain row t where row: "row = recommendation_row_of (rx_score x) m t"
      "newest_recommendation tie (rq_journey request) (committed w') = Some row"
      "unmarshal assign_strings (Raw (rec_reasons row)) [] = Inr (rm_reasons m)"
      "unmarshal (assign_list (assign_struct decode_candidate) no_candidate) (Raw (rec_candidates row)) []
       = Inr (rm_candidates m)"
    using recommended_row [OF rec assms(2) ok(1)] by metis
  have os: "rm_offers m = map (offer_of row (rm_reasons m))
       (take (nat (CandidateLimit (Some u))) (filter (offerable []) (rm_candidates m)))"
    using shown_offers [OF rec row(1) ok(2)] by metis
  have stored: "stored_recommendation (rx_round x) row (rm_reasons m) (rm_candidates m) (CandidateLimit s)
      = m\<lparr>rm_score := rx_round x (rx_score x (rm_score m))\<rparr>"
    using os stored_offer_eq
    by (cases m) (simp add: stored_recommendation_def row(1) recommendation_row_of_def null_string_def u
        offerable_def [abs_def])
  show ?thesis
    using row(2-4) Recommend_asked [OF assms(1)] Recommend_handle [OF assms(1) [unfolded u]] assms(4,5)
    by (simp add: GetLatest_def u calm_simps reads_def stored [unfolded u] del: unmarshal.simps)
qed

text \<open>
  What is stored reads back. For the first recommendation of a journey, \<open>GetLatest\<close> of the same
  service answers with the very recommendation \<open>Recommend\<close> returned, every field of it; only the
  score has gone through the column, which keeps four decimals.
\<close>

theorem recommendation_reads_back:
  assumes "Recommend x s r request e w = (Inr (Inr m, r'), w')"
    and "\<forall>row\<in>set (recommendations (committed w)). rec_journey row \<noteq> rq_journey request"
    and "\<forall>y\<in>set (offers (committed w)). int64_range (of_cost y) \<and> of_title y \<noteq> []"
    and "committed w2 = committed w'" and "calm e2"
  shows "\<exists>w3. GetLatest x tie s (rq_journey request) e2 w2
      = (Inr (m\<lparr>rm_score := rx_round x (rx_score x (rm_score m))\<rparr>), w3) \<and> committed w3 = committed w2"
  using assms by (rule reads_back)

definition demo_showing :: journey_service where
  "demo_showing = NewService Handle []"

theorem gateway_shows_recommendation_witness:
  "\<exists>resp :: latest_response. lr_offer resp = ''paid'' \<and> lr_title resp = ''Coffee''
     \<and> fst (GetLatestRecommendation demo_tie (Some demo_showing) (Some ''j1'') calm_env (snd demo_run)) = Inr resp"
proof -
  obtain m r where run: "demo_run = (Inr (Inr m, r), snd demo_run)" and m: "rm_offer m = ''paid''"
    "rm_title m = ''Coffee''"
    by (rule demo_run_result)
  have "\<forall>row\<in>set (recommendations (committed (demo_world demo_db))). rec_journey row \<noteq> rq_journey demo_asked"
    "\<forall>y\<in>set (dismissals (committed (demo_world demo_db))). dis_journey y \<noteq> rq_journey demo_asked"
    "\<forall>y\<in>set (offers (committed (demo_world demo_db))). int64_range (of_cost y) \<and> of_title y \<noteq> []"
    "js_db demo_showing \<noteq> NilHandle" "0 < js_limit demo_showing"
    by (simp_all add: demo_world_def demo_db_def demo_offer_def int64_range_def demo_showing_def NewService_def)
  from gateway_shows_recommendation [OF run this(1-3) refl calm_calm_env this(4,5), of demo_tie] m
  show ?thesis by (auto simp: demo_asked_def)
qed

theorem recommendation_reads_back_witness:
  "\<exists>(m :: recommendation) w3. rm_offer m = ''paid'' \<and> rm_title m = ''Coffee''
     \<and> GetLatest demo_externals demo_tie demo_recommender ''j1'' calm_env (snd demo_run) = (Inr m, w3)"
proof -
  obtain m r where run: "demo_run = (Inr (Inr m, r), snd demo_run)" and m: "rm_offer m = ''paid''"
    "rm_title m = ''Coffee''"
    by (rule demo_run_result)
  have "\<forall>row\<in>set (recommendations (committed (demo_world demo_db))). rec_journey row \<noteq> rq_journey demo_asked"
    "\<forall>y\<in>set (offers (committed (demo_world demo_db))). int64_range (of_cost y) \<and> of_title y \<noteq> []"
    by (simp_all add: demo_world_def demo_db_def demo_offer_def int64_range_def)
  from recommendation_reads_back [OF run this refl calm_calm_env, of demo_tie] obtain w3 where
    "GetLatest demo_externals demo_tie demo_recommender ''j1'' calm_env (snd demo_run)
      = (Inr (m\<lparr>rm_score := rm_score m\<rparr>), w3)"
    by (auto simp: demo_asked_def demo_externals_def)
  with m show ?thesis by (intro exI conjI) auto
qed

end
