(* ===== verification/OutboxSpec.thy ===== *)
theory OutboxSpec
  imports Outbox "HOL-Library.Multiset"
begin

text \<open>
  What the outbox promises: events are handed to Kafka in the order they were selected, an event is
  marked only after Kafka accepted it, no event is lost or changed, and when Kafka and the database
  work every pending event gets out.
\<close>

subsection \<open>What a round may change\<close>

text \<open>The columns that say what an event is; the others say how its publication stands.\<close>

definition event_core :: "outbox_row \<Rightarrow> string \<times> string \<times> string \<times> json \<times> int" where
  "event_core r = (ob_id r, ob_topic r, ob_key r, ob_payload r, ob_occurred r)"

text \<open>\<open>d\<close> is \<open>d0\<close> with the events of \<open>ids\<close> published.\<close>

definition row_progress :: "string set \<Rightarrow> outbox_row \<Rightarrow> outbox_row \<Rightarrow> bool" where
  "row_progress ids r r' \<longleftrightarrow> event_core r' = event_core r
     \<and> (if ob_id r \<in> ids then ob_published r' \<noteq> None else ob_published r' = ob_published r)"

definition published_to :: "string set \<Rightarrow> database \<Rightarrow> database \<Rightarrow> bool" where
  "published_to ids d0 d \<longleftrightarrow> (\<exists>rows. d = d0\<lparr>outbox_events := rows\<rparr>
     \<and> list_all2 (row_progress ids) (outbox_events d0) rows)"

lemma published_to_refl [simp]: "published_to {} d d"
  unfolding published_to_def by (intro exI [of _ "outbox_events d"]) (simp add: list.rel_refl row_progress_def)

lemma list_all2_update_where:
  assumes "list_all2 R xs ys" and "\<And>x y. R x y \<Longrightarrow> S x (if P y then f y else y)"
  shows "list_all2 S xs (update_where P f ys)"
  unfolding update_where_def list_all2_map2 by (rule list_all2_mono [OF assms(1)]) (rule assms(2))

lemma published_to_update:
  assumes "published_to ids d0 d"
    and "\<And>r r'. row_progress ids r r' \<Longrightarrow> row_progress ids' r (if P r' then f r' else r')"
  shows "published_to ids' d0 (d\<lparr>outbox_events := update_where P f (outbox_events d)\<rparr>)"
proof -
  from assms(1) obtain rows where d: "d = d0\<lparr>outbox_events := rows\<rparr>" and
    rel: "list_all2 (row_progress ids) (outbox_events d0) rows"
    by (auto simp: published_to_def)
  have "list_all2 (row_progress ids') (outbox_events d0) (update_where P f rows)"
    by (rule list_all2_update_where [OF rel]) (rule assms(2))
  then show ?thesis unfolding published_to_def
    by (intro exI [of _ "update_where P f rows"]) (simp add: d)
qed

lemma mark_published_to:
  assumes "published_to ids d0 d" and "mark_published i now d = Inr d'"
  shows "published_to (insert i ids) d0 d'"
  using published_to_update [OF assms(1), of "insert i ids" "\<lambda>r. ob_id r = i"
      "\<lambda>r. r\<lparr>ob_published := Some now, ob_error := None\<rparr>"] assms(2)
  by (auto simp: mark_published_def row_progress_def event_core_def)

lemma count_attempt_published_to:
  assumes "published_to ids d0 d" and "count_attempt err i now d = Inr d'"
  shows "published_to ids d0 d'"
  using published_to_update [OF assms(1), of ids "\<lambda>r. ob_id r = i"
      "\<lambda>r. r\<lparr>ob_attempts := ob_attempts r + 1, ob_error := Some err\<rparr>"] assms(2)
  by (auto simp: count_attempt_def Let_def row_progress_def event_core_def)

text \<open>What a round did: it sent the first \<open>k\<close> of the selected events, and then perhaps one more
  that Kafka refused; it committed nothing or exactly those \<open>k\<close>.\<close>

definition round_done ::
  "outbox_row list \<Rightarrow> string set \<Rightarrow> database \<Rightarrow> external_call list \<Rightarrow> database \<Rightarrow> external_call list \<Rightarrow> bool"
where
  "round_done evs ids d tr d' tr' \<longleftrightarrow> (\<exists>k nack. k \<le> length evs
     \<and> tr' = tr @ map (\<lambda>r. KafkaAck (event_message r)) (take k evs) @ nack
     \<and> (nack = [] \<or> (k < length evs \<and> nack = [KafkaNack (event_message (evs ! k))]))
     \<and> (d' = d \<or> published_to (ids \<union> ob_id ` set (take k evs)) d d'))"

lemma round_done_Cons:
  assumes "round_done evs (insert (ob_id ev) ids) d (tr @ [KafkaAck (event_message ev)]) d' tr'"
  shows "round_done (ev # evs) ids d tr d' tr'"
proof -
  from assms obtain k nack where "k \<le> length evs"
    "tr' = (tr @ [KafkaAck (event_message ev)]) @ map (\<lambda>r. KafkaAck (event_message r)) (take k evs) @ nack"
    "nack = [] \<or> (k < length evs \<and> nack = [KafkaNack (event_message (evs ! k))])"
    "d' = d \<or> published_to (insert (ob_id ev) ids \<union> ob_id ` set (take k evs)) d d'"
    by (auto simp: round_done_def)
  then show ?thesis unfolding round_done_def
    by (intro exI [of _ "Suc k"] exI [of _ nack]) auto
qed

lemma wp_write_message:
  assumes "Q (Inr None) (w\<lparr>trace := trace w @ [KafkaAck m]\<rparr>)"
    and "\<And>err. Q (Inr (Some err)) (w\<lparr>trace := trace w @ [KafkaNack m]\<rparr>)"
  shows "wp (write_message writer m) e Q w"
  using assms by (auto simp: wp_def write_message_def split: option.splits)

lemma publish_loop_wp:
  assumes "published_to ids (committed w) (working w)"
  shows "wp (publish_loop writer evs n) e
    (\<lambda>r w'. round_done evs ids (committed w) (trace w) (committed w') (trace w')) w"
  using assms
proof (induction evs arbitrary: n w ids)
  case Nil
  then show ?case
    by (auto simp: round_done_def intro!: wp_commitTx)
next
  case (Cons ev evs)
  have step: "wp (publish_loop writer evs (Suc n)) e
      (\<lambda>r w'. round_done (ev # evs) ids (committed w) (trace w) (committed w') (trace w')) w1"
    if "committed w1 = committed w" "trace w1 = trace w @ [KafkaAck (event_message ev)]"
      "published_to (insert (ob_id ev) ids) (committed w) (working w1)" for w1
    by (rule wp_mono [OF Cons.IH [of "insert (ob_id ev) ids" w1]])
      (use that in \<open>auto intro: round_done_Cons\<close>)
  have acked: "round_done (ev # evs) ids (committed w) (trace w) (committed w)
      (trace w @ [KafkaAck (event_message ev)])"
    unfolding round_done_def by (intro exI [of _ 1] exI [of _ "[]"]) auto
  have nacked: "round_done (ev # evs) ids (committed w) (trace w) d
      (trace w @ [KafkaNack (event_message ev)])"
    if "d = committed w \<or> published_to ids (committed w) d" for d
    unfolding round_done_def using that
    by (intro exI [of _ 0] exI [of _ "[KafkaNack (event_message ev)]"]) auto
  show ?case
    using Cons.prems
    by (auto intro!: wp_write_message wp_execTx wp_commitTx step acked nacked)
      (blast dest: mark_published_to count_attempt_published_to)+
qed

lemma PublishPending_wp:
  "wp (PublishPending collate locked p limit) e
     (\<lambda>r w'. round_done (pending_events collate locked (nat limit) (committed w)) {}
        (committed w) (trace w) (committed w') (trace w')) w"
proof -
  have none: "round_done evs {} d tr d tr" for evs d tr
    unfolding round_done_def by (intro exI [of _ 0] exI [of _ "[]"]) auto
  have loop: "wp (publish_loop writer evs n) e
      (\<lambda>r w'. round_done evs {} d tr (committed w') (trace w')) w"
    if "committed w = d" "working w = d" "trace w = tr" for writer evs n d tr and w :: store
    using publish_loop_wp [of "{}" w writer evs n e] that by simp
  show ?thesis
    unfolding PublishPending_def
    by (auto simp: none intro!: wp_beginTx wp_execTx loop split: option.splits)
qed

subsection \<open>What is marked was accepted by Kafka\<close>

definition acked :: "store \<Rightarrow> bool" where
  "acked w \<longleftrightarrow> unique_by ob_id (outbox_events (committed w))
     \<and> (\<forall>r\<in>set (outbox_events (committed w)). ob_published r \<noteq> None \<longrightarrow>
          KafkaAck (event_message r) \<in> set (trace w))"

lemma event_core_message: "event_core r' = event_core r \<Longrightarrow> event_message r' = event_message r"
  by (simp add: event_core_def event_message_def)

lemma list_all2_map_eq: "list_all2 (\<lambda>x y. f y = f x) xs ys \<Longrightarrow> map f ys = map f xs"
  by (induction rule: list_all2_induct) auto

lemma published_to_core:
  "published_to ids d d' \<Longrightarrow> map event_core (outbox_events d') = map event_core (outbox_events d)"
  by (auto simp: published_to_def row_progress_def intro!: list_all2_map_eq elim!: list_all2_mono)

lemma unique_by_core:
  assumes "map event_core ys = map event_core xs"
  shows "unique_by ob_id ys = unique_by ob_id xs"
proof -
  have "map ob_id zs = map fst (map event_core zs)" for zs by (simp add: event_core_def)
  with assms show ?thesis by (metis unique_by_def)
qed

lemma pending_events_subset:
  "set (pending_events collate locked n d) \<subseteq> {r \<in> set (outbox_events d). pending r}"
  by (auto simp: pending_events_def dest!: in_set_takeD)

lemma round_done_acked:
  assumes "acked w" and "set evs \<subseteq> set (outbox_events (committed w))"
    and "round_done evs {} (committed w) (trace w) (committed w') (trace w')"
  shows "acked w'"
proof -
  from assms(3) obtain k nack where
    tr: "trace w' = trace w @ map (\<lambda>r. KafkaAck (event_message r)) (take k evs) @ nack" and
    d: "committed w' = committed w \<or> published_to (ob_id ` set (take k evs)) (committed w) (committed w')"
    by (auto simp: round_done_def)
  from d show ?thesis
  proof
    assume "committed w' = committed w"
    with assms(1) tr show ?thesis by (auto simp: acked_def)
  next
    assume pub: "published_to (ob_id ` set (take k evs)) (committed w) (committed w')"
    then obtain rows where rows: "outbox_events (committed w') = rows"
      "list_all2 (row_progress (ob_id ` set (take k evs))) (outbox_events (committed w)) rows"
      by (auto simp: published_to_def)
    have "KafkaAck (event_message r') \<in> set (trace w')"
      if r': "r' \<in> set rows" "ob_published r' \<noteq> None" for r'
    proof -
      from rows(2) r'(1) obtain r where r: "r \<in> set (outbox_events (committed w))"
        "row_progress (ob_id ` set (take k evs)) r r'"
        by (metis in_set_conv_nth list_all2_conv_all_nth)
      show ?thesis
      proof (cases "ob_id r \<in> ob_id ` set (take k evs)")
        case True
        then obtain ev where ev: "ev \<in> set (take k evs)" "ob_id ev = ob_id r" by auto
        then have "ev = r"
          using assms(1,2) r(1) by (meson acked_def in_set_takeD subsetD unique_byD)
        with ev r(2) show ?thesis
          by (auto simp: tr row_progress_def dest!: event_core_message)
      next
        case False
        with r r'(2) assms(1) show ?thesis
          by (auto simp: tr row_progress_def acked_def dest!: event_core_message)
      qed
    qed
    with assms(1) show ?thesis
      using unique_by_core [OF published_to_core [OF pub]] by (simp add: acked_def rows)
  qed
qed

lemma PublishPending_acked:
  assumes "acked w"
  shows "wp (PublishPending collate locked p limit) e (\<lambda>r. acked) w"
  using pending_events_subset
  by (intro wp_mono [OF PublishPending_wp]) (blast intro: round_done_acked [OF assms])

lemma publish_rounds_acked:
  "acked w \<Longrightarrow> wp (publish_rounds collate locked p limit n) e (\<lambda>r. acked) w"
proof (induction n arbitrary: w)
  case (Suc n)
  show ?case
    using Suc.IH by (auto intro!: wp_mono [OF PublishPending_acked [OF Suc.prems]] split: sum.splits)
qed simp

lemma RunPublisher_acked:
  "acked w \<Longrightarrow> wp (RunPublisher collate locked p limit n) e (\<lambda>r. acked) w"
  by (simp add: RunPublisher_def publish_rounds_acked del: publish_rounds.simps)

subsection \<open>Everything pending gets out\<close>

definition keen_publisher :: "publisher" where
  "keen_publisher = \<lparr>pub_db = Handle, pub_writer = Some (\<lambda>tr m. None)\<rparr>"

lemma calm_publish_loop:
  assumes "calm e"
  shows "\<exists>w'. publish_loop (\<lambda>tr m. None) evs n e w = (Inr (n + length evs, None), w')
    \<and> (published_to ids (committed w) (working w) \<longrightarrow>
         published_to (ids \<union> ob_id ` set evs) (committed w) (committed w'))"
proof (induction evs arbitrary: n w ids)
  case Nil
  then show ?case by (simp add: andThen_def attempt_def ok_def calm_commitTx [OF assms])
next
  case (Cons ev evs)
  let ?d = "(working w)\<lparr>outbox_events := update_where (\<lambda>r. ob_id r = ob_id ev)
      (\<lambda>r. r\<lparr>ob_published := Some (tx_now w), ob_error := None\<rparr>) (outbox_events (working w))\<rparr>"
  let ?w = "w\<lparr>trace := trace w @ [KafkaAck (event_message ev)], working := ?d, calls := Suc (calls w)\<rparr>"
  have step: "publish_loop (\<lambda>tr m. None) (ev # evs) n e w = publish_loop (\<lambda>tr m. None) evs (Suc n) e ?w"
    by (simp add: andThen_def attempt_def write_message_def calm_execTx [OF assms] writes_def
        mark_published_def)
  have "published_to (insert (ob_id ev) ids) (committed w) ?d" if "published_to ids (committed w) (working w)"
    using that by (rule mark_published_to [where now = "tx_now w"]) (simp add: mark_published_def)
  with Cons.IH [of "Suc n" ?w "insert (ob_id ev) ids"] show ?case
    unfolding step by auto
qed

lemma calm_PublishPending:
  assumes "calm e" and "limit \<ge> 1"
    and evs_def: "evs = pending_events collate locked (nat limit) (committed w)"
  shows "\<exists>w'. PublishPending collate locked (Some keen_publisher) limit e w
      = (Inr (length evs, None), w')
    \<and> published_to (ob_id ` set evs) (committed w) (committed w')"
proof -
  let ?w = "w\<lparr>working := committed w, tx_now := clock_at e (draws w), draws := Suc (draws w),
      calls := Suc (Suc (calls w))\<rparr>"
  have "PublishPending collate locked (Some keen_publisher) limit e w
      = publish_loop (\<lambda>tr m. None) evs 0 e ?w"
    using assms(2) by (simp add: PublishPending_def keen_publisher_def andThen_def attempt_def
        calm_beginTx [OF assms(1)] calm_execTx [OF assms(1)] reads_def evs_def)
  moreover have "published_to {} (committed ?w) (working ?w)" by simp
  ultimately show ?thesis
    using calm_publish_loop [OF assms(1), of evs 0 ?w "{}"] by auto
qed

definition backlog :: "database \<Rightarrow> nat" where
  "backlog d = length (filter pending (outbox_events d))"

lemma list_all2_filter_length:
  assumes "list_all2 R xs ys" and "\<And>x y. R x y \<Longrightarrow> P x = Q y"
  shows "length (filter Q ys) = length (filter P xs)"
  using assms(1) by (induction rule: list_all2_induct) (simp_all add: assms(2))

lemma backlog_published:
  assumes "published_to ids d d'"
  shows "backlog d' = length (filter (\<lambda>r. pending r \<and> ob_id r \<notin> ids) (outbox_events d))"
  using assms unfolding published_to_def backlog_def
  by (auto simp: row_progress_def pending_def split: if_splits intro!: list_all2_filter_length)

lemma unpublished_rest:
  assumes "unique_by ob_id ys"
  shows "length (filter (\<lambda>r. ob_id r \<notin> ob_id ` set (take n ys)) ys) = length ys - n"
proof -
  have "filter (\<lambda>r. ob_id r \<notin> ob_id ` set (take n ys)) (take n ys) = []"
    by (auto simp: filter_empty_conv)
  moreover have "filter (\<lambda>r. ob_id r \<notin> ob_id ` set (take n ys)) (drop n ys) = drop n ys"
  proof (rule filter_True, intro ballI notI)
    fix r assume r: "r \<in> set (drop n ys)" "ob_id r \<in> ob_id ` set (take n ys)"
    have "distinct (map ob_id (take n ys @ drop n ys))" using assms by (simp add: unique_by_def)
    with r show False by (simp only: map_append distinct_append) auto
  qed
  ultimately show ?thesis
    by (metis append_Nil append_take_drop_id filter_append length_drop)
qed

lemma backlog_round:
  assumes "unique_by ob_id (outbox_events d)"
    and "published_to (ob_id ` set (pending_events collate (\<lambda>_. False) n d)) d d'"
  shows "backlog d' = backlog d - n"
proof -
  define ys where "ys = sort_key (\<lambda>r. (ob_occurred r, collate (ob_id r))) (filter pending (outbox_events d))"
  have evs: "pending_events collate (\<lambda>_. False) n d = take n ys"
    by (simp add: pending_events_def ys_def)
  have perm: "mset ys = mset (filter pending (outbox_events d))" by (simp add: ys_def)
  have "distinct (map ob_id (filter pending (outbox_events d)))"
    using assms(1) by (auto simp: unique_by_def distinct_map inj_on_def)
  then have u: "unique_by ob_id ys"
    using perm unfolding unique_by_def by (metis mset_eq_imp_distinct_iff mset_map)
  let ?P = "\<lambda>r. ob_id r \<notin> ob_id ` set (take n ys)"
  have "backlog d' = length (filter ?P (filter pending (outbox_events d)))"
    using backlog_published [OF assms(2)] by (simp add: evs conj_commute)
  also have "\<dots> = length (filter ?P ys)"
    using perm by (metis mset_filter size_mset)
  also have "\<dots> = length ys - n" by (rule unpublished_rest [OF u])
  also have "length ys = backlog d" using perm by (metis backlog_def size_mset)
  finally show ?thesis .
qed

lemma published_to_unique:
  "published_to ids d d' \<Longrightarrow> unique_by ob_id (outbox_events d') = unique_by ob_id (outbox_events d)"
  by (rule unique_by_core [OF published_to_core])

lemma publish_rounds_backlog:
  assumes "calm e" and "limit \<ge> 1" and "unique_by ob_id (outbox_events (committed w))"
  shows "backlog (committed (snd (publish_rounds collate (\<lambda>_. False) (Some keen_publisher) limit n e w)))
    = backlog (committed w) - n * nat limit"
  using assms(3)
proof (induction n arbitrary: w)
  case (Suc n)
  obtain w1 where
    run: "PublishPending collate (\<lambda>_. False) (Some keen_publisher) limit e w
      = (Inr (length (pending_events collate (\<lambda>_. False) (nat limit) (committed w)), None), w1)"
    and pub: "published_to (ob_id ` set (pending_events collate (\<lambda>_. False) (nat limit) (committed w)))
      (committed w) (committed w1)"
    using calm_PublishPending [OF assms(1,2) refl, of collate "\<lambda>_. False" w] by blast
  have "unique_by ob_id (outbox_events (committed w1))"
    using Suc.prems published_to_unique [OF pub] by simp
  from Suc.IH [OF this] backlog_round [OF Suc.prems pub] show ?case
    by (simp add: andThen_def run)
qed (simp add: ok_def)

subsection \<open>A rejected event holds up the ones behind it\<close>

lemma map_insort_key: "map g (insort_key (f \<circ> g) x xs) = insort_key f (g x) (map g xs)"
  by (induction xs) auto

lemma map_sort_key: "map g (sort_key (f \<circ> g) xs) = sort_key f (map g xs)"
  by (induction xs) (auto simp: map_insort_key simp del: insort_key.simps comp_apply)

definition standing :: "outbox_row \<Rightarrow> (string \<times> string \<times> string \<times> json \<times> int) \<times> int option" where
  "standing r = (event_core r, ob_published r)"

lemma pending_standing:
  "map standing (pending_events collate locked n d) = take n
     (sort_key (\<lambda>s. (snd (snd (snd (snd (fst s)))), collate (fst (fst s))))
       (filter (\<lambda>s. snd s = None \<and> \<not> locked (fst (fst s))) (map standing (outbox_events d))))"
proof -
  let ?f = "\<lambda>s. (snd (snd (snd (snd (fst s)))), collate (fst (fst s)))"
  have "(\<lambda>r. (ob_occurred r, collate (ob_id r))) = ?f \<circ> standing"
    by (auto simp: standing_def event_core_def)
  moreover have "map standing (filter (\<lambda>r. pending r \<and> \<not> locked (ob_id r)) xs) =
      filter (\<lambda>s. snd s = None \<and> \<not> locked (fst (fst s))) (map standing xs)" for xs
    by (induction xs) (auto simp: standing_def pending_def event_core_def)
  ultimately show ?thesis by (simp add: pending_events_def map_sort_key flip: take_map)
qed

lemma pending_standing_cong:
  assumes "map standing (outbox_events d') = map standing (outbox_events d)"
  shows "map standing (pending_events collate locked n d') = map standing (pending_events collate locked n d)"
  by (simp only: pending_standing assms)

lemma published_to_standing:
  assumes "published_to {} d d'"
  shows "map standing (outbox_events d') = map standing (outbox_events d)"
  using assms unfolding published_to_def
  by (auto simp: row_progress_def standing_def intro!: list_all2_map_eq elim!: list_all2_mono)

lemma refused_round:
  assumes "\<And>tr. writer tr (event_message ev) \<noteq> None"
    and "pending_events collate locked (nat limit) (committed w) = ev # evs"
  shows "wp (PublishPending collate locked (Some \<lparr>pub_db = h, pub_writer = Some writer\<rparr>) limit) e
    (\<lambda>r w'. map standing (outbox_events (committed w')) = map standing (outbox_events (committed w))) w"
proof -
  have kept: "map standing (outbox_events d') = map standing (outbox_events d)"
    if "count_attempt err i now d = Inr d'" for err i now d d'
    using published_to_standing [OF count_attempt_published_to [OF published_to_refl that]] .
  have writes: "wp (write_message writer (event_message ev)) e Q u"
    if "\<And>err. Q (Inr (Some err)) (u\<lparr>trace := trace u @ [KafkaNack (event_message ev)]\<rparr>)"
    for Q and u :: store
    using assms(1) [of "trace u"] that by (auto simp: wp_def write_message_def split: option.splits)
  show ?thesis
    unfolding PublishPending_def
    by (auto simp: assms(2) intro!: wp_beginTx wp_execTx wp_commitTx writes)
      (rule kept, assumption)+
qed

lemma event_message_standing:
  "standing r' = standing r \<Longrightarrow> event_message r' = event_message r"
  by (auto simp: standing_def intro: event_core_message)

lemma refused_rounds:
  assumes "\<And>tr. writer tr (event_message ev) \<noteq> None"
    and "pending_events collate locked (nat limit) (committed w) = ev # evs"
  shows "wp (publish_rounds collate locked (Some \<lparr>pub_db = h, pub_writer = Some writer\<rparr>) limit n) e
    (\<lambda>r w'. map standing (outbox_events (committed w')) = map standing (outbox_events (committed w))) w"
  using assms
proof (induction n arbitrary: w ev evs)
  case (Suc n)
  have again: "wp (publish_rounds collate locked (Some \<lparr>pub_db = h, pub_writer = Some writer\<rparr>) limit n) e
      (\<lambda>r w'. map standing (outbox_events (committed w')) = map standing (outbox_events (committed w))) w1"
    if same: "map standing (outbox_events (committed w1)) = map standing (outbox_events (committed w))" for w1
  proof -
    have "map standing (pending_events collate locked (nat limit) (committed w1)) = map standing (ev # evs)"
      using pending_standing_cong [OF same, of collate locked "nat limit"] Suc.prems(2) by simp
    then obtain ev1 evs1 where ev1: "pending_events collate locked (nat limit) (committed w1) = ev1 # evs1"
      "standing ev1 = standing ev" by auto
    have "\<And>tr. writer tr (event_message ev1) \<noteq> None"
      using Suc.prems(1) event_message_standing [OF ev1(2)] by simp
    from Suc.IH [OF this ev1(1)] same show ?thesis by simp
  qed
  show ?case
    by (auto intro!: wp_mono [OF refused_round [of writer ev, OF Suc.prems]] again split: sum.splits)
qed simp

subsection \<open>A consumer that processes each event once\<close>

text \<open>
  The contract between \<open>Process\<close> and the handler it runs: the handler works on the transaction it
  is given and leaves the claims of events alone. \<open>changes\<close> is what a handler that succeeds does.
\<close>

locale event_consumer =
  fixes consumer :: string and eventID :: string
    and h :: "unit db_act" and changes :: "database \<Rightarrow> database \<Rightarrow> bool"
  assumes handler_wp: "wp h e (\<lambda>r w'. committed w' = committed w
      \<and> (\<forall>u. r = Inr u \<longrightarrow> changes (working w) (working w')
           \<and> processed_events (working w') = processed_events (working w))) w"
begin

definition handled_now :: "database \<Rightarrow> bool \<Rightarrow> database \<Rightarrow> bool" where
  "handled_now d b d' \<longleftrightarrow> b \<and> (consumer, eventID) \<notin> set (processed_events d)
     \<and> changes (d\<lparr>processed_events := processed_events d @ [(consumer, eventID)]\<rparr>) d'
     \<and> processed_events d' = processed_events d @ [(consumer, eventID)]"

definition handled_before :: "database \<Rightarrow> bool \<Rightarrow> bool" where
  "handled_before d b \<longleftrightarrow> \<not> b \<and> (consumer, eventID) \<in> set (processed_events d)"

lemma Process_wp:
  "wp (Process db consumer eventID (Some h)) e
     (settles e (\<lambda>d b d'. handled_now d b d' \<or> (d' = d \<and> handled_before d b)) (committed w)) w"
proof (cases "db = NilHandle \<or> consumer = [] \<or> eventID = []")
  case False
  let ?Q = "settles e (\<lambda>d b d'. handled_now d b d' \<or> (d' = d \<and> handled_before d b)) (committed w)"
  have new: "wp h e (\<lambda>r u'. case r of Inl x \<Rightarrow> ?Q (Inl x) u'
        | Inr a \<Rightarrow> wp (andThen commitTx (\<lambda>_. ok True)) e ?Q u') u"
    if u: "committed u = committed w"
      "working u = (committed w)\<lparr>processed_events := processed_events (committed w) @ [(consumer, eventID)]\<rparr>"
      and fresh: "(consumer, eventID) \<notin> set (processed_events (committed w))" for u
  proof (rule wp_mono [OF handler_wp], goal_cases)
    case (1 r u')
    show ?case
    proof (cases r)
      case (Inr a)
      with 1 u fresh have "handled_now (committed w) True (working u')"
        by (simp add: handled_now_def)
      with Inr 1 u show ?thesis by (auto intro!: wp_commitTx)
    qed (use 1 u in simp)
  qed
  have old: "wp (andThen commitTx (\<lambda>_. ok False)) e ?Q u"
    if "committed u = committed w" "working u = committed w"
      "(consumer, eventID) \<in> set (processed_events (committed w))" for u
    using that by (auto simp: handled_before_def intro!: wp_commitTx)
  show ?thesis
    using False unfolding Process_def
    apply (simp del: wp_andThen)
    apply (subst wp_andThen, rule wp_beginTx, simp)
    apply (simp del: wp_andThen)
    apply (subst wp_andThen, rule wp_execTx)
    apply simp
    apply (simp add: claim_event_def del: wp_andThen split: if_splits)
    apply (rule old; simp)
    apply (subst wp_andThen)
    apply (rule new; simp)
    done
qed (auto simp: Process_def)

end

sublocale event_consumer \<subseteq> process: idempotent_handler "Process db consumer eventID (Some h)"
  "\<lambda>d b d'. handled_now d b d' \<or> (d' = d \<and> handled_before d b)" handled_now handled_before
  "\<lambda>a b. \<not> b" for db
  by unfold_locales (use Process_wp in \<open>auto simp: handled_now_def handled_before_def\<close>)

end
