(* ===== verification/NotificationSpec.thy ===== *)
theory NotificationSpec
  imports NotificationWorker OutboxSpec "HOL-Library.Sublist"
begin

text \<open>What delivering an event may do: to the database (\<open>noted\<close>) and to the outside (\<open>pushed\<close>).\<close>

subsection \<open>The effect on the database\<close>

text \<open>The events that report a delivery, by its status (a provider may itself answer ''failed'',
  which the worker takes for a status like any other).\<close>

definition status_topics :: "string \<Rightarrow> string list set" where
  "status_topics status =
     (if status = ''failed'' then {[''notification.failed.v1''], [''notification.sent.v1'']}
      else if status = ''delivered'' then {[''notification.sent.v1'', ''notification.delivered.v1'']}
      else {[''notification.sent.v1'']})"

definition report :: "(int \<Rightarrow> string) \<Rightarrow> recommendation_event \<Rightarrow> string \<Rightarrow> string \<Rightarrow> outbox_row \<Rightarrow> bool" where
  "report fmt ev notificationID ty r \<longleftrightarrow> (\<exists>eventID t now channel providerName code. eventID \<noteq> []
     \<and> r = queued (notification_event fmt eventID t ev ty notificationID channel providerName code) now)"

definition reports :: "(int \<Rightarrow> string) \<Rightarrow> recommendation_event \<Rightarrow> delivery_row \<Rightarrow> outbox_row list \<Rightarrow> bool" where
  "reports fmt ev v rs \<longleftrightarrow>
     (\<exists>tys\<in>status_topics (dv_status v). list_all2 (report fmt ev (dv_id v)) tys rs)"

definition delivery_for :: "string \<Rightarrow> recommendation_event \<Rightarrow> delivery_row \<Rightarrow> bool" where
  "delivery_for userID ev v \<longleftrightarrow> dv_user v = userID \<and> dv_journey v = re_journey_id ev
     \<and> dv_recommendation v = re_recommendation_id ev \<and> dv_attempts v = 1
     \<and> dv_status v \<in> {''sent'', ''delivered'', ''failed''}"

definition deliveries_ok :: "database \<Rightarrow> bool" where
  "deliveries_ok d \<longleftrightarrow> unique_by (\<lambda>v. (dv_subscription v, dv_recommendation v)) (deliveries d)"

text \<open>\<open>d'\<close> is \<open>d\<close> with some subscriptions switched off and some deliveries noted and reported.\<close>

definition noted :: "(int \<Rightarrow> string) \<Rightarrow> recommendation_event \<Rightarrow> string \<Rightarrow> database \<Rightarrow> database \<Rightarrow> bool" where
  "noted fmt ev userID d d' \<longleftrightarrow> (\<exists>gone vs rss.
     d' = d\<lparr>subscriptions := update_where (\<lambda>x. sub_id x \<in> gone) (\<lambda>x. x\<lparr>sub_active := False\<rparr>)
                (subscriptions d),
            deliveries := deliveries d @ vs, outbox_events := outbox_events d @ concat rss\<rparr>
     \<and> list_all2 (reports fmt ev) vs rss \<and> (\<forall>v\<in>set vs. delivery_for userID ev v)
     \<and> (deliveries_ok d \<longrightarrow> deliveries_ok d'))"

lemma update_where_False [simp]: "update_where (\<lambda>x. False) f xs = xs"
  by (simp add: update_where_def)

lemma update_where_twice:
  assumes "\<And>x. f (f x) = f x" and "\<And>x. P (f x) = P x" and "\<And>x. Q (f x) = Q x"
  shows "update_where Q f (update_where P f xs) = update_where (\<lambda>x. P x \<or> Q x) f xs"
  using assms by (auto simp: update_where_def)

lemma noted_refl [simp]: "noted fmt ev userID d d"
  unfolding noted_def
  by (intro exI [of _ "{}"] exI [of _ "[]"] exI [of _ "[]"]) simp

lemma noted_trans:
  assumes "noted fmt ev userID d d1" and "noted fmt ev userID d1 d2"
  shows "noted fmt ev userID d d2"
proof -
  from assms(1) obtain g vs rs where 1: "d1 = d\<lparr>subscriptions := update_where (\<lambda>x. sub_id x \<in> g)
        (\<lambda>x. x\<lparr>sub_active := False\<rparr>) (subscriptions d),
      deliveries := deliveries d @ vs, outbox_events := outbox_events d @ concat rs\<rparr>"
    "list_all2 (reports fmt ev) vs rs" "\<forall>v\<in>set vs. delivery_for userID ev v"
    "deliveries_ok d \<longrightarrow> deliveries_ok d1" unfolding noted_def by blast
  from assms(2) obtain g' vs' rs' where 2: "d2 = d1\<lparr>subscriptions := update_where (\<lambda>x. sub_id x \<in> g')
        (\<lambda>x. x\<lparr>sub_active := False\<rparr>) (subscriptions d1),
      deliveries := deliveries d1 @ vs', outbox_events := outbox_events d1 @ concat rs'\<rparr>"
    "list_all2 (reports fmt ev) vs' rs'" "\<forall>v\<in>set vs'. delivery_for userID ev v"
    "deliveries_ok d1 \<longrightarrow> deliveries_ok d2" unfolding noted_def by blast
  have "update_where (\<lambda>x. sub_id x \<in> g') (\<lambda>x. x\<lparr>sub_active := False\<rparr>)
      (update_where (\<lambda>x. sub_id x \<in> g) (\<lambda>x. x\<lparr>sub_active := False\<rparr>) (subscriptions d))
    = update_where (\<lambda>x. sub_id x \<in> g \<union> g') (\<lambda>x. x\<lparr>sub_active := False\<rparr>) (subscriptions d)"
    by (subst update_where_twice) simp_all
  then show ?thesis
    using 1(2-4) 2(2-4) unfolding noted_def 2(1) 1(1)
    by (intro exI [of _ "g \<union> g'"] exI [of _ "vs @ vs'"] exI [of _ "rs @ rs'"])
      (auto intro: list_all2_appendI)
qed

lemma noted_frame:
  assumes "noted fmt ev userID d d'"
  shows "processed_events d' = processed_events d" "users d' = users d"
    "already_delivered s r d \<Longrightarrow> already_delivered s r d'"
  using assms by (auto simp: noted_def already_delivered_def)

lemma deactivate_noted: "deactivate s d = Inr d' \<Longrightarrow> noted fmt ev userID d d'"
  unfolding noted_def
  by (intro exI [of _ "{s}"] exI [of _ "[]"] exI [of _ "[]"])
    (auto simp: deactivate_def deliveries_ok_def)

lemma insert_delivery_InrD:
  assumes "insert_delivery v d = Inr (n, d')"
  shows "(n = 0 \<and> d' = d) \<or> (n = 1 \<and> \<not> already_delivered (dv_subscription v) (dv_recommendation v) d
    \<and> d' = d\<lparr>deliveries := deliveries d @ [v]\<rparr> \<and> dv_status v \<in> {''sent'', ''delivered'', ''failed''})"
  using assms by (auto simp: insert_delivery_def bind_result_Inr_iff split: if_splits)

text \<open>A delivery and the events that report it.\<close>

lemma delivery_noted:
  assumes "insert_delivery v d = Inr (n, d1)" and "0 < n" and "delivery_for userID ev (v\<lparr>dv_status := ''sent''\<rparr>)"
    and "reports fmt ev v rs" and "d' = d1\<lparr>outbox_events := outbox_events d1 @ rs\<rparr>"
  shows "noted fmt ev userID d d'"
proof -
  from insert_delivery_InrD [OF assms(1)] assms(2)
  have n: "\<not> already_delivered (dv_subscription v) (dv_recommendation v) d"
    "d1 = d\<lparr>deliveries := deliveries d @ [v]\<rparr>" "dv_status v \<in> {''sent'', ''delivered'', ''failed''}"
    by auto
  have "deliveries_ok d \<longrightarrow> deliveries_ok d'"
    using n(1) by (auto simp: deliveries_ok_def assms(5) n(2) already_delivered_def)
  moreover have "delivery_for userID ev v" using assms(3) n(3) by (simp add: delivery_for_def)
  ultimately show ?thesis
    using assms(4) unfolding noted_def
    by (intro exI [of _ "{}"] exI [of _ "[v]"] exI [of _ "[rs]"]) (simp add: assms(5) n(2))
qed

subsection \<open>The effect on the outside\<close>

fun push_of :: "external_call \<Rightarrow> (string \<times> json) option" where
  "push_of (PushSent endpoint payload) = Some (endpoint, payload)"
| "push_of (PushFailed endpoint payload) = Some (endpoint, payload)"
| "push_of x = None"

definition push_target :: "recommendation_event \<Rightarrow> subscription_delivery \<Rightarrow> (string \<times> json) option" where
  "push_target ev x = Some (ps_endpoint (sd_subscription x), push_payload ev x)"

definition waiting :: "recommendation_event \<Rightarrow> database \<Rightarrow> subscription_delivery \<Rightarrow> bool" where
  "waiting ev d x \<longleftrightarrow> \<not> already_delivered (ps_id (sd_subscription x)) (re_recommendation_id ev) d"

text \<open>The calls made push to some of the targets that are still waiting, each at most once, in order.\<close>

definition pushed ::
  "recommendation_event \<Rightarrow> database \<Rightarrow> subscription_delivery list \<Rightarrow> external_call list \<Rightarrow> external_call list \<Rightarrow> bool"
where
  "pushed ev d xs tr tr' \<longleftrightarrow> (\<exists>cs. tr' = tr @ cs
     \<and> subseq (map push_of cs) (map (push_target ev) (filter (waiting ev d) xs)))"

lemma pushed_nothing [simp]: "pushed ev d xs tr tr"
  by (simp add: pushed_def)

lemma pushed_skip: "pushed ev d xs tr tr' \<Longrightarrow> pushed ev d (x # xs) tr tr'"
  by (auto simp: pushed_def)

lemma pushed_Cons:
  assumes "push_of c = push_target ev x" and "waiting ev d x"
    and "\<And>y. waiting ev d1 y \<Longrightarrow> waiting ev d y" and "pushed ev d1 xs (tr @ [c]) tr'"
  shows "pushed ev d (x # xs) tr tr'"
proof -
  from assms(4) obtain cs where cs: "tr' = (tr @ [c]) @ cs"
    "subseq (map push_of cs) (map (push_target ev) (filter (waiting ev d1) xs))"
    by (auto simp: pushed_def)
  have "filter (waiting ev d1) xs = filter (waiting ev d1) (filter (waiting ev d) xs)"
    using assms(3) by (auto simp: filter_filter intro: filter_cong)
  then have "subseq (map (push_target ev) (filter (waiting ev d1) xs))
      (map (push_target ev) (filter (waiting ev d) xs))"
    by (metis subseq_filter_left subseq_map)
  with cs assms(1,2) show ?thesis
    unfolding pushed_def by (intro exI [of _ "c # cs"]) (auto intro: subseq_order.order_trans)
qed

subsection \<open>The code has these effects\<close>

text \<open>A step inside the transaction, whose effect on the working copy \<open>R\<close> describes.\<close>

definition tx_step :: "env \<Rightarrow> (database \<Rightarrow> database \<Rightarrow> bool) \<Rightarrow> unit db_act \<Rightarrow> bool" where
  "tx_step e R m \<longleftrightarrow> (\<forall>w. wp m e (\<lambda>r w'. committed w' = committed w \<and> trace w' = trace w
     \<and> (\<forall>u. r = Inr u \<longrightarrow> R (working w) (working w'))) w)"

lemma wp_tx_step:
  assumes "tx_step e R m"
    and "\<And>x w'. committed w' = committed w \<Longrightarrow> trace w' = trace w \<Longrightarrow> Q (Inl x) w'"
    and "\<And>w'. committed w' = committed w \<Longrightarrow> trace w' = trace w \<Longrightarrow> R (working w) (working w') \<Longrightarrow> Q (Inr ()) w'"
  shows "wp m e Q w"
  by (rule wp_mono [OF assms(1) [unfolded tx_step_def, rule_format]])
    (metis (full_types) assms(2,3) old.unit.exhaust sum.exhaust)

definition enqueued :: "(int \<Rightarrow> string) \<Rightarrow> recommendation_event \<Rightarrow> string \<Rightarrow> string list \<Rightarrow> database \<Rightarrow> database \<Rightarrow> bool"
where
  "enqueued fmt ev notificationID tys d d' \<longleftrightarrow> (\<exists>rs. list_all2 (report fmt ev notificationID) tys rs
     \<and> d' = d\<lparr>outbox_events := outbox_events d @ rs\<rparr>)"

lemma enqueued_one:
  assumes "insert_event (notification_event fmt eid t ev ty nid ch pr code) now d = Inr d'" and "eid \<noteq> []"
  shows "enqueued fmt ev nid [ty] d d'"
proof -
  have "report fmt ev nid ty (queued (notification_event fmt eid t ev ty nid ch pr code) now)"
    unfolding report_def using assms(2) by blast
  with insert_event_InrD(1) [OF assms(1)] show ?thesis unfolding enqueued_def by auto
qed

lemma enqueue_step: "tx_step e (enqueued fmt ev nid [ty]) (enqueueNotificationEvent fmt ev ty nid ch pr code)"
  unfolding tx_step_def enqueueNotificationEvent_def Enqueue_def
  by (auto intro!: wp_execTx intro: enqueued_one simp: notification_event_def)

lemma enqueued_Cons:
  "enqueued fmt ev nid [ty] d d1 \<Longrightarrow> enqueued fmt ev nid tys d1 d' \<Longrightarrow> enqueued fmt ev nid (ty # tys) d d'"
  unfolding enqueued_def
  by (clarsimp simp: list_all2_Cons1) (metis append.assoc append_Cons append_Nil list_all2_Cons)

lemma enqueue_each_step: "tx_step e (enqueued fmt ev nid tys) (enqueue_each fmt ev nid ch pr tys)"
proof (induction tys)
  case Nil
  then show ?case by (auto simp: tx_step_def enqueued_def)
next
  case (Cons ty tys)
  show ?case
    unfolding tx_step_def
    by (auto intro!: wp_tx_step [OF enqueue_step] wp_tx_step [OF Cons.IH] intro: enqueued_Cons)
qed

lemma delivery_enqueued_noted:
  assumes "insert_delivery (delivery_row_of nid userID ev x status) d = Inr (n, d1)" and "0 < n"
    and "enqueued fmt ev nid tys d1 d'" and "tys \<in> status_topics status"
  shows "noted fmt ev userID d d'"
proof -
  from assms(3) obtain rs where "list_all2 (report fmt ev nid) tys rs"
    "d' = d1\<lparr>outbox_events := outbox_events d1 @ rs\<rparr>" unfolding enqueued_def by blast
  with assms(4) show ?thesis
    by (intro delivery_noted [OF assms(1,2), of userID ev fmt rs])
      (auto simp: delivery_for_def delivery_row_of_def reports_def)
qed

lemma insert_delivery_skip: "insert_delivery v d = Inr (0, d') \<Longrightarrow> d' = d"
  by (drule insert_delivery_InrD) simp

lemma note_success_step: "tx_step e (noted fmt ev userID) (note_success fmt userID ev nid x status)"
  unfolding tx_step_def note_success_def
  by (auto intro!: wp_execTx wp_tx_step [OF enqueue_each_step] dest!: insert_delivery_skip
      simp del: enqueue_each.simps)
    (auto elim!: delivery_enqueued_noted simp: status_topics_def)

lemma note_failure_step: "tx_step e (noted fmt ev userID) (note_failure fmt userID ev nid x err)"
proof -
  have made: "noted fmt ev userID d d'"
    if "noted fmt ev userID d d0"
      and "insert_delivery (delivery_row_of nid userID ev x ''failed'') d0 = Inr (n, d1)" and "0 < n"
      and "enqueued fmt ev nid [''notification.failed.v1''] d1 d'" for d d0 n d1 d'
    by (rule noted_trans [OF that(1) delivery_enqueued_noted [OF that(2-4)]])
      (simp add: status_topics_def)
  show ?thesis
    unfolding tx_step_def note_failure_def
    by (auto intro!: wp_execTx wp_tx_step [OF enqueue_step] dest!: insert_delivery_skip)
      (blast intro: made deactivate_noted noted_refl)+
qed

text \<open>The whole loop.\<close>

lemma noted_waiting: "noted fmt ev userID d d' \<Longrightarrow> waiting ev d' y \<Longrightarrow> waiting ev d y"
  using noted_frame(3) by (auto simp: waiting_def)

lemma wp_send_push:
  assumes "\<And>a c. push_of c = Some (ps_endpoint s, payload) \<Longrightarrow> Q (Inr a) (w\<lparr>trace := trace w @ [c]\<rparr>)"
  shows "wp (send_push send s payload) e Q w"
  using assms [of "PushSent (ps_endpoint s) payload"] assms [of "PushFailed (ps_endpoint s) payload"]
  by (auto simp: wp_def send_push_def split: sum.split)

lemma deliver_each_wp:
  "wp (deliver_each send fmt userID ev xs) e (\<lambda>r w'. committed w' = committed w
     \<and> pushed ev (working w) xs (trace w) (trace w')
     \<and> (r = Inr () \<longrightarrow> noted fmt ev userID (working w) (working w'))) w"
proof (induction xs arbitrary: w)
  case (Cons x xs)
  have step: "tx_step e (noted fmt ev userID) (case answer of
      Inl err \<Rightarrow> note_failure fmt userID ev nid x err
    | Inr status \<Rightarrow> note_success fmt userID ev nid x status)" for answer nid
    by (cases answer) (simp_all add: note_success_step note_failure_step)
  have rest: "wp (deliver_each send fmt userID ev xs) e (\<lambda>r w'. committed w' = committed w
      \<and> pushed ev (working w) (x # xs) (trace w) (trace w')
      \<and> (r = Inr () \<longrightarrow> noted fmt ev userID (working w) (working w'))) w1"
    if "committed w1 = committed w" "trace w1 = trace w @ [c]" "push_of c = push_target ev x"
      "waiting ev (working w) x" "noted fmt ev userID (working w) (working w1)" for w1 c
    by (rule wp_mono [OF Cons.IH])
      (use that in \<open>auto intro: noted_trans pushed_Cons [OF that(3,4)] dest: noted_waiting\<close>)
  have sent: "pushed ev (working w) (x # xs) (trace w) (trace w @ [c])"
    if "push_of c = push_target ev x" "waiting ev (working w) x" for c
    by (rule pushed_Cons [OF that, of "working w"]) simp_all
  have skip: "wp (deliver_each send fmt userID ev xs) e (\<lambda>r w'. committed w' = committed w
      \<and> pushed ev (working w) (x # xs) (trace w) (trace w')
      \<and> (r = Inr () \<longrightarrow> noted fmt ev userID (working w) (working w'))) w1"
    if "committed w1 = committed w" "trace w1 = trace w" "working w1 = working w" for w1
    by (rule wp_mono [OF Cons.IH]) (use that in \<open>auto intro: pushed_skip\<close>)
  show ?case
    by (auto simp: waiting_def push_target_def simp del: wp_case_sum
        intro!: wp_reads wp_send_push wp_tx_step [OF step] sent)
      ((rule skip, simp, simp, simp) | (rule rest, assumption, assumption, simp add: push_target_def,
        simp add: waiting_def, assumption))+
qed simp

text \<open>When a user wants to be notified, and of what.\<close>

definition wants_push :: "zones \<Rightarrow> int \<Rightarrow> user_row \<Rightarrow> bool" where
  "wants_push zone now u \<longleftrightarrow> u_notify u \<and> u_timezone u \<noteq> []
     \<and> WithinNotificationWindow zone now (u_timezone u) (null_string (u_notify_start u))
         (null_string (u_notify_end u))"

definition delivery_effect ::
  "zones \<Rightarrow> (subscription_row \<Rightarrow> nat) \<Rightarrow> (int \<Rightarrow> string) \<Rightarrow> recommendation_event \<Rightarrow> int \<Rightarrow> database \<Rightarrow> database
     \<Rightarrow> external_call list \<Rightarrow> external_call list \<Rightarrow> bool" where
  "delivery_effect zone tie fmt ev now d d' tr tr' \<longleftrightarrow>
     (d' = d \<and> tr' = tr)
     \<or> (\<exists>u ds. lookup_row (\<lambda>u. u_hash u = re_user_id_hash ev) (users d) = Some u \<and> wants_push zone now u
          \<and> scan_deliveries (delivery_targets tie (u_id u) (re_recommendation_id ev) d) = Inr ds
          \<and> noted fmt ev (u_id u) d d' \<and> pushed ev d ds tr tr')"

lemma deliver_wp:
  "wp (deliver zone tie send fmt ev) e (\<lambda>r w'. committed w' = committed w
     \<and> (\<exists>now d'. delivery_effect zone tie fmt ev now (working w) d' (trace w) (trace w')
          \<and> (r = Inr () \<longrightarrow> working w' = d'))) w"
proof -
  have none: "delivery_effect zone tie fmt ev now d d tr tr" for now d tr
    by (simp add: delivery_effect_def)
  then have fails: "\<exists>now d'. delivery_effect zone tie fmt ev now d d' tr tr" for d tr
    by blast
  have some: "wp (deliver_each send fmt (u_id u) ev ds) e (\<lambda>r w'. committed w' = committed w
     \<and> (\<exists>now d'. delivery_effect zone tie fmt ev now (working w) d' (trace w) (trace w')
          \<and> (r = Inr () \<longrightarrow> working w' = d'))) w1"
    if "committed w1 = committed w" "working w1 = working w" "trace w1 = trace w"
      and "lookup_row (\<lambda>u. u_hash u = re_user_id_hash ev) (users (working w)) = Some u" "wants_push zone now u"
      and "scan_deliveries (delivery_targets tie (u_id u) (re_recommendation_id ev) (working w)) = Inr ds"
    for w1 u now ds
  proof (rule wp_mono [OF deliver_each_wp], goal_cases)
    case (1 r w')
    let ?d' = "if r = Inr () then working w' else working w"
    have "delivery_effect zone tie fmt ev now (working w) ?d' (trace w) (trace w')"
      unfolding delivery_effect_def using 1 that by (intro disjI2 exI [of _ u] exI [of _ ds]) auto
    then show ?case using 1 that(1) by (intro conjI exI [of _ now] exI [of _ ?d']) auto
  qed
  show ?thesis
    unfolding deliver_def LoadUserSettings_def
    by (auto simp: none fails user_settings_def wants_push_def window_configured_def
        intro!: wp_reads some split: if_splits)
qed

end
