(* ===== verification/NotificationTheorems.thy ===== *)
theory NotificationTheorems
  imports NotificationSpec JourneyTheorems Consumers
begin

text \<open>The correctness statements of \<open>internal/notification/\<close>.\<close>

interpretation notify: event_consumer NotificationConsumer "re_event_id ev" "deliver zone tie send fmt ev"
  "\<lambda>d d'. \<exists>userID. noted fmt ev userID d d'" for zone tie send fmt ev
proof
  fix e and w :: store
  show "wp (deliver zone tie send fmt ev) e (\<lambda>r w'. committed w' = committed w
      \<and> (\<forall>u. r = Inr u \<longrightarrow> (\<exists>userID. noted fmt ev userID (working w) (working w'))
           \<and> processed_events (working w') = processed_events (working w))) w"
    by (rule wp_mono [OF deliver_wp]) (auto simp: delivery_effect_def dest: noted_frame(1))
qed

subsection \<open>Examples\<close>

definition demo_zone :: zones where
  "demo_zone tz = (if tz = ''Asia/Taipei'' then Some (\<lambda>now. (10, 30)) else None)"

definition demo_subscription :: subscription_row where
  "demo_subscription = \<lparr>sub_id = ''sub1'', sub_user = ''u1'', sub_endpoint = ''https://push.example/1'',
     sub_p256dh = ''k'', sub_auth = ''a'', sub_agent = None, sub_active = True, sub_created = 1\<rparr>"

definition demo_subscribed :: database where
  "demo_subscribed = demo_recommended\<lparr>subscriptions := [demo_subscription],
     users := [demo_user\<lparr>u_notify := True, u_notify_start := Some ''09:00'', u_notify_end := Some ''18:00''\<rparr>]\<rparr>"

definition demo_created_event :: recommendation_event where
  "demo_created_event = no_recommendation_event\<lparr>re_event_id := ''ev1'', re_event_type := ''recommendation.created.v1'',
     re_schema_version := 1, re_trace_id := ''t1'', re_journey_id := ''j1'', re_recommendation_id := ''r1'',
     re_user_id_hash := demo_hash, re_payload := \<lparr>rp_recommendation = ''r1'', rp_offer = ''paid'',
       rp_reasons = [], rp_source = []\<rparr>\<rparr>"

definition demo_sender :: sender where
  "demo_sender sent s payload = Inr ''delivered''"

definition demo_order :: "subscription_row \<Rightarrow> nat" where
  "demo_order x = 0"

abbreviation demo_process :: "bool db_act" where
  "demo_process \<equiv> Process Handle NotificationConsumer (re_event_id demo_created_event)
     (Some (deliver demo_zone demo_order demo_sender demo_fmt demo_created_event))"


lemma demo_process_outcome:
  "length (deliveries (committed (snd (attempts 2 demo_process (lossy_env 8) (demo_world demo_subscribed))))) = 1
   \<and> length (outbox_events (committed (snd (attempts 2 demo_process (lossy_env 8) (demo_world demo_subscribed))))) = 2"
  by code_simp

subsection \<open>The window\<close>

lemma digit_value_less: "digit c \<Longrightarrow> digit_value c < 10"
  by (auto simp: digit_def digit_value_def less_eq_char_def)

lemma parse_minute_bounds: "parse_minute h s = Some (h', m) \<Longrightarrow> h' < 24 \<and> m < 60"
  by (cases "(h, s)" rule: parse_minute.cases) (auto split: if_splits)

lemma parse_hour_minute_bounds: "parse_hour_minute s = Some (h, m) \<Longrightarrow> h < 24 \<and> m < 60"
  by (cases s rule: parse_hour_minute.cases) (auto split: if_splits dest: parse_minute_bounds)

text \<open>
  The window runs around the clock. For a zone that exists and times that parse,
  \<open>WithinNotificationWindow\<close> says whether the local minute comes, going forward from the start and
  past midnight if need be, before the end; equal start and end mean the whole day.
\<close>

theorem window_is_cyclic:
  assumes "zone tz = Some loc" and "loc now = (h, m)" and "h < 24" and "m < 60"
    and "parse_hour_minute st = Some (sh, sm)" and "parse_hour_minute en = Some (eh, em)"
  shows "WithinNotificationWindow zone now tz st en \<longleftrightarrow>
    sh * 60 + sm = eh * 60 + em
    \<or> (h * 60 + m + 1440 - (sh * 60 + sm)) mod 1440 < (eh * 60 + em + 1440 - (sh * 60 + sm)) mod 1440"
proof -
  have b: "sh < 24" "sm < 60" "eh < 24" "em < 60"
    using parse_hour_minute_bounds assms(5,6) by auto
  have wrap: "(x + 1440 - a) mod 1440 = (if a \<le> x then x - a else x + 1440 - a)"
    if "x < 1440" "a < 1440" for x a :: nat
  proof (cases "a \<le> x")
    case True
    then have "x + 1440 - a = (x - a) + 1440" by simp
    then have "(x + 1440 - a) mod 1440 = (x - a) mod 1440" by (metis mod_add_self2)
    with True that(1) show ?thesis by simp
  qed (use that in simp)
  have "st \<noteq> []" "en \<noteq> []" using assms(5,6) by auto
  moreover have "h * 60 + m < 1440" "sh * 60 + sm < 1440" "eh * 60 + em < 1440"
    using assms(3,4) b by simp_all
  ultimately show ?thesis
    using assms(1,2,5,6) by (auto simp: WithinNotificationWindow_def Let_def wrap)
qed

theorem window_is_cyclic_witness:
  "WithinNotificationWindow demo_zone 0 ''Asia/Taipei'' ''22:00'' ''11:15'' \<longleftrightarrow>
    (22 * 60 + 0 = 11 * 60 + (15 :: nat)
     \<or> (10 * 60 + 30 + 1440 - (22 * 60 + 0)) mod 1440 < (11 * 60 + 15 + 1440 - (22 * 60 + (0 :: nat))) mod 1440)"
proof -
  have "parse_hour_minute ''22:00'' = Some (22, 0)" "parse_hour_minute ''11:15'' = Some (11, 15)"
    by code_simp+
  from window_is_cyclic [OF _ _ _ _ this, of demo_zone "''Asia/Taipei''" "\<lambda>_. (10, 30)" 0 10 30]
  show ?thesis by (simp add: demo_zone_def)
qed

subsection \<open>Delivering\<close>









subsection \<open>The consumer\<close>

lemma Process_processed:
  assumes "Process Handle NotificationConsumer (re_event_id ev) (Some (deliver zone tie send fmt ev)) e w = (r, w')"
  shows "set (processed_events (committed w)) \<subseteq> set (processed_events (committed w'))"
    and "r = Inr b \<Longrightarrow> (NotificationConsumer, re_event_id ev) \<in> set (processed_events (committed w'))"
proof -
  note step = notify.process.all_or_nothing [OF assms] notify.process.success [of db ev zone tie send fmt e w b w' for db]
  show "set (processed_events (committed w)) \<subseteq> set (processed_events (committed w'))"
    using step(1) by (auto simp: notify.handled_now_def)
  show "(NotificationConsumer, re_event_id ev) \<in> set (processed_events (committed w'))" if "r = Inr b"
    using notify.process.success [of Handle ev zone tie send fmt e w b w'] assms that
    by (auto simp: notify.handled_now_def notify.handled_before_def)
qed

definition notify_message ::
  "(recommendation_event \<Rightarrow> unit db_act) \<Rightarrow> raw \<Rightarrow> unit db_act" where
  "notify_message handler m =
     (case DecodeRecommendationCreatedEvent m of
        Inl _ \<Rightarrow> ok ()
      | Inr ev \<Rightarrow> andThen (Process Handle NotificationConsumer (re_event_id ev) (Some (handler ev))) (\<lambda>_. ok ()))"

interpretation notify_loop: topic_consumer "notification_loop handler" "notify_message handler" "\<lambda>err. err"
  for handler
  by unfold_locales
    (auto simp: notify_message_def andThen_def attempt_def ok_def fun_eq_iff split: sum.split prod.split option.split)

lemma notify_message_processed:
  assumes "notify_message (deliver zone tie send fmt) m e w = (r, w')"
  shows "set (processed_events (committed w)) \<subseteq> set (processed_events (committed w'))"
    and "r = Inr u \<Longrightarrow> DecodeRecommendationCreatedEvent m = Inr ev
      \<Longrightarrow> (NotificationConsumer, re_event_id ev) \<in> set (processed_events (committed w'))"
proof -
  have "set (processed_events (committed w)) \<subseteq> set (processed_events (committed w'))
    \<and> (\<forall>u ev. r = Inr u \<longrightarrow> DecodeRecommendationCreatedEvent m = Inr ev
        \<longrightarrow> (NotificationConsumer, re_event_id ev) \<in> set (processed_events (committed w')))"
  proof (cases "DecodeRecommendationCreatedEvent m")
    case (Inr ev)
    obtain q w1 where run: "Process Handle NotificationConsumer (re_event_id ev)
        (Some (deliver zone tie send fmt ev)) e w = (q, w1)" by fastforce
    with assms Inr have "w' = w1" and "\<And>u. r = Inr u \<Longrightarrow> \<exists>b. q = Inr b"
      by (auto simp: notify_message_def andThen_def ok_def split: sum.splits)
    with Process_processed [OF run] Inr show ?thesis by auto
  qed (use assms in \<open>auto simp: notify_message_def ok_def\<close>)
  then show "set (processed_events (committed w)) \<subseteq> set (processed_events (committed w'))"
    and "r = Inr u \<Longrightarrow> DecodeRecommendationCreatedEvent m = Inr ev
      \<Longrightarrow> (NotificationConsumer, re_event_id ev) \<in> set (processed_events (committed w'))" by blast+
qed

lemma notified_all:
  assumes "treated_all (notify_message (deliver zone tie send fmt)) e ms w w'"
  shows "set (processed_events (committed w)) \<subseteq> set (processed_events (committed w'))
    \<and> (\<forall>m\<in>set ms. \<forall>ev. DecodeRecommendationCreatedEvent m = Inr ev \<longrightarrow>
         (NotificationConsumer, re_event_id ev) \<in> set (processed_events (committed w')))"
  using assms
proof (induction ms arbitrary: w)
  case (Cons m ms)
  then obtain w1 where m: "notify_message (deliver zone tie send fmt) m e w = (Inr (), w1)"
    and ms: "treated_all (notify_message (deliver zone tie send fmt)) e ms w1 w'" by auto
  from notify_message_processed [OF m] Cons.IH [OF ms] show ?case by auto
qed simp

lemma notification_loop_processed:
  assumes "notification_loop (deliver zone tie send fmt) commit_at fetch_error n ms e w = (Inr (k, err), w')"
  shows "n \<le> k \<and> k \<le> n + length ms
    \<and> set (processed_events (committed w)) \<subseteq> set (processed_events (committed w'))
    \<and> (\<forall>m\<in>set (take (k - n) ms). \<forall>ev. DecodeRecommendationCreatedEvent m = Inr ev \<longrightarrow>
         (NotificationConsumer, re_event_id ev) \<in> set (processed_events (committed w')))"
proof -
  from notify_loop.committed_treated [OF assms] obtain w1 where k: "n \<le> k" "k \<le> n + length ms"
    and all: "treated_all (notify_message (deliver zone tie send fmt)) e (take (k - n) ms) w w1"
    and last: "w' = w1 \<or> (\<exists>q. notify_message (deliver zone tie send fmt) (ms ! (k - n)) e w1 = (q, w'))" by blast
  from last have "set (processed_events (committed w1)) \<subseteq> set (processed_events (committed w'))"
    using notify_message_processed(1) by blast
  with notified_all [OF all] k show ?thesis by blast
qed

text \<open>
  C40: a message is committed only after its event was processed. Whatever ends the worker (a failed
  fetch, handler, or commit), every event that decodes among the messages it committed is recorded
  as processed in the committed database, and nothing processed before is forgotten.
\<close>

theorem committed_messages_processed:
  assumes "RunWithProvider zone tie fmt commit_at fetch_error brokers db provider ms e w = (Inr (k, err), w')"
  shows "k \<le> length ms \<and> set (processed_events (committed w)) \<subseteq> set (processed_events (committed w'))
    \<and> (\<forall>m\<in>set (take k ms). \<forall>ev. DecodeRecommendationCreatedEvent m = Inr ev \<longrightarrow>
         (NotificationConsumer, re_event_id ev) \<in> set (processed_events (committed w')))"
  using assms notification_loop_processed [where n = 0]
  by (fastforce simp: RunWithProvider_def ok_def split: if_splits option.splits)

definition demo_payload_members :: "(string \<times> json) list" where
  "demo_payload_members = [(''recommendation_id'', JStr ''r1''), (''offer_id'', JStr ''paid'')]"

definition demo_event_members :: "(string \<times> json) list" where
  "demo_event_members = [(''event_id'', JStr ''ev1''), (''event_type'', JStr ''recommendation.created.v1''),
     (''schema_version'', JInt 1), (''trace_id'', JStr ''t1''), (''journey_id'', JStr ''j1''),
     (''recommendation_id'', JStr ''r1''), (''user_id_hash'', JStr demo_hash),
     (''payload'', JObj demo_payload_members)]"

lemma demo_payload_fields:
  "decode_field assign_string ''recommendation_id'' demo_payload_members x = Inr ''r1''"
  "decode_field assign_string ''offer_id'' demo_payload_members x = Inr ''paid''"
  "decode_field assign_strings ''reasons'' demo_payload_members xs = Inr xs"
  "decode_field assign_string ''copy_source'' demo_payload_members x = Inr x"
  by (simp_all add: demo_payload_members_def field_folds del: fold_name.simps)

lemma demo_event_fields:
  "decode_field assign_string ''event_id'' demo_event_members x = Inr ''ev1''"
  "decode_field assign_string ''event_type'' demo_event_members x = Inr ''recommendation.created.v1''"
  "decode_field assign_int ''schema_version'' demo_event_members n = Inr 1"
  "decode_field assign_string ''occurred_at'' demo_event_members x = Inr x"
  "decode_field assign_string ''producer'' demo_event_members x = Inr x"
  "decode_field assign_string ''trace_id'' demo_event_members x = Inr ''t1''"
  "decode_field assign_string ''journey_id'' demo_event_members x = Inr ''j1''"
  "decode_field assign_string ''recommendation_id'' demo_event_members x = Inr ''r1''"
  "decode_field assign_string ''user_id_hash'' demo_event_members x = Inr demo_hash"
  by (simp_all add: demo_event_members_def field_folds int64_range_def del: fold_name.simps)

lemma demo_event_payload:
  "decode_field (assign_struct f) ''payload'' demo_event_members p = f demo_payload_members p"
  by (simp add: demo_event_members_def field_folds del: fold_name.simps split: sum.split)

lemma decode_demo_event: "DecodeRecommendationCreatedEvent (Raw (JObj demo_event_members)) = Inr demo_created_event"
  unfolding DecodeRecommendationCreatedEvent_def unmarshal.simps assign_struct.simps
    decode_recommendation_event_def demo_event_fields demo_event_payload decode_recommendation_payload_def
    demo_payload_fields bind_result_simps
  by (simp add: no_recommendation_event_def demo_created_event_def demo_hash_def)

lemma demo_process_done:
  "fst (demo_process calm_env (demo_world demo_subscribed)) = Inr True"
  by code_simp

lemma demo_run:
  "fst (RunWithProvider demo_zone demo_order demo_fmt (\<lambda>_. None) Driver [''kafka:9092''] Handle
      (Some demo_sender) [RawInvalid, Raw (JObj demo_event_members)] calm_env (demo_world demo_subscribed))
   = Inr (2, Driver)"
proof -
  obtain w1 where "demo_process calm_env (demo_world demo_subscribed) = (Inr True, w1)"
    using run_pair [OF demo_process_done] by blast
  then show ?thesis
    by (simp add: RunWithProvider_def decode_demo_event andThen_def attempt_def ok_def
        DecodeRecommendationCreatedEvent_def [of RawInvalid])
qed

theorem committed_messages_processed_witness:
  "\<exists>w' :: store. (NotificationConsumer, ''ev1'') \<in> set (processed_events (committed w'))"
  using committed_messages_processed [OF run_pair [OF demo_run]] decode_demo_event
  by (auto simp: demo_created_event_def)

subsection \<open>Subscriptions\<close>

definition subscriptions_ok :: "database \<Rightarrow> bool" where
  "subscriptions_ok d \<longleftrightarrow> unique_by sub_id (subscriptions d)
     \<and> unique_by (\<lambda>x. (sub_user x, sub_endpoint x)) (subscriptions d)"

text \<open>
  An endpoint is registered once per user. When \<open>Register\<close> succeeds, the user has exactly the
  named subscription for the endpoint, active and with the keys of the request, and every other
  subscription is as before; identifiers and endpoints stay unique.
\<close>

theorem register_effect:
  assumes "Register s userIDHash endpoint p256dh auth agent e w = (Inr x, w')"
    and "subscriptions_ok (committed w)"
  shows "subscriptions_ok (committed w') \<and> validEndpoint endpoint
    \<and> (\<exists>u y. lookup_row (\<lambda>u. u_hash u = userIDHash) (users (committed w)) = Some u
        \<and> y \<in> set (subscriptions (committed w')) \<and> sub_user y = u_id u \<and> sub_endpoint y = endpoint
        \<and> sub_id y = sb_id x \<and> sub_active y \<and> sb_active x \<and> sub_p256dh y = p256dh \<and> sub_auth y = auth
        \<and> (\<forall>z. (sub_user z, sub_endpoint z) \<noteq> (u_id u, endpoint) \<longrightarrow>
             (z \<in> set (subscriptions (committed w')) \<longleftrightarrow> z \<in> set (subscriptions (committed w)))))"
proof -
  have "wp (Register s userIDHash endpoint p256dh auth agent) e (\<lambda>r w'. \<forall>x. r = Inr x \<longrightarrow> validEndpoint endpoint
      \<and> (\<exists>sid now i. upsert_subscription sid endpoint p256dh auth (trim_space agent) userIDHash now (committed w)
           = Inr ((i, sb_active x), committed w') \<and> sb_id x = i)) w"
    unfolding Register_def by (auto intro!: wp_execDB) blast
  from wpD [OF this assms(1)] obtain sid now where v: "validEndpoint endpoint" and
    up: "upsert_subscription sid endpoint p256dh auth (trim_space agent) userIDHash now (committed w)
      = Inr ((sb_id x, sb_active x), committed w')" by blast
  then obtain u where u: "lookup_row (\<lambda>u. u_hash u = userIDHash) (users (committed w)) = Some u"
    by (auto simp: upsert_subscription_def split: option.splits)
  let ?same = "\<lambda>y. sub_user y = u_id u \<and> sub_endpoint y = endpoint"
  let ?set = "\<lambda>y. y\<lparr>sub_p256dh := p256dh, sub_auth := auth, sub_agent := nullif_empty (trim_space agent),
      sub_active := True\<rparr>"
  show ?thesis
  proof (cases "lookup_row ?same (subscriptions (committed w))")
    case (Some old)
    then have old: "old \<in> set (subscriptions (committed w))" "?same old" by (auto dest: lookup_row_SomeD)
    have c: "committed w' = (committed w)\<lparr>subscriptions := update_where ?same ?set (subscriptions (committed w))\<rparr>"
      and x: "sb_id x = sub_id old" "sb_active x"
      using up u Some by (simp_all add: upsert_subscription_def)
    have w': "subscriptions (committed w') = update_where ?same ?set (subscriptions (committed w))"
      by (simp add: c)
    have "subscriptions_ok (committed w')"
      using assms(2) by (simp add: subscriptions_ok_def w' unique_by_update_where)
    moreover have "?set old \<in> set (subscriptions (committed w'))"
      using old by (auto simp: w' in_update_where)
    moreover have "z \<in> set (subscriptions (committed w')) \<longleftrightarrow> z \<in> set (subscriptions (committed w))"
      if "(sub_user z, sub_endpoint z) \<noteq> (u_id u, endpoint)" for z
      using that by (auto simp: w' in_update_where)
    ultimately show ?thesis
      using v u x old by (intro conjI exI [of _ u] exI [of _ "?set old"]) auto
  next
    case None
    then have none: "\<forall>y\<in>set (subscriptions (committed w)). \<not> ?same y" by (simp add: lookup_row_None_iff)
    let ?new = "\<lparr>sub_id = sid, sub_user = u_id u, sub_endpoint = endpoint, sub_p256dh = p256dh,
      sub_auth = auth, sub_agent = nullif_empty (trim_space agent), sub_active = True, sub_created = now\<rparr>"
    have c: "committed w' = (committed w)\<lparr>subscriptions := subscriptions (committed w) @ [?new]\<rparr>"
      and x: "sb_id x = sid" "sb_active x" and id: "\<forall>y\<in>set (subscriptions (committed w)). sub_id y \<noteq> sid"
      using up u None by (simp_all add: upsert_subscription_def)
    have w': "subscriptions (committed w') = subscriptions (committed w) @ [?new]"
      by (simp add: c)
    have "subscriptions_ok (committed w')"
      using assms(2) id none by (auto simp: subscriptions_ok_def w')
    then show ?thesis
      using v u x by (intro conjI exI [of _ u] exI [of _ ?new]) (auto simp: w')
  qed
qed

lemma demo_register:
  "fst (Register (Some \<lparr>ns_db = Handle\<rparr>) demo_hash ''https://push.example/1'' ''key'' ''secret'' [] calm_env
     (demo_world demo_subscribed)) = Inr \<lparr>sb_id = ''sub1'', sb_active = True, sb_channel = ''demo''\<rparr>"
  by code_simp

theorem register_effect_witness:
  "subscriptions_ok (committed (snd (Register (Some \<lparr>ns_db = Handle\<rparr>) demo_hash ''https://push.example/1''
     ''key'' ''secret'' [] calm_env (demo_world demo_subscribed))))"
  using register_effect [OF run_pair [OF demo_register]]
  by (simp add: subscriptions_ok_def demo_world_def demo_subscribed_def)

end
