(* ===== verification/Events.thy ===== *)
theory Events
  imports RecommendationShown NotificationTheorems Analytics
begin

text \<open>
  The events between the services. Every event a service queues is read back, with the types the
  readers expect, by the analytics consumer, and by the service its topic is for.
\<close>

text \<open>The analytics consumer finds version 1 of the event the row is about, of a topic it knows.\<close>

definition analysable :: "outbox_row \<Rightarrow> bool" where
  "analysable r \<longleftrightarrow> knownTopic (ob_topic r)
     \<and> (\<exists>ev kvs. unmarshal (assign_struct decode_analytics_event) (Raw (ob_payload r)) no_event = Inr ev
          \<and> ae_event_id ev = ob_id r \<and> ae_event_type ev = ob_topic r \<and> ae_schema_version ev = 1
          \<and> unmarshal assign_map (ae_payload ev) [] = Inr kvs)"

text \<open>And so does the service behind the topic, which finds the user in the key.\<close>

definition consumable :: "outbox_row \<Rightarrow> bool" where
  "consumable r \<longleftrightarrow> analysable r
     \<and> (ob_topic r = EntryTopic \<longrightarrow> (\<exists>ev.
          unmarshal (assign_struct decode_entry_event) (Raw (ob_payload r)) no_entry_event = Inr ev
          \<and> ee_event_id ev = ob_id r \<and> ee_event_type ev = EntryTopic \<and> ee_schema_version ev = 1
          \<and> ee_user_id_hash ev = ob_key r))
     \<and> (ob_topic r = ''recommendation.created.v1'' \<longrightarrow> (\<exists>ev.
          unmarshal (assign_struct decode_recommendation_event) (Raw (ob_payload r)) no_recommendation_event
            = Inr ev
          \<and> re_event_id ev = ob_id r \<and> re_event_type ev = ''recommendation.created.v1''
          \<and> re_schema_version ev = 1 \<and> re_user_id_hash ev = ob_key r))"

lemmas decode_simps = field_folds decode_field_append decode_field_omit_empty decode_field_omit_other

lemmas analytics_simps = analysable_def knownTopic_def Topics_def decode_analytics_event_def no_event_def
  queued_def event_row_def int64_range_def

text \<open>Each event, by its producer.\<close>

lemma entry_consumable: "consumable (queued (entry_event fmt eid t tr j h st l p) now)"
  by (simp add: consumable_def entry_event_def entry_message_def analytics_simps decode_simps
      decode_entry_event_def decode_entry_payload_def no_entry_event_def del: fold_name.simps)

lemma recommendation_consumable: "consumable (queued (recommendation_created fmt eid t request m) now)"
  by (simp add: consumable_def recommendation_created_def recommendation_message_def analytics_simps
      decode_simps decode_recommendation_event_def decode_recommendation_payload_def
      no_recommendation_event_def del: fold_name.simps)

lemma feedback_consumable:
  assumes "validRecommendationEventType (fr_event_type request)"
  shows "consumable (queued (feedback_event fmt eid t tr j x request surface) now)"
  using assms
  by (auto simp: consumable_def feedback_event_def feedback_message_def analytics_simps decode_simps
      validRecommendationEventType_def feedback_topics simp del: fold_name.simps)

lemma succeeded_consumable: "consumable (queued (succeeded_event fmt eid t request r) now)"
  by (simp add: consumable_def succeeded_event_def succeeded_message_def analytics_simps decode_simps
      del: fold_name.simps)

lemma verified_consumable: "consumable (queued (verified_event fmt eid t request r h) now)"
  by (simp add: consumable_def verified_event_def verified_message_def analytics_simps decode_simps
      del: fold_name.simps)

lemma notification_consumable:
  assumes "ty \<in> {''notification.sent.v1'', ''notification.delivered.v1'', ''notification.failed.v1''}"
  shows "consumable (queued (notification_event fmt eid t ev ty nid channel provider code) now)"
  using assms
  by (auto simp: consumable_def notification_event_def notification_message_def analytics_simps
      decode_simps simp del: fold_name.simps)

end
