(* ===== verification/UserTheorems.thy ===== *)
theory UserTheorems
  imports UserSpec
begin

text \<open>The correctness statements of \<open>internal/user/service.go\<close>.\<close>

definition demo_new_hash :: string where
  "demo_new_hash = ''sha256:'' @ replicate 64 (CHR ''b'')"

definition demo_preferences :: "string list \<Rightarrow> preferences_request" where
  "demo_preferences ss = \<lparr>pr_user_id_hash = demo_hash, pr_stations = ss,
     pr_categories = [''coffee''], pr_budget_min = 10, pr_budget_max = 20,
     pr_timezone = ''Asia/Taipei'', pr_notify = True, pr_start = ''09:00'', pr_end = ''18:30''\<rparr>"

text \<open>
  The program and the database agree on what a user hash is. \<open>validUserIDHash\<close>, which looks at
  the length in bytes, the prefix and the runes after it, accepts exactly the strings that the CHECK
  of the column accepts; so no accepted hash is ever refused by the database.
\<close>

theorem hash_check_agrees: "validUserIDHash s = user_id_hash_check s"
  by (rule valid_hash_iff)

text \<open>
  A user is provisioned once. However often \<open>EnsureDemoUser\<close> is repeated for a hash and whatever
  fails, the database is unchanged or has exactly one new user with that hash, who starts with 1200
  points and one ledger entry of 1200; and the books stay balanced.
\<close>

theorem ensure_user_once:
  assumes "books_ok (committed w)" and "attempts n (EnsureDemoUser (Some execDB) h) e w = (rs, w')"
  shows "(committed w' = committed w \<or> provisioned h (committed w) () (committed w'))
    \<and> books_ok (committed w')"
  using ensure.attempts_at_most_once [OF assms(2)] provisioned_books_ok [OF assms(1)] assms(1)
  by auto

theorem ensure_user_once_witness:
  "provisioned demo_new_hash demo_db () (committed (snd
     (attempts 3 (EnsureDemoUser (Some execDB) demo_new_hash) (lossy_env 0) (demo_world demo_db))))"
proof -
  have "books_ok (committed (demo_world demo_db))"
    by (simp add: books_ok_def balances_ok_def stock_ok_def debits_ok_def once_ok_def
        running_balances_def exists_defs sum_where_def demo_defs)
  moreover have "length (users (committed (snd
      (attempts 3 (EnsureDemoUser (Some execDB) demo_new_hash) (lossy_env 0) (demo_world demo_db))))) = 2"
    by code_simp
  ultimately show ?thesis
    using ensure_user_once [OF _ surjective_pairing, of "demo_world demo_db" 3 demo_new_hash "lossy_env 0"]
    by (auto simp: demo_world_def) (simp add: demo_db_def)
qed

text \<open>
  C32: preferences are stored and read back. When the request is valid, names at least one station and
  one category, and nothing fails, \<open>UpdateUserPreferences\<close> answers with a profile that holds exactly
  the preferences of the request (provisioning the user first if needed).
\<close>

theorem preferences_roundtrip:
  assumes "calm e" and "user_service_ready s" and "validUserIDHash (pr_user_id_hash p)"
    and "validatePreferences known_zone p = None"
    and "pr_stations p \<noteq> []" and "pr_categories p \<noteq> []"
    and "unique_by u_hash (users (committed w))"
    and "\<not> user_exists (committed w) (uuid_at e (draws w))"
  shows "\<exists>q. fst (UpdateUserPreferences known_zone fmt s (Some p) e w) = Inr q \<and> profile_matches p q"
proof -
  let ?h = "pr_user_id_hash p" and ?now = "clock_at e (Suc (draws w))"
  obtain d where d: "insert_demo_user (uuid_at e (draws w)) ?h ?now (committed w) = Inr d"
    "unique_by u_hash (users d)" "exists_row (\<lambda>u. u_hash u = ?h) (users d)"
    using insert_demo_user_holds [OF assms(3,7,8)] by blast
  from d(3) obtain u where u: "u \<in> set (users d)" "u_hash u = ?h" by auto
  have one: "filter (\<lambda>u. u_hash u = ?h) (users d) = [u]"
    by (rule filter_unique_single [OF d(2) u])
  let ?ss = "marshal_repeated (pr_stations p)" and ?cs = "marshal_repeated (pr_categories p)"
  let ?f = "\<lambda>t. set_preferences p ?ss ?cs t"
  have bounds: "0 \<le> pr_budget_min p" "pr_budget_min p \<le> pr_budget_max p"
    using assms(4) by (auto simp: validatePreferences_def split: if_splits)
  have upd: "update_preferences p ?ss ?cs t d
      = Inr (1, d\<lparr>users := update_where (\<lambda>u. u_hash u = ?h) (?f t) (users d)\<rparr>)" for t
    using one bounds assms(5,6)
    by (simp add: update_preferences_def marshal_repeated_def json_strings_def constrained_holds)
  have found: "lookup_row (\<lambda>u. u_hash u = ?h) (users d) = Some u"
    using lookup_row_unique [OF d(2) u(1), of "\<lambda>u. u_hash u = ?h"] u(2) by simp
  then have row: "lookup_row (\<lambda>u. u_hash u = ?h) (update_where (\<lambda>u. u_hash u = ?h) (?f t) (users d))
      = Some (?f t u)" for t
    using u(2) by (subst lookup_update_where) (auto simp: set_preferences_def)
  obtain q where q: "profile_of fmt (?f (clock_at e (Suc (Suc (draws w)))) u) = Inr q"
    "profile_matches p q"
    using profile_of_preferences [OF assms(5,6) u(2)] by blast
  have "fst (UpdateUserPreferences known_zone fmt s (Some p) e w) = Inr q"
    using assms(2,3,4) d(1) upd row q(1)
    by (simp add: UpdateUserPreferences_def run_EnsureDemoUser [OF assms(1)] run_execDB [OF assms(1)]
        run_if fst_mapErr run_profile [OF assms(1)])
  with q(2) show ?thesis by blast
qed

theorem preferences_roundtrip_witness:
  "\<exists>q. fst (UpdateUserPreferences (\<lambda>z. z = ''Asia/Taipei'') (\<lambda>_. ''t'') (Some \<lparr>us_db = Handle\<rparr>)
      (Some (demo_preferences [''s1''])) calm_env (demo_world demo_db)) = Inr q
    \<and> profile_matches (demo_preferences [''s1'']) q"
proof (rule preferences_roundtrip)
  show "validUserIDHash (pr_user_id_hash (demo_preferences [''s1'']))" by code_simp
  show "validatePreferences (\<lambda>z. z = ''Asia/Taipei'') (demo_preferences [''s1'']) = None" by code_simp
qed (simp_all add: user_service_ready_def demo_preferences_def demo_defs calm_env_def demo_uuid_def
    user_exists_def calm_def)

text \<open>
  Preferences without favourite stations, or without categories, cannot be stored. A message field
  that repeats nothing is a nil slice, \<open>json.Marshal\<close> writes it as \<open>null\<close>, and the CHECK of the column
  wants an array; so \<open>UpdateUserPreferences\<close> never succeeds for such a request, although
  \<open>validatePreferences\<close> accepts it.
\<close>

theorem empty_preferences_rejected:
  assumes "pr_stations p = [] \<or> pr_categories p = []"
  shows "\<exists>x. fst (UpdateUserPreferences known_zone fmt s (Some p) e w) = Inl x"
proof -
  have none: "update_preferences p (marshal_repeated (pr_stations p))
      (marshal_repeated (pr_categories p)) t d = Inr (n, d') \<Longrightarrow> n \<noteq> 1" for t d n d'
    using assms by (auto simp: update_preferences_def marshal_repeated_def Let_def)
  have "wp (UpdateUserPreferences known_zone fmt s (Some p)) e (\<lambda>r w'. \<exists>x. r = Inl x) w"
    unfolding UpdateUserPreferences_def
    by (auto intro!: wp_mono [OF EnsureDemoUser_wp] wp_execDB dest: none split: option.splits sum.splits)
  from wpD [OF this surjective_pairing] show ?thesis .
qed

theorem empty_preferences_rejected_witness:
  "(\<exists>x. fst (UpdateUserPreferences (\<lambda>z. z = ''Asia/Taipei'') (\<lambda>_. ''t'') (Some \<lparr>us_db = Handle\<rparr>)
      (Some (demo_preferences [])) calm_env (demo_world demo_db)) = Inl x)
    \<and> validatePreferences (\<lambda>z. z = ''Asia/Taipei'') (demo_preferences []) = None"
proof
  show "validatePreferences (\<lambda>z. z = ''Asia/Taipei'') (demo_preferences []) = None" by code_simp
qed (rule empty_preferences_rejected, simp add: demo_preferences_def)

end
