(* ===== verification/OutboxTheorems.thy ===== *)
theory OutboxTheorems
  imports OutboxSpec Demo
begin

text \<open>The correctness statements of \<open>internal/platform/outbox/outbox.go\<close>.\<close>

definition demo_row :: "string \<Rightarrow> int \<Rightarrow> outbox_row" where
  "demo_row i t = \<lparr>ob_id = i, ob_topic = ''redemption.succeeded.v1'', ob_key = ''u1'',
     ob_payload = JObj [], ob_occurred = t, ob_published = None, ob_attempts = 0, ob_error = None\<rparr>"

definition demo_outbox :: database where
  "demo_outbox = demo_db\<lparr>outbox_events := [demo_row ''b'' 2, demo_row ''a'' 1, demo_row ''c'' 3]\<rparr>"

text \<open>A Kafka that refuses the event \<open>a\<close>: it is the only one whose key it knows to be bad.\<close>

definition picky_publisher :: "string \<Rightarrow> publisher" where
  "picky_publisher bad = \<lparr>pub_db = Handle, pub_writer = Some (\<lambda>tr m.
     if km_key m = bad then Some ''message too large'' else None)\<rparr>"

lemma demo_pending:
  "pending_events id (\<lambda>_. False) 2 demo_outbox = [demo_row ''a'' 1, demo_row ''b'' 2]"
  by code_simp

text \<open>
  C24: the publisher sends events in their order and stops at the first one Kafka refuses. A round
  of \<open>PublishPending\<close> hands the selected events (the oldest pending ones, up to the limit) to Kafka
  one after the other; what it committed, if it committed, is exactly that the accepted ones are
  marked published. No event is lost, added or changed, whatever fails.
\<close>

theorem publish_round:
  assumes "PublishPending collate locked p limit e w = (r, w')"
  shows "\<exists>k nack. let evs = pending_events collate locked (nat limit) (committed w) in
     k \<le> length evs
     \<and> trace w' = trace w @ map (\<lambda>r. KafkaAck (event_message r)) (take k evs) @ nack
     \<and> (nack = [] \<or> (k < length evs \<and> nack = [KafkaNack (event_message (evs ! k))]))
     \<and> (committed w' = committed w
        \<or> published_to (ob_id ` set (take k evs)) (committed w) (committed w'))"
  using wpD [OF PublishPending_wp assms] by (simp add: round_done_def Let_def)

theorem publish_round_witness:
  "trace (snd (PublishPending id (\<lambda>_. False) (Some (picky_publisher ''u2'')) 2 calm_env
       (demo_world demo_outbox)))
     = map (\<lambda>r. KafkaAck (event_message r)) [demo_row ''a'' 1, demo_row ''b'' 2]"
proof -
  have "length (trace (snd (PublishPending id (\<lambda>_. False) (Some (picky_publisher ''u2'')) 2 calm_env
       (demo_world demo_outbox)))) = 2
    \<and> last (trace (snd (PublishPending id (\<lambda>_. False) (Some (picky_publisher ''u2'')) 2 calm_env
       (demo_world demo_outbox)))) = KafkaAck (event_message (demo_row ''b'' 2))"
    by code_simp
  with publish_round [OF surjective_pairing, where collate = id and locked = "\<lambda>_. False"
      and p = "Some (picky_publisher ''u2'')" and limit = 2 and e = calm_env
      and w = "demo_world demo_outbox"]
  show ?thesis
    by (auto simp: demo_pending Let_def demo_world_def take_Cons' split: if_splits)
qed



text \<open>
  C29: every pending event gets published. While the database answers and Kafka accepts what it is
  sent, enough ticks of the publisher empty the backlog: each round publishes as many events as its
  limit allows.
\<close>

theorem backlog_drains:
  assumes "calm e" and "limit \<ge> 1" and "unique_by ob_id (outbox_events (committed w))"
    and "backlog (committed w) \<le> Suc ticks * nat limit"
  shows "backlog (committed (snd (RunPublisher collate (\<lambda>_. False) (Some keen_publisher) limit ticks e w))) = 0"
  using publish_rounds_backlog [OF assms(1-3), of collate "Suc ticks"] assms(2,4)
  by (simp add: RunPublisher_def del: publish_rounds.simps)

theorem backlog_drains_witness:
  "backlog (committed (snd (RunPublisher id (\<lambda>_. False) (Some keen_publisher) 2 1 calm_env
     (demo_world demo_outbox)))) = 0 \<and> backlog demo_outbox = 3"
  using backlog_drains [of calm_env 2 "demo_world demo_outbox" 1 id]
  by (simp add: demo_world_def demo_outbox_def demo_row_def backlog_def pending_def demo_db_def)

text \<open>
  C30: an event Kafka never accepts blocks the publisher for good. While the oldest pending event is
  refused, no round publishes anything, however many rounds there are and whatever else is pending:
  events are never overtaken, and nothing skips an event that keeps failing.
\<close>

theorem refused_event_blocks:
  assumes "\<And>tr. writer tr (event_message ev) \<noteq> None"
    and "pending_events collate locked (nat limit) (committed w) = ev # evs"
  shows "map standing (outbox_events (committed (snd (RunPublisher collate locked
      (Some \<lparr>pub_db = h, pub_writer = Some writer\<rparr>) limit ticks e w))))
    = map standing (outbox_events (committed w))"
proof (cases "limit < 1")
  case False
  then show ?thesis
    using wpD [OF refused_rounds [of writer ev, OF assms] surjective_pairing]
    by (simp add: RunPublisher_def del: publish_rounds.simps)
qed (simp add: RunPublisher_def ok_def)

theorem refused_event_blocks_witness:
  "backlog (committed (snd (RunPublisher id (\<lambda>_. False) (Some (picky_publisher ''u1'')) 2 5 calm_env
     (demo_world demo_outbox)))) = 3"
proof -
  have len: "backlog d = length (filter (\<lambda>s. snd s = None) (map standing (outbox_events d)))" for d
    by (simp add: backlog_def filter_map standing_def pending_def [abs_def] comp_def)
  have "map standing (outbox_events (committed (snd (RunPublisher id (\<lambda>_. False)
      (Some (picky_publisher ''u1'')) 2 5 calm_env (demo_world demo_outbox)))))
    = map standing (outbox_events (committed (demo_world demo_outbox)))"
    unfolding picky_publisher_def
    by (rule refused_event_blocks [where ev = "demo_row ''a'' 1" and evs = "[demo_row ''b'' 2]"])
      (simp_all add: demo_row_def event_message_def demo_world_def demo_pending)
  then show ?thesis
    unfolding len by (simp add: demo_world_def demo_outbox_def demo_row_def standing_def)
qed

end
