(* ===== verification/System.thy ===== *)
theory System
  imports Events UserTheorems OutboxTheorems
begin

text \<open>
  The services together. They share one database and meet nowhere else; a step of the system is a
  run of one of their handlers, from any state of the world, in any environment, whatever fails.
  Runs are taken one after the other: the handlers' transactions lock the rows they decide on.
  \<open>fmt\<close> and \<open>sha1\<close> are the instant format and the hash every service uses.
\<close>

inductive system_step ::
  "(int \<Rightarrow> string) \<Rightarrow> (string \<Rightarrow> string) \<Rightarrow> database \<Rightarrow> database \<Rightarrow> bool"
  for fmt :: "int \<Rightarrow> string" and sha1 :: "string \<Rightarrow> string" where
  enters: "CreateEntryEvent fmt s req e w = (r, w') \<Longrightarrow>
    system_step fmt sha1 (committed w) (committed w')"
| recommends: "Recommend (x\<lparr>rx_fmt := fmt\<rparr>) sv rd request e w = (q, w') \<Longrightarrow>
    system_step fmt sha1 (committed w) (committed w')"
| answers: "RecordRecommendationEvent sha1 fmt s fb e w = (r, w') \<Longrightarrow>
    system_step fmt sha1 (committed w) (committed w')"
| redeems: "Create fmt rs cr e w = (rr, w') \<Longrightarrow> system_step fmt sha1 (committed w) (committed w')"
| verifies: "Verify fmt rs vr e w = (rr, w') \<Longrightarrow> system_step fmt sha1 (committed w) (committed w')"
| notifies: "Process Handle NotificationConsumer (re_event_id ev) (Some (deliver zone tie send fmt ev)) e w
    = (b, w') \<Longrightarrow> system_step fmt sha1 (committed w) (committed w')"
| subscribes: "Register ns h endpoint p256dh auth agent e w = (sb, w') \<Longrightarrow>
    system_step fmt sha1 (committed w) (committed w')"
| revokes: "Revoke ns h sid e w = (sb, w') \<Longrightarrow> system_step fmt sha1 (committed w) (committed w')"
| prefers: "UpdateUserPreferences known_zone fmt us p e w = (up, w') \<Longrightarrow>
    system_step fmt sha1 (committed w) (committed w')"
| introduces: "GetUserProfile fmt us g e w = (up, w') \<Longrightarrow>
    system_step fmt sha1 (committed w) (committed w')"
| publishes: "PublishPending collate locked pub limit e w = (pp, w') \<Longrightarrow>
    system_step fmt sha1 (committed w) (committed w')"

subsection \<open>What a step can be\<close>

text \<open>Steps that leave the books alone.\<close>

definition books_frame :: "database \<Rightarrow> database \<Rightarrow> bool" where
  "books_frame d d' \<longleftrightarrow> users d' = users d \<and> points_ledger d' = points_ledger d
     \<and> inventory d' = inventory d \<and> redemptions d' = redemptions d"

lemma same_books:
  assumes "users d' = users d" and "points_ledger d' = points_ledger d"
    and "inventory d' = inventory d" and "redemptions d' = redemptions d"
  shows "balances_ok d' = balances_ok d" "stock_ok d' = stock_ok d" "debits_ok d' = debits_ok d"
    "once_ok d' = once_ok d"
  by (simp_all add: assms balances_ok_def stock_ok_def debits_ok_def once_ok_def user_exists_def)

lemma books_frame_ok: "books_frame d d' \<Longrightarrow> books_ok d \<Longrightarrow> books_ok d'"
  using same_books [of d' d] by (simp add: books_frame_def books_ok_def)

lemma books_ok_user_update:
  assumes "books_ok d" and "\<And>u. u_id (f u) = u_id u" and "\<And>u. u_hash (f u) = u_hash u"
    and "\<And>u. u_balance (f u) = u_balance u"
  shows "books_ok (d\<lparr>users := update_where P f (users d)\<rparr>)"
proof -
  let ?us = "update_where P f (users d)"
  have row: "\<exists>u\<in>set (users d). u_id v = u_id u \<and> u_balance v = u_balance u" if "v \<in> set ?us" for v
    using that assms(2,4) by (auto simp: in_update_where)
  have who: "exists_row (\<lambda>u. u_id u = i) ?us = exists_row (\<lambda>u. u_id u = i) (users d)" for i
    using assms(2) by (simp add: bex_update_where)
  have "\<forall>v\<in>set ?us. 0 \<le> u_balance v
      \<and> u_balance v = sum_where (\<lambda>l. le_user l = u_id v) le_delta (points_ledger d)"
    using assms(1) row unfolding books_ok_def balances_ok_def by metis
  moreover have "unique_by u_id ?us" "unique_by u_hash ?us"
    using assms(1-3) by (simp_all add: books_ok_def balances_ok_def unique_by_update_where)
  moreover have "users (d\<lparr>users := ?us\<rparr>) = ?us" "points_ledger (d\<lparr>users := ?us\<rparr>) = points_ledger d"
    "user_exists (d\<lparr>users := ?us\<rparr>) = user_exists d"
    using who by (simp_all add: user_exists_def fun_eq_iff del: exists_row_iff)
  ultimately have "balances_ok (d\<lparr>users := ?us\<rparr>)"
    using assms(1) unfolding books_ok_def balances_ok_def by metis
  then show ?thesis
    using assms(1) by (simp add: books_ok_def stock_ok_def debits_ok_def once_ok_def)
qed

text \<open>Steps that add events.\<close>

definition adds_events :: "database \<Rightarrow> database \<Rightarrow> bool" where
  "adds_events d d' \<longleftrightarrow> (\<exists>rs. outbox_events d' = outbox_events d @ rs \<and> (\<forall>r\<in>set rs. consumable r))"

lemma adds_no_events: "outbox_events d' = outbox_events d \<Longrightarrow> adds_events d d'"
  by (simp add: adds_events_def)

lemma adds_one_event:
  "outbox_events d' = outbox_events d @ [r] \<Longrightarrow> consumable r \<Longrightarrow> adds_events d d'"
  by (simp add: adds_events_def)

subsection \<open>The handlers not yet looked at\<close>

definition preferences_set :: "preferences_request \<Rightarrow> database \<Rightarrow> database \<Rightarrow> bool" where
  "preferences_set p d d' \<longleftrightarrow> (\<exists>d1 ss cs now. (d1 = d \<or> ensured (pr_user_id_hash p) d () d1)
     \<and> (d' = d1 \<or> d' = d1\<lparr>users := update_where (\<lambda>u. u_hash u = pr_user_id_hash p)
          (set_preferences p ss cs now) (users d1)\<rparr>))"

lemma wp_profile:
  assumes "\<And>r w'. committed w' = committed w \<Longrightarrow> Q r w'"
  shows "wp (profile fmt h) e Q w"
  unfolding profile_def
  by (rule wp_tx_local [OF _ assms]) (intro tx_local_intros, assumption)

lemma wp_EnsureDemoUser:
  assumes "\<And>r w'. committed w' = committed w \<or> ensured h (committed w) () (committed w') \<Longrightarrow> Q r w'"
  shows "wp (EnsureDemoUser (Some execDB) h) e Q w"
  by (rule wp_mono [OF EnsureDemoUser_wp]) (auto intro!: assms split: sum.splits)

lemma UpdateUserPreferences_wp:
  "wp (UpdateUserPreferences known_zone fmt us req) e (\<lambda>r w'. committed w' = committed w
     \<or> (\<exists>p. preferences_set p (committed w) (committed w'))) w"
proof (cases req)
  case (Some p)
  have set: "preferences_set p d d'"
    if "d1 = d \<or> ensured (pr_user_id_hash p) d () d1" and "update_preferences p ss cs now d1 = Inr (n, d')"
    for d d1 ss cs now n d'
    using that unfolding preferences_set_def update_preferences_def Let_def by auto
  have same: "preferences_set p d d1" if "d1 = d \<or> ensured (pr_user_id_hash p) d () d1" for d d1
    using that unfolding preferences_set_def by blast
  show ?thesis
    by (auto simp: UpdateUserPreferences_def Some intro!: wp_EnsureDemoUser wp_execDB wp_profile
        split: option.split sum.split) (blast intro: set same)+
qed (simp add: UpdateUserPreferences_def)

lemma preferences_set_books:
  assumes "preferences_set p d d'" and "books_ok d"
  shows "books_ok d'"
proof -
  from assms(1) obtain d1 ss cs now where d1: "d1 = d \<or> ensured (pr_user_id_hash p) d () d1"
    and d': "d' = d1 \<or> d' = d1\<lparr>users := update_where (\<lambda>u. u_hash u = pr_user_id_hash p)
          (set_preferences p ss cs now) (users d1)\<rparr>" unfolding preferences_set_def by blast
  have "books_ok d1" using d1 assms(2) by (auto simp: ensured_def dest: provisioned_books_ok)
  with d' show ?thesis by (auto simp: set_preferences_def intro!: books_ok_user_update)
qed

lemma preferences_set_events: "preferences_set p d d' \<Longrightarrow> outbox_events d' = outbox_events d"
  by (auto simp: preferences_set_def dest: ensured_frame)

lemma GetUserProfile_wp:
  "wp (GetUserProfile fmt us g) e (\<lambda>r w'. committed w' = committed w
     \<or> (\<exists>h. ensured h (committed w) () (committed w'))) w"
  by (auto simp: GetUserProfile_def intro!: wp_EnsureDemoUser wp_profile split: option.split sum.split)

definition subscriptions_only :: "database \<Rightarrow> database \<Rightarrow> bool" where
  "subscriptions_only d d' \<longleftrightarrow> (\<exists>xs. d' = d\<lparr>subscriptions := xs\<rparr>)"

lemma subscriptions_only_refl [simp]: "subscriptions_only d d"
  unfolding subscriptions_only_def by (intro exI [of _ "subscriptions d"]) simp

lemma subscription_statements:
  "upsert_subscription sid ep k a g h now d = Inr (y, d') \<Longrightarrow> subscriptions_only d d'"
  "revoke_subscription sid h now d = Inr (y, d') \<Longrightarrow> subscriptions_only d d'"
  by (auto simp: upsert_subscription_def revoke_subscription_def subscriptions_only_def
      split: option.splits)

lemma Register_wp:
  "wp (Register ns h ep k a g) e (\<lambda>r w'. subscriptions_only (committed w) (committed w')) w"
  unfolding Register_def by (auto intro!: wp_execDB dest: subscription_statements)

lemma Revoke_wp:
  "wp (Revoke ns h sid) e (\<lambda>r w'. subscriptions_only (committed w) (committed w')) w"
  unfolding Revoke_def by (auto intro!: wp_execDB dest: subscription_statements)

subsection \<open>The books and the events, handler by handler\<close>

text \<open>What a step keeps: the books, and the events it finds, to which it may add.\<close>

definition keeps :: "database \<Rightarrow> database \<Rightarrow> bool" where
  "keeps d d' \<longleftrightarrow> (books_ok d \<longrightarrow> books_ok d')
     \<and> ((\<forall>r\<in>set (outbox_events d). consumable r) \<longrightarrow> (\<forall>r\<in>set (outbox_events d'). consumable r))"

lemma keeps_refl [simp]: "keeps d d"
  by (simp add: keeps_def)

lemma keepsI: "(books_ok d \<Longrightarrow> books_ok d') \<Longrightarrow> adds_events d d' \<Longrightarrow> keeps d d'"
  by (auto simp: keeps_def adds_events_def)

lemma entered_keeps:
  assumes "entered good fmt s req d jid d'" shows "keeps d d'"
proof -
  from assms obtain request :: entry_request and d1 userID stationID line positionID stationLine eventID t now traceID where
    e: "ensured (er_user_hash request) d () d1" and
    d': "d' = d1\<lparr>journeys := journeys d @ [\<lparr>j_id = jid, j_user = userID, j_station = stationID,
          j_line = (if line = [] then stationLine else line), j_position = Some positionID\<rparr>],
        outbox_events := outbox_events d @ [queued (entry_event fmt eventID t traceID jid
          (er_user_hash request) stationID (if line = [] then stationLine else line) positionID) now]\<rparr>"
    unfolding entered_def by blast
  have "books_ok d1" if "books_ok d"
    using e that by (auto simp: ensured_def dest: provisioned_books_ok)
  moreover have "books_frame d1 d'" by (simp add: books_frame_def d')
  moreover have "adds_events d d'" by (simp add: adds_events_def d' entry_consumable)
  ultimately show ?thesis by (blast intro: keepsI books_frame_ok)
qed

lemma keeps_event:
  assumes "books_frame d d'" and "outbox_events d' = outbox_events d @ [r]" and "consumable r"
  shows "keeps d d'"
  by (rule keepsI) (use assms in \<open>auto intro: books_frame_ok adds_one_event\<close>)

lemma recommended_keeps:
  assumes "recommended x v request p d m d'" shows "keeps d d'"
proof -
  from assms obtain eid occurred now where "d' = d\<lparr>recommendations := recommendations d
      @ [recommendation_row_of (rx_score x) m now], outbox_events := outbox_events d
      @ [queued (recommendation_created (rx_fmt x) eid occurred request m) now]\<rparr>"
    unfolding recommended_def announced_def by blast
  then show ?thesis
    by (intro keeps_event [OF _ _ recommendation_consumable]) (auto simp: books_frame_def)
qed

lemma feedback_keeps:
  assumes "feedback_recorded sha1 fmt req d eid d'" shows "keeps d d'"
proof -
  from assms obtain request journeyID offerID weights dism t now traceID surface where
    "validRecommendationEventType (fr_event_type request)"
    "d' = d\<lparr>processed_events := processed_events d @ [(feedback_consumer, eid)],
       preference_weights := weights, dismissals := dism, outbox_events := outbox_events d @
         [queued (feedback_event fmt eid t traceID journeyID offerID request surface) now]\<rparr>"
    unfolding feedback_recorded_def by blast
  then show ?thesis
    by (intro keeps_event [OF _ _ feedback_consumable]) (auto simp: books_frame_def)
qed

lemma created_keeps:
  assumes "created fmt request d r d'" shows "keeps d d'"
proof (rule keepsI)
  show "books_ok d \<Longrightarrow> books_ok d'" using assms by (rule created_books_ok [rotated])
  show "adds_events d d'"
    using assms by (auto simp: created_def fresh_redemption_def redeem_def adds_events_def succeeded_consumable)
qed

lemma verified_keeps:
  assumes "verified fmt request d r d'" shows "keeps d d'"
proof (rule keepsI)
  show "books_ok d \<Longrightarrow> books_ok d'" using assms by (rule verified_books_ok [rotated])
  show "adds_events d d'"
    using assms by (auto simp: verified_def verified_now_def adds_events_def verified_consumable)
qed

lemma list_all2_source: "list_all2 R xs ys \<Longrightarrow> y \<in> set ys \<Longrightarrow> \<exists>x\<in>set xs. R x y"
  by (induction rule: list_all2_induct) auto

lemma reports_consumable:
  assumes "reports fmt ev v rs" and "r \<in> set rs"
  shows "consumable r"
proof -
  from assms obtain tys ty where ty: "tys \<in> status_topics (dv_status v)" "ty \<in> set tys"
    and r: "report fmt ev (dv_id v) ty r"
    unfolding reports_def using list_all2_source by metis
  from ty have "ty \<in> {''notification.sent.v1'', ''notification.delivered.v1'', ''notification.failed.v1''}"
    by (auto simp: status_topics_def split: if_splits)
  with r show ?thesis unfolding report_def by (auto intro: notification_consumable)
qed

lemma noted_keeps:
  assumes "noted fmt ev userID d d'" shows "keeps d d'"
proof -
  from assms obtain gone vs rss where
    d': "d' = d\<lparr>subscriptions := update_where (\<lambda>x. sub_id x \<in> gone) (\<lambda>x. x\<lparr>sub_active := False\<rparr>)
        (subscriptions d), deliveries := deliveries d @ vs, outbox_events := outbox_events d @ concat rss\<rparr>"
    and rs: "list_all2 (reports fmt ev) vs rss" unfolding noted_def by blast
  from rs have "\<forall>rs\<in>set rss. \<exists>v. reports fmt ev v rs" by (induction rule: list_all2_induct) auto
  then have "consumable r" if "r \<in> set (concat rss)" for r
    using that reports_consumable by fastforce
  then show ?thesis
    by (auto simp: adds_events_def d' books_frame_def intro!: keepsI books_frame_ok [of d])
qed

lemma published_keeps:
  assumes "published_to ids d d'" shows "keeps d d'"
proof -
  from assms obtain rows where d': "d' = d\<lparr>outbox_events := rows\<rparr>" by (auto simp: published_to_def)
  have core: "map event_core rows = map event_core (outbox_events d)"
    using published_to_core [OF assms] by (simp add: d')
  have same: "consumable r \<longleftrightarrow> consumable r'" if "event_core r = event_core r'" for r r'
    using that by (simp add: event_core_def consumable_def analysable_def)
  have "consumable r" if old: "\<forall>r\<in>set (outbox_events d). consumable r" and r: "r \<in> set rows" for r
  proof -
    have "event_core r \<in> event_core ` set (outbox_events d)"
      using r arg_cong [OF core, of set] by (auto simp: image_iff)
    then obtain r0 where "r0 \<in> set (outbox_events d)" "event_core r = event_core r0" by blast
    with old same show ?thesis by blast
  qed
  then show ?thesis by (auto simp: keeps_def d' books_frame_def intro: books_frame_ok [of d])
qed

lemma keeps_claimed: "keeps d (d\<lparr>processed_events := ps\<rparr>)"
  by (auto simp: keeps_def books_frame_def intro: books_frame_ok [of d])

lemma keeps_trans: "keeps d d1 \<Longrightarrow> keeps d1 d2 \<Longrightarrow> keeps d d2"
  unfolding keeps_def by blast

lemma ensured_keeps:
  assumes "ensured h d () d'" shows "keeps d d'"
proof (rule keepsI)
  show "books_ok d \<Longrightarrow> books_ok d'" using assms by (auto simp: ensured_def dest: provisioned_books_ok)
  show "adds_events d d'" using ensured_frame(2) [OF assms] by (rule adds_no_events)
qed

subsection \<open>The system\<close>

text \<open>
  The steps seen from outside: whatever a handler's run meets, its effect on the database is one of
  these, whole, or nothing.
\<close>

inductive system_effect ::
  "(int \<Rightarrow> string) \<Rightarrow> (string \<Rightarrow> string) \<Rightarrow> database \<Rightarrow> database \<Rightarrow> bool"
  for fmt :: "int \<Rightarrow> string" and sha1 :: "string \<Rightarrow> string" where
  effect_none: "system_effect fmt sha1 d d"
| effect_entry: "entered good fmt s req d jid d' \<Longrightarrow> system_effect fmt sha1 d d'"
| effect_user: "ensured h d () d' \<Longrightarrow> system_effect fmt sha1 d d'"
| effect_recommendation: "recommended (x\<lparr>rx_fmt := fmt\<rparr>) v request p d m d' \<Longrightarrow> system_effect fmt sha1 d d'"
| effect_feedback: "feedback_recorded sha1 fmt fb d eid d' \<Longrightarrow> system_effect fmt sha1 d d'"
| effect_redemption: "fresh_redemption fmt cr d r d' \<Longrightarrow> system_effect fmt sha1 d d'"
| effect_verification: "verified_now fmt vr d r d' \<Longrightarrow> system_effect fmt sha1 d d'"
| effect_notification: "notify.handled_now ev fmt d b d' \<Longrightarrow> system_effect fmt sha1 d d'"
| effect_subscription: "subscriptions_only d d' \<Longrightarrow> system_effect fmt sha1 d d'"
| effect_preferences: "preferences_set p d d' \<Longrightarrow> system_effect fmt sha1 d d'"
| effect_publication: "published_to ids d d' \<Longrightarrow> system_effect fmt sha1 d d'"

lemma step_effect:
  assumes "system_step fmt sha1 d d'"
  shows "system_effect fmt sha1 d d'"
  using assms
proof cases
  case (enters s req e w r w')
  from wpD [OF CreateEntryEvent_wp enters(3)] enters(1,2) show ?thesis
    by (auto intro: effect_none effect_entry split: sum.splits)
next
  case (recommends x sv rd request e w q w')
  from wpD [OF Recommend_wp recommends(3)] have "committed w' = committed w
    \<or> (\<exists>m v p. recommended (x\<lparr>rx_fmt := fmt\<rparr>) v request p (committed w) m (committed w'))"
    by (auto split: sum.splits) (metis sum.exhaust)
  then show ?thesis using recommends(1,2) by (auto intro: effect_none effect_recommendation)
next
  case (answers s fb e w r w')
  from wpD [OF RecordRecommendationEvent_wp answers(3)] answers(1,2) show ?thesis
    by (auto intro: effect_none effect_feedback split: sum.splits)
next
  case (redeems rs cr e w rr w')
  from wpD [OF Create_wp redeems(3)] redeems(1,2) show ?thesis
    by (auto simp: created_def intro: effect_none effect_redemption split: sum.splits)
next
  case (verifies rs vr e w rr w')
  from wpD [OF Verify_wp verifies(3)] verifies(1,2) show ?thesis
    by (auto simp: verified_def intro: effect_none effect_verification split: sum.splits)
next
  case (notifies ev zone tie send e w b w')
  from wpD [OF notify.Process_wp notifies(3)] notifies(1,2) show ?thesis
    by (auto intro: effect_none effect_notification split: sum.splits)
next
  case (subscribes ns h ep k a g e w sb w')
  from wpD [OF Register_wp subscribes(3)] subscribes(1,2) show ?thesis by (auto intro: effect_subscription)
next
  case (revokes ns h sid e w sb w')
  from wpD [OF Revoke_wp revokes(3)] revokes(1,2) show ?thesis by (auto intro: effect_subscription)
next
  case (prefers known_zone us p e w up w')
  from wpD [OF UpdateUserPreferences_wp prefers(3)] prefers(1,2) show ?thesis by (auto intro: effect_none effect_preferences)
next
  case (introduces us g e w up w')
  from wpD [OF GetUserProfile_wp introduces(3)] introduces(1,2) show ?thesis by (auto intro: effect_none effect_user)
next
  case (publishes collate locked pub limit e w pp w')
  from wpD [OF PublishPending_wp publishes(3)] publishes(1,2) show ?thesis
    by (auto simp: round_done_def intro: effect_none effect_publication)
qed

lemma system_effect_keeps: "system_effect fmt sha1 d d' \<Longrightarrow> keeps d d'"
proof (induction rule: system_effect.induct)
  case (effect_redemption cr d r d')
  then show ?case by (auto simp: created_def intro: created_keeps)
next
  case (effect_verification vr d r d')
  then show ?case by (auto simp: verified_def intro: verified_keeps)
next
  case (effect_notification ev d b d')
  then show ?case
    by (auto simp: notify.handled_now_def intro: keeps_trans [OF keeps_claimed noted_keeps])
next
  case (effect_subscription d d')
  then show ?case
    by (auto simp: subscriptions_only_def keeps_def books_frame_def intro: books_frame_ok [of d])
next
  case (effect_preferences p d d')
  then show ?case
    by (auto intro!: keepsI adds_no_events dest: preferences_set_books preferences_set_events)
qed (simp_all add: entered_keeps ensured_keeps recommended_keeps feedback_keeps published_keeps)

text \<open>What every effect keeps and can be chained holds between any two databases of a run.\<close>

lemma system_runs:
  assumes "(system_step fmt sha1)\<^sup>*\<^sup>* d d'"
    and "\<And>d d'. system_effect fmt sha1 d d' \<Longrightarrow> K d d'"
    and "\<And>d1 d2 d3. K d1 d2 \<Longrightarrow> K d2 d3 \<Longrightarrow> K d1 d3"
  shows "K d d'"
  using assms(1)
proof (induction rule: rtranclp_induct)
  case base
  show ?case by (rule assms(2)) (rule effect_none)
next
  case (step y z)
  from step.IH assms(2) [OF step_effect [OF step.hyps(2)]] show ?case by (rule assms(3))
qed

lemma system_keeps: "(system_step fmt sha1)\<^sup>*\<^sup>* d d' \<Longrightarrow> keeps d d'"
  by (erule system_runs) (auto intro: system_effect_keeps keeps_trans)

text \<open>
  C2: every handler takes effect whole or not at all, and together they do nothing but this. Every
  run of the system, of any handlers in any order from any state, whatever fails in them, is a chain of
  complete effects: an entry with its journey, event and perhaps its new user; a new user; a
  recommendation with its event; feedback with what is learned and its event; a redemption with all
  its rows; a verification with its event; a processed event with its deliveries; a change of
  subscriptions or of preferences; events marked as published.
\<close>

theorem system_refines_effects:
  assumes "(system_step fmt sha1)\<^sup>*\<^sup>* d d'"
  shows "(system_effect fmt sha1)\<^sup>*\<^sup>* d d'"
  using assms by (induction rule: rtranclp_induct) (auto dest: step_effect)

lemma demo_system_step: "(system_step demo_fmt sha1)\<^sup>*\<^sup>* demo_db (committed (snd demo_run))"
proof -
  have "demo_externals\<lparr>rx_fmt := demo_fmt\<rparr> = demo_externals" by (simp add: demo_externals_def)
  then have "Recommend (demo_externals\<lparr>rx_fmt := demo_fmt\<rparr>) demo_recommender demo_redis demo_asked calm_env
      (demo_world demo_db) = (fst demo_run, snd demo_run)" by simp
  from recommends [OF this, of sha1] show ?thesis by (auto simp: demo_world_def)
qed

theorem system_refines_effects_witness:
  "(system_effect demo_fmt demo_sha1)\<^sup>*\<^sup>* demo_db (committed (snd demo_run))"
  by (rule system_refines_effects [OF demo_system_step])

text \<open>
  C1: the books of the points economy balance, whatever the services do. From a database whose books
  are in order, every run of the system, of any handlers in any order, with requests repeated,
  refused or cut off by outages, leads to one whose books are: balances are what the ledger says and
  not negative, stock is not negative, every redemption is debited once at its cost, and nobody
  redeems an offer twice.
\<close>

theorem system_keeps_books:
  assumes "(system_step fmt sha1)\<^sup>*\<^sup>* d d'" and "books_ok d"
  shows "books_ok d'"
  using system_keeps [OF assms(1)] assms(2) by (simp add: keeps_def)

theorem system_keeps_books_witness: "books_ok (committed (snd demo_run))"
  by (rule system_keeps_books [OF demo_system_step demo_books])

text \<open>
  C5: every event finds its readers. In every database the system can reach from one whose events
  are readable, each event of the outbox decodes, with the types the readers expect: for the
  analytics consumer as version 1 of the event the row names, of a topic it knows and with an object
  as payload; for the recommendation service and the notification worker, on their topics, with the
  event's identifier and with the user the row is keyed by.
\<close>

theorem system_events_readable:
  assumes "(system_step fmt sha1)\<^sup>*\<^sup>* d d'" and "\<forall>r\<in>set (outbox_events d). consumable r"
  shows "\<forall>r\<in>set (outbox_events d'). consumable r"
  using system_keeps [OF assms(1)] assms(2) by (simp add: keeps_def)

lemma demo_run_outbox: "map ob_topic (outbox_events (committed (snd demo_run))) = [''recommendation.created.v1'']"
  by code_simp

theorem system_events_readable_witness:
  "\<exists>r\<in>set (outbox_events (committed (snd demo_run))). consumable r \<and> ob_topic r = ''recommendation.created.v1''"
proof -
  have "\<forall>r\<in>set (outbox_events (committed (snd demo_run))). consumable r"
    by (rule system_events_readable [OF demo_system_step]) (simp add: demo_db_def)
  moreover obtain r where "outbox_events (committed (snd demo_run)) = [r]" "ob_topic r = ''recommendation.created.v1''"
    using demo_run_outbox by auto
  ultimately show ?thesis by simp
qed

end
