(* ===== verification/ConsumerTheorems.thy ===== *)
theory ConsumerTheorems
  imports System
begin

text \<open>The correctness statements of the consumers at the two ends: analytics and entries.\<close>

subsection \<open>Analytics\<close>

text \<open>The events in a sequence of messages; what does not decode is passed over.\<close>

definition decoded :: "(string \<Rightarrow> int option) \<Rightarrow> raw list \<Rightarrow> product_event list" where
  "decoded parse_time ms =
     concat (map (\<lambda>m. case DecodeEvent parse_time m of Inl e \<Rightarrow> [] | Inr ev \<Rightarrow> [ev]) ms)"

lemma decoded_simps [simp]:
  "decoded parse_time [] = []"
  "decoded parse_time (m # ms) =
     (case DecodeEvent parse_time m of Inl e \<Rightarrow> [] | Inr ev \<Rightarrow> [ev]) @ decoded parse_time ms"
  by (simp_all add: decoded_def)

lemma consume_topic_result:
  assumes "consume_topic parse_time ins com err0 n ms = (evs, k, err)"
  shows "n \<le> k \<and> k \<le> n + length ms \<and> (\<exists>more. evs = decoded parse_time (take (k - n) ms) @ more
    \<and> (more = [] \<or> (\<exists>m ev. k < n + length ms \<and> m = ms ! (k - n) \<and> DecodeEvent parse_time m = Inr ev
         \<and> more = [ev] \<and> com k \<noteq> None))
    \<and> (k < n + length ms \<longrightarrow> com k \<noteq> None \<or> (\<exists>ev. DecodeEvent parse_time (ms ! (k - n)) = Inr ev \<and> ins k ev \<noteq> None)))"
  using assms
proof (induction ms arbitrary: n evs)
  case (Cons m ms)
  have step: ?case
    if "consume_topic parse_time ins com err0 (Suc n) ms = (evs', k, err)"
      and "evs = (case DecodeEvent parse_time m of Inl e \<Rightarrow> [] | Inr ev \<Rightarrow> [ev]) @ evs'" for evs'
  proof -
    from Cons.IH [OF that(1)] that(2) have "Suc n \<le> k" and "k - n = Suc (k - Suc n)" by auto
    with Cons.IH [OF that(1)] that(2) show ?thesis by (auto split: sum.splits)
  qed
  show ?case
  proof (cases "DecodeEvent parse_time m")
    case (Inl e)
    show ?thesis
    proof (cases "com n")
      case None
      show ?thesis by (rule step [of evs]) (use Cons.prems Inl None in simp_all)
    qed (use Cons.prems Inl in auto)
  next
    case (Inr ev)
    show ?thesis
    proof (cases "ins n ev = None \<and> com n = None")
      case True
      then obtain evs' where "consume_topic parse_time ins com err0 (Suc n) ms = (evs', k, err)" "evs = ev # evs'"
        using Cons.prems Inr by (auto split: prod.splits)
      then show ?thesis by (intro step [of evs']) (simp_all add: Inr)
    next
      case False
      with Cons.prems Inr show ?thesis by (auto split: option.splits)
    qed
  qed
qed simp

text \<open>
  C19: analytics loses nothing. A consumer of a topic that ends having committed \<open>k\<close> messages has
  inserted the events of exactly those, in order and each once, and at most one more, the event of
  the next message when its commit failed; that message is read again after a restart. It stops
  before the end only at a message whose insert or commit failed.
\<close>

theorem analytics_loses_nothing:
  assumes "consume_topic parse_time insert_at commit_at fetch_error 0 messages = (events, k, err)"
  shows "k \<le> length messages
    \<and> (events = decoded parse_time (take k messages)
       \<or> (\<exists>ev. k < length messages \<and> DecodeEvent parse_time (messages ! k) = Inr ev
            \<and> commit_at k \<noteq> None \<and> events = decoded parse_time (take k messages) @ [ev]))
    \<and> (k < length messages \<longrightarrow> commit_at k \<noteq> None
       \<or> (\<exists>ev. DecodeEvent parse_time (messages ! k) = Inr ev \<and> insert_at k ev \<noteq> None))"
  using consume_topic_result [OF assms] by auto

definition demo_message :: raw where
  "demo_message = Raw (entry_message (\<lambda>t. ''now'') ''ev1'' 0 ''t1'' ''j1'' demo_hash ''s1'' [] [])"

lemma demo_message_decoded:
  obtains ev where "DecodeEvent (\<lambda>s. Some 7) demo_message = Inr ev" "pe_event_id ev = ''ev1''"
proof -
  have "\<exists>ev. DecodeEvent (\<lambda>s. Some 7) demo_message = Inr ev \<and> pe_event_id ev = ''ev1''"
    by (simp add: DecodeEvent_def demo_message_def entry_message_def analytics_simps decode_simps
        del: fold_name.simps)
  with that show thesis by blast
qed

theorem analytics_loses_nothing_witness:
  "\<exists>events. consume_topic (\<lambda>s. Some 7) (\<lambda>n ev. None) (\<lambda>n. if n = 1 then Some Driver else None) Driver 0
      [RawInvalid, demo_message] = (events, 1, Driver)
    \<and> map pe_event_id events = [''ev1''] \<and> decoded (\<lambda>s. Some 7) (take 1 [RawInvalid, demo_message]) = []"
proof -
  obtain ev where ev: "DecodeEvent (\<lambda>s. Some 7) demo_message = Inr ev" "pe_event_id ev = ''ev1''"
    by (rule demo_message_decoded)
  have bad: "DecodeEvent (\<lambda>s. Some 7) RawInvalid = Inl (Analytics_err InvalidEvent)"
    by (simp add: DecodeEvent_def)
  have run: "consume_topic (\<lambda>s. Some 7) (\<lambda>n ev. None) (\<lambda>n. if n = 1 then Some Driver else None) Driver 0
      [RawInvalid, demo_message] = ([ev], 1, Driver)"
    by (simp add: bad ev(1))
  with analytics_loses_nothing [OF run] ev(2) bad show ?thesis by auto
qed

subsection \<open>Entries\<close>




text \<open>
  A recommendation that fails, for whatever passing reason, is not tried again: the consumer goes on
  to the next message, whose commit passes over the failed one.
\<close>

lemma failed_entry_passed_over:
  assumes "handle_entry x tie s r m1 e w = (Inr (Skipped, r1), w1)"
    and "handle_entry x tie s r1 m2 e w1 = (Inr (Done, r2), w2)"
    and "commit_at 1 = None" and "brokers \<noteq> []" and "s \<noteq> None"
  shows "RunEntryConsumer x tie commit_at fetch_error brokers s r [m1, m2] e w
    = (Inr (2, fetch_error, r2), w2)"
  using assms by (simp add: RunEntryConsumer_def andThen_def ok_def)

end
