(* ===== verification/Publishers.thy ===== *)
theory Publishers
  imports OutboxSpec
begin

text \<open>
  Several publishers over one outbox. The gateway, the redemption program and the recommendation
  service each run \<open>RunPublisher\<close> on the same table, so that rounds of \<open>PublishPending\<close> overlap. Here a
  round is taken apart into its calls (\<open>platform/outbox/outbox.go\<close>): the selection with
  \<open>FOR UPDATE SKIP LOCKED\<close>, one message to Kafka with the update that marks its row, and the commit.
  The writes of a round stay in its transaction until it commits; the rows it selected stay locked
  until it ends. Between any two calls the other publishers go on, and other services store events.
\<close>

subsection \<open>Rounds that overlap\<close>

datatype row_write = Mark string int | Count string string int

fun apply_write :: "row_write \<Rightarrow> database \<Rightarrow> gerr + database" where
  "apply_write (Mark i now) d = mark_published i now d"
| "apply_write (Count i err now) d = count_attempt err i now d"

fun apply_writes :: "row_write list \<Rightarrow> database \<Rightarrow> gerr + database" where
  "apply_writes [] d = Inr d"
| "apply_writes (x # xs) d = bind_result (apply_write x d) (apply_writes xs)"

text \<open>\<open>rn_todo\<close> are the selected events not yet sent, \<open>rn_sent\<close> those Kafka accepted, \<open>rn_locked\<close> the
  identifiers of all the round selected.\<close>

record round =
  rn_todo :: "outbox_row list"
  rn_sent :: "outbox_row list"
  rn_writes :: "row_write list"
  rn_locked :: "string set"

text \<open>\<open>fl_acked\<close> are the events Kafka accepted, in their order, \<open>fl_lost\<close> those of them whose round was
  rolled back afterwards.\<close>

record fleet =
  fl_db :: database
  fl_rounds :: "nat \<Rightarrow> round option"
  fl_trace :: "external_call list"
  fl_acked :: "outbox_row list"
  fl_lost :: "outbox_row list"

definition locked_in :: "fleet \<Rightarrow> string \<Rightarrow> bool" where
  "locked_in s i \<longleftrightarrow> (\<exists>p r. fl_rounds s p = Some r \<and> i \<in> rn_locked r)"

definition new_round :: "outbox_row list \<Rightarrow> round" where
  "new_round evs = \<lparr>rn_todo = evs, rn_sent = [], rn_writes = [], rn_locked = ob_id ` set evs\<rparr>"

text \<open>\<open>ps\<close> are the publishers there are, \<open>limit p\<close> the limit of one; \<open>arrives\<close> says which events other
  services store. A round that fails in whatever call is rolled back: \<open>aborts\<close>.\<close>

inductive fleet_step ::
  "(string \<Rightarrow> string) \<Rightarrow> nat set \<Rightarrow> (nat \<Rightarrow> nat) \<Rightarrow> (database \<Rightarrow> outbox_row \<Rightarrow> bool) \<Rightarrow> fleet \<Rightarrow> fleet \<Rightarrow> bool"
  for collate :: "string \<Rightarrow> string" and ps :: "nat set" and limit :: "nat \<Rightarrow> nat"
    and arrives :: "database \<Rightarrow> outbox_row \<Rightarrow> bool" where
  stores: "arrives (fl_db s) x \<Longrightarrow> pending x \<Longrightarrow> \<forall>y\<in>set (outbox_events (fl_db s)). ob_id y \<noteq> ob_id x \<Longrightarrow>
    fleet_step collate ps limit arrives s
      (s\<lparr>fl_db := (fl_db s)\<lparr>outbox_events := outbox_events (fl_db s) @ [x]\<rparr>\<rparr>)"
| selects: "p \<in> ps \<Longrightarrow> fl_rounds s p = None \<Longrightarrow>
    fleet_step collate ps limit arrives s
      (s\<lparr>fl_rounds := (fl_rounds s)(p \<mapsto>
          new_round (pending_events collate (locked_in s) (limit p) (fl_db s)))\<rparr>)"
| sends: "fl_rounds s p = Some r \<Longrightarrow> rn_todo r = ev # evs \<Longrightarrow>
    fleet_step collate ps limit arrives s
      (s\<lparr>fl_rounds := (fl_rounds s)(p \<mapsto> r\<lparr>rn_todo := evs, rn_sent := rn_sent r @ [ev],
           rn_writes := rn_writes r @ [Mark (ob_id ev) now]\<rparr>),
         fl_trace := fl_trace s @ [KafkaAck (event_message ev)], fl_acked := fl_acked s @ [ev]\<rparr>)"
| refused: "fl_rounds s p = Some r \<Longrightarrow> rn_todo r = ev # evs \<Longrightarrow>
    fleet_step collate ps limit arrives s
      (s\<lparr>fl_rounds := (fl_rounds s)(p \<mapsto> r\<lparr>rn_todo := [],
           rn_writes := rn_writes r @ [Count (ob_id ev) err now]\<rparr>),
         fl_trace := fl_trace s @ [KafkaNack (event_message ev)]\<rparr>)"
| commits: "fl_rounds s p = Some r \<Longrightarrow> rn_todo r = [] \<Longrightarrow> apply_writes (rn_writes r) (fl_db s) = Inr d \<Longrightarrow>
    fleet_step collate ps limit arrives s (s\<lparr>fl_db := d, fl_rounds := (fl_rounds s)(p := None)\<rparr>)"
| aborts: "fl_rounds s p = Some r \<Longrightarrow>
    fleet_step collate ps limit arrives s
      (s\<lparr>fl_rounds := (fl_rounds s)(p := None), fl_lost := fl_lost s @ rn_sent r\<rparr>)"

subsection \<open>A run of \<open>PublishPending\<close> is a sequence of these steps\<close>

lemma apply_writes_append:
  "apply_writes (xs @ ys) d = bind_result (apply_writes xs d) (apply_writes ys)"
  by (induction xs arbitrary: d) (auto simp: bind_result_def split: sum.splits)

definition reaches ::
  "(fleet \<Rightarrow> fleet \<Rightarrow> bool) \<Rightarrow> fleet \<Rightarrow> (nat \<Rightarrow> round option) \<Rightarrow> store \<Rightarrow> bool" where
  "reaches step s rounds w \<longleftrightarrow> (\<exists>s'. step\<^sup>*\<^sup>* s s' \<and> fl_db s' = committed w \<and> fl_trace s' = trace w
     \<and> fl_rounds s' = rounds)"

lemma reaches_first:
  assumes "step s s1" and "reaches step s1 rounds w"
  shows "reaches step s rounds w"
proof -
  from assms(2) obtain s' where s': "step\<^sup>*\<^sup>* s1 s'" and
    rest: "fl_db s' = committed w" "fl_trace s' = trace w" "fl_rounds s' = rounds" unfolding reaches_def by blast
  show ?thesis unfolding reaches_def
    by (intro exI conjI) (rule converse_rtranclp_into_rtranclp [of step, OF assms(1) s'], fact+)
qed

lemma reaches_commit:
  assumes "fl_rounds s p = Some r" and "rn_todo r = []" and "apply_writes (rn_writes r) (fl_db s) = Inr (committed w)"
    and "fl_trace s = trace w" and "idle = (fl_rounds s)(p := None)"
  shows "reaches (fleet_step collate ps limit arrives) s idle w"
  unfolding reaches_def
  by (intro exI conjI, rule r_into_rtranclp, rule commits [OF assms(1-3)]) (simp_all add: assms(4,5))

lemma reaches_abort:
  assumes "fl_rounds s p = Some r" and "fl_db s = committed w" and "fl_trace s = trace w"
    and "idle = (fl_rounds s)(p := None)"
  shows "reaches (fleet_step collate ps limit arrives) s idle w"
  unfolding reaches_def
  by (intro exI conjI, rule r_into_rtranclp, rule aborts [OF assms(1)]) (simp_all add: assms(2-4))

text \<open>The states after a message.\<close>

definition after_ack :: "nat \<Rightarrow> round \<Rightarrow> outbox_row \<Rightarrow> outbox_row list \<Rightarrow> int \<Rightarrow> fleet \<Rightarrow> fleet" where
  "after_ack p r ev evs now s = s\<lparr>fl_rounds := (fl_rounds s)(p \<mapsto> r\<lparr>rn_todo := evs,
       rn_sent := rn_sent r @ [ev], rn_writes := rn_writes r @ [Mark (ob_id ev) now]\<rparr>),
     fl_trace := fl_trace s @ [KafkaAck (event_message ev)], fl_acked := fl_acked s @ [ev]\<rparr>"

definition after_nack :: "nat \<Rightarrow> round \<Rightarrow> outbox_row \<Rightarrow> string \<Rightarrow> int \<Rightarrow> fleet \<Rightarrow> fleet" where
  "after_nack p r ev err now s = s\<lparr>fl_rounds := (fl_rounds s)(p \<mapsto> r\<lparr>rn_todo := [],
       rn_writes := rn_writes r @ [Count (ob_id ev) err now]\<rparr>),
     fl_trace := fl_trace s @ [KafkaNack (event_message ev)]\<rparr>"

lemmas after_defs = after_ack_def after_nack_def

lemma publish_loop_steps:
  assumes "fl_rounds s p = Some r" and "rn_todo r = evs" and "fl_db s = committed w" and "fl_trace s = trace w"
    and "apply_writes (rn_writes r) (committed w) = Inr (working w)" and "idle = (fl_rounds s)(p := None)"
  shows "wp (publish_loop writer evs n) e
    (\<lambda>q w'. reaches (fleet_step collate ps limit arrives) s idle w') w"
  using assms
proof (induction evs arbitrary: n w s r)
  case Nil
  let ?step = "fleet_step collate ps limit arrives"
  have "reaches ?step s idle w'" if "committed w' = committed w" "trace w' = trace w" for w'
    by (rule reaches_abort [OF Nil(1) _ _ Nil(6)]) (simp_all add: that Nil)
  moreover have "reaches ?step s idle w'" if "committed w' = working w" "trace w' = trace w" for w'
    by (rule reaches_commit [OF Nil(1,2) _ _ Nil(6)]) (use that Nil in simp_all)
  ultimately show ?case by (auto intro!: wp_commitTx)
next
  case (Cons ev evs)
  let ?step = "fleet_step collate ps limit arrives"
  have ack: "?step s (after_ack p r ev evs now s)" for now
    unfolding after_ack_def by (rule sends [OF Cons.prems(1,2)])
  have nack: "?step s (after_nack p r ev err now s)" for err now
    unfolding after_nack_def by (rule refused [OF Cons.prems(1,2)])
  have sent: "reaches ?step s idle w'"
    if "committed w' = committed w" "trace w' = trace w @ [KafkaAck (event_message ev)]" for w'
    using that Cons.prems(3,4,6)
    by (intro reaches_first [where step = ?step, OF ack [of 0]] reaches_abort [where p = p]) (simp_all add: after_defs fun_eq_iff)
  have goes_on: "wp (publish_loop writer evs (Suc n)) e (\<lambda>q w'. reaches ?step s idle w') w1"
    if w1: "committed w1 = committed w" "trace w1 = trace w @ [KafkaAck (event_message ev)]"
      "mark_published (ob_id ev) now (working w) = Inr (working w1)" for now and w1 :: store
  proof (rule wp_mono)
    have "apply_writes (rn_writes r @ [Mark (ob_id ev) now]) (committed w1) = Inr (working w1)"
      using Cons.prems(5) w1 by (simp add: apply_writes_append bind_result_def)
    then show "wp (publish_loop writer evs (Suc n)) e
        (\<lambda>q w'. reaches ?step (after_ack p r ev evs now s) idle w') w1"
      using Cons.prems(3,4,6) w1 by (intro Cons.IH [where r = "r\<lparr>rn_todo := evs, rn_sent := rn_sent r @ [ev],
          rn_writes := rn_writes r @ [Mark (ob_id ev) now]\<rparr>"]) (simp_all add: after_defs fun_eq_iff)
  qed (rule reaches_first [where step = ?step, OF ack])
  have nacked: "reaches ?step s idle w'"
    if w': "trace w' = trace w @ [KafkaNack (event_message ev)]"
      "committed w' = committed w \<or> count_attempt err (ob_id ev) now (working w) = Inr (committed w')" for w' err now
  proof (rule reaches_first [where step = ?step, OF nack])
    let ?s = "after_nack p r ev err now s"
    let ?r = "r\<lparr>rn_todo := [], rn_writes := rn_writes r @ [Count (ob_id ev) err now]\<rparr>"
    have s: "fl_rounds ?s p = Some ?r" "fl_trace ?s = trace w'" "idle = (fl_rounds ?s)(p := None)" "fl_db ?s = committed w"
      using w'(1) Cons.prems(3,4,6) by (simp_all add: after_defs fun_eq_iff)
    have "apply_writes (rn_writes ?r) (fl_db ?s) = Inr (committed w')"
      if "count_attempt err (ob_id ev) now (working w) = Inr (committed w')"
      using that Cons.prems(5) s(4) by (simp add: apply_writes_append bind_result_def)
    then have "count_attempt err (ob_id ev) now (working w) = Inr (committed w') \<Longrightarrow> reaches ?step ?s idle w'"
      by (intro reaches_commit [OF s(1) _ _ s(2,3)]) simp_all
    moreover have "committed w' = committed w \<Longrightarrow> reaches ?step ?s idle w'"
      by (rule reaches_abort [OF s(1) _ s(2,3)]) (simp add: s(4))
    ultimately show "reaches ?step ?s idle w'" using w'(2) by blast
  qed
  show ?case
    by (auto intro!: wp_write_message wp_execTx wp_commitTx)
      ((rule sent, simp, simp; fail) | (rule goes_on, simp, simp, auto; fail) | (rule nacked, simp, auto; fail))+
qed

lemma PublishPending_steps:
  assumes "p \<in> ps" and "fl_rounds s p = None" and "fl_db s = committed w" and "fl_trace s = trace w"
    and "limit p = nat lmt"
  shows "wp (PublishPending collate (locked_in s) pub lmt) e
    (\<lambda>q w'. reaches (fleet_step collate ps limit arrives) s (fl_rounds s) w') w"
proof -
  let ?step = "fleet_step collate ps limit arrives"
  have none: "reaches ?step s (fl_rounds s) w'" if "committed w' = committed w" "trace w' = trace w" for w'
    unfolding reaches_def using that assms(3,4) by (intro exI [of _ s]) simp
  have loop: "wp (publish_loop writer (pending_events collate (locked_in s) (nat lmt) (committed w)) n) e
      (\<lambda>q w'. reaches ?step s (fl_rounds s) w') w1"
    if "committed w1 = committed w" "trace w1 = trace w" "working w1 = committed w" for writer n w1
  proof -
    let ?evs = "pending_events collate (locked_in s) (nat lmt) (committed w)"
    let ?s1 = "s\<lparr>fl_rounds := (fl_rounds s)(p \<mapsto> new_round ?evs)\<rparr>"
    have step: "?step s ?s1"
      using selects [OF assms(1,2), of collate limit arrives] by (simp add: assms(3,5))
    have idle: "fl_rounds s = (fl_rounds ?s1)(p := None)" using assms(2) by auto
    have "wp (publish_loop writer ?evs n) e (\<lambda>q w'. reaches ?step ?s1 (fl_rounds s) w') w1"
      by (rule publish_loop_steps [where r = "new_round ?evs", OF _ _ _ _ _ idle])
        (use that assms(3,4) in \<open>simp_all add: new_round_def\<close>)
    then show ?thesis by (rule wp_mono) (rule reaches_first [where step = ?step, OF step])
  qed
  show ?thesis
    unfolding PublishPending_def
    by (auto simp: none intro!: wp_beginTx wp_execTx loop split: option.splits)
qed

end
