(* ===== verification/PublisherSpec.thy ===== *)
theory PublisherSpec
  imports Publishers
begin

text \<open>
  What holds when rounds of several publishers overlap: locks keep them apart, every acceptance by
  Kafka is accounted for, one publisher keeps the order of the events and two do not.
\<close>

subsection \<open>Identifiers\<close>

definition event_ids :: "database \<Rightarrow> string set" where
  "event_ids d = ob_id ` set (outbox_events d)"

definition pending_ids :: "database \<Rightarrow> string set" where
  "pending_ids d = ob_id ` {x \<in> set (outbox_events d). pending x}"

abbreviation ids :: "outbox_row list \<Rightarrow> string list" where
  "ids \<equiv> map ob_id"

lemma pending_event_ids: "pending_ids d \<subseteq> event_ids d"
  by (auto simp: pending_ids_def event_ids_def)

lemma count_distinct: "distinct xs \<Longrightarrow> count_list xs x = (if x \<in> set xs then 1 else 0)"
  by (induction xs) auto

lemma distinct_pending:
  assumes "unique_by ob_id (outbox_events d)"
  shows "distinct (ids (pending_events collate locked n d))"
proof -
  let ?ys = "filter (\<lambda>r. pending r \<and> \<not> locked (ob_id r)) (outbox_events d)"
  have "distinct (ids ?ys)" using assms by (auto simp: unique_by_def distinct_map inj_on_def)
  moreover have "mset (ids (sort_key (\<lambda>r. (ob_occurred r, collate (ob_id r))) ?ys)) = mset (ids ?ys)" by simp
  ultimately have "distinct (ids (sort_key (\<lambda>r. (ob_occurred r, collate (ob_id r))) ?ys))"
    using mset_eq_imp_distinct_iff by blast
  then show ?thesis by (simp add: pending_events_def take_map [symmetric] distinct_take)
qed

lemma set_pending_ids:
  "i \<in> set (ids (pending_events collate locked n d)) \<Longrightarrow> i \<in> pending_ids d \<and> \<not> locked i"
  by (auto simp: pending_events_def pending_ids_def dest!: in_set_takeD)

definition marks :: "row_write list \<Rightarrow> string set" where
  "marks ws = {i. \<exists>now. Mark i now \<in> set ws}"

lemma marks_simps [simp]:
  "marks [] = {}" "marks (Mark i now # ws) = insert i (marks ws)" "marks (Count i err now # ws) = marks ws"
  "marks (xs @ ys) = marks xs \<union> marks ys"
  by (auto simp: marks_def)

lemma apply_writes_published:
  assumes "apply_writes ws d = Inr d'"
  shows "published_to (marks ws) d d'"
proof -
  have "published_to (js \<union> marks ws) d0 d'" if "published_to js d0 d" "apply_writes ws d = Inr d'" for js d0
    using that
  proof (induction ws arbitrary: d js)
    case (Cons x ws)
    then obtain d1 where d1: "apply_write x d = Inr d1" "apply_writes ws d1 = Inr d'"
      by (auto simp: bind_result_Inr_iff)
    show ?case
    proof (cases x)
      case (Mark i now)
      with d1 Cons.IH [of "insert i js" d1] Cons.prems(1) mark_published_to show ?thesis by simp
    next
      case (Count i err now)
      with d1 Cons.IH [of js d1] Cons.prems(1) count_attempt_published_to show ?thesis by simp
    qed
  qed simp
  from this [OF published_to_refl assms] show ?thesis by simp
qed

lemma published_ids:
  assumes "published_to js d d'"
  shows "event_ids d' = event_ids d" and "pending_ids d' = pending_ids d - js"
proof -
  from assms obtain rows where d': "d' = d\<lparr>outbox_events := rows\<rparr>"
    and rel: "list_all2 (row_progress js) (outbox_events d) rows" unfolding published_to_def by blast
  have "map (\<lambda>x. (ob_id x, pending x \<and> ob_id x \<notin> js)) (outbox_events d)
      = map (\<lambda>x. (ob_id x, pending x)) rows"
    using rel by (induction rule: list_all2_induct)
      (auto simp: row_progress_def event_core_def pending_def split: if_splits)
  from arg_cong [OF this, of set]
  have same: "(\<lambda>x. (ob_id x, pending x \<and> ob_id x \<notin> js)) ` set (outbox_events d)
      = (\<lambda>x. (ob_id x, pending x)) ` set rows" by simp
  have e: "event_ids d' = fst ` (\<lambda>x. (ob_id x, pending x)) ` set rows"
    and p: "pending_ids d' = {i. (i, True) \<in> (\<lambda>x. (ob_id x, pending x)) ` set rows}"
    by (auto simp: event_ids_def pending_ids_def d' image_iff)
  show "event_ids d' = event_ids d" unfolding e by (simp flip: same add: event_ids_def image_image)
  show "pending_ids d' = pending_ids d - js" unfolding p by (auto simp flip: same simp: pending_ids_def image_iff)
qed

subsection \<open>Locks and acceptances\<close>

text \<open>A round owns what it selected: pending events, each once, of which it marks those it sent.\<close>

definition round_ok :: "database \<Rightarrow> round \<Rightarrow> bool" where
  "round_ok d r \<longleftrightarrow> distinct (ids (rn_sent r @ rn_todo r)) \<and> set (ids (rn_sent r @ rn_todo r)) \<subseteq> rn_locked r
     \<and> rn_locked r \<subseteq> pending_ids d \<and> marks (rn_writes r) = set (ids (rn_sent r))"

definition sent_in :: "fleet \<Rightarrow> string \<Rightarrow> bool" where
  "sent_in s i \<longleftrightarrow> (\<exists>p r. fl_rounds s p = Some r \<and> i \<in> set (ids (rn_sent r)))"

definition sent_elsewhere :: "fleet \<Rightarrow> nat \<Rightarrow> string \<Rightarrow> bool" where
  "sent_elsewhere s p i \<longleftrightarrow> (\<exists>q r. q \<noteq> p \<and> fl_rounds s q = Some r \<and> i \<in> set (ids (rn_sent r)))"

fun acks_of :: "external_call list \<Rightarrow> kafka_message list" where
  "acks_of [] = []"
| "acks_of (KafkaAck m # cs) = m # acks_of cs"
| "acks_of (_ # cs) = acks_of cs"

lemma acks_of_append [simp]: "acks_of (xs @ ys) = acks_of xs @ acks_of ys"
  by (induction xs rule: acks_of.induct) auto

definition accounted :: "fleet \<Rightarrow> string \<Rightarrow> bool" where
  "accounted s i \<longleftrightarrow> count_list (ids (fl_acked s)) i
     = (if i \<in> pending_ids (fl_db s) then 0 else 1) + (if sent_in s i then 1 else 0)
       + count_list (ids (fl_lost s)) i"

definition fleet_ok :: "fleet \<Rightarrow> bool" where
  "fleet_ok s \<longleftrightarrow> unique_by ob_id (outbox_events (fl_db s))
     \<and> (\<forall>p r. fl_rounds s p = Some r \<longrightarrow> round_ok (fl_db s) r)
     \<and> (\<forall>p q r r'. p \<noteq> q \<and> fl_rounds s p = Some r \<and> fl_rounds s q = Some r' \<longrightarrow> rn_locked r \<inter> rn_locked r' = {})
     \<and> (\<forall>i\<in>event_ids (fl_db s). accounted s i)
     \<and> set (ids (fl_acked s @ fl_lost s)) \<subseteq> event_ids (fl_db s)
     \<and> acks_of (fl_trace s) = map event_message (fl_acked s)"

lemma sent_in_iff:
  "sent_in s i \<longleftrightarrow> (\<exists>r. fl_rounds s p = Some r \<and> i \<in> set (ids (rn_sent r))) \<or> sent_elsewhere s p i"
proof
  assume "sent_in s i"
  then obtain q r where "fl_rounds s q = Some r" "i \<in> set (ids (rn_sent r))" unfolding sent_in_def by blast
  then show "(\<exists>r. fl_rounds s p = Some r \<and> i \<in> set (ids (rn_sent r))) \<or> sent_elsewhere s p i"
    unfolding sent_elsewhere_def by (cases "q = p") blast+
qed (unfold sent_in_def sent_elsewhere_def, blast)

lemma sent_elsewhere_cong:
  "(\<And>q. q \<noteq> p \<Longrightarrow> fl_rounds s' q = fl_rounds s q) \<Longrightarrow> sent_elsewhere s' p i = sent_elsewhere s p i"
  unfolding sent_elsewhere_def by metis

lemma not_sent_elsewhere:
  assumes "fleet_ok s" and "fl_rounds s p = Some r" and "i \<in> rn_locked r"
  shows "\<not> sent_elsewhere s p i"
proof
  assume "sent_elsewhere s p i"
  then obtain q r' where q: "q \<noteq> p" "fl_rounds s q = Some r'" "i \<in> set (ids (rn_sent r'))"
    unfolding sent_elsewhere_def by blast
  with assms(1) have "round_ok (fl_db s) r'" "rn_locked r \<inter> rn_locked r' = {}"
    using assms(2) unfolding fleet_ok_def by metis+
  with q(3) assms(3) show False by (auto simp: round_ok_def)
qed
text \<open>What a change of the round of \<open>p\<close> alone asks for.\<close>

lemma fleet_ok_round:
  assumes "fleet_ok s" and "fl_rounds s' = (fl_rounds s)(p := x)"
    and "unique_by ob_id (outbox_events (fl_db s'))" and "event_ids (fl_db s') = event_ids (fl_db s)"
    and "\<And>q r. q \<noteq> p \<Longrightarrow> fl_rounds s q = Some r \<Longrightarrow> rn_locked r \<subseteq> pending_ids (fl_db s')"
    and "\<And>r. x = Some r \<Longrightarrow> round_ok (fl_db s') r"
    and "\<And>r q r'. x = Some r \<Longrightarrow> q \<noteq> p \<Longrightarrow> fl_rounds s q = Some r' \<Longrightarrow> rn_locked r \<inter> rn_locked r' = {}"
    and "\<And>i. i \<in> event_ids (fl_db s') \<Longrightarrow> accounted s i \<Longrightarrow> accounted s' i"
    and "set (ids (fl_acked s' @ fl_lost s')) \<subseteq> event_ids (fl_db s)"
    and "acks_of (fl_trace s') = map event_message (fl_acked s')"
  shows "fleet_ok s'"
proof -
  have ok: "round_ok (fl_db s') r" if "fl_rounds s' q = Some r" for q r
  proof (cases "q = p")
    case False
    with that assms(2) have q: "fl_rounds s q = Some r" by simp
    with assms(1) have "round_ok (fl_db s) r" unfolding fleet_ok_def by blast
    with assms(5) [OF False q] show ?thesis by (simp add: round_ok_def)
  qed (use that assms(2,6) in simp)
  have apart: "rn_locked r \<inter> rn_locked r' = {}" if "a \<noteq> b" "fl_rounds s' a = Some r" "fl_rounds s' b = Some r'" for a b r r'
  proof -
    consider "a = p" | "b = p" | "a \<noteq> p" "b \<noteq> p" by blast
    then show ?thesis
    proof cases
      case 1
      with that assms(2) assms(7) [of r b r'] show ?thesis by simp
    next
      case 2
      with that assms(2) assms(7) [of r' a r] show ?thesis by (simp add: Int_commute)
    next
      case 3
      with that assms(1,2) show ?thesis unfolding fleet_ok_def by (metis fun_upd_other)
    qed
  qed
  have "accounted s' i" if "i \<in> event_ids (fl_db s')" for i
    using assms(8) [OF that] assms(1,4) that unfolding fleet_ok_def by simp
  with apart ok assms(3,9,10) show ?thesis unfolding fleet_ok_def assms(4)
    by (intro conjI allI ballI impI; (elim conjE)?; (assumption | blast))
qed
lemma sent_event_ids: "fleet_ok s \<Longrightarrow> sent_in s i \<Longrightarrow> i \<in> pending_ids (fl_db s)"
  unfolding fleet_ok_def sent_in_def round_ok_def by fastforce

lemma stored_ok:
  assumes ok: "fleet_ok s" and "pending x" and fresh: "\<forall>y\<in>set (outbox_events (fl_db s)). ob_id y \<noteq> ob_id x"
  shows "fleet_ok (s\<lparr>fl_db := (fl_db s)\<lparr>outbox_events := outbox_events (fl_db s) @ [x]\<rparr>\<rparr>)"
proof -
  let ?d = "(fl_db s)\<lparr>outbox_events := outbox_events (fl_db s) @ [x]\<rparr>"
  let ?s = "s\<lparr>fl_db := ?d\<rparr>"
  have e: "event_ids ?d = insert (ob_id x) (event_ids (fl_db s))"
    and p: "pending_ids ?d = insert (ob_id x) (pending_ids (fl_db s))"
    using assms(2) by (auto simp: event_ids_def pending_ids_def)
  have new: "ob_id x \<notin> event_ids (fl_db s)" using fresh by (auto simp: event_ids_def)
  have sent: "sent_in ?s i = sent_in s i" for i by (simp add: sent_in_def)
  have "ob_id x \<notin> set (ids (fl_acked s))" "ob_id x \<notin> set (ids (fl_lost s))"
    using ok new unfolding fleet_ok_def by auto
  moreover have "\<not> sent_in s (ob_id x)" using new sent_event_ids [OF ok] pending_event_ids by blast
  ultimately have "accounted ?s (ob_id x)" by (simp add: accounted_def sent p count_notin)
  moreover have "accounted ?s i" if "i \<in> event_ids (fl_db s)" for i
    using ok new that by (auto simp: accounted_def sent p fleet_ok_def)
  moreover have "unique_by ob_id (outbox_events ?d)" using ok fresh by (simp add: fleet_ok_def)
  moreover have "round_ok ?d r" if "round_ok (fl_db s) r" for r using that by (auto simp: round_ok_def p)
  ultimately show ?thesis using ok unfolding fleet_ok_def by (auto simp: e)
qed

lemma selected_ok:
  assumes ok: "fleet_ok s" and "fl_rounds s p = None"
  shows "fleet_ok (s\<lparr>fl_rounds := (fl_rounds s)(p \<mapsto>
    new_round (pending_events collate (locked_in s) n (fl_db s)))\<rparr>)"
proof -
  let ?evs = "pending_events collate (locked_in s) n (fl_db s)"
  let ?s = "s\<lparr>fl_rounds := (fl_rounds s)(p \<mapsto> new_round ?evs)\<rparr>"
  have evs: "ob_id ` set ?evs \<subseteq> pending_ids (fl_db s)" "\<And>i. i \<in> ob_id ` set ?evs \<Longrightarrow> \<not> locked_in s i"
    using set_pending_ids [of _ collate "locked_in s" n "fl_db s"] by auto
  have sent: "sent_in ?s i = sent_in s i" for i
  proof -
    have "sent_elsewhere ?s p i = sent_elsewhere s p i" by (rule sent_elsewhere_cong) simp
    then show ?thesis using assms(2) unfolding sent_in_iff [of _ i p] by (simp add: new_round_def)
  qed
  show ?thesis
  proof (rule fleet_ok_round [OF ok, where p = p and x = "Some (new_round ?evs)"])
    fix r assume "Some (new_round ?evs) = Some r"
    then show "round_ok (fl_db ?s) r"
      using ok evs(1) distinct_pending [of "fl_db s"] by (auto simp: round_ok_def new_round_def fleet_ok_def)
  next
    fix r q r' assume "Some (new_round ?evs) = Some r" "q \<noteq> p" "fl_rounds s q = Some r'"
    then show "rn_locked r \<inter> rn_locked r' = {}"
      using evs(2) by (auto simp: new_round_def locked_in_def)
  qed (use ok in \<open>auto simp: fleet_ok_def accounted_def sent round_ok_def\<close>)
qed

lemma acked_ok:
  assumes ok: "fleet_ok s" and r: "fl_rounds s p = Some r" "rn_todo r = ev # evs"
  shows "fleet_ok (after_ack p r ev evs now s)"
proof -
  let ?r = "r\<lparr>rn_todo := evs, rn_sent := rn_sent r @ [ev], rn_writes := rn_writes r @ [Mark (ob_id ev) now]\<rparr>"
  let ?s = "after_ack p r ev evs now s"
  have rok: "round_ok (fl_db s) r" using ok r(1) by (simp add: fleet_ok_def)
  then have ev: "ob_id ev \<in> rn_locked r" "ob_id ev \<in> pending_ids (fl_db s)" "ob_id ev \<notin> set (ids (rn_sent r))"
    using r(2) by (auto simp: round_ok_def)
  have sent: "sent_in ?s i \<longleftrightarrow> sent_in s i \<or> i = ob_id ev" for i
  proof -
    have "sent_elsewhere ?s p i = sent_elsewhere s p i" by (rule sent_elsewhere_cong) (simp add: after_ack_def)
    moreover have "fl_rounds ?s p = Some ?r" by (simp add: after_ack_def)
    ultimately show ?thesis using r(1) unfolding sent_in_iff [of _ i p] by auto
  qed
  have "\<not> sent_in s (ob_id ev)"
    using ev(3) r(1) not_sent_elsewhere [OF ok r(1) ev(1)] by (simp add: sent_in_iff [of _ _ p])
  then have acc: "accounted s i \<Longrightarrow> accounted ?s i" for i
    by (auto simp: accounted_def sent) (auto simp: after_ack_def)
  show ?thesis
  proof (rule fleet_ok_round [OF ok, where p = p and x = "Some ?r"])
    fix r' assume r': "Some ?r = Some r'"
    have "rn_sent ?r @ rn_todo ?r = rn_sent r @ rn_todo r" "rn_locked ?r = rn_locked r"
      "marks (rn_writes ?r) = insert (ob_id ev) (marks (rn_writes r))"
      "set (ids (rn_sent ?r)) = insert (ob_id ev) (set (ids (rn_sent r)))" "fl_db ?s = fl_db s"
      using r(2) by (simp_all add: after_ack_def)
    with rok have "round_ok (fl_db ?s) ?r" unfolding round_ok_def by metis
    with r' show "round_ok (fl_db ?s) r'" by simp
  next
    fix r0 q r' assume "Some ?r = Some r0" "q \<noteq> p" "fl_rounds s q = Some r'"
    then show "rn_locked r0 \<inter> rn_locked r' = {}" using ok r(1) unfolding fleet_ok_def by fastforce
  qed (use ok acc ev(2) pending_event_ids in \<open>auto simp: fleet_ok_def after_ack_def round_ok_def\<close>)
qed

lemma nacked_ok:
  assumes ok: "fleet_ok s" and r: "fl_rounds s p = Some r" "rn_todo r = ev # evs"
  shows "fleet_ok (after_nack p r ev err now s)"
proof -
  let ?r = "r\<lparr>rn_todo := [], rn_writes := rn_writes r @ [Count (ob_id ev) err now]\<rparr>"
  let ?s = "after_nack p r ev err now s"
  have rok: "round_ok (fl_db s) r" using ok r(1) by (simp add: fleet_ok_def)
  have sent: "sent_in ?s i = sent_in s i" for i
  proof -
    have "sent_elsewhere ?s p i = sent_elsewhere s p i" by (rule sent_elsewhere_cong) (simp add: after_nack_def)
    moreover have "fl_rounds ?s p = Some ?r" by (simp add: after_nack_def)
    ultimately show ?thesis using r(1) unfolding sent_in_iff [of _ i p] by auto
  qed
  show ?thesis
  proof (rule fleet_ok_round [OF ok, where p = p and x = "Some ?r"])
    fix r' assume "Some ?r = Some r'"
    then show "round_ok (fl_db ?s) r'" using rok r(2) by (auto simp: round_ok_def after_nack_def image_subset_iff)
  next
    fix r0 q r' assume "Some ?r = Some r0" "q \<noteq> p" "fl_rounds s q = Some r'"
    then show "rn_locked r0 \<inter> rn_locked r' = {}" using ok r(1) unfolding fleet_ok_def by fastforce
  next
    fix i assume "accounted s i" then show "accounted ?s i"
      by (simp add: accounted_def sent) (simp add: after_nack_def)
  qed (use ok in \<open>auto simp: fleet_ok_def after_nack_def round_ok_def\<close>)
qed

lemma ended_ok:
  assumes ok: "fleet_ok s" and r: "fl_rounds s p = Some r"
  shows "apply_writes (rn_writes r) (fl_db s) = Inr d \<Longrightarrow>
      fleet_ok (s\<lparr>fl_db := d, fl_rounds := (fl_rounds s)(p := None)\<rparr>)"
    and "fleet_ok (s\<lparr>fl_rounds := (fl_rounds s)(p := None), fl_lost := fl_lost s @ rn_sent r\<rparr>)"
proof -
  have rok: "round_ok (fl_db s) r" using ok r by (simp add: fleet_ok_def)
  have mine: "\<not> sent_elsewhere s p i" "i \<in> pending_ids (fl_db s)" if "i \<in> set (ids (rn_sent r))" for i
    using that rok not_sent_elsewhere [OF ok r, of i] by (auto simp: round_ok_def)
  have before: "sent_in s i \<longleftrightarrow> i \<in> set (ids (rn_sent r)) \<or> sent_elsewhere s p i" for i
    using r by (simp add: sent_in_iff [of _ _ p])
  have other: "sent_in s' i = sent_elsewhere s p i" if "fl_rounds s' = (fl_rounds s)(p := None)" for s' i
    using that unfolding sent_in_iff [of _ i p] by (simp add: sent_elsewhere_cong [of p s' s])
  have once: "count_list (ids (rn_sent r)) i = (if i \<in> set (ids (rn_sent r)) then 1 else 0)" for i
    using rok by (intro count_distinct) (simp add: round_ok_def)
  {
    assume d: "apply_writes (rn_writes r) (fl_db s) = Inr d"
    let ?s = "s\<lparr>fl_db := d, fl_rounds := (fl_rounds s)(p := None)\<rparr>"
    have pub: "published_to (set (ids (rn_sent r))) (fl_db s) d"
      using apply_writes_published [OF d] rok by (simp add: round_ok_def)
    note ids = published_ids [OF pub]
    have "\<not> sent_elsewhere s p i" if "i \<in> set (ids (rn_sent r))" for i using mine(1) [OF that] .
    then have "accounted ?s i" if "accounted s i" for i
      using that mine(2) [of i] by (auto simp: accounted_def other before ids(2))
    moreover have "rn_locked r' \<subseteq> pending_ids d" if "q \<noteq> p" "fl_rounds s q = Some r'" for q r'
    proof -
      have "rn_locked r' \<inter> rn_locked r = {}" "rn_locked r' \<subseteq> pending_ids (fl_db s)"
        using ok r that unfolding fleet_ok_def round_ok_def by metis+
      then show ?thesis using rok by (auto simp: ids(2) round_ok_def)
    qed
    ultimately show "fleet_ok ?s"
      using ok published_to_unique [OF pub]
      by (intro fleet_ok_round [OF ok, where p = p and x = None]) (auto simp: ids(1) fleet_ok_def)
  }
  let ?s = "s\<lparr>fl_rounds := (fl_rounds s)(p := None), fl_lost := fl_lost s @ rn_sent r\<rparr>"
  have "accounted ?s i" if "accounted s i" for i
    using that mine [of i] by (auto simp: accounted_def other before once)
  moreover have "set (ids (rn_sent r)) \<subseteq> event_ids (fl_db s)" using mine(2) pending_event_ids by blast
  ultimately show "fleet_ok ?s"
    using ok by (intro fleet_ok_round [OF ok, where p = p and x = None]) (auto simp: fleet_ok_def round_ok_def)
qed

lemma fleet_step_ok:
  assumes "fleet_step collate ps limit arrives s s'" and "fleet_ok s"
  shows "fleet_ok s'"
  using assms
proof (induction rule: fleet_step.induct)
  case (stores s x) then show ?case by (simp add: stored_ok)
next
  case (selects p s) then show ?case by (simp add: selected_ok)
next
  case (sends s p r ev evs now) from acked_ok [OF sends(3,1,2)] show ?case by (simp add: after_ack_def)
next
  case (refused s p r ev evs err now) from nacked_ok [OF refused(3,1,2)] show ?case by (simp add: after_nack_def)
next
  case (commits s p r d) then show ?case by (simp add: ended_ok(1))
next
  case (aborts s p r) then show ?case by (simp add: ended_ok(2))
qed

lemma fleet_steps_ok:
  "(fleet_step collate ps limit arrives)\<^sup>*\<^sup>* s s' \<Longrightarrow> fleet_ok s \<Longrightarrow> fleet_ok s'"
  by (induction rule: rtranclp_induct) (auto intro: fleet_step_ok)
lemma pending_in_ids:
  assumes "fleet_ok s" and "x \<in> set (outbox_events (fl_db s))"
  shows "ob_id x \<in> pending_ids (fl_db s) \<longleftrightarrow> pending x"
  using assms unfolding fleet_ok_def pending_ids_def by (auto dest: unique_byD)

subsection \<open>One publisher keeps the order\<close>

definition place :: "(string \<Rightarrow> string) \<Rightarrow> outbox_row \<Rightarrow> int \<times> string" where
  "place collate r = (ob_occurred r, collate (ob_id r))"

text \<open>Events that arrive in the order the publisher reads them.\<close>

definition later :: "(string \<Rightarrow> string) \<Rightarrow> database \<Rightarrow> outbox_row \<Rightarrow> bool" where
  "later collate d x \<longleftrightarrow> (\<forall>y\<in>set (outbox_events d). place collate y \<le> place collate x)"

text \<open>While nothing was rolled back, what Kafka has comes before what is still to be sent, and what a
  round is to send comes before what it left.\<close>

definition in_order :: "(string \<Rightarrow> string) \<Rightarrow> nat \<Rightarrow> fleet \<Rightarrow> bool" where
  "in_order collate p s \<longleftrightarrow> sorted (map (place collate) (fl_acked s))
     \<and> (\<forall>a\<in>set (fl_acked s). \<exists>y\<in>set (outbox_events (fl_db s)). place collate y = place collate a)
     \<and> (\<forall>a\<in>set (fl_acked s). \<forall>x\<in>set (outbox_events (fl_db s)).
          pending x \<and> \<not> sent_in s (ob_id x) \<longrightarrow> place collate a \<le> place collate x)
     \<and> (\<forall>r. fl_rounds s p = Some r \<longrightarrow> sorted (map (place collate) (rn_todo r))
          \<and> set (rn_todo r) \<subseteq> set (outbox_events (fl_db s))
          \<and> (\<forall>t\<in>set (rn_todo r). \<forall>x\<in>set (outbox_events (fl_db s)).
               pending x \<and> \<not> sent_in s (ob_id x) \<and> ob_id x \<notin> set (ids (rn_todo r))
               \<longrightarrow> place collate t \<le> place collate x))"

definition alone :: "nat \<Rightarrow> fleet \<Rightarrow> bool" where
  "alone p s \<longleftrightarrow> (\<forall>q. q \<noteq> p \<longrightarrow> fl_rounds s q = None)"

lemma sent_alone: "alone p s \<Longrightarrow> sent_in s i \<longleftrightarrow> (\<exists>r. fl_rounds s p = Some r \<and> i \<in> set (ids (rn_sent r)))"
  unfolding sent_in_def alone_def by (metis option.distinct(1))

lemma pending_events_order:
  defines "evs d locked n collate \<equiv> pending_events collate locked n d"
  shows "sorted (map (place collate) (evs d locked n collate))"
    and "\<lbrakk>t \<in> set (evs d locked n collate); x \<in> set (outbox_events d); pending x; \<not> locked (ob_id x);
      x \<notin> set (evs d locked n collate)\<rbrakk> \<Longrightarrow> place collate t \<le> place collate x"
proof -
  let ?ys = "sort_key (place collate) (filter (\<lambda>r. pending r \<and> \<not> locked (ob_id r)) (outbox_events d))"
  have evs: "evs d locked n collate = take n ?ys"
    by (simp add: evs_def pending_events_def place_def [abs_def])
  have srt: "sorted (map (place collate) (take n ?ys @ drop n ?ys))" by simp
  then show "sorted (map (place collate) (evs d locked n collate))"
    unfolding evs map_append sorted_append by blast
  assume "t \<in> set (evs d locked n collate)" "x \<in> set (outbox_events d)" "pending x" "\<not> locked (ob_id x)"
    "x \<notin> set (evs d locked n collate)"
  then have "t \<in> set (take n ?ys)" "x \<in> set ?ys" "x \<notin> set (take n ?ys)" by (simp_all add: evs)
  then have "x \<in> set (drop n ?ys)" by (metis Un_iff append_take_drop_id set_append)
  with \<open>t \<in> set (take n ?ys)\<close> show "place collate t \<le> place collate x"
    using srt [unfolded map_append sorted_append] by auto
qed

lemma stored_in_order:
  assumes ord: "in_order collate p s" and ok: "fleet_ok s" and "later collate (fl_db s) x"
    and fresh: "\<forall>y\<in>set (outbox_events (fl_db s)). ob_id y \<noteq> ob_id x"
  shows "in_order collate p (s\<lparr>fl_db := (fl_db s)\<lparr>outbox_events := outbox_events (fl_db s) @ [x]\<rparr>\<rparr>)"
    (is "in_order collate p ?s")
proof -
  have sent: "sent_in ?s i = sent_in s i" for i by (simp add: sent_in_def)
  have "place collate a \<le> place collate x" if "a \<in> set (fl_acked s)" for a
    using that ord assms(3) unfolding in_order_def later_def by metis
  moreover have "place collate t \<le> place collate x" if "t \<in> set (rn_todo r)" "fl_rounds s p = Some r" for t r
    using that ord assms(3) unfolding in_order_def later_def by blast
  ultimately show ?thesis using ord unfolding in_order_def sent by auto
qed

lemma selected_in_order:
  assumes ord: "in_order collate p s" and ok: "fleet_ok s" and al: "alone p s" and "fl_rounds s p = None"
  shows "in_order collate p (s\<lparr>fl_rounds := (fl_rounds s)(p \<mapsto>
    new_round (pending_events collate (locked_in s) n (fl_db s)))\<rparr>)" (is "in_order collate p ?s")
proof -
  let ?evs = "pending_events collate (locked_in s) n (fl_db s)"
  have al': "alone p ?s" using al by (simp add: alone_def)
  have none: "\<not> sent_in s i" "\<not> sent_in ?s i" for i
    using assms(4) unfolding sent_alone [OF al] sent_alone [OF al'] by (simp_all add: new_round_def)
  have free: "\<not> locked_in s i" for i using al assms(4) unfolding locked_in_def alone_def by (metis option.distinct(1))
  have "place collate t \<le> place collate x"
    if "t \<in> set ?evs" "x \<in> set (outbox_events (fl_db s))" "pending x" "ob_id x \<notin> set (ids ?evs)" for t x
    using that free by (intro pending_events_order(2) [where locked = "locked_in s" and n = n and d = "fl_db s"]) auto
  moreover have "set ?evs \<subseteq> set (outbox_events (fl_db s))" using pending_events_subset by blast
  ultimately show ?thesis
    using ord pending_events_order(1) unfolding in_order_def by (simp add: none new_round_def)
qed

lemma acked_in_order:
  assumes ord: "in_order collate p s" and ok: "fleet_ok s" and al: "alone p s"
    and r: "fl_rounds s p = Some r" "rn_todo r = ev # evs"
  shows "in_order collate p (after_ack p r ev evs now s)" (is "in_order collate p ?s")
proof -
  have al': "alone p ?s" using al by (simp add: alone_def after_ack_def)
  have sent: "sent_in ?s i \<longleftrightarrow> sent_in s i \<or> i = ob_id ev" for i
    using r(1) unfolding sent_alone [OF al] sent_alone [OF al'] by (auto simp: after_ack_def)
  have rok: "round_ok (fl_db s) r" using ok r(1) by (simp add: fleet_ok_def)
  have ev: "ev \<in> set (outbox_events (fl_db s))" using ord r by (auto simp: in_order_def)
  have "ob_id ev \<in> pending_ids (fl_db s)" "\<not> sent_in s (ob_id ev)"
    using rok r by (auto simp: round_ok_def sent_alone [OF al])
  then have pend: "pending ev" "\<not> sent_in s (ob_id ev)" by (simp_all add: pending_in_ids [OF ok ev])
  have before: "place collate a \<le> place collate ev" if "a \<in> set (fl_acked s)" for a
    using that ord ev pend unfolding in_order_def by blast
  have evs: "sorted (map (place collate) (ev # evs))" "set (ev # evs) \<subseteq> set (outbox_events (fl_db s))"
    and rest: "\<And>t x. t \<in> set (ev # evs) \<Longrightarrow> x \<in> set (outbox_events (fl_db s)) \<Longrightarrow> pending x
      \<Longrightarrow> \<not> sent_in s (ob_id x) \<Longrightarrow> ob_id x \<notin> set (ids (ev # evs)) \<Longrightarrow> place collate t \<le> place collate x"
    using ord r unfolding in_order_def by auto
  have after: "place collate ev \<le> place collate x"
    if x: "x \<in> set (outbox_events (fl_db s))" "pending x" "\<not> sent_in s (ob_id x)" "ob_id x \<noteq> ob_id ev" for x
  proof (cases "ob_id x \<in> set (ids evs)")
    case True
    then obtain t where t: "t \<in> set evs" "ob_id t = ob_id x" by auto
    then have "t = x" using ok evs(2) x(1) unfolding fleet_ok_def by (auto dest: unique_byD)
    with t evs(1) show ?thesis by auto
  qed (use x rest [of ev x] in auto)
  have "fl_rounds ?s p = Some (r\<lparr>rn_todo := evs, rn_sent := rn_sent r @ [ev],
      rn_writes := rn_writes r @ [Mark (ob_id ev) now]\<rparr>)" "fl_db ?s = fl_db s" "fl_acked ?s = fl_acked s @ [ev]"
    by (simp_all add: after_ack_def)
  then show ?thesis
    using ord before after evs rest ev unfolding in_order_def sent
    by (auto simp: sorted_append)
qed

lemma nacked_in_order:
  assumes ord: "in_order collate p s" and al: "alone p s"
    and r: "fl_rounds s p = Some r" "rn_todo r = ev # evs"
  shows "in_order collate p (after_nack p r ev err now s)" (is "in_order collate p ?s")
proof -
  have al': "alone p ?s" using al by (simp add: alone_def after_nack_def)
  have "sent_in ?s i = sent_in s i" for i
    using r(1) unfolding sent_alone [OF al] sent_alone [OF al'] by (simp add: after_nack_def)
  then show ?thesis using ord unfolding in_order_def by (simp add: after_nack_def)
qed

lemma committed_in_order:
  assumes ord: "in_order collate p s" and ok: "fleet_ok s" and al: "alone p s"
    and r: "fl_rounds s p = Some r" and d: "apply_writes (rn_writes r) (fl_db s) = Inr d"
  shows "in_order collate p (s\<lparr>fl_db := d, fl_rounds := (fl_rounds s)(p := None)\<rparr>)" (is "in_order collate p ?s")
proof -
  have al': "alone p ?s" using al by (simp add: alone_def)
  have none: "\<not> sent_in ?s i" for i unfolding sent_alone [OF al'] by simp
  have "round_ok (fl_db s) r" using ok r by (simp add: fleet_ok_def)
  then have pub: "published_to (set (ids (rn_sent r))) (fl_db s) d"
    using apply_writes_published [OF d] by (simp add: round_ok_def)
  then obtain rows where rows: "outbox_events d = rows"
    "list_all2 (row_progress (set (ids (rn_sent r)))) (outbox_events (fl_db s)) rows"
    unfolding published_to_def by auto
  have same: "place collate y = place collate x" if "row_progress js x y" for js x y
    using that by (simp add: row_progress_def event_core_def place_def)
  have source: "\<exists>x\<in>set (outbox_events (fl_db s)). row_progress (set (ids (rn_sent r))) x y" if "y \<in> set rows" for y
    using that rows(2) by (metis in_set_conv_nth list_all2_conv_all_nth)
  have target: "\<exists>y\<in>set rows. row_progress (set (ids (rn_sent r))) x y" if "x \<in> set (outbox_events (fl_db s))" for x
    using that rows(2) by (metis in_set_conv_nth list_all2_conv_all_nth)
  have "\<exists>y\<in>set rows. place collate y = place collate a" if "a \<in> set (fl_acked s)" for a
    using that ord target same unfolding in_order_def by metis
  moreover have "place collate a \<le> place collate y"
    if "a \<in> set (fl_acked s)" and y: "y \<in> set rows" "pending y" for a y
  proof -
    obtain x where x: "x \<in> set (outbox_events (fl_db s))" "row_progress (set (ids (rn_sent r))) x y"
      using source [OF y(1)] by blast
    then have "pending x" "\<not> sent_in s (ob_id x)"
      using y(2) r by (auto simp: row_progress_def pending_def sent_alone [OF al] split: if_splits)
    with x(1) that(1) ord have "place collate a \<le> place collate x" unfolding in_order_def by blast
    then show ?thesis by (simp add: same [OF x(2)])
  qed
  ultimately show ?thesis using ord unfolding in_order_def by (simp add: none rows(1))
qed
lemma single_step:
  assumes "fleet_step collate {p} limit (later collate) s s'" and "fleet_ok s" and "alone p s"
    and "fl_lost s = [] \<Longrightarrow> in_order collate p s"
  shows "alone p s'" and "fl_lost s' = [] \<Longrightarrow> in_order collate p s'"
proof -
  have one: "q = p" if "fl_rounds s q = Some r" for q r
    using that assms(3) unfolding alone_def by (metis option.distinct(1))
  have "alone p s' \<and> (fl_lost s' = [] \<longrightarrow> in_order collate p s')"
    using assms
  proof (cases rule: fleet_step.cases)
    case (stores x)
    then show ?thesis using assms by (simp add: alone_def stored_in_order)
  next
    case (selects q)
    then show ?thesis using assms selected_in_order [of collate p s "limit p"] by (auto simp: alone_def)
  next
    case (sends q r ev evs now)
    with one have "s' = after_ack p r ev evs now s" by (simp add: after_ack_def)
    with sends one [of q r] show ?thesis
      using assms acked_in_order [of collate p s r ev evs now] by (auto simp: alone_def after_ack_def)
  next
    case (refused q r ev evs err now)
    with one have "s' = after_nack p r ev err now s" by (simp add: after_nack_def)
    with refused one [of q r] show ?thesis
      using assms nacked_in_order [of collate p s r ev evs err now] by (auto simp: alone_def after_nack_def)
  next
    case (commits q r d)
    with one [of q r] show ?thesis
      using assms committed_in_order [of collate p s r d] by (auto simp: alone_def)
  next
    case (aborts q r)
    with one [of q r] have q: "q = p" by simp
    have al: "alone p s'" using aborts(1) q assms(3) by (simp add: alone_def)
    moreover have "in_order collate p s'" if "fl_lost s' = []"
    proof -
      have clean: "rn_sent r = []" "fl_lost s = []" using that aborts(1) by simp_all
      have "sent_in s' i = sent_in s i" for i
        using aborts clean(1) q unfolding sent_alone [OF al] sent_alone [OF assms(3)] by simp
      with assms(4) [OF clean(2)] show ?thesis using aborts(1) q unfolding in_order_def by simp
    qed
    ultimately show ?thesis by blast
  qed
  then show "alone p s'" and "fl_lost s' = [] \<Longrightarrow> in_order collate p s'" by simp_all
qed

lemma single_steps:
  assumes "(fleet_step collate {p} limit (later collate))\<^sup>*\<^sup>* s s'" and "fleet_ok s" and "alone p s"
    and "fl_lost s = [] \<Longrightarrow> in_order collate p s"
  shows "fleet_ok s' \<and> alone p s' \<and> (fl_lost s' = [] \<longrightarrow> in_order collate p s')"
  using assms(1)
proof (induction rule: rtranclp_induct)
  case (step y z)
  then show ?case
    using fleet_step_ok [OF step.hyps(2)] single_step [OF step.hyps(2)] by blast
qed (use assms in simp)

subsection \<open>Where it starts\<close>

definition idle_fleet :: "database \<Rightarrow> fleet" where
  "idle_fleet d = \<lparr>fl_db = d, fl_rounds = (\<lambda>_. None), fl_trace = [], fl_acked = [], fl_lost = []\<rparr>"

lemma idle_fleet_ok:
  assumes "unique_by ob_id (outbox_events d)" and "\<forall>x\<in>set (outbox_events d). pending x"
  shows "fleet_ok (idle_fleet d)" "alone p (idle_fleet d)" "in_order collate p (idle_fleet d)"
  using assms
  by (auto simp: fleet_ok_def alone_def in_order_def idle_fleet_def accounted_def sent_in_def event_ids_def
      pending_ids_def)

end
