(* ===== verification/PublisherTheorems.thy ===== *)
theory PublisherTheorems
  imports PublisherSpec OutboxTheorems
begin

text \<open>The correctness statements about several publishers over one outbox.\<close>

text \<open>
  C25: a round of \<open>PublishPending\<close> is made of the steps that overlap. Whatever it meets, a run of
  \<open>PublishPending\<close> beside the rounds of other publishers, whose locked rows it skips, is a sequence of
  atomic steps of its publisher: selection, messages with their updates, commit or rollback. They lead to
  the database the run commits and make the calls to Kafka it makes, in their order, and touch no other
  round; so what holds of the steps however they are mixed holds of overlapping rounds.
\<close>

theorem publish_pending_is_steps:
  assumes "PublishPending collate (locked_in s) pub lmt e w = (q, w')"
    and "p \<in> ps" and "fl_rounds s p = None" and "fl_db s = committed w" and "fl_trace s = trace w"
    and "limit p = nat lmt"
  shows "\<exists>s'. (fleet_step collate ps limit arrives)\<^sup>*\<^sup>* s s' \<and> fl_db s' = committed w'
    \<and> fl_trace s' = trace w' \<and> fl_rounds s' = fl_rounds s"
  using wpD [OF PublishPending_steps [of p ps s w limit lmt, OF assms(2-6)] assms(1)] by (simp add: reaches_def)

theorem publish_pending_is_steps_witness:
  "\<exists>s'. (fleet_step id {0} (\<lambda>_. 2) (\<lambda>d x. True))\<^sup>*\<^sup>* (idle_fleet demo_outbox) s'
     \<and> length (fl_trace s') = 2 \<and> fl_rounds s' = (\<lambda>_. None)"
proof -
  let ?run = "PublishPending id (\<lambda>_. False) (Some (picky_publisher ''u2'')) 2 calm_env (demo_world demo_outbox)"
  have idle: "locked_in (idle_fleet demo_outbox) = (\<lambda>_. False)"
    by (rule ext) (simp add: locked_in_def idle_fleet_def)
  have "length (trace (snd ?run)) = 2" by code_simp
  with publish_pending_is_steps [of id "idle_fleet demo_outbox" "Some (picky_publisher ''u2'')" 2 calm_env
      "demo_world demo_outbox" "fst ?run" "snd ?run" 0 "{0}" "\<lambda>_. 2" "\<lambda>d x. True"]
  show ?thesis unfolding idle by (auto simp: idle_fleet_def demo_world_def)
qed


text \<open>An overlap: publisher 0 has selected \<open>a\<close> when \<open>b\<close>, a later event of the same user, is stored;
  publisher 1 skips the locked row and sends \<open>b\<close> first.\<close>

definition demo_first :: database where
  "demo_first = demo_db\<lparr>outbox_events := [demo_row ''a'' 1]\<rparr>"

definition demo_overtaken :: fleet where
  "demo_overtaken =
     \<lparr>fl_db = demo_db\<lparr>outbox_events := [demo_row ''a'' 1, demo_row ''b'' 2]\<rparr>,
      fl_rounds = (\<lambda>_. None)(0 \<mapsto> \<lparr>rn_todo = [], rn_sent = [demo_row ''a'' 1], rn_writes = [Mark ''a'' 7], rn_locked = {''a''}\<rparr>,
         1 \<mapsto> \<lparr>rn_todo = [], rn_sent = [demo_row ''b'' 2], rn_writes = [Mark ''b'' 6], rn_locked = {''b''}\<rparr>),
      fl_trace = [KafkaAck (event_message (demo_row ''b'' 2)), KafkaAck (event_message (demo_row ''a'' 1))],
      fl_acked = [demo_row ''b'' 2, demo_row ''a'' 1], fl_lost = []\<rparr>"

lemma demo_overtakes:
  "(fleet_step id {0, 1} (\<lambda>_. 100) (later id))\<^sup>*\<^sup>* (idle_fleet demo_first) demo_overtaken"
proof -
  let ?step = "fleet_step id {0, 1} (\<lambda>_. 100) (later id)"
  let ?a = "demo_row ''a'' 1" and ?b = "demo_row ''b'' 2"
  let ?d = "demo_db\<lparr>outbox_events := [?a, ?b]\<rparr>"
  let ?s1 = "(idle_fleet demo_first)\<lparr>fl_rounds := (\<lambda>_. None)(0 \<mapsto> new_round [?a])\<rparr>"
  let ?s2 = "?s1\<lparr>fl_db := ?d\<rparr>"
  let ?s3 = "?s2\<lparr>fl_rounds := (\<lambda>_. None)(0 \<mapsto> new_round [?a], 1 \<mapsto> new_round [?b])\<rparr>"
  let ?s4 = "after_ack 1 (new_round [?b]) ?b [] 6 ?s3"
  have row: "pending ?a" "pending ?b" "ob_id ?a = ''a''" "ob_id ?b = ''b''" by (simp_all add: pending_def demo_row_def)
  have st1: "?step (idle_fleet demo_first) ?s1"
    using selects [of 0 "{0, 1}" "idle_fleet demo_first" id "\<lambda>_. 100" "later id"]
    by (simp add: idle_fleet_def pending_events_def demo_first_def locked_in_def row)
  have st2: "?step ?s1 ?s2"
    using stores [of "later id" ?s1 ?b id "{0, 1}" "\<lambda>_. 100"]
    by (simp add: idle_fleet_def demo_first_def later_def place_def row) (simp add: demo_row_def)
  have st3: "?step ?s2 ?s3"
  proof -
    have "locked_in ?s2 = (\<lambda>i. i = ''a'')"
      by (rule ext) (auto simp: locked_in_def new_round_def row split: if_splits)
    then have "pending_events id (locked_in ?s2) 100 (fl_db ?s2) = [?b]"
      by (simp add: pending_events_def row)
    moreover have "fl_rounds ?s2 1 = None" by simp
    ultimately show ?thesis
      using selects [of 1 "{0, 1}" ?s2 id "\<lambda>_. 100" "later id"] by simp
  qed
  have st4: "?step ?s3 ?s4"
    unfolding after_ack_def by (rule sends) (simp_all add: new_round_def)
  have st5: "?step ?s4 (after_ack 0 (new_round [?a]) ?a [] 7 ?s4)"
    unfolding after_ack_def [of 0] by (rule sends) (simp_all add: new_round_def after_ack_def)
  have last: "after_ack 0 (new_round [?a]) ?a [] 7 ?s4 = demo_overtaken"
    by (simp add: after_ack_def demo_overtaken_def new_round_def idle_fleet_def row fun_upd_twist)
  show ?thesis
    by (rule converse_rtranclp_into_rtranclp [of ?step, OF st1], rule converse_rtranclp_into_rtranclp [of ?step, OF st2],
        rule converse_rtranclp_into_rtranclp [of ?step, OF st3], rule converse_rtranclp_into_rtranclp [of ?step, OF st4])
      (rule r_into_rtranclp [of ?step, OF st5 [unfolded last]])
qed


text \<open>
  C26: one publisher keeps the order of the events. When a single publisher runs, events arrive in the
  order in which they are read (by instant, then identifier) and no round was rolled back after Kafka
  accepted something, Kafka has accepted the events in exactly that order, whatever it refused in between.
\<close>

theorem one_publisher_keeps_order:
  assumes "(fleet_step collate {p} limit (later collate))\<^sup>*\<^sup>* (idle_fleet d) s" and "fl_lost s = []"
    and "unique_by ob_id (outbox_events d)" and "\<forall>x\<in>set (outbox_events d). pending x"
  shows "sorted (map (place collate) (fl_acked s)) \<and> acks_of (fl_trace s) = map event_message (fl_acked s)"
  using single_steps [OF assms(1) idle_fleet_ok [OF assms(3,4)]] assms(2)
  by (simp add: in_order_def fleet_ok_def)

theorem one_publisher_keeps_order_witness:
  "\<exists>s. (fleet_step id {0} (\<lambda>_. 100) (later id))\<^sup>*\<^sup>* (idle_fleet demo_first) s \<and> fl_acked s = [demo_row ''a'' 1]
     \<and> sorted (map (place id) (fl_acked s))"
proof -
  let ?step = "fleet_step id {0} (\<lambda>_. 100) (later id)"
  let ?a = "demo_row ''a'' 1"
  let ?s1 = "(idle_fleet demo_first)\<lparr>fl_rounds := (\<lambda>_. None)(0 \<mapsto> new_round [?a])\<rparr>"
  let ?s2 = "after_ack 0 (new_round [?a]) ?a [] 7 ?s1"
  have row: "pending ?a" by (simp add: pending_def demo_row_def)
  have st1: "?step (idle_fleet demo_first) ?s1"
    using selects [of 0 "{0}" "idle_fleet demo_first" id "\<lambda>_. 100" "later id"]
    by (simp add: idle_fleet_def pending_events_def demo_first_def locked_in_def row)
  have st2: "?step ?s1 ?s2"
    unfolding after_ack_def by (rule sends) (simp_all add: new_round_def)
  have run: "?step\<^sup>*\<^sup>* (idle_fleet demo_first) ?s2"
    by (rule converse_rtranclp_into_rtranclp [of ?step, OF st1]) (rule r_into_rtranclp [of ?step, OF st2])
  have "fl_lost ?s2 = []" "fl_acked ?s2 = [?a]" by (simp_all add: after_ack_def idle_fleet_def)
  with one_publisher_keeps_order [OF run] run row show ?thesis
    by (auto simp: demo_first_def)
qed

text \<open>
  C27: two publishers do not keep it, though the architecture promises each user's events in order
  (docs/architecture.md, section 5). The gateway, the redemption program and the recommendation
  service publish the same table; from an outbox with one event, with events that arrive in order,
  limits of 100, no failure and no rollback, Kafka can get a later event of a user before an earlier one.
\<close>

theorem two_publishers_overtake:
  "\<exists>s a b. (fleet_step id {0, 1} (\<lambda>_. 100) (later id))\<^sup>*\<^sup>* (idle_fleet demo_first) s
     \<and> fl_lost s = [] \<and> ob_key a = ob_key b \<and> ob_topic a = ob_topic b \<and> ob_occurred a < ob_occurred b
     \<and> acks_of (fl_trace s) = [event_message b, event_message a] \<and> set (outbox_events (fl_db s)) = {a, b}"
  by (rule exI [of _ demo_overtaken], rule exI [of _ "demo_row ''a'' 1"], rule exI [of _ "demo_row ''b'' 2"])
    (use demo_overtakes in \<open>simp add: demo_overtaken_def demo_row_def\<close>)

end
