(* ===== verification/Pipeline.thy ===== *)
theory Pipeline
  imports ConsumerTheorems PublisherTheorems
begin

text \<open>
  From one service to the next through the outbox and Kafka: what a handler committed is sent by the
  publisher, and the consumer of the topic reads from the message what the handler was asked to do.
\<close>

subsection \<open>What is stored gets sent\<close>

lemma PublishPending_core:
  "wp (PublishPending collate locked p limit) e
     (\<lambda>r w'. map event_core (outbox_events (committed w')) = map event_core (outbox_events (committed w))) w"
  by (rule wp_mono [OF PublishPending_wp]) (auto simp: round_done_def dest: published_to_core)

lemma publish_rounds_core:
  "wp (publish_rounds collate locked p limit n) e
     (\<lambda>r w'. map event_core (outbox_events (committed w')) = map event_core (outbox_events (committed w))) w"
proof (induction n arbitrary: w)
  case (Suc n)
  have "wp (publish_rounds collate locked p limit n) e
      (\<lambda>r w'. map event_core (outbox_events (committed w')) = map event_core (outbox_events (committed w))) w1"
    if "map event_core (outbox_events (committed w1)) = map event_core (outbox_events (committed w))" for w1
    using Suc.IH [of w1] that by simp
  then show ?case by (auto intro!: wp_mono [OF PublishPending_core] split: sum.splits)
qed simp

lemma drained_sends:
  assumes "calm e" and "limit \<ge> 1" and "acked w" and "backlog (committed w) \<le> Suc ticks * nat limit"
    and "x \<in> set (outbox_events (committed w))"
  shows "KafkaAck (event_message x)
    \<in> set (trace (snd (RunPublisher collate (\<lambda>_. False) (Some keen_publisher) limit ticks e w)))"
proof -
  let ?run = "RunPublisher collate (\<lambda>_. False) (Some keen_publisher) limit ticks e w"
  have run: "?run = publish_rounds collate (\<lambda>_. False) (Some keen_publisher) limit (Suc ticks) e w"
    using assms(2) by (simp add: RunPublisher_def del: publish_rounds.simps)
  have "acked (snd ?run)" by (rule wpD [OF RunPublisher_acked [OF assms(3)] surjective_pairing])
  moreover have "backlog (committed (snd ?run)) = 0"
    unfolding run using publish_rounds_backlog [OF assms(1,2), of w collate "Suc ticks"] assms(3,4)
    by (simp add: acked_def del: publish_rounds.simps)
  moreover have "map event_core (outbox_events (committed (snd ?run))) = map event_core (outbox_events (committed w))"
    unfolding run by (rule wpD [OF publish_rounds_core surjective_pairing])
  then obtain y where y: "y \<in> set (outbox_events (committed (snd ?run)))" "event_core y = event_core x"
    using assms(5) by (metis (no_types, lifting) image_iff list.set_map)
  ultimately have "KafkaAck (event_message y) \<in> set (trace (snd ?run))"
    by (auto simp: acked_def backlog_def filter_empty_conv pending_def)
  then show ?thesis by (simp add: event_core_message [OF y(2)])
qed

subsection \<open>What is sent gets read\<close>

lemma entry_read:
  assumes "eid \<noteq> []" and "tr \<noteq> []" and "j \<noteq> []" and "h \<noteq> []" and "st \<noteq> []"
  shows "DecodeEntryEvent (Raw (entry_message fmt eid t tr j h st l p))
    = Inr \<lparr>ee_event_id = eid, ee_event_type = EntryTopic, ee_schema_version = 1, ee_trace_id = tr,
        ee_journey_id = j, ee_user_id_hash = h, ee_payload = \<lparr>ep_station = st, ep_line = l, ep_position = p\<rparr>\<rparr>"
  using assms
  by (simp add: DecodeEntryEvent_def entry_message_def decode_entry_event_def decode_entry_payload_def
      no_entry_event_def decode_simps int64_range_def del: fold_name.simps)

lemma recommendation_read:
  assumes "eid \<noteq> []" and "rq_trace request \<noteq> []" and "rq_journey request \<noteq> []" and "rq_user_hash request \<noteq> []"
    and "rm_id m \<noteq> []" and "rm_offer m \<noteq> []"
  shows "\<exists>ev. DecodeRecommendationCreatedEvent (Raw (recommendation_message fmt eid t request m)) = Inr ev
    \<and> re_event_id ev = eid \<and> re_recommendation_id ev = rm_id m \<and> re_journey_id ev = rq_journey request
    \<and> re_user_id_hash ev = rq_user_hash request \<and> rp_offer (re_payload ev) = rm_offer m
    \<and> rp_reasons (re_payload ev) = rm_reasons m"
  using assms
  by (simp add: DecodeRecommendationCreatedEvent_def recommendation_message_def decode_recommendation_event_def
      decode_recommendation_payload_def no_recommendation_event_def decode_simps int64_range_def
      del: fold_name.simps)

subsection \<open>What is read gets done\<close>

definition has_recommendation :: "database \<Rightarrow> string \<Rightarrow> bool" where
  "has_recommendation d j \<longleftrightarrow> (\<exists>row\<in>set (recommendations d). rec_journey row = j)"

lemma newest_recommendation_made:
  assumes "newest_recommendation tie j d = Some row" shows "has_recommendation d j"
proof -
  let ?rows = "filter (\<lambda>r. rec_journey r = j) (recommendations d)"
  have "row \<in> set (sort_key (\<lambda>r. (- rec_created r, tie r)) ?rows)"
    using assms by (auto simp: newest_recommendation_def simp del: set_sort split: list.splits)
  then show ?thesis by (auto simp: has_recommendation_def)
qed

lemma GetLatest_made:
  "wp (GetLatest x tie s j) e (\<lambda>q w'. \<forall>m. q = Inr m \<longrightarrow> has_recommendation (committed w') j) w"
  by (auto simp: GetLatest_def row_or_none_def newest_recommendation_made
      simp del: wp_lift_result unmarshal.simps intro!: wp_execDB wp_liftI split: option.splits)

lemma recommended_made:
  assumes "recommended x v request p d m d'" shows "has_recommendation d' (rq_journey request)"
  using assms
  by (auto simp: recommended_def announced_def decided_def assemble_def recommendation_row_of_def
      has_recommendation_def)

lemma handle_entry_made:
  "wp (handle_entry x tie s r message) e (\<lambda>q w'. \<forall>ev r'. DecodeEntryEvent message = Inr ev
     \<longrightarrow> q = Inr (Done, r') \<longrightarrow> has_recommendation (committed w') (ee_journey_id ev)) w"
proof (cases "DecodeEntryEvent message")
  case (Inr ev)
  have rec: "wp (Recommend x s r1 (entry_recommendation_request s ev v)) e (\<lambda>q w'. \<exists>answer r2. q = Inr (answer, r2)
      \<and> (\<forall>m. answer = Inr m \<longrightarrow> has_recommendation (committed w') (ee_journey_id ev))) w1" for v r1 w1
    by (rule wp_mono [OF Recommend_wp])
      (auto simp: entry_recommendation_request_def dest!: recommended_made)
  have vec: "wp (QueryVector x s r ev) e (\<lambda>_ _. True) w1" for w1
    by (simp add: wp_def split: prod.split)
  show ?thesis
    by (auto simp: handle_entry_def Inr intro!: wp_mono [OF GetLatest_made] wp_mono [OF vec] wp_mono [OF rec]
        split: sum.splits)
qed (simp add: handle_entry_def)

subsection \<open>From the gateway to the recommender\<close>

lemma entered_stores:
  assumes "entered True fmt s (Some request) d jid d'"
  obtains eid t tr u st l p now where "eid \<noteq> []" "tr \<noteq> []" "jid \<noteq> []" "er_user_hash request \<noteq> []" "st \<noteq> []"
    "\<lparr>j_id = jid, j_user = u, j_station = st, j_line = l, j_position = Some p\<rparr> \<in> set (journeys d')"
    "queued (entry_event fmt eid t tr jid (er_user_hash request) st l p) now \<in> set (outbox_events d')"
proof -
  have nonempty: "validUserIDHash h \<Longrightarrow> h \<noteq> []" for h by (auto simp: validUserIDHash_def)
  from assms obtain eid t tr u st l p now d1 where
    "eid \<noteq> [] \<and> tr \<noteq> [] \<and> jid \<noteq> [] \<and> validUserIDHash (er_user_hash request) \<and> st \<noteq> []
     \<and> d' = d1\<lparr>journeys := journeys d @
           [\<lparr>j_id = jid, j_user = u, j_station = st, j_line = l, j_position = Some p\<rparr>],
         outbox_events := outbox_events d @
           [queued (entry_event fmt eid t tr jid (er_user_hash request) st l p) now]\<rparr>"
    unfolding entered_def simp_thms option.inject by blast
  then show thesis by (intro that [of eid tr st u l p t now]) (simp_all add: nonempty)
qed

text \<open>
  C7: every accepted entry reaches the recommender. Once \<open>CreateEntryEvent\<close> has answered with a
  journey, and Kafka and the database work for as many ticks of the publisher as the backlog needs, Kafka
  holds a message on \<open>journey.entered.v1\<close>, keyed by the user, from which the recommender's consumer reads
  that journey, that user and the station of the stored journey; so the recommendation it asks for is
  one for this entry, and when it is done with the message the journey has a recommendation.
\<close>

theorem entry_reaches_recommender:
  assumes "CreateEntryEvent fmt s (Some request) e0 w0 = (Inr jid, w1)" and "uuids_ok e0"
    and "committed w2 = committed w1" and "acked w2" and "calm e" and "limit \<ge> 1"
    and "backlog (committed w2) \<le> Suc ticks * nat limit"
  shows "\<exists>msg ev j. KafkaAck msg
        \<in> set (trace (snd (RunPublisher collate (\<lambda>_. False) (Some keen_publisher) limit ticks e w2)))
    \<and> km_topic msg = EntryTopic \<and> km_key msg = er_user_hash request
    \<and> DecodeEntryEvent (Raw (km_value msg)) = Inr ev
    \<and> j \<in> set (journeys (committed w1)) \<and> j_id j = jid
    \<and> (\<forall>sv v. entry_recommendation_request sv ev v
        = \<lparr>rq_user_hash = er_user_hash request, rq_journey = jid, rq_station = j_station j,
           rq_trace = ee_trace_id ev, rq_vector = v, rq_limit = CandidateLimit sv\<rparr>)
    \<and> (\<forall>x tie sv r e3 w3 r' w4. handle_entry x tie sv r (Raw (km_value msg)) e3 w3 = (Inr (Done, r'), w4)
        \<longrightarrow> has_recommendation (committed w4) jid)"
proof -
  have "entered True fmt s (Some request) (committed w0) jid (committed w1)"
    using wpD [OF CreateEntryEvent_wp assms(1)] assms(2) by simp
  then obtain eid t tr u st l p now where some: "eid \<noteq> []" "tr \<noteq> []" "jid \<noteq> []" "er_user_hash request \<noteq> []" "st \<noteq> []"
    and j: "\<lparr>j_id = jid, j_user = u, j_station = st, j_line = l, j_position = Some p\<rparr> \<in> set (journeys (committed w1))"
    and x: "queued (entry_event fmt eid t tr jid (er_user_hash request) st l p) now
      \<in> set (outbox_events (committed w1))"
    by (rule entered_stores)
  let ?msg = "\<lparr>km_topic = EntryTopic, km_key = er_user_hash request,
    km_value = entry_message fmt eid t tr jid (er_user_hash request) st l p\<rparr>"
  have "event_message (queued (entry_event fmt eid t tr jid (er_user_hash request) st l p) now) = ?msg"
    by (simp add: event_message_def queued_def event_row_def entry_event_def)
  with drained_sends [OF assms(5,6,4,7) x [folded assms(3)], of collate] have sent: "KafkaAck ?msg
      \<in> set (trace (snd (RunPublisher collate (\<lambda>_. False) (Some keen_publisher) limit ticks e w2)))" by simp
  note read = entry_read [OF some, of fmt t l p]
  have handled: "has_recommendation (committed w4) jid"
    if "handle_entry x tie sv r (Raw (km_value ?msg)) e3 w3 = (Inr (Done, r'), w4)" for x tie sv r e3 w3 r' w4
    using wpD [OF handle_entry_made that] read by simp
  show ?thesis
    by (rule exI [of _ ?msg], intro exI conjI allI impI, rule sent, simp, simp, unfold kafka_message.simps,
        rule read, rule j, simp, simp add: entry_recommendation_request_def, rule handled, simp)
qed

text \<open>On the demo database: the entry is accepted, and one round of the publisher hands its event over.\<close>

abbreviation demo_entered where
  "demo_entered \<equiv> snd (CreateEntryEvent demo_fmt demo_journeys demo_entry calm_env (demo_world demo_db))"

lemma one_pending_acked:
  assumes "map ob_published (outbox_events (committed w)) = [None]"
  shows "acked w" "backlog (committed w) = 1"
  using assms by (auto simp: acked_def backlog_def pending_def unique_by_def)

theorem entry_reaches_recommender_witness:
  "\<exists>msg ev. KafkaAck msg
        \<in> set (trace (snd (RunPublisher id (\<lambda>_. False) (Some keen_publisher) 1 0 calm_env demo_entered)))
     \<and> km_topic msg = EntryTopic \<and> km_key msg = demo_hash
     \<and> DecodeEntryEvent (Raw (km_value msg)) = Inr ev \<and> ee_journey_id ev = ''xx''"
proof -
  have "map ob_published (outbox_events (committed demo_entered)) = [None]" by code_simp
  note one = one_pending_acked [OF this]
  obtain request where r: "demo_entry = Some request" "er_user_hash request = demo_hash"
    by (auto simp: demo_entry_def)
  show ?thesis
    using entry_reaches_recommender [OF run_pair [OF demo_enter, unfolded r(1)] uuids_ok_demo(1) refl,
        folded r(1), OF one(1) calm_calm_env, of 1 0 id] one(2)
    unfolding r(2) entry_recommendation_request_def by auto
qed

subsection \<open>From the recommender to the notification worker\<close>

text \<open>
  C12: every recommendation reaches the notification worker. Once \<open>Recommend\<close> has decided, and Kafka and
  the database work for as many ticks of the publisher as the backlog needs, Kafka holds a message on
  \<open>recommendation.created.v1\<close>, keyed by the user, that the worker reads as this recommendation of this
  journey for this user, with its offer and its reasons.
\<close>

theorem recommendation_reaches_worker:
  assumes "Recommend x s r request e0 w0 = (Inr (Inr m, r'), w1)" and "rm_id m \<noteq> []" and "rm_offer m \<noteq> []"
    and "committed w2 = committed w1" and "acked w2" and "calm e" and "limit \<ge> 1"
    and "backlog (committed w2) \<le> Suc ticks * nat limit"
  shows "\<exists>msg ev. KafkaAck msg
        \<in> set (trace (snd (RunPublisher collate (\<lambda>_. False) (Some keen_publisher) limit ticks e w2)))
    \<and> km_topic msg = ''recommendation.created.v1'' \<and> km_key msg = rq_user_hash request
    \<and> DecodeRecommendationCreatedEvent (Raw (km_value msg)) = Inr ev
    \<and> re_recommendation_id ev = rm_id m \<and> re_journey_id ev = rq_journey request
    \<and> re_user_id_hash ev = rq_user_hash request
    \<and> rp_offer (re_payload ev) = rm_offer m \<and> rp_reasons (re_payload ev) = rm_reasons m"
proof -
  obtain v p where "recommended x v request p (committed w0) m (committed w1)"
    using wpD [OF Recommend_wp assms(1)] by auto
  then obtain eid occurred now where eid: "eid \<noteq> []"
    and d': "outbox_events (committed w1) = outbox_events (committed w0)
      @ [queued (recommendation_created (rx_fmt x) eid occurred request m) now]"
    unfolding recommended_def announced_def by auto
  have asked: "rq_trace request \<noteq> []" "rq_journey request \<noteq> []" "rq_user_hash request \<noteq> []"
    using assms(1) by (auto simp: Recommend_def run_draws run_ok split: option.splits if_splits)
  let ?x = "queued (recommendation_created (rx_fmt x) eid occurred request m) now"
  have msg: "event_message ?x = \<lparr>km_topic = ''recommendation.created.v1'', km_key = rq_user_hash request,
      km_value = recommendation_message (rx_fmt x) eid occurred request m\<rparr>"
    by (simp add: event_message_def queued_def event_row_def recommendation_created_def)
  have "?x \<in> set (outbox_events (committed w2))" by (simp add: assms(4) d')
  from drained_sends [OF assms(6,7,5,8) this, of collate]
    recommendation_read [OF eid asked assms(2,3), of "rx_fmt x" occurred]
  show ?thesis unfolding msg by fastforce
qed

theorem recommendation_reaches_worker_witness:
  "\<exists>msg ev. KafkaAck msg
        \<in> set (trace (snd (RunPublisher id (\<lambda>_. False) (Some keen_publisher) 1 0 calm_env (snd demo_run))))
     \<and> km_topic msg = ''recommendation.created.v1'' \<and> km_key msg = demo_hash
     \<and> DecodeRecommendationCreatedEvent (Raw (km_value msg)) = Inr ev
     \<and> re_journey_id ev = ''j1'' \<and> rp_offer (re_payload ev) = ''paid''"
proof -
  have "map ob_published (outbox_events (committed (snd demo_run))) = [None]" by code_simp
  note one = one_pending_acked [OF this]
  obtain m r where run: "demo_run = (Inr (Inr m, r), snd demo_run)" and m: "rm_offer m = ''paid''"
    by (rule demo_run_result)
  have "case fst demo_run of Inr (Inr m, r) \<Rightarrow> rm_id m \<noteq> [] | _ \<Rightarrow> False" by code_simp
  then have "rm_id m \<noteq> []" by (subst (asm) run) simp
  with recommendation_reaches_worker [OF run this _ refl one(1) calm_calm_env, of 1 0 id] m one(2)
  show ?thesis by (auto simp: demo_asked_def)
qed

end
