(* ===== verification/History.thy ===== *)
theory History
  imports System
begin

text \<open>
  What the system never takes back: rows of the ledger, journeys, recommendations, deliveries and
  processed events stay as they were written, events keep all but their publication, redemptions all
  but their verification.
\<close>

subsection \<open>Tables that only grow\<close>

definition evolves :: "('a \<Rightarrow> 'a \<Rightarrow> bool) \<Rightarrow> 'a list \<Rightarrow> 'a list \<Rightarrow> bool" where
  "evolves R xs ys \<longleftrightarrow> (\<exists>ys1 ys2. ys = ys1 @ ys2 \<and> list_all2 R xs ys1)"

lemma evolves_refl: "(\<And>x. R x x) \<Longrightarrow> evolves R xs xs"
  unfolding evolves_def by (intro exI [of _ xs] exI [of _ "[]"]) (simp add: list.rel_refl)

lemma evolves_append: "(\<And>x. R x x) \<Longrightarrow> evolves R xs (xs @ ys)"
  unfolding evolves_def by (intro exI [of _ xs] exI [of _ ys]) (simp add: list.rel_refl)

lemma evolves_all2: "list_all2 R xs ys \<Longrightarrow> evolves R xs ys"
  unfolding evolves_def by (intro exI [of _ ys] exI [of _ "[]"]) simp

lemma evolves_update:
  "(\<And>x. R x x) \<Longrightarrow> (\<And>x. R x (f x)) \<Longrightarrow> evolves R xs (update_where P f xs)"
  by (rule evolves_all2) (simp add: update_where_def list_all2_map2 list.rel_refl list_all2_same)

lemma evolves_trans:
  assumes "\<And>x y z. R x y \<Longrightarrow> R y z \<Longrightarrow> R x z" and "evolves R xs ys" and "evolves R ys zs"
  shows "evolves R xs zs"
proof -
  from assms(2,3) obtain ys1 ys2 zs1 zs2 where y: "ys = ys1 @ ys2" "list_all2 R xs ys1"
    and z: "zs = zs1 @ zs2" "list_all2 R (ys1 @ ys2) zs1" unfolding evolves_def by blast
  from z(2) obtain us vs where us: "zs1 = us @ vs" "list_all2 R ys1 us" by (auto simp: list_all2_append1)
  have "list_all2 R xs us" by (rule list_all2_trans [OF assms(1) y(2) us(2)])
  then show ?thesis unfolding evolves_def z(1) us(1)
    by (intro exI [of _ us] exI [of _ "vs @ zs2"]) simp
qed

lemma evolves_mem:
  assumes "evolves R xs ys" and "x \<in> set xs"
  shows "\<exists>y\<in>set ys. R x y"
  using assms by (force simp: evolves_def list_all2_conv_all_nth in_set_conv_nth)

subsection \<open>What the effects keep\<close>

definition event_kept :: "outbox_row \<Rightarrow> outbox_row \<Rightarrow> bool" where
  "event_kept r r' \<longleftrightarrow> event_core r' = event_core r \<and> (ob_published r \<noteq> None \<longrightarrow> ob_published r' \<noteq> None)"

definition redemption_kept :: "redemption_row \<Rightarrow> redemption_row \<Rightarrow> bool" where
  "redemption_kept r r' \<longleftrightarrow> r' = r \<or> r' = r\<lparr>rd_status := ''verified''\<rparr>"

definition grows :: "database \<Rightarrow> database \<Rightarrow> bool" where
  "grows d d' \<longleftrightarrow> evolves (=) (points_ledger d) (points_ledger d')
     \<and> evolves (=) (journeys d) (journeys d')
     \<and> evolves (=) (recommendations d) (recommendations d')
     \<and> evolves (=) (deliveries d) (deliveries d')
     \<and> evolves (=) (processed_events d) (processed_events d')
     \<and> evolves event_kept (outbox_events d) (outbox_events d')
     \<and> evolves redemption_kept (redemptions d) (redemptions d')"

lemma kept_refl [simp]: "event_kept r r" "redemption_kept x x"
  by (simp_all add: event_kept_def redemption_kept_def)

lemma kept_trans:
  "event_kept r1 r2 \<Longrightarrow> event_kept r2 r3 \<Longrightarrow> event_kept r1 r3"
  "redemption_kept x1 x2 \<Longrightarrow> redemption_kept x2 x3 \<Longrightarrow> redemption_kept x1 x3"
  by (auto simp: event_kept_def redemption_kept_def)

lemma grows_trans: "grows d1 d2 \<Longrightarrow> grows d2 d3 \<Longrightarrow> grows d1 d3"
  unfolding grows_def by (blast intro: evolves_trans kept_trans trans)

lemmas grown = evolves_refl evolves_append evolves_update

lemma ensured_grows:
  assumes "ensured h d () d'" shows "grows d d'"
  using assms by (auto simp: grows_def ensured_def provisioned_def grown)

lemma published_grows:
  assumes "published_to ids d d'" shows "grows d d'"
proof -
  from assms obtain rows where d': "d' = d\<lparr>outbox_events := rows\<rparr>"
    and rows: "list_all2 (row_progress ids) (outbox_events d) rows" unfolding published_to_def by blast
  from rows have "list_all2 event_kept (outbox_events d) rows"
    by (rule list_all2_mono) (auto simp: event_kept_def row_progress_def split: if_splits)
  then show ?thesis by (simp add: grows_def d' grown evolves_all2)
qed

lemma entered_grows:
  assumes "entered good fmt s req d jid d'" shows "grows d d'"
proof -
  from assms obtain request :: entry_request and d1 where e: "ensured (er_user_hash request) d () d1"
    and d': "\<exists>j ev. d' = d1\<lparr>journeys := journeys d @ [j], outbox_events := outbox_events d @ [ev]\<rparr>"
    unfolding entered_def by blast
  from ensured_grows [OF e] d' show ?thesis by (auto simp: grows_def grown)
qed

lemma noted_grows:
  assumes "noted fmt ev userID d d'" shows "grows d d'"
  using assms by (auto simp: grows_def noted_def grown)

lemma effect_grows: "system_effect fmt sha1 d d' \<Longrightarrow> grows d d'"
proof (induction rule: system_effect.induct)
  case (effect_none d)
  then show ?case by (simp add: grows_def grown)
next
  case (effect_recommendation x v request p d m d')
  then show ?case by (auto simp: recommended_def announced_def grows_def grown)
next
  case (effect_feedback fb d eid d')
  then show ?case by (auto simp: feedback_recorded_def grows_def grown)
next
  case (effect_redemption cr d r d')
  then show ?case by (auto simp: fresh_redemption_def redeem_def grows_def grown)
next
  case (effect_verification vr d r d')
  then show ?case by (auto simp: verified_now_def grows_def grown redemption_kept_def)
next
  case (effect_notification ev d b d')
  have "grows d (d\<lparr>processed_events := processed_events d @ ps\<rparr>)" for ps by (simp add: grows_def grown)
  with effect_notification show ?case
    by (auto simp: notify.handled_now_def intro: grows_trans noted_grows)
next
  case (effect_subscription d d')
  then show ?case by (auto simp: subscriptions_only_def grows_def grown)
next
  case (effect_preferences p d d')
  then obtain d1 us where "d1 = d \<or> ensured (pr_user_id_hash p) d () d1" "d' = d1 \<or> d' = d1\<lparr>users := us\<rparr>"
    unfolding preferences_set_def by blast
  moreover have "grows d1 (d1\<lparr>users := us\<rparr>)" "grows d d" by (simp_all add: grows_def grown)
  ultimately show ?case by (auto intro: grows_trans ensured_grows)
qed (simp_all add: entered_grows ensured_grows published_grows)

subsection \<open>History is kept\<close>

text \<open>
  C6: nothing that was recorded is taken back. Whatever the services do, in any order and whatever
  fails, entries of the ledger, journeys, recommendations, deliveries and processed events stay as
  they are, in their order, with new ones behind them; an event of the outbox stays with its
  identifier, topic, key, payload and instant, and once published stays published; a redemption stays
  as it is but for being verified, which is never undone.
\<close>

theorem system_keeps_history:
  assumes "(system_step fmt sha1)\<^sup>*\<^sup>* d d'"
  shows "(\<exists>ls js rs vs ps. points_ledger d' = points_ledger d @ ls \<and> journeys d' = journeys d @ js
      \<and> recommendations d' = recommendations d @ rs \<and> deliveries d' = deliveries d @ vs
      \<and> processed_events d' = processed_events d @ ps)
    \<and> (\<forall>r\<in>set (outbox_events d). \<exists>r'\<in>set (outbox_events d'). event_core r' = event_core r
        \<and> (ob_published r \<noteq> None \<longrightarrow> ob_published r' \<noteq> None))
    \<and> (\<forall>x\<in>set (redemptions d). x\<lparr>rd_status := ''verified''\<rparr> \<in> set (redemptions d')
        \<or> x \<in> set (redemptions d'))
    \<and> (\<forall>x\<in>set (redemptions d). rd_status x = ''verified'' \<longrightarrow> x \<in> set (redemptions d'))"
proof -
  have g: "grows d d'" by (rule system_runs [OF assms]) (auto intro: effect_grows grows_trans)
  have eq: "\<exists>zs. ys = xs @ zs" if "evolves (=) xs ys" for xs ys :: "'x list"
    using that by (auto simp: evolves_def list.rel_eq)
  have "evolves (=) (points_ledger d) (points_ledger d')" "evolves (=) (journeys d) (journeys d')"
    "evolves (=) (recommendations d) (recommendations d')" "evolves (=) (deliveries d) (deliveries d')"
    "evolves (=) (processed_events d) (processed_events d')"
    and ev: "evolves event_kept (outbox_events d) (outbox_events d')"
    and rd: "evolves redemption_kept (redemptions d) (redemptions d')"
    using g by (simp_all add: grows_def)
  note tables = this(1-5) [THEN eq]
  have "\<forall>r\<in>set (outbox_events d). \<exists>r'\<in>set (outbox_events d'). event_core r' = event_core r
      \<and> (ob_published r \<noteq> None \<longrightarrow> ob_published r' \<noteq> None)"
    using evolves_mem [OF ev] by (simp add: event_kept_def)
  moreover have kept: "\<exists>y\<in>set (redemptions d'). redemption_kept x y" if "x \<in> set (redemptions d)" for x
    using evolves_mem [OF rd that] .
  have "\<forall>x\<in>set (redemptions d). x\<lparr>rd_status := ''verified''\<rparr> \<in> set (redemptions d') \<or> x \<in> set (redemptions d')"
    using kept unfolding redemption_kept_def by blast
  moreover have "\<forall>x\<in>set (redemptions d). rd_status x = ''verified'' \<longrightarrow> x \<in> set (redemptions d')"
  proof (intro ballI impI)
    fix x :: redemption_row assume x: "x \<in> set (redemptions d)" "rd_status x = ''verified''"
    have "x\<lparr>rd_status := ''verified''\<rparr> = x" using x(2) by (cases x) simp
    with kept [OF x(1)] show "x \<in> set (redemptions d')" by (auto simp: redemption_kept_def)
  qed
  ultimately show ?thesis using tables by simp
qed

theorem system_keeps_history_witness:
  "\<exists>ls rs. points_ledger (committed (snd demo_run)) = points_ledger demo_db @ ls \<and> points_ledger demo_db \<noteq> []
     \<and> recommendations (committed (snd demo_run)) = recommendations demo_db @ rs \<and> length rs = 1"
proof -
  have "length (recommendations (committed (snd demo_run))) = 1" by code_simp
  moreover have "recommendations demo_db = []" "points_ledger demo_db \<noteq> []" by (simp_all add: demo_db_def)
  ultimately show ?thesis using system_keeps_history [OF demo_system_step] by auto
qed

end
