(* ===== verification/Spec2Isabelle.thy ===== *)
theory Spec2Isabelle
  imports FeedbackTheorems MobilityTheorems PreferenceTheorems TelemetryTheorems ApiErrors Pipeline History
begin

text \<open>
  Spacetime Node: offers for travellers on a metro, decided when they enter a station. This
  development models its Go services (\<open>internal/\<close>, \<open>cmd/\<close>) and the PostgreSQL schema they share
  (\<open>migrations/postgres/\<close>), and proves what makes them correct, alone and together.

  \<^bold>\<open>The program.\<close> A gateway takes entries, feedback, redemptions and subscriptions. An entry
  (\<open>CreateEntryEvent\<close>) writes a journey and the event \<open>journey.entered.v1\<close> to the outbox table in one
  transaction. Each service's publisher (\<open>RunPublisher\<close>) sends pending rows of the outbox to Kafka. The
  recommendation service consumes entries (\<open>RunEntryConsumer\<close>), embeds the traveller's preferences,
  searches Qdrant for offers, applies its rules against the database, writes copy and stores a
  recommendation with its event \<open>recommendation.created.v1\<close> (\<open>Recommend\<close>). The gateway shows it
  (\<open>GetLatestRecommendation\<close>) and records what the traveller makes of it
  (\<open>RecordRecommendationEvent\<close>), from which category weights are learned
  (\<open>ApplyPreferenceFeedback\<close>). The notification worker pushes recommendations to subscribed browsers
  (\<open>deliver\<close>). An offer is redeemed for points (\<open>Create\<close>) and verified by the merchant (\<open>Verify\<close>).
  The embedding indexer keeps Qdrant in step with the offers; the analytics consumer copies events
  to ClickHouse.

  \<^bold>\<open>How code is modelled.\<close> Every operation is one definition under its name in the code, composed
  of one definition per SQL statement or step. A handler is a function of an environment (UUIDs,
  clock readings, outages of the database) and a world (the committed database, the working copy of
  the open transaction, the calls made to other systems) to an error or a value and the world
  afterwards (\<open>Effects\<close>). An outage refuses a call, or loses the answer of a commit that took effect.
  A table is a list of records; a statement is a function on the database, an insert checks the
  constraints the migrations declare (\<open>Schema\<close>). Handlers run one after the other, as the row locks
  they take serialise them; what happens between two of them is an explicit sequence of runs. Rounds of
  publishers do overlap: \<open>fleet_step\<close> cuts a round into its calls (\<open>Publishers\<close>).
  Errors are values of \<open>gerr\<close> (\<open>Errors\<close>), with \<open>errors_is\<close> for \<open>errors.Is\<close>. Strings are byte lists, read
  as UTF-8 where the code ranges over runes (\<open>Text\<close>); a JSON document is what a parser makes of the
  bytes, and decoding into structs follows \<open>encoding/json\<close>, case folding and duplicate members
  included (\<open>Json\<close>). 64-bit arithmetic that can overflow is on words (\<open>Mobility\<close>); elsewhere integers
  carry the range checks of decoders and columns. \<open>float64\<close> and NUMERIC are rationals, with the
  rounding of each operation as a parameter.

  What is not in the repository is a parameter, with the behaviour relied on as a named hypothesis
  of the property: the HTTP clients, Kafka, Redis (explicit state), Qdrant, SHA-1 and SHA-256, the
  time zone database, Unicode's case and digit tables, RFC 3339 text, \<open>url.Parse\<close>.

  \<^bold>\<open>The theories.\<close>
  \<^item> \<open>Prelude\<close>, \<open>Errors\<close>, \<open>Json\<close>, \<open>Text\<close>, \<open>Effects\<close>: vocabulary. \<open>Transactions\<close>: weakest
    preconditions of handlers; the locale \<open>tx_handler\<close> (a run takes effect whole or not at all) and
    its extension \<open>idempotent_handler\<close> (repeated requests take effect once), interpreted by every
    service that promises them. \<open>Consumers\<close>: the locale \<open>topic_consumer\<close> (a message is committed only
    after it was treated), interpreted by the notification worker and the embedding indexer.
    \<open>Schema\<close>: tables and constraints. \<open>Demo\<close>: the small database the witnesses run on.
  \<^item> \<open>Redemption\<close> (\<open>redemption/service.go\<close>), \<open>RedemptionSpec\<close> (a complete redemption, refinement),
    \<open>RedemptionBooks\<close> (balances, ledger, stock), \<open>RedemptionRuns\<close> (repeated requests),
    \<open>RedemptionTheorems\<close>; \<open>RedemptionApi\<close> (\<open>redemption/api.go\<close>), \<open>ApiErrors\<close> (the error predicates of
    \<open>errors_errors.pb.go\<close>).
  \<^item> \<open>Outbox\<close> (\<open>platform/outbox/outbox.go\<close>), \<open>OutboxSpec\<close> (rounds of the publisher; the locale
    \<open>event_consumer\<close> of \<open>Process\<close>, a sublocale of \<open>idempotent_handler\<close>), \<open>OutboxTheorems\<close>;
    \<open>Publishers\<close>, \<open>PublisherSpec\<close>, \<open>PublisherTheorems\<close> (several publishers on one outbox).
  \<^item> \<open>User\<close>, \<open>UserSpec\<close>, \<open>UserTheorems\<close> (\<open>user/service.go\<close>).
  \<^item> \<open>Mobility\<close>, \<open>MobilitySpec\<close>, \<open>MobilityTheorems\<close> (\<open>mobility/\<close>: resolver, provider, client, fixtures).
  \<^item> \<open>Journey\<close>, \<open>JourneySpec\<close>, \<open>JourneyTheorems\<close> (\<open>journey/service.go\<close>).
  \<^item> \<open>Feedback\<close>, \<open>FeedbackTheorems\<close> (\<open>recommendation/feedback.go\<close>); \<open>Preference\<close>, \<open>PreferenceTheorems\<close>
    (\<open>preference.go\<close>); \<open>Copy\<close> (\<open>copy.go\<close>); \<open>Embedding\<close> (\<open>embedder.go\<close>, \<open>qdrant.go\<close>); \<open>Indexer\<close>
    (\<open>indexer.go\<close>, \<open>qdrant_index.go\<close>); \<open>Ranking\<close> and \<open>Recommendation\<close> (\<open>recommendation.go\<close>), with
    \<open>RecommendationSpec\<close>, \<open>RecommendationTheorems\<close> and \<open>RecommendationShown\<close> (what the gateway makes of
    a stored recommendation); \<open>EntryConsumer\<close> (\<open>consumer.go\<close>).
  \<^item> \<open>Notification\<close> (\<open>notification/service.go\<close>, \<open>api.go\<close>), \<open>NotificationWorker\<close> (\<open>provider.go\<close>,
    \<open>worker.go\<close>), \<open>NotificationSpec\<close>, \<open>NotificationTheorems\<close>.
  \<^item> \<open>Analytics\<close> (\<open>analytics/\<close>). \<open>Events\<close>: every event of every producer is read by its consumers.
    \<open>System\<close>: the services as one step relation over the shared database, and the abstract effects
    every step refines. \<open>History\<close>: what no effect takes back. \<open>ConsumerTheorems\<close>: the consumers of
    events and entries. \<open>Pipeline\<close>: from one service through the outbox and Kafka to the next.
  \<^item> \<open>Platform\<close> (\<open>platform/config\<close>, \<open>platform/app\<close>, \<open>platform/observability\<close>), \<open>Programs\<close> (\<open>cmd/\<close>: what
    each program builds from its settings, and the loops of the embedding indexer and the demo),
    \<open>ProgramTheorems\<close>; \<open>Servers\<close> (\<open>platform/app/app.go\<close> and the programs of \<open>cmd/\<close> that serve, up to
    the server they hand to Kratos; \<open>analytics.Run\<close>), \<open>ServerTheorems\<close>; \<open>Telemetry\<close>,
    \<open>TelemetryTheorems\<close> (the middleware, spans and counters of \<open>platform/observability\<close>).

  \<^bold>\<open>What is proved.\<close> Over all services: every run is a chain of complete effects
  (\<open>system_refines_effects\<close>), so that in every reachable database the books of the points economy
  balance, every event is readable and nothing recorded is taken back (\<open>system_keeps_books\<close>,
  \<open>system_events_readable\<close>, \<open>system_keeps_history\<close>). Redemption:
  a complete effect or none, at most once per key and offer, one unit of stock per success, success
  where nothing is in the way. Recommendation: one transaction, the best eligible candidate, copy
  that keeps to the facts, shown by the gateway as decided, and once per entry. Outbox: order, no
  mark without an acknowledgement, every pending event gets out; with several publishers on the table no
  event goes out twice without a rollback, but only a single one keeps the order of a user's events.
  From service to service: an accepted entry reaches the recommender and a recommendation the worker,
  as they were stored. Consumers: what is committed has
  been treated. Notification: the window around midnight, one delivery per subscription, no push to
  anyone who does not want it. Journeys and feedback: once, and a dismissal stays. Mobility: cache
  keys that tell beacons apart, contexts that survive Redis, \<open>formatInt\<close> with its buffer. Programs:
  the services built from one environment fit each other, and their servers open themselves to the
  allowed origins only.

  \<^bold>\<open>Bounds.\<close> No fuel is used. Loops over rows, candidates or messages recurse over a list; the
  publisher runs for a given number of ticks, any number; the recursions on numbers and on bytes
  have termination proofs; the loop of \<open>formatInt\<close> over its buffer is a partial function proved to
  return for every word.

  \<^bold>\<open>Not modelled.\<close> The code generated under \<open>api/proto\<close> but for its
  errors; Kratos' servers behind \<open>RunWithSetup\<close>, connections and signal handling in
  \<open>cmd/\<close>; the spans, gauges and log lines inside the handlers (they return nothing the
  program uses; the middleware around every request, the count of generated copy and the headers of
  Kafka messages are modelled); contexts and their deadlines, which appear as errors of the call they
  end; expiry of Redis entries; interleavings of statements of different transactions other than those
  of publishers; seeds of the migrations; the web client.
\<close>

end
